(* ===== verification/Prelude.thy ===== *)
theory Prelude
  imports Main "HOL-Library.Word" "HOL-Library.AList" "HOL-Library.Sublist"
begin

text \<open>
  Shared ground of the development: the machine integers and byte strings of the Rust
  sources, fallible state-passing actions (a call that may return an error and that changes
  the state it runs on), the locale of relations that such actions respect, and the parts of
  Rust's \<open>str\<close>, \<open>u16\<close>/\<open>u32\<close> and UTF-8 library that the components use.

  A Rust \<open>String\<close> is a HOL \<open>string\<close> whose characters are the bytes of its UTF-8 form, so
  \<open>length\<close> counts what \<open>str::len\<close> counts; \<open>Vec<u8>\<close> is \<open>u8 list\<close>.
\<close>

unbundle bit_operations_syntax

type_synonym u8 = "8 word"
type_synonym u16 = "16 word"
type_synonym u32 = "32 word"
type_synonym u64 = "64 word"
type_synonym i32 = int
type_synonym bytes = "u8 list"

named_theorems run_simps \<open>how the action combinators run on a given state\<close>
named_theorems keeps_intros \<open>actions respect a relation between their first and last state\<close>

section \<open>Fallible state-passing actions\<close>

text \<open>
  \<open>('s, 'e, 'a) act\<close> is the model of a Rust function that returns \<open>Result<'a, 'e>\<close> and
  reads and changes a state \<open>'s\<close>. The state after a failing call is part of the result: what
  a call did before it failed stays done. \<open>bindE\<close> is the \<open>?\<close> operator.
\<close>

type_synonym ('s, 'e, 'a) act = "'s \<Rightarrow> ('e + 'a) \<times> 's"

definition retE :: "'a \<Rightarrow> ('s, 'e, 'a) act" where
  "retE a s = (Inr a, s)"

definition failE :: "'e \<Rightarrow> ('s, 'e, 'a) act" where
  "failE e s = (Inl e, s)"

definition liftE :: "'e + 'a \<Rightarrow> ('s, 'e, 'a) act" where
  "liftE r s = (r, s)"

definition bindE :: "('s, 'e, 'a) act \<Rightarrow> ('a \<Rightarrow> ('s, 'e, 'b) act) \<Rightarrow> ('s, 'e, 'b) act" where
  "bindE m f s = (case m s of (Inl e, t) \<Rightarrow> (Inl e, t) | (Inr a, t) \<Rightarrow> f a t)"

definition thenE :: "('s, 'e, 'a) act \<Rightarrow> ('s, 'e, 'b) act \<Rightarrow> ('s, 'e, 'b) act" where
  "thenE m n = bindE m (\<lambda>_. n)"

definition map_errE :: "('e \<Rightarrow> 'f) \<Rightarrow> ('s, 'e, 'a) act \<Rightarrow> ('s, 'f, 'a) act" where
  "map_errE g m s = (case m s of (Inl e, t) \<Rightarrow> (Inl (g e), t) | (Inr a, t) \<Rightarrow> (Inr a, t))"

text \<open>\<open>tryE m\<close> never fails: it hands the caller the result of \<open>m\<close>, as a Rust \<open>match\<close> on the result does.\<close>

definition tryE :: "('s, 'e, 'a) act \<Rightarrow> ('s, 'f, 'e + 'a) act" where
  "tryE m s = (Inr (fst (m s)), snd (m s))"

definition getE :: "('s \<Rightarrow> 'a) \<Rightarrow> ('s, 'e, 'a) act" where
  "getE f s = (Inr (f s), s)"

definition modifyE :: "('s \<Rightarrow> 's) \<Rightarrow> ('s, 'e, unit) act" where
  "modifyE f s = (Inr (), f s)"

lemma retE_run [run_simps, simp]: "retE a s = (Inr a, s)"
  by (simp add: retE_def)

lemma failE_run [run_simps, simp]: "failE e s = (Inl e, s)"
  by (simp add: failE_def)

lemma liftE_run [run_simps, simp]: "liftE r s = (r, s)"
  by (simp add: liftE_def)

lemma getE_run [run_simps, simp]: "getE f s = (Inr (f s), s)"
  by (simp add: getE_def)

lemma modifyE_run [run_simps, simp]: "modifyE f s = (Inr (), f s)"
  by (simp add: modifyE_def)

lemma bindE_Inr: "m s = (Inr a, t) \<Longrightarrow> bindE m f s = f a t"
  by (simp add: bindE_def)

lemma bindE_Inl: "m s = (Inl e, t) \<Longrightarrow> bindE m f s = (Inl e, t)"
  by (simp add: bindE_def)

lemma bindE_eq_Inr_iff:
  "bindE m f s = (Inr b, u) \<longleftrightarrow> (\<exists>a t. m s = (Inr a, t) \<and> f a t = (Inr b, u))"
  by (auto simp: bindE_def split: prod.splits sum.splits)

lemma bindE_eq_Inl_iff:
  "bindE m f s = (Inl e, u) \<longleftrightarrow>
     m s = (Inl e, u) \<or> (\<exists>a t. m s = (Inr a, t) \<and> f a t = (Inl e, u))"
  by (auto simp: bindE_def split: prod.splits sum.splits)

lemma bindE_ret [simp]: "bindE (retE a) f = f a"
  by (rule ext) (simp add: bindE_def)

lemma bindE_fail [simp]: "bindE (failE e) f = failE e"
  by (rule ext) (simp add: bindE_def)

lemma bindE_get [simp]: "bindE (getE g) f s = f (g s) s"
  by (simp add: bindE_def)

lemma thenE_Inr: "m s = (Inr a, t) \<Longrightarrow> thenE m n s = n t"
  by (simp add: thenE_def bindE_def)

lemma thenE_Inl: "m s = (Inl e, t) \<Longrightarrow> thenE m n s = (Inl e, t)"
  by (simp add: thenE_def bindE_def)

lemma thenE_eq_Inr_iff:
  "thenE m n s = (Inr b, u) \<longleftrightarrow> (\<exists>a t. m s = (Inr a, t) \<and> n t = (Inr b, u))"
  by (simp add: thenE_def bindE_eq_Inr_iff)

lemma bindE_cases:
  assumes "bindE m f s = (r, u)"
  obtains (fails) e where "m s = (Inl e, u)" "r = Inl e"
    | (runs) a t where "m s = (Inr a, t)" "f a t = (r, u)"
  using assms by (auto simp: bindE_def split: prod.splits sum.splits)

lemma thenE_cases:
  assumes "thenE m n s = (r, u)"
  obtains (fails) e where "m s = (Inl e, u)" "r = Inl e"
    | (runs) a t where "m s = (Inr a, t)" "n t = (r, u)"
  using assms unfolding thenE_def by (rule bindE_cases)

lemma thenE_ret: "thenE (retE a) n = n"
  by (rule ext) (simp add: thenE_def)

lemma bindE_InrE:
  assumes "bindE m f s = (Inr b, u)"
  obtains a t where "m s = (Inr a, t)" "f a t = (Inr b, u)"
  using assms by (auto simp: bindE_eq_Inr_iff)

lemma thenE_InrE:
  assumes "thenE m n s = (Inr b, u)"
  obtains a t where "m s = (Inr a, t)" "n t = (Inr b, u)"
  using assms by (auto simp: thenE_eq_Inr_iff)

lemma map_errE_eq_Inr_iff [simp]: "map_errE g m s = (Inr a, t) \<longleftrightarrow> m s = (Inr a, t)"
  by (auto simp: map_errE_def split: prod.splits sum.splits)

lemma map_errE_eq_Inl_iff: "map_errE g m s = (Inl f, t) \<longleftrightarrow> (\<exists>e. f = g e \<and> m s = (Inl e, t))"
  by (auto simp: map_errE_def split: prod.splits sum.splits)

lemma map_errE_snd [simp]: "snd (map_errE g m s) = snd (m s)"
  by (auto simp: map_errE_def split: prod.splits sum.splits)

lemma tryE_run: "tryE m s = (Inr (fst (m s)), snd (m s))"
  by (simp add: tryE_def)

lemmas act_defs = bindE_def thenE_def map_errE_def tryE_def

lemma if_fail_Inr [simp]:
  "(if b then failE e else m) s = (Inr a, t) \<longleftrightarrow> \<not> b \<and> m s = (Inr a, t)"
  "(if b then m else failE e) s = (Inr a, t) \<longleftrightarrow> b \<and> m s = (Inr a, t)"
  by simp_all

subsection \<open>The errors an action can end with\<close>

definition fails_only :: "('e \<Rightarrow> bool) \<Rightarrow> ('s, 'e, 'a) act \<Rightarrow> bool" where
  "fails_only P m \<longleftrightarrow> (\<forall>s e t. m s = (Inl e, t) \<longrightarrow> P e)"

named_theorems fails_intros \<open>actions end only with certain errors\<close>

lemma fails_onlyD: "fails_only P m \<Longrightarrow> m s = (Inl e, t) \<Longrightarrow> P e"
  by (auto simp: fails_only_def)

lemma fails_only_basic [fails_intros]:
  "fails_only P (retE a)" "fails_only P (getE f)" "fails_only P (tryE m)" "fails_only P (modifyE g)"
  "P e \<Longrightarrow> fails_only P (failE e)"
  by (simp_all add: fails_only_def tryE_def)

lemma fails_only_bind [fails_intros]:
  "fails_only P m \<Longrightarrow> (\<And>a. fails_only P (f a)) \<Longrightarrow> fails_only P (bindE m f)"
  unfolding fails_only_def by (metis bindE_eq_Inl_iff)

lemma fails_only_then [fails_intros]:
  "fails_only P m \<Longrightarrow> fails_only P n \<Longrightarrow> fails_only P (thenE m n)"
  unfolding thenE_def by (rule fails_only_bind)

lemma fails_only_map_err [fails_intros]: "(\<And>e. P (g e)) \<Longrightarrow> fails_only P (map_errE g m)"
  by (auto simp: fails_only_def map_errE_eq_Inl_iff)

lemma fails_only_cases [fails_intros]:
  "(b \<Longrightarrow> fails_only P m) \<Longrightarrow> (\<not> b \<Longrightarrow> fails_only P n) \<Longrightarrow> fails_only P (if b then m else n)"
  "(x = None \<Longrightarrow> fails_only P m) \<Longrightarrow> (\<And>a. x = Some a \<Longrightarrow> fails_only P (k a)) \<Longrightarrow>
     fails_only P (case x of None \<Rightarrow> m | Some a \<Rightarrow> k a)"
  "(\<And>e. y = Inl e \<Longrightarrow> fails_only P (g e)) \<Longrightarrow> (\<And>a. y = Inr a \<Longrightarrow> fails_only P (h a)) \<Longrightarrow>
     fails_only P (case y of Inl e \<Rightarrow> g e | Inr a \<Rightarrow> h a)"
  by (auto split: option.split sum.split)

subsection \<open>Relations that actions respect\<close>

text \<open>
  \<open>keeps R m\<close>: whatever state \<open>m\<close> starts in, and whether it succeeds or fails, \<open>R\<close> relates
  that state to the state it ends in. For a preorder \<open>R\<close> the property composes along the
  combinators above; the locale proves that once and each frame, invariant or monotonicity
  claim of the components is an interpretation of it.
\<close>

definition keeps :: "('s \<Rightarrow> 's \<Rightarrow> bool) \<Rightarrow> ('s, 'e, 'a) act \<Rightarrow> bool" where
  "keeps R m \<longleftrightarrow> (\<forall>s. R s (snd (m s)))"

lemma keepsD: "keeps R m \<Longrightarrow> m s = (r, t) \<Longrightarrow> R s t"
  by (metis keeps_def snd_conv)

lemma keeps_if [keeps_intros]:
  "(b \<Longrightarrow> keeps R m) \<Longrightarrow> (\<not> b \<Longrightarrow> keeps R n) \<Longrightarrow> keeps R (if b then m else n)"
  by simp

lemma keeps_case_option [keeps_intros]:
  "(x = None \<Longrightarrow> keeps R m) \<Longrightarrow> (\<And>a. x = Some a \<Longrightarrow> keeps R (n a)) \<Longrightarrow>
     keeps R (case x of None \<Rightarrow> m | Some a \<Rightarrow> n a)"
  by (simp split: option.split)

lemma keeps_case_sum [keeps_intros]:
  "(\<And>e. x = Inl e \<Longrightarrow> keeps R (m e)) \<Longrightarrow> (\<And>a. x = Inr a \<Longrightarrow> keeps R (n a)) \<Longrightarrow>
     keeps R (case x of Inl e \<Rightarrow> m e | Inr a \<Rightarrow> n a)"
  by (simp split: sum.split)

lemma keeps_case_prod [keeps_intros]:
  "(\<And>a b. p = (a, b) \<Longrightarrow> keeps R (m a b)) \<Longrightarrow> keeps R (case p of (a, b) \<Rightarrow> m a b)"
  by (simp split: prod.split)

lemma keeps_let [keeps_intros]: "keeps R (f a) \<Longrightarrow> keeps R (let x = a in f x)"
  by simp

lemma keeps_map_err [keeps_intros]: "keeps R m \<Longrightarrow> keeps R (map_errE g m)"
  by (simp add: keeps_def)

lemma keeps_try [keeps_intros]: "keeps R m \<Longrightarrow> keeps R (tryE m)"
  by (simp add: keeps_def tryE_def)

locale effect =
  fixes R :: "'s \<Rightarrow> 's \<Rightarrow> bool"
  assumes refl: "R s s"
    and trans: "R s t \<Longrightarrow> R t u \<Longrightarrow> R s u"
begin

lemma keeps_ret [keeps_intros]: "keeps R (retE a)"
  by (simp add: keeps_def refl)

lemma keeps_fail [keeps_intros]: "keeps R (failE e)"
  by (simp add: keeps_def refl)

lemma keeps_lift [keeps_intros]: "keeps R (liftE r)"
  by (simp add: keeps_def refl)

lemma keeps_get [keeps_intros]: "keeps R (getE f)"
  by (simp add: keeps_def refl)

lemma keeps_bind [keeps_intros]:
  assumes "keeps R m" and "\<And>a. keeps R (f a)"
  shows "keeps R (bindE m f)"
  unfolding keeps_def
proof
  fix s
  show "R s (snd (bindE m f s))"
  proof (cases "m s")
    case (Pair r t)
    with assms(1) have "R s t" by (rule keepsD)
    with Pair assms(2) show ?thesis
      by (cases r) (auto simp: bindE_def keeps_def intro: trans)
  qed
qed

lemma keeps_then [keeps_intros]:
  "keeps R m \<Longrightarrow> keeps R n \<Longrightarrow> keeps R (thenE m n)"
  unfolding thenE_def by (rule keeps_bind)

end

section \<open>Little-endian integers\<close>

text \<open>\<open>to_le_bytes\<close> and \<open>from_le_bytes\<close> of the unsigned integers, least significant byte first.\<close>

fun le_bytes :: "nat \<Rightarrow> nat \<Rightarrow> bytes" where
  "le_bytes 0 n = []"
| "le_bytes (Suc k) n = word_of_nat (n mod 256) # le_bytes k (n div 256)"

fun le_val :: "bytes \<Rightarrow> nat" where
  "le_val [] = 0"
| "le_val (b # bs) = unat b + 256 * le_val bs"

definition u16_to_le_bytes :: "u16 \<Rightarrow> bytes" where
  "u16_to_le_bytes x = le_bytes 2 (unat x)"

definition u32_to_le_bytes :: "u32 \<Rightarrow> bytes" where
  "u32_to_le_bytes x = le_bytes 4 (unat x)"

definition u16_from_le_bytes :: "bytes \<Rightarrow> u16" where
  "u16_from_le_bytes bs = word_of_nat (le_val bs)"

definition u32_from_le_bytes :: "bytes \<Rightarrow> u32" where
  "u32_from_le_bytes bs = word_of_nat (le_val bs)"

lemma unat_bound: "unat (w :: 'a::len word) < 2 ^ LENGTH('a)"
  by (rule unsigned_less)

lemma length_le_bytes [simp]: "length (le_bytes k n) = k"
  by (induction k arbitrary: n) auto

lemma unat_word_of_nat_u8: "n < 256 \<Longrightarrow> unat (word_of_nat n :: u8) = n"
  by (simp add: unat_of_nat take_bit_eq_mod)

lemma le_val_le_bytes: "le_val (le_bytes k n) = n mod 256 ^ k"
proof (induction k arbitrary: n)
  case (Suc k)
  have "le_val (le_bytes (Suc k) n) = n mod 256 + 256 * (n div 256 mod 256 ^ k)"
    by (simp add: Suc.IH unat_word_of_nat_u8)
  also have "\<dots> = n mod (256 * 256 ^ k)"
    by (simp add: mod_mult2_eq)
  finally show ?case by simp
qed simp

lemma le_bytes_le_val: "length bs = k \<Longrightarrow> le_bytes k (le_val bs) = bs"
proof (induction bs arbitrary: k)
  case (Cons b bs)
  have "unat b < 256"
    using unat_bound [of b] by simp
  with Cons show ?case by auto
qed simp

lemma le_val_bound: "le_val bs < 256 ^ length bs"
proof (induction bs)
  case (Cons b bs)
  have "unat b < 256"
    using unat_bound [of b] by simp
  with Cons show ?case by simp
qed simp

lemma length_u16_to_le_bytes [simp]: "length (u16_to_le_bytes x) = 2"
  by (simp add: u16_to_le_bytes_def)

lemma length_u32_to_le_bytes [simp]: "length (u32_to_le_bytes x) = 4"
  by (simp add: u32_to_le_bytes_def)

lemma u16_from_to_le_bytes [simp]: "u16_from_le_bytes (u16_to_le_bytes x) = x"
  using unat_bound [of x]
  by (simp add: u16_from_le_bytes_def u16_to_le_bytes_def le_val_le_bytes)

lemma u32_from_to_le_bytes [simp]: "u32_from_le_bytes (u32_to_le_bytes x) = x"
  using unat_bound [of x]
  by (simp add: u32_from_le_bytes_def u32_to_le_bytes_def le_val_le_bytes)

lemma u16_to_from_le_bytes: "length bs = 2 \<Longrightarrow> u16_to_le_bytes (u16_from_le_bytes bs) = bs"
  using le_val_bound [of bs] le_bytes_le_val [of bs 2]
  by (simp add: u16_from_le_bytes_def u16_to_le_bytes_def unat_of_nat take_bit_eq_mod)

lemma u32_to_from_le_bytes: "length bs = 4 \<Longrightarrow> u32_to_le_bytes (u32_from_le_bytes bs) = bs"
  using le_val_bound [of bs] le_bytes_le_val [of bs 4]
  by (simp add: u32_from_le_bytes_def u32_to_le_bytes_def unat_of_nat take_bit_eq_mod)

section \<open>Strings as bytes\<close>

definition as_bytes :: "string \<Rightarrow> bytes" where
  "as_bytes s = map (\<lambda>c. word_of_nat (of_char c)) s"

definition from_bytes :: "bytes \<Rightarrow> string" where
  "from_bytes bs = map (\<lambda>b. char_of (unat b)) bs"

lemma of_char_less_256: "(of_char c :: nat) < 256"
  using of_char_mod_256 [of c] by (metis mod_less_divisor zero_less_numeral)

lemma from_bytes_as_bytes [simp]: "from_bytes (as_bytes s) = s"
  by (simp add: from_bytes_def as_bytes_def o_def unat_word_of_nat_u8 of_char_less_256 map_idI)

lemma as_bytes_from_bytes [simp]: "as_bytes (from_bytes bs) = bs"
proof -
  have "word_of_nat (of_char (char_of (unat b) :: char)) = b" for b :: u8
    using unat_bound [of b] by (simp add: of_char_of)
  then show ?thesis
    by (simp add: from_bytes_def as_bytes_def o_def map_idI)
qed

lemma length_as_bytes [simp]: "length (as_bytes s) = length s"
  by (simp add: as_bytes_def)

lemma length_from_bytes [simp]: "length (from_bytes bs) = length bs"
  by (simp add: from_bytes_def)

end
