(* ===== verification/Rust_Str.thy ===== *)
theory Rust_Str
  imports Prelude
begin

text \<open>
  The operations of Rust's \<open>str\<close> type that the sources call, on strings as lists of UTF-8
  bytes: prefix and suffix tests, \<open>trim\<close> and \<open>split_whitespace\<close> with Unicode's white space,
  splitting and joining, decimal printing, and UTF-8 validity (\<open>String::from_utf8\<close>).
\<close>

section \<open>Prefixes, suffixes, substrings\<close>

definition starts_with :: "string \<Rightarrow> string \<Rightarrow> bool" where
  "starts_with s p \<longleftrightarrow> take (length p) s = p"

definition ends_with :: "string \<Rightarrow> string \<Rightarrow> bool" where
  "ends_with s p \<longleftrightarrow> starts_with (rev s) (rev p)"

definition strip_prefix_str :: "string \<Rightarrow> string \<Rightarrow> string option" where
  "strip_prefix_str s p = (if starts_with s p then Some (drop (length p) s) else None)"

fun contains_str :: "string \<Rightarrow> string \<Rightarrow> bool" where
  "contains_str [] p = (p = [])"
| "contains_str (c # s) p = (starts_with (c # s) p \<or> contains_str s p)"

lemma starts_with_append [simp]: "starts_with (p @ s) p"
  by (simp add: starts_with_def)

lemma starts_with_iff: "starts_with s p \<longleftrightarrow> (\<exists>r. s = p @ r)"
  unfolding starts_with_def by (metis append_eq_conv_conj append_take_drop_id)

lemma ends_with_iff: "ends_with s p \<longleftrightarrow> (\<exists>r. s = r @ p)"
  unfolding ends_with_def starts_with_iff
  by (metis rev_append rev_rev_ident)

lemma ends_with_slash: "ends_with s ''/'' \<longleftrightarrow> s \<noteq> [] \<and> last s = CHR ''/''"
  by (auto simp: ends_with_iff) (metis append_butlast_last_id)

section \<open>White space\<close>

text \<open>The UTF-8 forms of the code points with the Unicode property \<open>White_Space\<close> (\<open>char::is_whitespace\<close>).\<close>

definition ws_codes :: "string list" where
  "ws_codes =
     [[CHR 0x09], [CHR 0x0A], [CHR 0x0B], [CHR 0x0C], [CHR 0x0D], [CHR 0x20],
      [CHR 0xC2, CHR 0x85], [CHR 0xC2, CHR 0xA0], [CHR 0xE1, CHR 0x9A, CHR 0x80],
      [CHR 0xE2, CHR 0x80, CHR 0x80], [CHR 0xE2, CHR 0x80, CHR 0x81],
      [CHR 0xE2, CHR 0x80, CHR 0x82], [CHR 0xE2, CHR 0x80, CHR 0x83],
      [CHR 0xE2, CHR 0x80, CHR 0x84], [CHR 0xE2, CHR 0x80, CHR 0x85],
      [CHR 0xE2, CHR 0x80, CHR 0x86], [CHR 0xE2, CHR 0x80, CHR 0x87],
      [CHR 0xE2, CHR 0x80, CHR 0x88], [CHR 0xE2, CHR 0x80, CHR 0x89],
      [CHR 0xE2, CHR 0x80, CHR 0x8A], [CHR 0xE2, CHR 0x80, CHR 0xA8],
      [CHR 0xE2, CHR 0x80, CHR 0xA9], [CHR 0xE2, CHR 0x80, CHR 0xAF],
      [CHR 0xE2, CHR 0x81, CHR 0x9F], [CHR 0xE3, CHR 0x80, CHR 0x80]]"

text \<open>How many bytes one of the codes takes at the front of \<open>s\<close>, 0 for none.\<close>

definition code_len :: "string list \<Rightarrow> string \<Rightarrow> nat" where
  "code_len cs s = (case find (starts_with s) cs of None \<Rightarrow> 0 | Some c \<Rightarrow> length c)"

lemma code_len_le: "code_len cs s \<le> length s"
  by (auto simp: code_len_def find_Some_iff starts_with_iff split: option.splits)

function strip_codes :: "string list \<Rightarrow> string \<Rightarrow> string" where
  "strip_codes cs s =
     (if code_len cs s = 0 then s else strip_codes cs (drop (code_len cs s) s))"
  by pat_completeness auto
termination
proof (relation "measure (length \<circ> snd)")
  fix cs and s :: string
  assume "code_len cs s \<noteq> 0"
  moreover have "code_len cs s \<le> length s"
    by (rule code_len_le)
  ultimately show "((cs, drop (code_len cs s) s), cs, s) \<in> measure (length \<circ> snd)"
    by simp
qed simp

declare strip_codes.simps [simp del]

definition trim_start :: "string \<Rightarrow> string" where
  "trim_start s = strip_codes ws_codes s"

definition trim_end :: "string \<Rightarrow> string" where
  "trim_end s = rev (strip_codes (map rev ws_codes) (rev s))"

definition trim :: "string \<Rightarrow> string" where
  "trim s = trim_end (trim_start s)"

text \<open>\<open>value.trim().is_empty()\<close>.\<close>

definition blank :: "string \<Rightarrow> bool" where
  "blank s \<longleftrightarrow> trim s = []"

lemma strip_codes_Nil: "[] \<notin> set cs \<Longrightarrow> strip_codes cs [] = []"
  by (subst strip_codes.simps)
    (auto simp: code_len_def find_Some_iff starts_with_def split: option.splits)

lemma strip_codes_stop: "find (starts_with s) cs = None \<Longrightarrow> strip_codes cs s = s"
  by (subst strip_codes.simps) (simp add: code_len_def)

lemma blank_Nil [simp]: "blank []"
  by (simp add: blank_def trim_def trim_start_def trim_end_def strip_codes_Nil ws_codes_def)

text \<open>A string that starts and ends with an ASCII letter or other visible byte is its own trim.\<close>

definition visible :: "char \<Rightarrow> bool" where
  "visible c \<longleftrightarrow> (0x20 :: nat) < of_char c \<and> (of_char c :: nat) < 0x7F"

lemma ws_codes_ends: "\<forall>p \<in> set ws_codes. p \<noteq> [] \<and> \<not> visible (hd p) \<and> \<not> visible (last p)"
  by (simp add: ws_codes_def visible_def)

lemma find_code_visible:
  assumes "visible c" and "\<forall>p \<in> set cs. p \<noteq> [] \<and> \<not> visible (hd p)"
  shows "find (starts_with (c # s)) cs = None"
  using assms by (auto simp: find_None_iff starts_with_iff neq_Nil_conv)

lemma ws_codes_not_visible:
  assumes "visible c"
  shows "find (starts_with (c # s)) ws_codes = None"
    and "find (starts_with (c # s)) (map rev ws_codes) = None"
  using assms ws_codes_ends by (auto intro!: find_code_visible simp: hd_rev)

lemma trim_visible:
  assumes "visible (hd s)" "visible (last s)" "s \<noteq> []"
  shows "trim s = s"
proof -
  from assms obtain c s' where s: "s = c # s'" "visible c"
    by (cases s) auto
  from assms obtain d s'' where r: "rev s = d # s''" "visible d"
    by (metis hd_rev list.collapse rev_is_Nil_conv)
  from s have "trim_start s = s"
    by (simp add: trim_start_def strip_codes_stop ws_codes_not_visible)
  moreover have "strip_codes (map rev ws_codes) (rev s) = rev s"
    unfolding r(1) using r(2) by (simp add: strip_codes_stop ws_codes_not_visible)
  then have "trim_end s = s"
    by (simp add: trim_end_def)
  ultimately show ?thesis
    by (simp add: trim_def)
qed

text \<open>\<open>split_whitespace\<close>: the maximal runs between white space.\<close>

function split_ws :: "string \<Rightarrow> string \<Rightarrow> string list" where
  "split_ws cur [] = (if cur = [] then [] else [rev cur])"
| "split_ws cur (c # s) =
     (if code_len ws_codes (c # s) = 0 then split_ws (c # cur) s
      else (if cur = [] then [] else [rev cur])
             @ split_ws [] (drop (code_len ws_codes (c # s)) (c # s)))"
  by pat_completeness auto
termination
  by (relation "measure (length \<circ> snd)") (auto simp: less_Suc_eq_le)

definition split_whitespace :: "string \<Rightarrow> string list" where
  "split_whitespace s = split_ws [] s"

section \<open>Splitting and joining\<close>

fun split_on :: "char \<Rightarrow> string \<Rightarrow> string list" where
  "split_on c [] = [[]]"
| "split_on c (x # s) =
     (if x = c then [] # split_on c s
      else (case split_on c s of [] \<Rightarrow> [[x]] | p # ps \<Rightarrow> (x # p) # ps))"

fun join_with :: "string \<Rightarrow> string list \<Rightarrow> string" where
  "join_with sep [] = []"
| "join_with sep [p] = p"
| "join_with sep (p # q # ps) = p @ sep @ join_with sep (q # ps)"

text \<open>\<open>rsplit_once\<close>: split at the last occurrence of \<open>c\<close>.\<close>

definition rsplit_once :: "char \<Rightarrow> string \<Rightarrow> (string \<times> string) option" where
  "rsplit_once c s =
     (if c \<in> set s
      then Some (rev (tl (dropWhile (\<lambda>x. x \<noteq> c) (rev s))), rev (takeWhile (\<lambda>x. x \<noteq> c) (rev s)))
      else None)"

definition replace_char :: "char \<Rightarrow> string \<Rightarrow> string \<Rightarrow> string" where
  "replace_char c by s = concat (map (\<lambda>x. if x = c then by else [x]) s)"

lemma split_on_nonempty [simp]: "split_on c s \<noteq> []"
  by (induction s) (auto split: list.splits)

lemma split_on_no_sep: "c \<notin> set s \<Longrightarrow> split_on c s = [s]"
  by (induction s) auto

lemma split_on_parts: "p \<in> set (split_on c s) \<Longrightarrow> c \<notin> set p"
  by (induction s arbitrary: p) (auto split: if_splits list.splits)

lemma split_on_append_sep: "split_on c (s @ c # t) = split_on c s @ split_on c t"
  by (induction s) (auto split: list.splits simp: append_eq_Cons_conv)

lemma join_split_on: "join_with [c] (split_on c s) = s"
proof (induction s)
  case (Cons x s)
  obtain p ps where ps: "split_on c s = p # ps"
    using split_on_nonempty by (metis list.exhaust)
  from Cons ps show ?case
    by (cases ps) auto
qed simp

lemma split_on_join:
  "ps \<noteq> [] \<Longrightarrow> \<forall>p \<in> set ps. c \<notin> set p \<Longrightarrow> split_on c (join_with [c] ps) = ps"
proof (induction ps rule: induct_list012)
  case (3 p q ps)
  have "split_on c (p @ c # join_with [c] (q # ps)) = split_on c p @ split_on c (join_with [c] (q # ps))"
    by (rule split_on_append_sep)
  with 3 show ?case
    by (simp add: split_on_no_sep)
qed (auto simp: split_on_no_sep)

text \<open>\<open>str::lines\<close>: split at line feeds, a final empty line dropped, a carriage return before the feed too.\<close>

definition strip_cr :: "string \<Rightarrow> string" where
  "strip_cr s = (if s \<noteq> [] \<and> last s = CHR 0x0D then butlast s else s)"

definition str_lines :: "string \<Rightarrow> string list" where
  "str_lines s =
     (let ls = split_on (CHR 0x0A) s
      in map strip_cr (butlast ls) @ (if last ls = [] then [] else [last ls]))"

text \<open>\<open>trim_matches\<close> with one character.\<close>

definition trim_matches :: "char \<Rightarrow> string \<Rightarrow> string" where
  "trim_matches c s = rev (dropWhile (\<lambda>x. x = c) (rev (dropWhile (\<lambda>x. x = c) s)))"

section \<open>Numbers in text\<close>

definition digit_char :: "nat \<Rightarrow> char" where
  "digit_char d = char_of (48 + d)"

fun show_nat :: "nat \<Rightarrow> string" where
  "show_nat n = (if n < 10 then [digit_char n] else show_nat (n div 10) @ [digit_char (n mod 10)])"

declare show_nat.simps [simp del]

definition show_int :: "int \<Rightarrow> string" where
  "show_int i = (if i < 0 then CHR ''-'' # show_nat (nat (- i)) else show_nat (nat i))"

text \<open>\<open>from_str_radix\<close> on digits only: the value of a digit string, or \<open>None\<close> for a foreign character.\<close>

fun digits_val :: "nat \<Rightarrow> nat \<Rightarrow> string \<Rightarrow> nat option" where
  "digits_val radix acc [] = Some acc"
| "digits_val radix acc (c # s) =
     (let v = of_char c :: nat
      in if 48 \<le> v \<and> v < 48 + radix \<and> v < 58 then digits_val radix (acc * radix + (v - 48)) s else None)"

text \<open>
  Rust's unsigned \<open>from_str_radix\<close> and \<open>parse\<close> for a radix up to 10: an optional \<open>+\<close>, at least
  one digit, and no value above the type's maximum.
\<close>

definition parse_unsigned :: "nat \<Rightarrow> nat \<Rightarrow> string \<Rightarrow> nat option" where
  "parse_unsigned radix bound s =
     (let ds = (case s of [] \<Rightarrow> [] | c # r \<Rightarrow> if c = CHR ''+'' then r else s)
      in if ds = [] then None
         else (case digits_val radix 0 ds of None \<Rightarrow> None | Some v \<Rightarrow> if v < bound then Some v else None))"

section \<open>UTF-8\<close>

definition utf8_cont :: "u8 \<Rightarrow> bool" where
  "utf8_cont b \<longleftrightarrow> 0x80 \<le> b \<and> b \<le> 0xBF"

text \<open>
  One step of UTF-8 decoding as \<open>String::from_utf8_lossy\<close> takes it: how many bytes the next character, or the longest
  start of one that breaks off, takes, and whether it is a character.
\<close>

fun utf8_step :: "bytes \<Rightarrow> nat \<times> bool" where
  "utf8_step [] = (1, False)"
| "utf8_step (a # r) =
     (if a < 0x80 then (1, True)
      else if 0xC2 \<le> a \<and> a \<le> 0xDF then
        (case r of b # _ \<Rightarrow> if utf8_cont b then (2, True) else (1, False) | [] \<Rightarrow> (1, False))
      else if 0xE0 \<le> a \<and> a \<le> 0xEF then
        (case r of
           b # r' \<Rightarrow>
             if utf8_cont b \<and> (a = 0xE0 \<longrightarrow> 0xA0 \<le> b) \<and> (a = 0xED \<longrightarrow> b \<le> 0x9F) then
               (case r' of c # _ \<Rightarrow> if utf8_cont c then (3, True) else (2, False) | [] \<Rightarrow> (2, False))
             else (1, False)
         | [] \<Rightarrow> (1, False))
      else if 0xF0 \<le> a \<and> a \<le> 0xF4 then
        (case r of
           b # r' \<Rightarrow>
             if utf8_cont b \<and> (a = 0xF0 \<longrightarrow> 0x90 \<le> b) \<and> (a = 0xF4 \<longrightarrow> b \<le> 0x8F) then
               (case r' of
                  c # r'' \<Rightarrow>
                    if utf8_cont c then
                      (case r'' of d # _ \<Rightarrow> if utf8_cont d then (4, True) else (3, False)
                       | [] \<Rightarrow> (3, False))
                    else (2, False)
                | [] \<Rightarrow> (2, False))
             else (1, False)
         | [] \<Rightarrow> (1, False))
      else (1, False))"

lemma utf8_step_pos: "0 < fst (utf8_step bs)"
  by (cases bs) (auto split: list.split)

text \<open>The well-formed byte sequences of the Unicode standard (table 3-7), as \<open>String::from_utf8\<close> checks them.\<close>

function utf8_valid :: "bytes \<Rightarrow> bool" where
  "utf8_valid [] = True"
| "utf8_valid (a # r) =
     (snd (utf8_step (a # r)) \<and> utf8_valid (drop (fst (utf8_step (a # r)) - 1) r))"
  by pat_completeness auto
termination
  by (relation "measure length") auto

lemma utf8_valid_ascii: "\<forall>b \<in> set bs. b < 0x80 \<Longrightarrow> utf8_valid bs"
  by (induction bs) auto

function utf8_lossy :: "bytes \<Rightarrow> bytes" where
  "utf8_lossy [] = []"
| "utf8_lossy (a # r) =
     (if snd (utf8_step (a # r)) then take (fst (utf8_step (a # r))) (a # r)
      else [0xEF, 0xBF, 0xBD]) @ utf8_lossy (drop (fst (utf8_step (a # r)) - 1) r)"
  by pat_completeness auto
termination
  by (relation "measure length") auto

lemma utf8_lossy_valid: "utf8_valid bs \<Longrightarrow> utf8_lossy bs = bs"
proof (induction bs rule: utf8_valid.induct)
  case (2 a r)
  define n where "n = fst (utf8_step (a # r))"
  have "0 < n"
    unfolding n_def by (rule utf8_step_pos)
  then have "take n (a # r) @ drop (n - 1) r = a # r"
    by (cases n) auto
  with 2 show ?case
    unfolding n_def by (simp del: utf8_step.simps)
qed simp

text \<open>\<open>to_string_lossy\<close> and \<open>display\<close> of a path or a name, which need not be UTF-8.\<close>

definition display :: "string \<Rightarrow> string" where
  "display s = from_bytes (utf8_lossy (as_bytes s))"

definition is_utf8 :: "string \<Rightarrow> bool" where
  "is_utf8 s \<longleftrightarrow> utf8_valid (as_bytes s)"

lemma display_utf8: "is_utf8 s \<Longrightarrow> display s = s"
  by (simp add: display_def is_utf8_def utf8_lossy_valid)

end
