(* ===== verification/Wire.thy ===== *)
theory Wire
  imports Rust_Str
begin

text \<open>
  The wire protocol crate (\<open>crates/rsdb-proto/src/lib.rs\<close>): the frame header and its byte
  layout, frames and stream frames, the discovery datagram, and the request and response
  messages.

  \<open>serde_json\<close> is not part of the repository: what serialises and parses a message is a
  parameter of the definitions (\<open>to_vec\<close> and \<open>from_slice\<close>), and the readers and writers a
  frame goes through are parameters too, as they are type parameters in the code.
\<close>

section \<open>Errors of the operating system and of the protocol\<close>

text \<open>The kinds of \<open>std::io::ErrorKind\<close> that the sources tell apart or that the file model reports.\<close>

datatype io_kind =
    NotFound | PermissionDenied | ConnectionRefused | ConnectionReset | BrokenPipe
  | AlreadyExists | NotADirectory | IsADirectory | DirectoryNotEmpty | FilesystemLoop
  | InvalidInput | InvalidData | UnexpectedEof | StorageFull | OtherIo

record io_error =
  io_kind :: io_kind
  io_raw_os_error :: "int option"
  io_message :: string

definition MAGIC :: bytes where
  "MAGIC = as_bytes ''RSDB''"

definition DISCOVERY_MAGIC :: bytes where
  "DISCOVERY_MAGIC = as_bytes ''RSDBDISC''"

definition PROTOCOL_VERSION :: u16 where
  "PROTOCOL_VERSION = 2"

definition HEADER_LEN :: nat where
  "HEADER_LEN = 24"

definition MAX_PAYLOAD_LEN :: nat where
  "MAX_PAYLOAD_LEN = 16 * 1024 * 1024"

definition MAX_DISCOVERY_PAYLOAD_LEN :: nat where
  "MAX_DISCOVERY_PAYLOAD_LEN = 16 * 1024"

definition STREAM_EOF_FLAG :: u32 where
  "STREAM_EOF_FLAG = push_bit 31 1"

definition STREAM_CHANNEL_MASK :: u32 where
  "STREAM_CHANNEL_MASK = 0xff"

definition DEFAULT_STREAM_CHUNK_SIZE :: nat where
  "DEFAULT_STREAM_CHUNK_SIZE = 64 * 1024"

datatype frame_kind = Request | Response | Event | Stream

datatype stream_channel = File | Stdin | Stdout | Stderr

datatype protocol_error =
    Io io_error
  | Json string
  | InvalidMagic bytes
  | UnsupportedVersion u16
  | UnknownFrameKind u16
  | UnknownStreamChannel u32
  | InvalidDiscoveryMagic
  | PayloadTooLarge nat
  | DiscoveryPayloadTooLarge nat
  | UnexpectedFrameKind frame_kind frame_kind

section \<open>Frame kinds and stream channels\<close>

fun frame_kind_code :: "frame_kind \<Rightarrow> u16" where
  "frame_kind_code Request = 1"
| "frame_kind_code Response = 2"
| "frame_kind_code Event = 3"
| "frame_kind_code Stream = 4"

definition frame_kind_from_u16 :: "u16 \<Rightarrow> protocol_error + frame_kind" where
  "frame_kind_from_u16 value =
     (if value = 1 then Inr Request
      else if value = 2 then Inr Response
      else if value = 3 then Inr Event
      else if value = 4 then Inr Stream
      else Inl (UnknownFrameKind value))"

fun stream_channel_code :: "stream_channel \<Rightarrow> u32" where
  "stream_channel_code File = 1"
| "stream_channel_code Stdin = 2"
| "stream_channel_code Stdout = 3"
| "stream_channel_code Stderr = 4"

definition stream_channel_from_u32 :: "u32 \<Rightarrow> protocol_error + stream_channel" where
  "stream_channel_from_u32 value =
     (if value = 1 then Inr File
      else if value = 2 then Inr Stdin
      else if value = 3 then Inr Stdout
      else if value = 4 then Inr Stderr
      else Inl (UnknownStreamChannel value))"

lemma frame_kind_from_code [simp]: "frame_kind_from_u16 (frame_kind_code k) = Inr k"
  by (cases k) (simp_all add: frame_kind_from_u16_def)

lemma frame_kind_from_u16_Inr: "frame_kind_from_u16 v = Inr k \<Longrightarrow> v = frame_kind_code k"
  by (auto simp: frame_kind_from_u16_def split: if_splits)

lemma stream_channel_from_code [simp]: "stream_channel_from_u32 (stream_channel_code c) = Inr c"
  by (cases c) (simp_all add: stream_channel_from_u32_def)

section \<open>The frame header\<close>

record frame_header =
  h_version :: u16
  h_kind :: frame_kind
  h_flags :: u32
  h_request_id :: u32
  h_payload_len :: u32

record frame =
  f_header :: frame_header
  f_payload :: bytes

record stream_frame_header =
  s_request_id :: u32
  s_channel :: stream_channel
  s_eof :: bool

record stream_frame =
  sf_request_id :: u32
  sf_channel :: stream_channel
  sf_eof :: bool
  sf_payload :: bytes

text \<open>
  The code fills a zeroed array of 24 bytes at the offsets 0, 4, 6, 8, 12, 16 and 20; the
  fields are adjacent, so the array is their concatenation.
\<close>

definition header_encode :: "frame_header \<Rightarrow> bytes" where
  "header_encode h =
     MAGIC
     @ u16_to_le_bytes (h_version h)
     @ u16_to_le_bytes (frame_kind_code (h_kind h))
     @ u32_to_le_bytes (h_flags h)
     @ u32_to_le_bytes (h_request_id h)
     @ u32_to_le_bytes (h_payload_len h)
     @ u32_to_le_bytes 0"

text \<open>\<open>slice a b xs\<close> is \<open>xs[a..b]\<close>; the code takes it of an array of 24 bytes only.\<close>

definition slice :: "nat \<Rightarrow> nat \<Rightarrow> 'a list \<Rightarrow> 'a list" where
  "slice a b xs = take (b - a) (drop a xs)"

definition header_decode :: "bytes \<Rightarrow> protocol_error + frame_header" where
  "header_decode bs =
     (if slice 0 4 bs \<noteq> MAGIC then Inl (InvalidMagic (slice 0 4 bs))
      else
        let version = u16_from_le_bytes (slice 4 6 bs)
        in case frame_kind_from_u16 (u16_from_le_bytes (slice 6 8 bs)) of
             Inl e \<Rightarrow> Inl e
           | Inr kind \<Rightarrow>
               let flags = u32_from_le_bytes (slice 8 12 bs);
                   request_id = u32_from_le_bytes (slice 12 16 bs);
                   payload_len = u32_from_le_bytes (slice 16 20 bs)
               in if version \<noteq> PROTOCOL_VERSION then Inl (UnsupportedVersion version)
                  else if MAX_PAYLOAD_LEN < unat payload_len
                  then Inl (PayloadTooLarge (unat payload_len))
                  else Inr \<lparr>h_version = version, h_kind = kind, h_flags = flags,
                            h_request_id = request_id, h_payload_len = payload_len\<rparr>)"

lemma length_MAGIC [simp]: "length MAGIC = 4"
  by (simp add: MAGIC_def)

lemma length_DISCOVERY_MAGIC [simp]: "length DISCOVERY_MAGIC = 8"
  by (simp add: DISCOVERY_MAGIC_def)

lemma length_header_encode [simp]: "length (header_encode h) = HEADER_LEN"
  by (simp add: header_encode_def HEADER_LEN_def)

lemma slice_skip: "length xs = n \<Longrightarrow> n \<le> a \<Longrightarrow> slice a b (xs @ ys) = slice (a - n) (b - n) ys"
  by (simp add: slice_def)

lemma slice_here: "length xs = b \<Longrightarrow> slice 0 b (xs @ ys) = xs"
  by (simp add: slice_def)

lemmas header_slices = slice_skip [where n = 4] slice_skip [where n = 2] slice_here

lemma header_decode_encode:
  "header_decode (header_encode h) =
     (if h_version h \<noteq> PROTOCOL_VERSION then Inl (UnsupportedVersion (h_version h))
      else if MAX_PAYLOAD_LEN < unat (h_payload_len h)
      then Inl (PayloadTooLarge (unat (h_payload_len h)))
      else Inr h)"
  by (simp add: header_decode_def header_encode_def header_slices Let_def)

text \<open>What a successful decode says of the 24 bytes: all but the four reserved ones are determined.\<close>

lemma header_decode_sound:
  assumes dec: "header_decode bs = Inr h" and len: "length bs = HEADER_LEN"
  shows "take 20 (header_encode h) = take 20 bs"
    and "h_version h = PROTOCOL_VERSION"
    and "unat (h_payload_len h) \<le> MAX_PAYLOAD_LEN"
proof -
  have split: "take 20 bs = slice 0 4 bs @ slice 4 6 bs @ slice 6 8 bs @ slice 8 12 bs
      @ slice 12 16 bs @ slice 16 20 bs"
    using take_add [of 4 16 bs] take_add [of 2 14 "drop 4 bs"] take_add [of 2 12 "drop 6 bs"]
      take_add [of 4 8 "drop 8 bs"] take_add [of 4 4 "drop 12 bs"]
    by (simp add: slice_def)
  have lens: "length (slice 4 6 bs) = 2" "length (slice 6 8 bs) = 2" "length (slice 8 12 bs) = 4"
    "length (slice 12 16 bs) = 4" "length (slice 16 20 bs) = 4"
    using len by (simp_all add: slice_def HEADER_LEN_def)
  from dec obtain k where k: "frame_kind_from_u16 (u16_from_le_bytes (slice 6 8 bs)) = Inr k"
      "slice 0 4 bs = MAGIC" and v: "u16_from_le_bytes (slice 4 6 bs) = PROTOCOL_VERSION"
    and h: "h = \<lparr>h_version = PROTOCOL_VERSION, h_kind = k, h_flags = u32_from_le_bytes (slice 8 12 bs),
        h_request_id = u32_from_le_bytes (slice 12 16 bs),
        h_payload_len = u32_from_le_bytes (slice 16 20 bs)\<rparr>"
    and small: "unat (u32_from_le_bytes (slice 16 20 bs)) \<le> MAX_PAYLOAD_LEN"
    by (auto simp: header_decode_def Let_def split: if_splits sum.splits)
  have "u16_to_le_bytes (frame_kind_code k) = slice 6 8 bs"
    using frame_kind_from_u16_Inr [OF k(1)] lens by (metis u16_to_from_le_bytes)
  moreover have "u16_to_le_bytes PROTOCOL_VERSION = slice 4 6 bs"
    using v lens by (metis u16_to_from_le_bytes)
  ultimately show "take 20 (header_encode h) = take 20 bs"
    using k(2) lens unfolding split by (simp add: h header_encode_def u32_to_from_le_bytes)
  show "h_version h = PROTOCOL_VERSION" "unat (h_payload_len h) \<le> MAX_PAYLOAD_LEN"
    using h small by simp_all
qed

section \<open>Reading and writing frames\<close>

type_synonym 'w writer = "bytes \<Rightarrow> ('w, io_error, unit) act"
type_synonym 'r reader = "nat \<Rightarrow> ('r, io_error, bytes) act"

text \<open>\<open>wr\<close> is \<open>AsyncWriteExt::write_all\<close> of the writer, \<open>rd n\<close> is \<open>read_exact\<close> of \<open>n\<close> bytes.\<close>

definition write_frame :: "'w writer \<Rightarrow> frame_kind \<Rightarrow> u32 \<Rightarrow> bytes \<Rightarrow> ('w, protocol_error, unit) act" where
  "write_frame wr kind request_id payload =
     (if MAX_PAYLOAD_LEN < length payload then failE (PayloadTooLarge (length payload))
      else
        let header = \<lparr>h_version = PROTOCOL_VERSION, h_kind = kind, h_flags = 0,
                       h_request_id = request_id, h_payload_len = word_of_nat (length payload)\<rparr>
        in thenE (map_errE Io (wr (header_encode header))) (map_errE Io (wr payload)))"

definition read_frame_into :: "'r reader \<Rightarrow> ('r, protocol_error, frame_header \<times> bytes) act" where
  "read_frame_into rd =
     bindE (map_errE Io (rd HEADER_LEN)) (\<lambda>header_bytes.
     bindE (liftE (header_decode header_bytes)) (\<lambda>header.
     bindE (map_errE Io (rd (unat (h_payload_len header)))) (\<lambda>payload.
     retE (header, payload))))"

definition read_frame :: "'r reader \<Rightarrow> ('r, protocol_error, frame) act" where
  "read_frame rd =
     bindE (read_frame_into rd) (\<lambda>(header, payload).
     retE \<lparr>f_header = header, f_payload = payload\<rparr>)"

definition write_stream_frame ::
  "'w writer \<Rightarrow> u32 \<Rightarrow> stream_channel \<Rightarrow> bool \<Rightarrow> bytes \<Rightarrow> ('w, protocol_error, unit) act" where
  "write_stream_frame wr request_id channel eof payload =
     (let flags = (if eof then stream_channel_code channel OR STREAM_EOF_FLAG
                   else stream_channel_code channel)
      in if MAX_PAYLOAD_LEN < length payload then failE (PayloadTooLarge (length payload))
         else
           let header = \<lparr>h_version = PROTOCOL_VERSION, h_kind = Stream, h_flags = flags,
                          h_request_id = request_id, h_payload_len = word_of_nat (length payload)\<rparr>
           in thenE (map_errE Io (wr (header_encode header))) (map_errE Io (wr payload)))"

definition decode_stream_frame_header :: "frame_header \<Rightarrow> protocol_error + stream_frame_header" where
  "decode_stream_frame_header header =
     (if h_kind header \<noteq> Stream then Inl (UnexpectedFrameKind Stream (h_kind header))
      else
        case stream_channel_from_u32 (h_flags header AND STREAM_CHANNEL_MASK) of
          Inl e \<Rightarrow> Inl e
        | Inr channel \<Rightarrow>
            Inr \<lparr>s_request_id = h_request_id header, s_channel = channel,
                 s_eof = (h_flags header AND STREAM_EOF_FLAG \<noteq> 0)\<rparr>)"

definition decode_stream_frame :: "frame \<Rightarrow> protocol_error + stream_frame" where
  "decode_stream_frame fr =
     (case decode_stream_frame_header (f_header fr) of
        Inl e \<Rightarrow> Inl e
      | Inr h \<Rightarrow> Inr \<lparr>sf_request_id = s_request_id h, sf_channel = s_channel h, sf_eof = s_eof h,
                      sf_payload = f_payload fr\<rparr>)"

definition read_stream_frame_into ::
  "'r reader \<Rightarrow> ('r, protocol_error, stream_frame_header \<times> bytes) act" where
  "read_stream_frame_into rd =
     bindE (read_frame_into rd) (\<lambda>(header, payload).
     bindE (liftE (decode_stream_frame_header header)) (\<lambda>h. retE (h, payload)))"

text \<open>\<open>to_vec\<close> and \<open>from_slice\<close> are \<open>serde_json\<close>'s; its error is kept as its text.\<close>

definition write_json_frame ::
  "('m \<Rightarrow> string + bytes) \<Rightarrow> 'w writer \<Rightarrow> frame_kind \<Rightarrow> u32 \<Rightarrow> 'm \<Rightarrow> ('w, protocol_error, unit) act" where
  "write_json_frame to_vec wr kind request_id message =
     (case to_vec message of
        Inl e \<Rightarrow> failE (Json e)
      | Inr payload \<Rightarrow> write_frame wr kind request_id payload)"

definition decode_json_payload ::
  "(bytes \<Rightarrow> string + 'm) \<Rightarrow> frame_header \<Rightarrow> bytes \<Rightarrow> frame_kind \<Rightarrow> protocol_error + 'm" where
  "decode_json_payload from_slice header payload expected_kind =
     (if h_kind header \<noteq> expected_kind
      then Inl (UnexpectedFrameKind expected_kind (h_kind header))
      else case from_slice payload of Inl e \<Rightarrow> Inl (Json e) | Inr m \<Rightarrow> Inr m)"

definition decode_json ::
  "(bytes \<Rightarrow> string + 'm) \<Rightarrow> frame \<Rightarrow> frame_kind \<Rightarrow> protocol_error + 'm" where
  "decode_json from_slice fr expected_kind =
     decode_json_payload from_slice (f_header fr) (f_payload fr) expected_kind"

definition encode_discovery_message :: "('m \<Rightarrow> string + bytes) \<Rightarrow> 'm \<Rightarrow> protocol_error + bytes" where
  "encode_discovery_message to_vec message =
     (case to_vec message of
        Inl e \<Rightarrow> Inl (Json e)
      | Inr payload \<Rightarrow>
          if MAX_DISCOVERY_PAYLOAD_LEN < length payload
          then Inl (DiscoveryPayloadTooLarge (length payload))
          else Inr (DISCOVERY_MAGIC @ payload))"

definition decode_discovery_message :: "(bytes \<Rightarrow> string + 'm) \<Rightarrow> bytes \<Rightarrow> protocol_error + 'm" where
  "decode_discovery_message from_slice bs =
     (if length bs < length DISCOVERY_MAGIC \<or> take (length DISCOVERY_MAGIC) bs \<noteq> DISCOVERY_MAGIC
      then Inl InvalidDiscoveryMagic
      else
        let payload = drop (length DISCOVERY_MAGIC) bs
        in if MAX_DISCOVERY_PAYLOAD_LEN < length payload
           then Inl (DiscoveryPayloadTooLarge (length payload))
           else case from_slice payload of Inl e \<Rightarrow> Inl (Json e) | Inr m \<Rightarrow> Inr m)"

text \<open>What the code relies on: \<open>serde_json\<close> reads back what it wrote.\<close>

definition json_roundtrip :: "('m \<Rightarrow> string + bytes) \<Rightarrow> (bytes \<Rightarrow> string + 'm) \<Rightarrow> bool" where
  "json_roundtrip to_vec from_slice \<longleftrightarrow> (\<forall>m bs. to_vec m = Inr bs \<longrightarrow> from_slice bs = Inr m)"

subsection \<open>The bytes of a frame\<close>

definition frame_bytes :: "frame_kind \<Rightarrow> u32 \<Rightarrow> u32 \<Rightarrow> bytes \<Rightarrow> bytes" where
  "frame_bytes kind flags request_id payload =
     header_encode \<lparr>h_version = PROTOCOL_VERSION, h_kind = kind, h_flags = flags,
       h_request_id = request_id, h_payload_len = word_of_nat (length payload)\<rparr> @ payload"

definition stream_flags :: "stream_channel \<Rightarrow> bool \<Rightarrow> u32" where
  "stream_flags channel eof =
     (if eof then stream_channel_code channel OR STREAM_EOF_FLAG else stream_channel_code channel)"

definition stream_bytes :: "u32 \<Rightarrow> stream_channel \<Rightarrow> bool \<Rightarrow> bytes \<Rightarrow> bytes" where
  "stream_bytes request_id channel eof payload =
     frame_bytes Stream (stream_flags channel eof) request_id payload"

lemma unat_payload_len:
  "length p \<le> MAX_PAYLOAD_LEN \<Longrightarrow> unat (word_of_nat (length p) :: u32) = length p"
  by (simp add: MAX_PAYLOAD_LEN_def unat_of_nat take_bit_eq_mod)

lemma length_frame_bytes [simp]: "length (frame_bytes k fl rid p) = HEADER_LEN + length p"
  by (simp add: frame_bytes_def)

lemma length_stream_bytes [simp]: "length (stream_bytes rid c eof p) = HEADER_LEN + length p"
  by (simp add: stream_bytes_def)

lemma stream_flags_decode:
  "stream_flags c eof AND STREAM_CHANNEL_MASK = stream_channel_code c"
  "stream_flags c eof AND STREAM_EOF_FLAG \<noteq> 0 \<longleftrightarrow> eof"
  by (cases c; simp add: stream_flags_def STREAM_CHANNEL_MASK_def STREAM_EOF_FLAG_def push_bit_eq_mult)+

lemma decode_stream_frame_header_flags:
  "decode_stream_frame_header
     \<lparr>h_version = v, h_kind = Stream, h_flags = stream_flags c eof, h_request_id = rid, h_payload_len = n\<rparr>
   = Inr \<lparr>s_request_id = rid, s_channel = c, s_eof = eof\<rparr>"
  by (simp add: decode_stream_frame_header_def stream_flags_decode)

subsection \<open>The contracts of readers and writers\<close>

text \<open>
  What the frame functions need of a writer: a successful \<open>write_all\<close> appends exactly its
  argument to what the writer has accepted, and a healthy writer (no failure ahead) accepts
  and stays healthy.
\<close>

locale byte_writer =
  fixes write_all :: "'w writer"
    and sent :: "'w \<Rightarrow> bytes"
    and healthy :: "'w \<Rightarrow> bool"
  assumes write_all_ok: "write_all bs s = (Inr u, t) \<Longrightarrow> sent t = sent s @ bs"
    and write_all_live: "healthy s \<Longrightarrow> \<exists>t. write_all bs s = (Inr (), t) \<and> healthy t"
begin

lemma write_two_ok:
  "thenE (map_errE Io (write_all a)) (map_errE Io (write_all b)) s = (Inr u, t) \<Longrightarrow>
     sent t = sent s @ a @ b"
  by (auto simp: thenE_eq_Inr_iff dest!: write_all_ok)

lemma write_two_live:
  "healthy s \<Longrightarrow>
     \<exists>t. thenE (map_errE Io (write_all a)) (map_errE Io (write_all b)) s = (Inr (), t) \<and> healthy t"
  by (simp add: thenE_eq_Inr_iff) (metis write_all_live)

lemma write_frame_ok:
  "write_frame write_all k rid p s = (Inr u, t) \<Longrightarrow>
     sent t = sent s @ frame_bytes k 0 rid p \<and> length p \<le> MAX_PAYLOAD_LEN"
  by (auto simp: write_frame_def Let_def frame_bytes_def split: if_splits dest!: write_two_ok)

lemma write_frame_live:
  "healthy s \<Longrightarrow> length p \<le> MAX_PAYLOAD_LEN \<Longrightarrow>
     \<exists>t. write_frame write_all k rid p s = (Inr (), t) \<and> healthy t"
  by (simp add: write_frame_def Let_def write_two_live)

lemma write_stream_frame_ok:
  "write_stream_frame write_all rid c eof p s = (Inr u, t) \<Longrightarrow>
     sent t = sent s @ stream_bytes rid c eof p \<and> length p \<le> MAX_PAYLOAD_LEN"
  by (auto simp: write_stream_frame_def Let_def stream_bytes_def frame_bytes_def stream_flags_def
      split: if_splits dest!: write_two_ok)

lemma write_stream_frame_live:
  "healthy s \<Longrightarrow> length p \<le> MAX_PAYLOAD_LEN \<Longrightarrow>
     \<exists>t. write_stream_frame write_all rid c eof p s = (Inr (), t) \<and> healthy t"
  by (simp add: write_stream_frame_def Let_def write_two_live)

lemma write_json_frame_ok:
  "write_json_frame to_vec write_all k rid m s = (Inr u, t) \<Longrightarrow>
     \<exists>p. to_vec m = Inr p \<and> length p \<le> MAX_PAYLOAD_LEN \<and> sent t = sent s @ frame_bytes k 0 rid p"
  by (auto simp: write_json_frame_def split: sum.splits dest!: write_frame_ok)

lemma write_json_frame_live:
  "healthy s \<Longrightarrow> to_vec m = Inr p \<Longrightarrow> length p \<le> MAX_PAYLOAD_LEN \<Longrightarrow>
     \<exists>t. write_json_frame to_vec write_all k rid m s = (Inr (), t) \<and> healthy t"
  by (simp add: write_json_frame_def write_frame_live)

end

text \<open>A writer that hands bytes straight on has, after a failure, delivered a prefix of them.\<close>

locale prefix_writer = byte_writer +
  assumes write_all_prefix: "write_all bs s = (r, t) \<Longrightarrow> \<exists>k. sent t = sent s @ take k bs"
begin

lemma write_two_prefix:
  assumes "thenE (map_errE Io (write_all a)) (map_errE Io (write_all b)) s = (r, t)"
  shows "\<exists>k. sent t = sent s @ take k (a @ b)"
proof (cases "write_all a s")
  case (Pair ra s1)
  from write_all_prefix [OF Pair] obtain k where k: "sent s1 = sent s @ take k a" by blast
  show ?thesis
  proof (cases ra)
    case (Inl e)
    with Pair assms k have "sent t = sent s @ take (min k (length a)) (a @ b)"
      by (auto simp: thenE_def bindE_def map_errE_def min_def)
    then show ?thesis by blast
  next
    case (Inr u)
    with Pair have "sent s1 = sent s @ a" by (auto dest: write_all_ok)
    moreover from Inr Pair assms have "t = snd (write_all b s1)"
      by (auto simp: thenE_def bindE_def map_errE_def split: prod.splits sum.splits)
    then obtain j where "sent t = sent s1 @ take j b"
      by (metis write_all_prefix prod.collapse)
    ultimately have "sent t = sent s @ take (length a + j) (a @ b)"
      by simp
    then show ?thesis by blast
  qed
qed

lemma write_frame_prefix:
  "write_frame write_all k rid p s = (r, t) \<Longrightarrow> \<exists>n. sent t = sent s @ take n (frame_bytes k 0 rid p)"
  by (auto simp: write_frame_def Let_def frame_bytes_def split: if_splits dest!: write_two_prefix
      intro: exI [of _ 0])

lemma write_stream_frame_prefix:
  "write_stream_frame write_all rid c eof p s = (r, t) \<Longrightarrow>
     \<exists>n. sent t = sent s @ take n (stream_bytes rid c eof p)"
  by (auto simp: write_stream_frame_def Let_def stream_bytes_def frame_bytes_def stream_flags_def
      split: if_splits dest!: write_two_prefix intro: exI [of _ 0])

end

text \<open>
  What they need of a reader: a successful \<open>read_exact n\<close> takes the first \<open>n\<close> bytes of what is
  left to read, and a healthy reader with enough left succeeds.
\<close>

locale byte_reader =
  fixes read_exact :: "'r reader"
    and rest :: "'r \<Rightarrow> bytes"
    and healthy :: "'r \<Rightarrow> bool"
  assumes read_exact_ok: "read_exact n s = (Inr bs, t) \<Longrightarrow> length bs = n \<and> rest s = bs @ rest t"
    and read_exact_live: "healthy s \<Longrightarrow> n \<le> length (rest s) \<Longrightarrow>
          \<exists>t. read_exact n s = (Inr (take n (rest s)), t) \<and> rest t = drop n (rest s) \<and> healthy t"
begin

lemma read_exact_append:
  assumes "healthy s" and "rest s = a @ b" and "length a = n"
  shows "\<exists>t. read_exact n s = (Inr a, t) \<and> rest t = b \<and> healthy t"
  using read_exact_live [of s n] assms by simp

lemma read_frame_into_live:
  assumes h: "healthy s" and r: "rest s = frame_bytes k fl rid p @ bs"
    and len: "length p \<le> MAX_PAYLOAD_LEN"
  shows "\<exists>t. read_frame_into read_exact s =
      (Inr (\<lparr>h_version = PROTOCOL_VERSION, h_kind = k, h_flags = fl, h_request_id = rid,
             h_payload_len = word_of_nat (length p)\<rparr>, p), t)
    \<and> rest t = bs \<and> healthy t"
proof -
  let ?h = "\<lparr>h_version = PROTOCOL_VERSION, h_kind = k, h_flags = fl, h_request_id = rid,
             h_payload_len = word_of_nat (length p)\<rparr>"
  from h r obtain s1 where s1: "read_exact HEADER_LEN s = (Inr (header_encode ?h), s1)"
      "rest s1 = p @ bs" "healthy s1"
    using read_exact_append [of s "header_encode ?h" "p @ bs" HEADER_LEN]
    by (auto simp: frame_bytes_def)
  have dec: "header_decode (header_encode ?h) = Inr ?h"
    using len by (simp add: header_decode_encode unat_payload_len)
  from s1 obtain s2 where s2: "read_exact (length p) s1 = (Inr p, s2)" "rest s2 = bs" "healthy s2"
    using read_exact_append [of s1 p bs "length p"] by auto
  have "read_frame_into read_exact s = (Inr (?h, p), s2)"
    using s1(1) s2(1) dec len
    by (simp add: read_frame_into_def bindE_def map_errE_def unat_payload_len)
  with s2 show ?thesis by blast
qed

lemma read_frame_live:
  assumes "healthy s" and "rest s = frame_bytes k fl rid p @ bs" and "length p \<le> MAX_PAYLOAD_LEN"
  shows "\<exists>t. read_frame read_exact s =
      (Inr \<lparr>f_header = \<lparr>h_version = PROTOCOL_VERSION, h_kind = k, h_flags = fl, h_request_id = rid,
             h_payload_len = word_of_nat (length p)\<rparr>, f_payload = p\<rparr>, t)
    \<and> rest t = bs \<and> healthy t"
proof -
  from read_frame_into_live [OF assms] obtain t where
    "read_frame_into read_exact s =
      (Inr (\<lparr>h_version = PROTOCOL_VERSION, h_kind = k, h_flags = fl, h_request_id = rid,
             h_payload_len = word_of_nat (length p)\<rparr>, p), t)"
    "rest t = bs" "healthy t"
    by blast
  then show ?thesis
    by (simp add: read_frame_def bindE_def)
qed

lemma read_stream_frame_live:
  assumes "healthy s" and "rest s = stream_bytes rid c eof p @ bs" and "length p \<le> MAX_PAYLOAD_LEN"
  shows "\<exists>t. read_stream_frame_into read_exact s =
      (Inr (\<lparr>s_request_id = rid, s_channel = c, s_eof = eof\<rparr>, p), t) \<and> rest t = bs \<and> healthy t"
proof -
  from assms read_frame_into_live obtain t where
    "read_frame_into read_exact s =
      (Inr (\<lparr>h_version = PROTOCOL_VERSION, h_kind = Stream, h_flags = stream_flags c eof,
             h_request_id = rid, h_payload_len = word_of_nat (length p)\<rparr>, p), t)"
    "rest t = bs" "healthy t"
    unfolding stream_bytes_def by blast
  then show ?thesis
    by (simp add: read_stream_frame_into_def bindE_def decode_stream_frame_header_flags)
qed

lemma read_frame_into_ok:
  assumes "read_frame_into read_exact s = (Inr (h, p), t)"
  shows "length p = unat (h_payload_len h) \<and> h_version h = PROTOCOL_VERSION
    \<and> length p \<le> MAX_PAYLOAD_LEN
    \<and> (\<exists>hb. length hb = HEADER_LEN \<and> header_decode hb = Inr h \<and> rest s = hb @ p @ rest t)"
  using assms header_decode_sound
  by (auto simp: read_frame_into_def bindE_eq_Inr_iff dest!: read_exact_ok)

end

end
