(* ===== verification/Messages.thy ===== *)
theory Messages
  imports Wire
begin

text \<open>
  The messages of \<open>crates/rsdb-proto/src/lib.rs\<close>: capabilities, discovery, the error codes,
  the transfer manifest, the structured file-system types, and the request and response
  enums. \<open>u64\<close> fields (sizes, counts, times, nonces) are \<open>nat\<close>: the code only compares, adds
  and counts them down, and the sums are of sizes of files on one host. Field and constructor
  names carry a prefix where the source reuses a name.
\<close>

record capability_set =
  cap_protocol_version :: u16
  cap_transports :: "string list"
  cap_security :: "string list"
  cap_features :: "string list"

datatype discovery_request = Probe nat

record discovery_response =
  dr_nonce :: nat
  dr_server_id :: string
  dr_device_name :: string
  dr_platform :: string
  dr_tcp_port :: u16
  dr_protocol_version :: u16
  dr_features :: "string list"

datatype error_code =
    InvalidRequest | CapabilityMissing | ExecFailed | ExecStartFailed | ExecTimeout
  | FileTransferFailed | EcNotFound | FsNotFound | FsPermissionDenied | FsPreconditionFailed
  | FsNoSpace | TransferInterrupted | TransferVerificationFailed | Internal

datatype transfer_entry_kind = TFile | TDirectory

record transfer_root =
  tr_source_name :: string
  tr_kind :: transfer_entry_kind
  tr_mode :: u32

record transfer_entry =
  te_root_index :: u32
  te_relative_path :: string
  te_kind :: transfer_entry_kind
  te_mode :: u32
  te_size :: nat

datatype fs_entry_kind = FkFile | FkDirectory | FkSymlink | FkOther

datatype hash_algorithm = Sha256

datatype content_encoding = Utf8 | Base64

record agent_fs_stat =
  st_path :: string
  st_exists :: bool
  st_kind :: "fs_entry_kind option"
  st_size :: "nat option"
  st_mode :: "u32 option"
  st_mtime_unix_ms :: "nat option"
  st_sha256 :: "string option"

record agent_fs_list_entry =
  le_path :: string
  le_kind :: fs_entry_kind
  le_size :: nat
  le_sha256 :: "string option"

record agent_fs_read_result =
  rr_path :: string
  rr_encoding :: content_encoding
  rr_content :: string
  rr_bytes :: nat
  rr_truncated :: bool

record agent_fs_write_result =
  wr_path :: string
  wr_bytes_written :: nat
  wr_mode :: "u32 option"
  wr_sha256 :: "string option"
  wr_changed :: bool

record agent_fs_mkdir_result =
  mk_path :: string
  mk_created :: bool

record agent_fs_rm_result =
  rm_path :: string
  rm_removed :: bool

record agent_fs_move_result =
  mv_source :: string
  mv_destination :: string
  mv_overwritten :: bool

text \<open>The arguments of each request are in the order of the fields of the source's variant.\<close>

datatype control_request =
    Ping
  | GetCapabilities
  | Exec string "string list" "string option" "nat option" bool
      \<comment> \<open>command, args, cwd, timeout in seconds, stream\<close>
  | FsStat string "hash_algorithm option"
  | FsList string bool "u32 option" bool "hash_algorithm option"
      \<comment> \<open>path, recursive, max depth, include hidden, hash\<close>
  | FsRead string content_encoding "nat option"
  | FsWrite string string content_encoding "u32 option" bool bool bool "string option"
      \<comment> \<open>path, content, encoding, mode, create parent, atomic, if missing, if sha256\<close>
  | FsMkdir string bool "u32 option"
  | FsRm string bool bool bool
      \<comment> \<open>path, recursive, force, if exists\<close>
  | FsMove string string bool
  | Push string u32 "string option"
  | Pull string
  | PushBatch string "transfer_root list" "transfer_entry list"
  | PullBatch "string list"
  | Shell "string option" "string list" bool "string option" "u16 option" "u16 option"
      \<comment> \<open>command, args, pty, term, rows, cols\<close>

datatype control_response =
    Pong string u16
  | Capabilities string capability_set
  | ExecResult i32 string string bool
  | RFsStat agent_fs_stat
  | RFsList "agent_fs_list_entry list"
  | FsReadResult agent_fs_read_result
  | FsWriteResult agent_fs_write_result
  | FsMkdirResult agent_fs_mkdir_result
  | FsRmResult agent_fs_rm_result
  | FsMoveResult agent_fs_move_result
  | PushReady
  | PushComplete nat
  | PullMetadata nat u32
  | PullComplete nat
  | PushBatchReady
  | PushBatchComplete nat nat
  | PullBatchMetadata "transfer_root list" "transfer_entry list" nat
  | PullBatchComplete nat nat
  | ShellStarted string
  | ShellExit i32
  | ErrorResponse error_code string

section \<open>What an error prints\<close>

fun frame_kind_debug :: "frame_kind \<Rightarrow> string" where
  "frame_kind_debug Request = ''Request''"
| "frame_kind_debug Response = ''Response''"
| "frame_kind_debug Event = ''Event''"
| "frame_kind_debug Stream = ''Stream''"

fun stream_channel_debug :: "stream_channel \<Rightarrow> string" where
  "stream_channel_debug File = ''File''"
| "stream_channel_debug Stdin = ''Stdin''"
| "stream_channel_debug Stdout = ''Stdout''"
| "stream_channel_debug Stderr = ''Stderr''"

definition bytes_debug :: "bytes \<Rightarrow> string" where
  "bytes_debug bs = ''['' @ join_with '', '' (map (\<lambda>b. show_nat (unat b)) bs) @ '']''"

fun protocol_error_display :: "protocol_error \<Rightarrow> string" where
  "protocol_error_display (Io e) = ''I/O error: '' @ io_message e"
| "protocol_error_display (Json e) = ''JSON error: '' @ e"
| "protocol_error_display (InvalidMagic bs) = ''invalid magic bytes: '' @ bytes_debug bs"
| "protocol_error_display (UnsupportedVersion v) =
     ''unsupported protocol version: '' @ show_nat (unat v)"
| "protocol_error_display (UnknownFrameKind v) = ''unknown frame kind: '' @ show_nat (unat v)"
| "protocol_error_display (UnknownStreamChannel v) =
     ''unknown stream channel: '' @ show_nat (unat v)"
| "protocol_error_display InvalidDiscoveryMagic = ''invalid discovery magic bytes''"
| "protocol_error_display (PayloadTooLarge n) = ''payload too large: '' @ show_nat n @ '' bytes''"
| "protocol_error_display (DiscoveryPayloadTooLarge n) =
     ''discovery payload too large: '' @ show_nat n @ '' bytes''"
| "protocol_error_display (UnexpectedFrameKind expected actual) =
     ''expected frame kind '' @ frame_kind_debug expected @ '', got '' @ frame_kind_debug actual"

section \<open>Error chains\<close>

text \<open>
  \<open>anyhow::Error\<close> is a chain of causes, outermost first; \<open>context\<close> puts a message in front,
  \<open>to_string\<close> prints the outermost cause, and \<open>downcast_ref\<close> over \<open>chain()\<close> looks at each. A
  \<open>ProtocolError\<close> whose variant wraps another error (\<open>#[from]\<close>) has it as its source.
\<close>

datatype cause =
    CMsg string
  | CIo io_error
  | CProtocol protocol_error
  | CPrecondition string
  | CInvalidRequest string
  | CElapsed
  | CRemote error_code string

type_synonym anyhow = "cause list"

definition anyhow_msg :: "string \<Rightarrow> anyhow" where
  "anyhow_msg m = [CMsg m]"

definition anyhow_io :: "io_error \<Rightarrow> anyhow" where
  "anyhow_io e = [CIo e]"

fun anyhow_protocol :: "protocol_error \<Rightarrow> anyhow" where
  "anyhow_protocol (Io e) = [CProtocol (Io e), CIo e]"
| "anyhow_protocol (Json e) = [CProtocol (Json e), CMsg e]"
| "anyhow_protocol e = [CProtocol e]"

definition context_msg :: "string \<Rightarrow> anyhow \<Rightarrow> anyhow" where
  "context_msg m err = CMsg m # err"

text \<open>\<open>Err(e).with_context(|| m)\<close> of an I/O or protocol result.\<close>

definition io_context :: "string \<Rightarrow> io_error \<Rightarrow> anyhow" where
  "io_context m e = context_msg m (anyhow_io e)"

definition protocol_context :: "string \<Rightarrow> protocol_error \<Rightarrow> anyhow" where
  "protocol_context m e = context_msg m (anyhow_protocol e)"

fun error_code_debug :: "error_code \<Rightarrow> string" where
  "error_code_debug InvalidRequest = ''InvalidRequest''"
| "error_code_debug CapabilityMissing = ''CapabilityMissing''"
| "error_code_debug ExecFailed = ''ExecFailed''"
| "error_code_debug ExecStartFailed = ''ExecStartFailed''"
| "error_code_debug ExecTimeout = ''ExecTimeout''"
| "error_code_debug FileTransferFailed = ''FileTransferFailed''"
| "error_code_debug EcNotFound = ''NotFound''"
| "error_code_debug FsNotFound = ''FsNotFound''"
| "error_code_debug FsPermissionDenied = ''FsPermissionDenied''"
| "error_code_debug FsPreconditionFailed = ''FsPreconditionFailed''"
| "error_code_debug FsNoSpace = ''FsNoSpace''"
| "error_code_debug TransferInterrupted = ''TransferInterrupted''"
| "error_code_debug TransferVerificationFailed = ''TransferVerificationFailed''"
| "error_code_debug Internal = ''Internal''"

fun cause_display :: "cause \<Rightarrow> string" where
  "cause_display (CMsg m) = m"
| "cause_display (CIo e) = io_message e"
| "cause_display (CProtocol e) = protocol_error_display e"
| "cause_display (CPrecondition m) = m"
| "cause_display (CInvalidRequest m) = m"
| "cause_display CElapsed = ''deadline has elapsed''"
| "cause_display (CRemote c m) = ''remote error '' @ error_code_debug c @ '': '' @ m"

fun anyhow_display :: "anyhow \<Rightarrow> string" where
  "anyhow_display [] = []"
| "anyhow_display (c # cs) = cause_display c"

text \<open>\<open>err.chain().any(... io_err.kind() == expected)\<close>.\<close>

fun cause_io :: "cause \<Rightarrow> io_error option" where
  "cause_io (CIo e) = Some e"
| "cause_io _ = None"

definition has_io_error_kind :: "anyhow \<Rightarrow> io_kind \<Rightarrow> bool" where
  "has_io_error_kind err expected \<longleftrightarrow>
     list_ex (\<lambda>c. case cause_io c of None \<Rightarrow> False | Some e \<Rightarrow> io_kind e = expected) err"

definition has_storage_full_error :: "anyhow \<Rightarrow> bool" where
  "has_storage_full_error err \<longleftrightarrow>
     list_ex (\<lambda>c. case cause_io c of None \<Rightarrow> False
                  | Some e \<Rightarrow> io_kind e = StorageFull \<or> io_raw_os_error e = Some 28) err"

fun is_precondition_cause :: "cause \<Rightarrow> bool" where
  "is_precondition_cause (CPrecondition _) = True"
| "is_precondition_cause _ = False"

fun is_invalid_request_cause :: "cause \<Rightarrow> bool" where
  "is_invalid_request_cause (CInvalidRequest _) = True"
| "is_invalid_request_cause _ = False"

definition is_precondition_error :: "anyhow \<Rightarrow> bool" where
  "is_precondition_error err \<longleftrightarrow> list_ex is_precondition_cause err"

definition is_invalid_request_error :: "anyhow \<Rightarrow> bool" where
  "is_invalid_request_error err \<longleftrightarrow> list_ex is_invalid_request_cause err"

definition classify_pull_error :: "anyhow \<Rightarrow> error_code" where
  "classify_pull_error err =
     (if has_io_error_kind err NotFound then EcNotFound else FileTransferFailed)"

definition classify_fs_error :: "anyhow \<Rightarrow> error_code" where
  "classify_fs_error err =
     (if is_invalid_request_error err then InvalidRequest
      else if is_precondition_error err then FsPreconditionFailed
      else if has_io_error_kind err NotFound then FsNotFound
      else if has_io_error_kind err PermissionDenied then FsPermissionDenied
      else if has_storage_full_error err then FsNoSpace
      else Internal)"

text \<open>A context message never changes how an error is classified: messages are no causes that count.\<close>

lemma context_msg_transparent [simp]:
  "has_io_error_kind (context_msg m err) k = has_io_error_kind err k"
  "has_storage_full_error (context_msg m err) = has_storage_full_error err"
  "is_precondition_error (context_msg m err) = is_precondition_error err"
  "is_invalid_request_error (context_msg m err) = is_invalid_request_error err"
  by (simp_all add: context_msg_def has_io_error_kind_def has_storage_full_error_def
      is_precondition_error_def is_invalid_request_error_def)

lemma classify_context [simp]:
  "classify_fs_error (context_msg m err) = classify_fs_error err"
  "classify_pull_error (context_msg m err) = classify_pull_error err"
  by (simp_all add: classify_fs_error_def classify_pull_error_def)

lemma classify_fs_io [simp]:
  "classify_fs_error (io_context m e) =
     (case io_kind e of NotFound \<Rightarrow> FsNotFound | PermissionDenied \<Rightarrow> FsPermissionDenied
      | StorageFull \<Rightarrow> FsNoSpace
      | _ \<Rightarrow> if io_raw_os_error e = Some 28 then FsNoSpace else Internal)"
  by (cases "io_kind e") (simp_all add: io_context_def context_msg_def classify_fs_error_def anyhow_io_def
      has_io_error_kind_def has_storage_full_error_def is_precondition_error_def
      is_invalid_request_error_def)

end
