(* ===== verification/Paths.thy ===== *)
theory Paths
  imports Messages "HOL-Library.List_Lexorder" "HOL-Library.Char_ord"
begin

text \<open>
  \<open>std::path\<close> on Unix, on the strings that the code holds in \<open>PathBuf\<close>s: the component
  iterator and the \<open>parent\<close>, \<open>file_name\<close>, \<open>join\<close> and \<open>strip_prefix\<close> derived from it; then
  the path helpers that \<open>device/rsdbd/src/main.rs\<close> and \<open>crates/rsdb-cli/src/main.rs\<close> both
  declare (the CLI's copies carry the prefix \<open>cli_\<close>). \<open>Path::display\<close> is \<open>display\<close>.
\<close>

section \<open>Components\<close>

datatype component = RootDir | CurDir | ParentDir | Normal string

text \<open>
  The component order of \<open>std\<close> (the declaration order of the constructors, names by their
  bytes); \<open>PathBuf\<close>s are sorted by their component lists.
\<close>

fun component_rank :: "component \<Rightarrow> nat \<times> string" where
  "component_rank RootDir = (0, [])"
| "component_rank CurDir = (1, [])"
| "component_rank ParentDir = (2, [])"
| "component_rank (Normal n) = (3, n)"

instantiation component :: linorder
begin

definition less_eq_component :: "component \<Rightarrow> component \<Rightarrow> bool" where
  "less_eq_component c d \<longleftrightarrow>
     fst (component_rank c) < fst (component_rank d) \<or>
     fst (component_rank c) = fst (component_rank d) \<and> snd (component_rank c) \<le> snd (component_rank d)"

definition less_component :: "component \<Rightarrow> component \<Rightarrow> bool" where
  "less_component c d \<longleftrightarrow>
     fst (component_rank c) < fst (component_rank d) \<or>
     fst (component_rank c) = fst (component_rank d) \<and> snd (component_rank c) < snd (component_rank d)"

instance
proof
  fix c d e :: component
  show "(c < d) = (c \<le> d \<and> \<not> d \<le> c)"
    by (auto simp: less_eq_component_def less_component_def)
  show "c \<le> c"
    by (simp add: less_eq_component_def)
  show "c \<le> d \<Longrightarrow> d \<le> e \<Longrightarrow> c \<le> e"
    by (auto simp: less_eq_component_def)
  show "c \<le> d \<Longrightarrow> d \<le> c \<Longrightarrow> c = d"
    by (cases c; cases d) (auto simp: less_eq_component_def)
  show "c \<le> d \<or> d \<le> c"
    by (auto simp: less_eq_component_def)
qed

end

definition path_pre :: "string \<Rightarrow> string" where
  "path_pre s =
     (if starts_with s ''/'' then ''/''
      else if s = ''.'' \<or> starts_with s ''./'' then ''.'' else [])"

definition path_parts :: "string \<Rightarrow> string list" where
  "path_parts s = split_on (CHR ''/'') (drop (length (path_pre s)) s)"

definition trivial_part :: "string \<Rightarrow> bool" where
  "trivial_part p \<longleftrightarrow> p = [] \<or> p = ''.''"

definition part_component :: "string \<Rightarrow> component" where
  "part_component p = (if p = ''..'' then ParentDir else Normal p)"

definition pre_component :: "string \<Rightarrow> component list" where
  "pre_component p = (if p = ''/'' then [RootDir] else if p = ''.'' then [CurDir] else [])"

definition components :: "string \<Rightarrow> component list" where
  "components s =
     pre_component (path_pre s) @ map part_component (filter (\<lambda>p. \<not> trivial_part p) (path_parts s))"

definition drop_trivial :: "string list \<Rightarrow> string list" where
  "drop_trivial ps = rev (dropWhile trivial_part (rev ps))"

definition parent_path :: "string \<Rightarrow> string option" where
  "parent_path s =
     (let ps = drop_trivial (path_parts s)
      in if ps = [] then (if path_pre s = ''.'' then Some [] else None)
         else Some (path_pre s @ join_with ''/'' (drop_trivial (butlast ps))))"

definition file_name :: "string \<Rightarrow> string option" where
  "file_name s =
     (let ps = drop_trivial (path_parts s)
      in if ps = [] \<or> last ps = ''..'' then None else Some (last ps))"

definition is_absolute :: "string \<Rightarrow> bool" where
  "is_absolute s \<longleftrightarrow> starts_with s ''/''"

definition path_join :: "string \<Rightarrow> string \<Rightarrow> string" where
  "path_join a b =
     (if is_absolute b then b
      else if a \<noteq> [] \<and> last a \<noteq> CHR ''/'' then a @ ''/'' @ b
      else a @ b)"

text \<open>
  \<open>path.strip_prefix(root)\<close>, kept as the components of the remaining path; the iterator has
  passed the root, so the remaining path has no leading \<open>.\<close> of its own. Where the code
  prints the remaining path, the model prints these components with single separators.
\<close>

definition strip_prefix_components :: "string \<Rightarrow> string \<Rightarrow> component list option" where
  "strip_prefix_components path root =
     (if take (length (components root)) (components path) = components root
      then Some (drop (length (components root)) (components path)) else None)"

text \<open>A name that \<open>read_dir\<close> can return and that \<open>Component::Normal\<close> can hold.\<close>

definition proper_name :: "string \<Rightarrow> bool" where
  "proper_name n \<longleftrightarrow> \<not> trivial_part n \<and> n \<noteq> ''..'' \<and> CHR ''/'' \<notin> set n"

lemma components_Nil [simp]: "components [] = []"
  by (simp add: components_def path_pre_def path_parts_def pre_component_def trivial_part_def
      starts_with_def)

lemma components_Normal: "Normal n \<in> set (components s) \<Longrightarrow> proper_name n"
  using split_on_parts
  by (fastforce simp: components_def pre_component_def part_component_def proper_name_def
      path_parts_def split: if_splits)

lemma not_starts_slash: "CHR ''/'' \<notin> set n \<Longrightarrow> \<not> starts_with n ''/''"
  by (auto simp: starts_with_iff)

lemma path_pre_append:
  assumes "a \<noteq> []"
  shows "path_pre (a @ CHR ''/'' # b) = path_pre a"
proof -
  have "starts_with (a @ CHR ''/'' # b) ''/'' = starts_with a ''/''"
    using assms by (cases a) (auto simp: starts_with_def)
  moreover have "a @ CHR ''/'' # b \<noteq> ''.''"
    using assms by (cases a) auto
  moreover have "starts_with (a @ CHR ''/'' # b) ''./'' \<longleftrightarrow> a = ''.'' \<or> starts_with a ''./''"
    using assms by (cases a rule: list.exhaust; cases "tl a") (auto simp: starts_with_def)
  ultimately show ?thesis
    by (simp add: path_pre_def)
qed

lemma path_pre_length: "length (path_pre a) \<le> length a"
  by (auto simp: path_pre_def starts_with_iff)

lemma components_append:
  assumes "a \<noteq> []"
  shows "components (a @ CHR ''/'' # b) =
    components a @ map part_component (filter (\<lambda>p. \<not> trivial_part p) (split_on (CHR ''/'') b))"
  using path_pre_length [of a]
  by (simp add: components_def path_parts_def path_pre_append [OF assms] split_on_append_sep)

lemma components_proper:
  assumes "proper_name n"
  shows "components n = [Normal n]"
proof -
  have "\<not> starts_with n ''./''" "\<not> starts_with n ''/''"
    using assms by (auto simp: proper_name_def starts_with_iff)
  with assms show ?thesis
    by (simp add: components_def path_parts_def path_pre_def pre_component_def proper_name_def
        trivial_part_def part_component_def split_on_no_sep)
qed

lemma components_slash: "components (a @ ''/'') = (if a = [] then [RootDir] else components a)"
proof (cases "a = []")
  case True
  then show ?thesis
    by (simp add: components_def path_parts_def path_pre_def pre_component_def trivial_part_def
        starts_with_def)
next
  case False
  then show ?thesis
    using components_append [of a "[]"] by (simp add: trivial_part_def)
qed

lemma components_root_name:
  assumes "proper_name n"
  shows "components (CHR ''/'' # n) = [RootDir, Normal n]"
  using assms
  by (simp add: components_def path_parts_def path_pre_def pre_component_def starts_with_def
      split_on_no_sep proper_name_def part_component_def)

text \<open>Joining a proper name extends the component list by that name, whatever the base.\<close>

lemma components_join:
  assumes n: "proper_name n"
  shows "components (path_join a n) = components a @ [Normal n]"
proof -
  have rel: "\<not> is_absolute n"
    using n by (simp add: is_absolute_def not_starts_slash proper_name_def)
  have one: "map part_component (filter (\<lambda>p. \<not> trivial_part p) (split_on (CHR ''/'') n)) = [Normal n]"
    using n by (simp add: split_on_no_sep proper_name_def part_component_def)
  show ?thesis
  proof (cases "a = []")
    case True
    with rel n show ?thesis by (simp add: path_join_def components_proper)
  next
    case a: False
    show ?thesis
    proof (cases "last a = CHR ''/''")
      case False
      with a rel one show ?thesis by (simp add: path_join_def components_append)
    next
      case True
      with a obtain a' where a': "a = a' @ ''/''"
        by (metis append_butlast_last_id)
      with rel have j: "path_join a n = a' @ CHR ''/'' # n"
        by (simp add: path_join_def)
      show ?thesis
      proof (cases "a' = []")
        case True
        with j a' n show ?thesis by (simp add: components_root_name components_slash [of "[]", simplified])
      next
        case False
        then show ?thesis
          using one unfolding j by (simp add: a' components_append components_slash)
      qed
    qed
  qed
qed

lemma path_join_absolute: "is_absolute b \<Longrightarrow> path_join a b = b"
  by (simp add: path_join_def)

section \<open>The path helpers of the transfer code\<close>

fun push_normals :: "string \<Rightarrow> string \<Rightarrow> component list \<Rightarrow> anyhow + string" where
  "push_normals relative_path resolved [] = Inr resolved"
| "push_normals relative_path resolved (c # cs) =
     (case c of
        Normal part \<Rightarrow> push_normals relative_path (path_join resolved part) cs
      | _ \<Rightarrow> Inl (anyhow_msg (''invalid transfer path: '' @ relative_path)))"

definition join_transfer_relative_path :: "string \<Rightarrow> string \<Rightarrow> anyhow + string" where
  "join_transfer_relative_path base relative_path =
     (if relative_path = [] then Inr base
      else push_normals relative_path base (components relative_path))"

definition resolve_transfer_entry_path :: "string list \<Rightarrow> transfer_entry \<Rightarrow> anyhow + string" where
  "resolve_transfer_entry_path root_paths entry =
     (let i = unat (te_root_index entry)
      in if i < length root_paths
         then join_transfer_relative_path (root_paths ! i) (te_relative_path entry)
         else Inl (anyhow_msg (''invalid transfer root index '' @ show_nat i)))"

fun normal_parts :: "component list \<Rightarrow> string list option" where
  "normal_parts [] = Some []"
| "normal_parts (c # cs) =
     (case c of
        Normal part \<Rightarrow> (case normal_parts cs of None \<Rightarrow> None | Some ps \<Rightarrow> Some (part # ps))
      | _ \<Rightarrow> None)"

definition path_to_transfer_string :: "string \<Rightarrow> anyhow + string" where
  "path_to_transfer_string path =
     (if path = [] then Inr []
      else case normal_parts (components path) of
             Some parts \<Rightarrow> Inr (join_with ''/'' (map display parts))
           | None \<Rightarrow> Inl (anyhow_msg (''invalid transfer path: '' @ display path)))"

definition has_glob_pattern :: "string \<Rightarrow> bool" where
  "has_glob_pattern value \<longleftrightarrow> list_ex (\<lambda>c. c = CHR ''*'' \<or> c = CHR ''?'' \<or> c = CHR ''['') value"

definition cli_join_transfer_relative_path :: "string \<Rightarrow> string \<Rightarrow> anyhow + string" where
  "cli_join_transfer_relative_path base relative_path =
     (if relative_path = [] then Inr base
      else push_normals relative_path base (components relative_path))"

definition cli_resolve_transfer_entry_path :: "string list \<Rightarrow> transfer_entry \<Rightarrow> anyhow + string" where
  "cli_resolve_transfer_entry_path root_paths entry =
     (let i = unat (te_root_index entry)
      in if i < length root_paths
         then cli_join_transfer_relative_path (root_paths ! i) (te_relative_path entry)
         else Inl (anyhow_msg (''invalid transfer root index '' @ show_nat i)))"

definition cli_path_to_transfer_string :: "string \<Rightarrow> anyhow + string" where
  "cli_path_to_transfer_string path =
     (if path = [] then Inr []
      else case normal_parts (components path) of
             Some parts \<Rightarrow> Inr (join_with ''/'' (map display parts))
           | None \<Rightarrow> Inl (anyhow_msg (''invalid transfer path: '' @ display path)))"

definition cli_has_glob_pattern :: "string \<Rightarrow> bool" where
  "cli_has_glob_pattern value \<longleftrightarrow> list_ex (\<lambda>c. c = CHR ''*'' \<or> c = CHR ''?'' \<or> c = CHR ''['') value"

fun component_display :: "component \<Rightarrow> string" where
  "component_display RootDir = ''/''"
| "component_display CurDir = ''.''"
| "component_display ParentDir = ''..''"
| "component_display (Normal n) = n"

definition relative_transfer_path :: "string \<Rightarrow> string \<Rightarrow> anyhow + string" where
  "relative_transfer_path root path =
     (if components root = components path then Inr []
      else case strip_prefix_components path root of
             None \<Rightarrow> Inl (context_msg (''path '' @ display path @ '' is not under root '' @ display root)
                         (anyhow_msg ''prefix not found''))
           | Some rel \<Rightarrow>
               (case normal_parts rel of
                  Some parts \<Rightarrow> Inr (join_with ''/'' (map display parts))
                | None \<Rightarrow> Inl (anyhow_msg (''invalid transfer path: '' @ display (join_with ''/'' (map component_display rel))))))"

lemma cli_join_transfer_relative_path_eq:
  "cli_join_transfer_relative_path = join_transfer_relative_path"
  by (intro ext) (simp add: cli_join_transfer_relative_path_def join_transfer_relative_path_def)

lemma cli_resolve_transfer_entry_path_eq:
  "cli_resolve_transfer_entry_path = resolve_transfer_entry_path"
  by (intro ext)
    (simp only: cli_resolve_transfer_entry_path_def resolve_transfer_entry_path_def
      cli_join_transfer_relative_path_eq)

lemma push_normals_ok:
  assumes "push_normals r base cs = Inr p" and "\<And>n. Normal n \<in> set cs \<Longrightarrow> proper_name n"
  shows "components p = components base @ cs \<and> (\<exists>ps. cs = map Normal ps)"
  using assms
proof (induction cs arbitrary: base)
  case (Cons c cs)
  then obtain n where c: "c = Normal n"
    by (auto split: component.splits)
  with Cons.prems have n: "proper_name n" by simp
  have "components p = components (path_join base n) @ cs \<and> (\<exists>ps. cs = map Normal ps)"
    using Cons c by simp
  with n c show ?case
    by (auto simp: components_join intro: exI [of _ "n # _"])
qed simp

lemma push_normals_Inr:
  "(\<exists>p. push_normals r base cs = Inr p) \<longleftrightarrow> (\<exists>ps. cs = map Normal ps)"
proof (induction cs arbitrary: base)
  case (Cons c cs)
  then show ?case
    by (cases c) (auto simp: Cons_eq_map_conv)
qed simp

lemma join_transfer_relative_path_ok:
  assumes "join_transfer_relative_path base rel = Inr p"
  shows "\<exists>ps. components rel = map Normal ps \<and> components p = components base @ map Normal ps
    \<and> (\<forall>n \<in> set ps. proper_name n)"
proof (cases "rel = []")
  case True
  with assms show ?thesis by (simp add: join_transfer_relative_path_def)
next
  case False
  with assms have "push_normals rel base (components rel) = Inr p"
    by (simp add: join_transfer_relative_path_def)
  then have "components p = components base @ components rel \<and> (\<exists>ps. components rel = map Normal ps)"
    by (rule push_normals_ok) (rule components_Normal)
  then obtain ps where
    "components rel = map Normal ps" "components p = components base @ components rel"
    by blast
  moreover from this(1) have "\<forall>n \<in> set ps. proper_name n"
    using components_Normal [of _ rel] by auto
  ultimately show ?thesis by auto
qed

lemma normal_parts_map: "normal_parts (map Normal ps) = Some ps"
  by (induction ps) auto

lemma normal_parts_Some: "normal_parts cs = Some ps \<longleftrightarrow> cs = map Normal ps"
proof
  show "normal_parts cs = Some ps \<Longrightarrow> cs = map Normal ps"
    by (induction cs arbitrary: ps) (auto split: component.splits option.splits)
qed (simp add: normal_parts_map)

text \<open>A relative path written by one side is read back by the other with the same components.\<close>

lemma components_join_with:
  assumes "ps \<noteq> []" "\<forall>n \<in> set ps. proper_name n"
  shows "components (join_with ''/'' ps) = map Normal ps"
  using assms
proof (induction ps rule: induct_list012)
  case (3 p q ps)
  have "components (p @ CHR ''/'' # join_with ''/'' (q # ps)) =
    components p @ map part_component (filter (\<lambda>p. \<not> trivial_part p)
      (split_on (CHR ''/'') (join_with ''/'' (q # ps))))"
    using 3(4) by (intro components_append) (auto simp: proper_name_def trivial_part_def)
  also have "split_on (CHR ''/'') (join_with ''/'' (q # ps)) = q # ps"
    using 3(4) by (intro split_on_join) (auto simp: proper_name_def)
  also have "map part_component (filter (\<lambda>p. \<not> trivial_part p) (q # ps)) = map Normal (q # ps)"
    using 3(4) by (auto simp: proper_name_def part_component_def filter_True)
  finally show ?case
    using 3(4) by (simp add: components_proper)
qed (auto simp: components_proper)

text \<open>\<open>file_name\<close> is the last component, when that is a name.\<close>

lemma drop_trivial_eq_Nil: "drop_trivial ps = [] \<longleftrightarrow> filter (\<lambda>p. \<not> trivial_part p) ps = []"
  by (auto simp: drop_trivial_def filter_empty_conv)

lemma last_drop_trivial_filter:
  "drop_trivial ps \<noteq> [] \<Longrightarrow> last (drop_trivial ps) = last (filter (\<lambda>p. \<not> trivial_part p) ps)"
  by (induction ps rule: rev_induct) (auto simp: drop_trivial_def)

lemma file_name_components:
  "file_name s =
     (if components s = [] then None
      else case last (components s) of Normal n \<Rightarrow> Some n | _ \<Rightarrow> None)"
  using drop_trivial_eq_Nil [of "path_parts s"] last_drop_trivial_filter [of "path_parts s"]
  by (auto simp: file_name_def components_def Let_def pre_component_def part_component_def last_map)

lemma file_name_join: "proper_name n \<Longrightarrow> file_name (path_join a n) = Some n"
  by (simp add: file_name_components components_join)

end
