(* ===== verification/World.thy ===== *)
theory World
  imports Paths
begin

text \<open>
  What the daemon's handlers act on: a file system, one connection, and the library code that
  is not part of the repository.

  \<^item> The file system maps locations (the names from the root down) to inodes. Paths resolve
    name by name, through \<open>.\<close>, \<open>..\<close> and symbolic links (at most 40 of them, as on Linux). The
    daemon runs as root, so permission bits are stored and never checked.
  \<^item> Every system call first takes a decision from the schedule: it proceeds, it is cut short
    (a read returns fewer bytes than asked for), or it fails with an error the environment
    chooses, after part of its effect where a call can stop half way. An empty schedule means
    that nothing goes wrong. Claims that hold for every schedule hold whatever fails.
  \<^item> The connection is the bytes the peer has sent and not yet been read (followed by end of
    file) and the bytes written to it. A \<open>BufWriter\<close> keeps its bytes in \<open>wbuf\<close>.

  One handler runs at a time on a world; an open file is the location it was opened at, or
  the bytes still to be read from it.
\<close>

section \<open>State\<close>

datatype file_type = FtFile | FtDir | FtSymlink | FtOther

record inode =
  i_type :: file_type
  i_data :: bytes
  i_mode :: u32
  i_mtime :: int

type_synonym loc = "string list"

datatype decision = Proceed | Short nat | Fail io_error nat

record world =
  nodes :: "(loc \<times> inode) list"
  cwd :: loc
  umask :: u32
  clock :: int
  sched :: "decision list"
  inp :: bytes
  outp :: bytes
  wbuf :: bytes

type_synonym 'a io = "(world, io_error, 'a) act"
type_synonym 'a app = "(world, anyhow, 'a) act"

text \<open>
  The libraries: \<open>serde_json\<close> on the messages, \<open>base64\<close>, \<open>sha2\<close>, \<open>glob\<close>, and tokio's
  \<open>BufWriter\<close> (given its capacity, its buffer and the bytes to write: what it passes on and
  what it keeps).
\<close>

record libs =
  request_to_vec :: "control_request \<Rightarrow> string + bytes"
  request_from_slice :: "bytes \<Rightarrow> string + control_request"
  response_to_vec :: "control_response \<Rightarrow> string + bytes"
  response_from_slice :: "bytes \<Rightarrow> string + control_response"
  probe_to_vec :: "discovery_request \<Rightarrow> string + bytes"
  probe_from_slice :: "bytes \<Rightarrow> string + discovery_request"
  announce_to_vec :: "discovery_response \<Rightarrow> string + bytes"
  announce_from_slice :: "bytes \<Rightarrow> string + discovery_response"
  base64_encode :: "bytes \<Rightarrow> string"
  base64_decode :: "string \<Rightarrow> string + bytes"
  sha256_digest :: "bytes \<Rightarrow> bytes"
  glob_with :: "(loc \<times> inode) list \<Rightarrow> string \<Rightarrow> string + (io_error + string) list"
  bufwriter_put :: "nat \<Rightarrow> bytes \<Rightarrow> bytes \<Rightarrow> bytes \<times> bytes"

section \<open>Errors of the system calls\<close>

definition os_error :: "io_kind \<Rightarrow> int \<Rightarrow> string \<Rightarrow> io_error" where
  "os_error k n m =
     \<lparr>io_kind = k, io_raw_os_error = Some n,
      io_message = m @ '' (os error '' @ show_int n @ '')''\<rparr>"

definition custom_error :: "io_kind \<Rightarrow> string \<Rightarrow> io_error" where
  "custom_error k m = \<lparr>io_kind = k, io_raw_os_error = None, io_message = m\<rparr>"

definition enoent :: io_error where
  "enoent = os_error NotFound 2 ''No such file or directory''"

definition eexist :: io_error where
  "eexist = os_error AlreadyExists 17 ''File exists''"

definition ebusy :: io_error where
  "ebusy = os_error OtherIo 16 ''Device or resource busy''"

definition enotdir :: io_error where
  "enotdir = os_error NotADirectory 20 ''Not a directory''"

definition eisdir :: io_error where
  "eisdir = os_error IsADirectory 21 ''Is a directory''"

definition einval :: io_error where
  "einval = os_error InvalidInput 22 ''Invalid argument''"

definition enotempty :: io_error where
  "enotempty = os_error DirectoryNotEmpty 39 ''Directory not empty''"

definition eloop :: io_error where
  "eloop = os_error FilesystemLoop 40 ''Too many levels of symbolic links''"

lemmas errno_defs = enoent_def eexist_def ebusy_def enotdir_def eisdir_def einval_def
  enotempty_def eloop_def os_error_def

lemma errno_kinds [simp]:
  "io_kind enoent = NotFound" "io_kind eexist = AlreadyExists" "io_kind ebusy = OtherIo"
  "io_kind enotdir = NotADirectory" "io_kind eisdir = IsADirectory" "io_kind einval = InvalidInput"
  "io_kind enotempty = DirectoryNotEmpty" "io_kind eloop = FilesystemLoop"
  by (simp_all add: errno_defs)

section \<open>Looking paths up\<close>

definition look :: "world \<Rightarrow> loc \<Rightarrow> inode option" where
  "look w q = map_of (nodes w) q"

definition dir_at :: "world \<Rightarrow> loc \<Rightarrow> bool" where
  "dir_at w q \<longleftrightarrow> (case look w q of None \<Rightarrow> False | Some nd \<Rightarrow> i_type nd = FtDir)"

text \<open>
  \<open>walk m follow n cur ps\<close> resolves the parts \<open>ps\<close> from the directory \<open>cur\<close>, following at most
  \<open>n\<close> symbolic links; a link in the last place is followed only on request. The last name need
  not exist.
\<close>

function walk :: "(loc \<Rightarrow> inode option) \<Rightarrow> bool \<Rightarrow> nat \<Rightarrow> loc \<Rightarrow> string list \<Rightarrow> io_error + loc" where
  "walk m follow n cur [] = Inr cur"
| "walk m follow n cur (p # ps) =
     (if trivial_part p then walk m follow n cur ps
      else if p = ''..'' then walk m follow n (butlast cur) ps
      else
        case m (cur @ [p]) of
          None \<Rightarrow> if ps = [] then Inr (cur @ [p]) else Inl enoent
        | Some nd \<Rightarrow>
            (case i_type nd of
               FtDir \<Rightarrow> walk m follow n (cur @ [p]) ps
             | FtSymlink \<Rightarrow>
                 if ps = [] \<and> \<not> follow then Inr (cur @ [p])
                 else if n = 0 then Inl eloop
                 else
                   let target = from_bytes (i_data nd)
                   in walk m follow (n - 1) (if is_absolute target then [] else cur)
                        (split_on (CHR ''/'') target @ ps)
             | _ \<Rightarrow> if ps = [] then Inr (cur @ [p]) else Inl enotdir))"
  by pat_completeness auto
termination
  by (relation "measures [\<lambda>(m, follow, n, cur, ps). n, \<lambda>(m, follow, n, cur, ps). length ps]") auto

definition resolve_parts :: "world \<Rightarrow> bool \<Rightarrow> string \<Rightarrow> string list \<Rightarrow> io_error + loc" where
  "resolve_parts w follow s ps =
     (if s = [] then Inl enoent
      else walk (look w) follow 40 (if is_absolute s then [] else cwd w) ps)"

definition resolve :: "world \<Rightarrow> bool \<Rightarrow> string \<Rightarrow> io_error + loc" where
  "resolve w follow s = resolve_parts w follow s (split_on (CHR ''/'') s)"

text \<open>Where a new directory goes: \<open>mkdir\<close> accepts a trailing separator and never follows the last name.\<close>

definition resolve_new :: "world \<Rightarrow> string \<Rightarrow> io_error + loc" where
  "resolve_new w s = resolve_parts w False s (drop_trivial (split_on (CHR ''/'') s))"

section \<open>System calls\<close>

definition with_decision :: "(decision \<Rightarrow> 'a io) \<Rightarrow> 'a io" where
  "with_decision f w =
     (case sched w of [] \<Rightarrow> f Proceed w | d # ds \<Rightarrow> f d (w\<lparr>sched := ds\<rparr>))"

text \<open>A call that either does all of its work or fails with no effect.\<close>

definition syscall :: "'a io \<Rightarrow> 'a io" where
  "syscall m = with_decision (\<lambda>d. case d of Fail e _ \<Rightarrow> failE e | _ \<Rightarrow> m)"

record fs_metadata =
  md_type :: file_type
  md_len :: nat
  md_mode :: u32
  md_mtime :: int

definition metadata_of :: "inode \<Rightarrow> fs_metadata" where
  "metadata_of nd =
     \<lparr>md_type = i_type nd, md_len = length (i_data nd), md_mode = i_mode nd, md_mtime = i_mtime nd\<rparr>"

definition sys_stat :: "bool \<Rightarrow> string \<Rightarrow> fs_metadata io" where
  "sys_stat follow path = syscall (\<lambda>w.
     case resolve w follow path of
       Inl e \<Rightarrow> (Inl e, w)
     | Inr q \<Rightarrow> (case look w q of None \<Rightarrow> (Inl enoent, w) | Some nd \<Rightarrow> (Inr (metadata_of nd), w)))"

abbreviation symlink_metadata :: "string \<Rightarrow> fs_metadata io" where
  "symlink_metadata \<equiv> sys_stat False"

abbreviation metadata :: "string \<Rightarrow> fs_metadata io" where
  "metadata \<equiv> sys_stat True"

definition children :: "world \<Rightarrow> loc \<Rightarrow> string list" where
  "children w q = map last (filter (\<lambda>k. k \<noteq> [] \<and> butlast k = q) (map fst (nodes w)))"

text \<open>The names of a directory, in the order the file system happens to keep them.\<close>

definition sys_read_dir :: "string \<Rightarrow> string list io" where
  "sys_read_dir path = syscall (\<lambda>w.
     case resolve w True path of
       Inl e \<Rightarrow> (Inl e, w)
     | Inr q \<Rightarrow>
         (case look w q of
            None \<Rightarrow> (Inl enoent, w)
          | Some nd \<Rightarrow> if i_type nd = FtDir then (Inr (children w q), w) else (Inl enotdir, w)))"

definition set_node :: "loc \<Rightarrow> inode \<Rightarrow> world \<Rightarrow> world" where
  "set_node q nd w = w\<lparr>nodes := AList.update q nd (nodes w)\<rparr>"

definition del_nodes :: "(loc \<Rightarrow> bool) \<Rightarrow> world \<Rightarrow> world" where
  "del_nodes P w = w\<lparr>nodes := filter (\<lambda>(k, _). \<not> P k) (nodes w)\<rparr>"

text \<open>Link a new inode at a free location of an existing directory.\<close>

definition link_new :: "loc \<Rightarrow> inode \<Rightarrow> unit io" where
  "link_new q nd w =
     (if look w q \<noteq> None then (Inl eexist, w)
      else if q \<noteq> [] \<and> dir_at w (butlast q) then (Inr (), set_node q nd w)
      else (Inl enoent, w))"

definition new_inode :: "file_type \<Rightarrow> u32 \<Rightarrow> world \<Rightarrow> inode" where
  "new_inode t mode w =
     \<lparr>i_type = t, i_data = [], i_mode = mode AND NOT (umask w), i_mtime = clock w\<rparr>"

definition sys_create_dir :: "string \<Rightarrow> unit io" where
  "sys_create_dir path = syscall (\<lambda>w.
     case resolve_new w path of
       Inl e \<Rightarrow> (Inl e, w)
     | Inr q \<Rightarrow> link_new q (new_inode FtDir 0x1FF w) w)"

text \<open>\<open>path.is_dir()\<close>: false on any error.\<close>

definition path_is_dir :: "string \<Rightarrow> bool io" where
  "path_is_dir path w =
     (case metadata path w of
        (Inl e, w') \<Rightarrow> (Inr False, w')
      | (Inr md, w') \<Rightarrow> (Inr (md_type md = FtDir), w'))"

lemma length_join_with_append:
  "length (join_with ''/'' xs) \<le> length (join_with ''/'' (xs @ ys))"
proof (induction xs rule: induct_list012)
  case (2 x)
  show ?case by (cases ys) auto
qed auto

lemma length_join_with_snoc:
  "y \<noteq> [] \<Longrightarrow> length (join_with ''/'' xs) < length (join_with ''/'' (xs @ [y]))"
  by (induction xs rule: induct_list012) auto

lemma drop_trivial_take: "\<exists>k. drop_trivial ps = take k ps"
  unfolding drop_trivial_def
  by (metis append_eq_conv_conj rev_append rev_rev_ident takeWhile_dropWhile_id)

lemma length_join_drop_trivial:
  "length (join_with ''/'' (drop_trivial ps)) \<le> length (join_with ''/'' ps)"
  using drop_trivial_take [of ps] length_join_with_append by (metis append_take_drop_id)

lemma last_drop_trivial: "drop_trivial ps \<noteq> [] \<Longrightarrow> \<not> trivial_part (last (drop_trivial ps))"
  using hd_dropWhile [of trivial_part "rev ps"] by (auto simp: drop_trivial_def last_rev)

lemma length_parent_path: "parent_path s = Some p \<Longrightarrow> length p < length s"
proof -
  assume p: "parent_path s = Some p"
  let ?ps = "drop_trivial (path_parts s)"
  have s: "length (path_pre s) + length (join_with ''/'' (path_parts s)) = length s"
    using path_pre_length [of s] by (simp add: path_parts_def join_split_on)
  show ?thesis
  proof (cases "?ps = []")
    case True
    with p have "p = []" "path_pre s = ''.''"
      by (auto simp: parent_path_def Let_def split: if_splits)
    with s show ?thesis by (cases s) auto
  next
    case False
    then have "length (join_with ''/'' (butlast ?ps)) < length (join_with ''/'' ?ps)"
      using length_join_with_snoc [of "last ?ps" "butlast ?ps"] last_drop_trivial [of "path_parts s"]
      by (auto simp: trivial_part_def)
    with s p False show ?thesis
      using length_join_drop_trivial [of "butlast ?ps"] length_join_drop_trivial [of "path_parts s"]
      by (auto simp: parent_path_def Let_def)
  qed
qed

function create_dir_all :: "string \<Rightarrow> unit io" where
  "create_dir_all path =
     (if components path = [] then retE ()
      else
        bindE (tryE (sys_create_dir path)) (\<lambda>r.
        case r of
          Inr _ \<Rightarrow> retE ()
        | Inl e \<Rightarrow>
            if io_kind e = NotFound then
              (case parent_path path of
                 None \<Rightarrow> failE (custom_error OtherIo ''failed to create whole tree'')
               | Some p \<Rightarrow>
                   thenE (create_dir_all p)
                     (bindE (tryE (sys_create_dir path)) (\<lambda>r2.
                      case r2 of
                        Inr _ \<Rightarrow> retE ()
                      | Inl e2 \<Rightarrow>
                          bindE (path_is_dir path) (\<lambda>b. if b then retE () else failE e2))))
            else bindE (path_is_dir path) (\<lambda>b. if b then retE () else failE e)))"
  by pat_completeness auto
termination
  by (relation "measure length") (auto dest: length_parent_path)

declare create_dir_all.simps [simp del]

definition sys_set_permissions :: "string \<Rightarrow> u32 \<Rightarrow> unit io" where
  "sys_set_permissions path mode = syscall (\<lambda>w.
     case resolve w True path of
       Inl e \<Rightarrow> (Inl e, w)
     | Inr q \<Rightarrow>
         (case look w q of
            None \<Rightarrow> (Inl enoent, w)
          | Some nd \<Rightarrow> (Inr (), set_node q (nd\<lparr>i_mode := mode\<rparr>) w)))"

definition sys_remove_file :: "string \<Rightarrow> unit io" where
  "sys_remove_file path = syscall (\<lambda>w.
     case resolve w False path of
       Inl e \<Rightarrow> (Inl e, w)
     | Inr q \<Rightarrow>
         (case look w q of
            None \<Rightarrow> (Inl enoent, w)
          | Some nd \<Rightarrow>
              if i_type nd = FtDir then (Inl eisdir, w)
              else (Inr (), del_nodes (\<lambda>k. k = q) w)))"

definition sys_remove_dir :: "string \<Rightarrow> unit io" where
  "sys_remove_dir path = syscall (\<lambda>w.
     case resolve w False path of
       Inl e \<Rightarrow> (Inl e, w)
     | Inr q \<Rightarrow>
         (case look w q of
            None \<Rightarrow> (Inl enoent, w)
          | Some nd \<Rightarrow>
              if i_type nd \<noteq> FtDir then (Inl enotdir, w)
              else if q = [] then (Inl ebusy, w)
              else if children w q \<noteq> [] then (Inl enotempty, w)
              else (Inr (), del_nodes (\<lambda>k. k = q) w)))"

text \<open>
  \<open>remove_dir_all\<close> unlinks a symbolic link itself and empties a directory from the bottom; a
  failure on the way leaves the entries nearer to the directory than the given depth.
\<close>

definition sys_remove_dir_all :: "string \<Rightarrow> unit io" where
  "sys_remove_dir_all path = with_decision (\<lambda>d w.
     case resolve w False path of
       Inl e \<Rightarrow> (Inl e, w)
     | Inr q \<Rightarrow>
         (case look w q of
            None \<Rightarrow> (Inl enoent, w)
          | Some nd \<Rightarrow>
              (case i_type nd of
                 FtSymlink \<Rightarrow>
                   (case d of Fail e _ \<Rightarrow> (Inl e, w) | _ \<Rightarrow> (Inr (), del_nodes (\<lambda>k. k = q) w))
               | FtDir \<Rightarrow>
                   (case d of
                      Fail e n \<Rightarrow> (Inl e, del_nodes (\<lambda>k. prefix q k \<and> length q + n < length k) w)
                    | _ \<Rightarrow>
                        if q = [] then (Inl ebusy, del_nodes (\<lambda>k. k \<noteq> []) w)
                        else (Inr (), del_nodes (prefix q) w))
               | _ \<Rightarrow> (Inl enotdir, w))))"

text \<open>Move the inodes below \<open>a\<close> to the same places below \<open>b\<close>; what was at \<open>b\<close> is gone.\<close>

definition move_tree :: "loc \<Rightarrow> loc \<Rightarrow> world \<Rightarrow> world" where
  "move_tree a b w =
     w\<lparr>nodes :=
        map (\<lambda>(k, nd). if prefix a k then (b @ drop (length a) k, nd) else (k, nd))
          (filter (\<lambda>(k, _). prefix a k \<or> \<not> prefix b k) (nodes w))\<rparr>"

definition sys_rename :: "string \<Rightarrow> string \<Rightarrow> unit io" where
  "sys_rename source destination = syscall (\<lambda>w.
     case resolve w False source of
       Inl e \<Rightarrow> (Inl e, w)
     | Inr a \<Rightarrow>
         (case resolve_new w destination of
            Inl e \<Rightarrow> (Inl e, w)
          | Inr b \<Rightarrow>
              (case look w a of
                 None \<Rightarrow> (Inl enoent, w)
               | Some nd \<Rightarrow>
                   if a = [] \<or> b = [] then (Inl ebusy, w)
                   else if \<not> dir_at w (butlast b) then (Inl enoent, w)
                   else if a = b then (Inr (), w)
                   else if strict_prefix a b then (Inl einval, w)
                   else if strict_prefix b a then (Inl enotempty, w)
                   else
                     (case look w b of
                        None \<Rightarrow> (Inr (), move_tree a b w)
                      | Some old \<Rightarrow>
                          if i_type nd = FtDir \<and> i_type old \<noteq> FtDir then (Inl enotdir, w)
                          else if i_type nd \<noteq> FtDir \<and> i_type old = FtDir then (Inl eisdir, w)
                          else if i_type old = FtDir \<and> children w b \<noteq> [] then (Inl enotempty, w)
                          else (Inr (), move_tree a b w)))))"

section \<open>Open files\<close>

text \<open>\<open>open\<close> for writing: \<open>create_new\<close> (\<open>O_EXCL\<close>) or \<open>create\<close> with \<open>truncate\<close>. The result is where the file is.\<close>

definition sys_create_new :: "string \<Rightarrow> u32 \<Rightarrow> loc io" where
  "sys_create_new path mode = syscall (\<lambda>w.
     case resolve w False path of
       Inl e \<Rightarrow> (Inl e, w)
     | Inr q \<Rightarrow>
         (case link_new q (new_inode FtFile mode w) w of
            (Inl e, w') \<Rightarrow> (Inl e, w')
          | (Inr _, w') \<Rightarrow> (Inr q, w')))"

definition sys_open_truncate :: "string \<Rightarrow> u32 \<Rightarrow> loc io" where
  "sys_open_truncate path mode = syscall (\<lambda>w.
     case resolve w True path of
       Inl e \<Rightarrow> (Inl e, w)
     | Inr q \<Rightarrow>
         (case look w q of
            None \<Rightarrow>
              (case link_new q (new_inode FtFile mode w) w of
                 (Inl e, w') \<Rightarrow> (Inl e, w')
               | (Inr _, w') \<Rightarrow> (Inr q, w'))
          | Some nd \<Rightarrow>
              (case i_type nd of
                 FtDir \<Rightarrow> (Inl eisdir, w)
               | FtFile \<Rightarrow> (Inr q, set_node q (nd\<lparr>i_data := [], i_mtime := clock w\<rparr>) w)
               | _ \<Rightarrow> (Inr q, w))))"

text \<open>\<open>write_all\<close> on a file opened for writing and truncated, so that writing appends.\<close>

definition file_append :: "loc \<Rightarrow> bytes \<Rightarrow> world \<Rightarrow> world" where
  "file_append q bs w =
     (case look w q of
        Some nd \<Rightarrow>
          if i_type nd = FtFile
          then set_node q (nd\<lparr>i_data := i_data nd @ bs, i_mtime := clock w\<rparr>) w else w
      | None \<Rightarrow> w)"

definition file_write_all :: "loc \<Rightarrow> bytes \<Rightarrow> unit io" where
  "file_write_all q bs = with_decision (\<lambda>d w.
     case d of
       Fail e n \<Rightarrow> (Inl e, file_append q (take n bs) w)
     | _ \<Rightarrow> (Inr (), file_append q bs w))"

definition file_flush :: "loc \<Rightarrow> unit io" where
  "file_flush q = syscall (retE ())"

text \<open>A file opened for reading is the bytes still to be read; opening a directory fails at the first read.\<close>

definition sys_open_read :: "string \<Rightarrow> (inode \<times> bytes) io" where
  "sys_open_read path = syscall (\<lambda>w.
     case resolve w True path of
       Inl e \<Rightarrow> (Inl e, w)
     | Inr q \<Rightarrow> (case look w q of None \<Rightarrow> (Inl enoent, w) | Some nd \<Rightarrow> (Inr (nd, i_data nd), w)))"

definition sys_read :: "inode \<times> bytes \<Rightarrow> nat \<Rightarrow> (bytes \<times> inode \<times> bytes) io" where
  "sys_read h n = with_decision (\<lambda>d.
     case h of (nd, bs) \<Rightarrow>
       if i_type nd = FtDir then failE eisdir
       else (case d of
               Fail e _ \<Rightarrow> failE e
             | Proceed \<Rightarrow> retE (take n bs, nd, drop n bs)
             | Short k \<Rightarrow> retE (take (min n (max 1 k)) bs, nd, drop (min n (max 1 k)) bs)))"

section \<open>The connection\<close>

definition conn_write_all :: "bytes \<Rightarrow> unit io" where
  "conn_write_all bs = with_decision (\<lambda>d w.
     case d of
       Fail e n \<Rightarrow> (Inl e, w\<lparr>outp := outp w @ take n bs\<rparr>)
     | _ \<Rightarrow> (Inr (), w\<lparr>outp := outp w @ bs\<rparr>))"

definition conn_read_exact :: "nat \<Rightarrow> bytes io" where
  "conn_read_exact n = with_decision (\<lambda>d w.
     case d of
       Fail e k \<Rightarrow> (Inl e, w\<lparr>inp := drop (min k n) (inp w)\<rparr>)
     | _ \<Rightarrow>
         if n \<le> length (inp w) then (Inr (take n (inp w)), w\<lparr>inp := drop n (inp w)\<rparr>)
         else (Inl (custom_error UnexpectedEof ''early eof''), w\<lparr>inp := []\<rparr>))"

text \<open>
  A \<open>BufWriter\<close> over the connection: made empty, written through the library's policy,
  flushed on request; dropping it discards what it still holds, as tokio documents.
\<close>

definition buf_new :: "(world, 'e, unit) act" where
  "buf_new = modifyE (\<lambda>w. w\<lparr>wbuf := []\<rparr>)"

definition buf_drop :: "(world, 'e, unit) act" where
  "buf_drop = modifyE (\<lambda>w. w\<lparr>wbuf := []\<rparr>)"

definition buf_write_all :: "libs \<Rightarrow> nat \<Rightarrow> bytes \<Rightarrow> unit io" where
  "buf_write_all L cap bs w =
     (case bufwriter_put L cap (wbuf w) bs of
        (out, keep) \<Rightarrow>
          if out = [] then (Inr (), w\<lparr>wbuf := keep\<rparr>)
          else thenE (conn_write_all out) (modifyE (\<lambda>w. w\<lparr>wbuf := keep\<rparr>)) w)"

definition buf_flush :: "unit io" where
  "buf_flush w =
     (if wbuf w = [] then (Inr (), w)
      else thenE (conn_write_all (wbuf w)) (modifyE (\<lambda>w. w\<lparr>wbuf := []\<rparr>)) w)"

text \<open>What tokio documents of the policy: bytes keep their order, and what fits in the capacity waits in the buffer.\<close>

definition bufwriter_spec :: "libs \<Rightarrow> bool" where
  "bufwriter_spec L \<longleftrightarrow>
     (\<forall>cap buf bs.
        fst (bufwriter_put L cap buf bs) @ snd (bufwriter_put L cap buf bs) = buf @ bs \<and>
        (length buf + length bs \<le> cap \<longrightarrow> fst (bufwriter_put L cap buf bs) = []))"

end
