(* ===== verification/World_Facts.thy ===== *)
theory World_Facts
  imports World
begin

text \<open>
  What the world model guarantees: how the updates of the file system change lookups, the
  frame of every system call (which parts of the world it leaves alone), the well-formedness
  of the file system that every call keeps, and that the connection and a \<open>BufWriter\<close> over it
  meet the contracts of readers and writers of the wire theory.
\<close>

section \<open>Updates and lookups\<close>

lemma world_sched_simps [simp]:
  "look (w\<lparr>sched := ds\<rparr>) = look w" "dir_at (w\<lparr>sched := ds\<rparr>) = dir_at w"
  "look (w\<lparr>inp := bs\<rparr>) = look w" "dir_at (w\<lparr>inp := bs\<rparr>) = dir_at w"
  "look (w\<lparr>outp := bs\<rparr>) = look w" "dir_at (w\<lparr>outp := bs\<rparr>) = dir_at w"
  "look (w\<lparr>wbuf := bs\<rparr>) = look w" "dir_at (w\<lparr>wbuf := bs\<rparr>) = dir_at w"
  by (auto simp: look_def dir_at_def fun_eq_iff)

lemma resolve_sched [simp]:
  "resolve (w\<lparr>sched := ds\<rparr>) f s = resolve w f s" "resolve_new (w\<lparr>sched := ds\<rparr>) s = resolve_new w s"
  "children (w\<lparr>sched := ds\<rparr>) = children w"
  by (simp_all add: resolve_def resolve_new_def resolve_parts_def children_def fun_eq_iff)

lemma look_set_node: "look (set_node q nd w) k = (if k = q then Some nd else look w k)"
  by (simp add: look_def set_node_def update_conv')

lemma map_of_filter_key:
  "map_of (filter (\<lambda>(k, _). \<not> P k) xs) k = (if P k then None else map_of xs k)"
  by (induction xs) auto

lemma look_del_nodes: "look (del_nodes P w) k = (if P k then None else look w k)"
  by (simp add: look_def del_nodes_def map_of_filter_key)

lemma map_of_move:
  fixes a b :: "'k list"
  assumes "\<not> prefix a b" and "\<not> prefix b a"
  shows "map_of (map (\<lambda>(k, nd). if prefix a k then (b @ drop (length a) k, nd) else (k, nd))
      (filter (\<lambda>(k, _). prefix a k \<or> \<not> prefix b k) xs)) k =
    (if prefix b k then map_of xs (a @ drop (length b) k)
     else if prefix a k then None else map_of xs k)"
proof (induction xs)
  case (Cons x xs)
  obtain h nd where x: "x = (h, nd)" by force
  have par: "\<not> (prefix a k' \<and> prefix b k')" for k' :: "'k list"
    using assms prefix_same_cases by blast
  consider "prefix a h" | "prefix b h" | "\<not> prefix a h" "\<not> prefix b h" by blast
  then show ?case
  proof cases
    case 1
    then obtain r where "h = a @ r" by (auto simp: prefix_def)
    with Cons x par [of h] par [of k] show ?thesis
      by (auto simp: prefix_def)
  next
    case 2
    then have na: "\<not> prefix a h" using par by blast
    then have "a @ drop (length b) k \<noteq> h" by auto
    with Cons x 2 na show ?thesis by auto
  next
    case 3
    with Cons x show ?thesis by (auto simp: prefix_def)
  qed
qed simp

lemma look_move_tree:
  assumes "\<not> prefix a b" and "\<not> prefix b a"
  shows "look (move_tree a b w) k =
    (if prefix b k then look w (a @ drop (length b) k)
     else if prefix a k then None else look w k)"
proof -
  have "nodes (move_tree a b w) =
    map (\<lambda>(k, nd). if prefix a k then (b @ drop (length a) k, nd) else (k, nd))
      (filter (\<lambda>(k, _). prefix a k \<or> \<not> prefix b k) (nodes w))"
    by (simp add: move_tree_def)
  then show ?thesis
    by (simp only: look_def map_of_move [OF assms])
qed

lemma world_update_frames [simp]:
  "inp (set_node q nd w) = inp w" "outp (set_node q nd w) = outp w" "wbuf (set_node q nd w) = wbuf w"
  "sched (set_node q nd w) = sched w" "cwd (set_node q nd w) = cwd w"
  "inp (del_nodes P w) = inp w" "outp (del_nodes P w) = outp w" "wbuf (del_nodes P w) = wbuf w"
  "sched (del_nodes P w) = sched w" "cwd (del_nodes P w) = cwd w"
  "inp (move_tree a b w) = inp w" "outp (move_tree a b w) = outp w" "wbuf (move_tree a b w) = wbuf w"
  "sched (move_tree a b w) = sched w" "cwd (move_tree a b w) = cwd w"
  by (simp_all add: set_node_def del_nodes_def move_tree_def)

lemma look_file_append:
  "look (file_append q bs w) k =
    (case look w k of
       Some nd \<Rightarrow> if k = q \<and> i_type nd = FtFile
                  then Some (nd\<lparr>i_data := i_data nd @ bs, i_mtime := clock w\<rparr>) else Some nd
     | None \<Rightarrow> None)"
  by (auto simp: file_append_def look_set_node split: option.splits)

lemma file_append_frames [simp]:
  "inp (file_append q bs w) = inp w" "outp (file_append q bs w) = outp w"
  "wbuf (file_append q bs w) = wbuf w" "sched (file_append q bs w) = sched w"
  by (auto simp: file_append_def split: option.splits)

section \<open>Effects\<close>

text \<open>
  Relations between the worlds before and after an action. Each is a preorder that ignores
  the schedule; the locale lifts it through decisions and system calls.
\<close>

definition same_files :: "world \<Rightarrow> world \<Rightarrow> bool" where
  "same_files v w \<longleftrightarrow> nodes w = nodes v \<and> cwd w = cwd v \<and> umask w = umask v \<and> clock w = clock v"

definition same_conn :: "world \<Rightarrow> world \<Rightarrow> bool" where
  "same_conn v w \<longleftrightarrow> inp w = inp v \<and> outp w = outp v \<and> wbuf w = wbuf v"

definition out_grows :: "world \<Rightarrow> world \<Rightarrow> bool" where
  "out_grows v w \<longleftrightarrow> prefix (outp v) (outp w)"

definition stays_calm :: "world \<Rightarrow> world \<Rightarrow> bool" where
  "stays_calm v w \<longleftrightarrow> (sched v = [] \<longrightarrow> sched w = [])"

definition fs_wf :: "world \<Rightarrow> bool" where
  "fs_wf w \<longleftrightarrow>
     distinct (map fst (nodes w)) \<and> dir_at w [] \<and>
     (\<forall>k. look w k \<noteq> None \<longrightarrow> k \<noteq> [] \<longrightarrow> dir_at w (butlast k))"

definition keeps_wf :: "world \<Rightarrow> world \<Rightarrow> bool" where
  "keeps_wf v w \<longleftrightarrow> (fs_wf v \<longrightarrow> fs_wf w)"

lemma fs_wf_same_files: "same_files v w \<Longrightarrow> fs_wf v \<longleftrightarrow> fs_wf w"
  by (auto simp: same_files_def fs_wf_def look_def dir_at_def)

locale world_rel = effect R for R :: "world \<Rightarrow> world \<Rightarrow> bool"
begin

lemma keeps_path_is_dir: "keeps R (sys_stat True path) \<Longrightarrow> keeps R (path_is_dir path)"
  by (auto simp: keeps_def path_is_dir_def split: prod.splits sum.splits) (metis snd_conv)+

text \<open>Making a directory path is a matter of its single \<open>mkdir\<close> and \<open>stat\<close> calls.\<close>

lemma keeps_create_dir_all:
  assumes mkdir: "\<And>p. keeps R (sys_create_dir p)" and stat: "\<And>p. keeps R (sys_stat True p)"
  shows "keeps R (create_dir_all path)"
proof (induction path rule: create_dir_all.induct)
  case (1 path)
  have dir: "keeps R (bindE (path_is_dir path) (\<lambda>b. if b then retE () else failE e))" for e
    by (intro keeps_intros keeps_bind keeps_ret keeps_fail keeps_path_is_dir stat)
  show ?case
    by (subst create_dir_all.simps)
      (intro keeps_if keeps_bind keeps_then keeps_ret keeps_fail keeps_try keeps_case_sum
        keeps_case_option mkdir dir 1)
qed

end

locale world_effect = world_rel +
  assumes sched: "R w (w\<lparr>sched := ds\<rparr>)"
begin

lemma keeps_with_decision [keeps_intros]:
  assumes "\<And>d. keeps R (f d)"
  shows "keeps R (with_decision f)"
  unfolding keeps_def
proof
  fix w
  show "R w (snd (with_decision f w))"
    using assms
    by (cases "sched w") (auto simp: with_decision_def keeps_def intro: trans [OF sched])
qed

lemma keeps_syscall [keeps_intros]: "keeps R m \<Longrightarrow> keeps R (syscall m)"
  unfolding syscall_def
  by (rule keeps_with_decision) (auto intro: keeps_fail split: decision.splits)

end

interpretation files_eff: world_effect same_files
  by unfold_locales (auto simp: same_files_def)

interpretation conn_eff: world_effect same_conn
  by unfold_locales (auto simp: same_conn_def)

interpretation out_eff: world_effect out_grows
  by unfold_locales (auto simp: out_grows_def)

interpretation wf_eff: world_effect keeps_wf
  by unfold_locales (auto simp: keeps_wf_def fs_wf_def)

interpretation calm_eff: world_rel stays_calm
  by unfold_locales (auto simp: stays_calm_def)

lemma calm_with_decision [keeps_intros]:
  "(\<And>d. keeps stays_calm (f d)) \<Longrightarrow> keeps stays_calm (with_decision f)"
  by (auto simp: keeps_def stays_calm_def with_decision_def split: list.splits)

lemma calm_syscall [keeps_intros]: "keeps stays_calm m \<Longrightarrow> keeps stays_calm (syscall m)"
  unfolding syscall_def
  by (rule calm_with_decision) (auto intro: calm_eff.keeps_fail split: decision.splits)

section \<open>The file system stays well formed\<close>

lemma fs_wf_parent: "fs_wf w \<Longrightarrow> look w (q @ [n]) = Some nd \<Longrightarrow> dir_at w q"
  by (fastforce simp: fs_wf_def)

lemma fs_wf_prefix:
  assumes wf: "fs_wf w" and k: "look w k \<noteq> None" and q: "strict_prefix q k"
  shows "dir_at w q"
  using k q
proof (induction k rule: rev_induct)
  case (snoc n k)
  from wf snoc.prems(1) have d: "dir_at w k" by (auto intro: fs_wf_parent)
  show ?case
  proof (cases "q = k")
    case True
    with d show ?thesis by simp
  next
    case False
    with snoc.prems(2) have "strict_prefix q k"
      by (auto simp: strict_prefix_def)
    moreover from d have "look w k \<noteq> None"
      by (auto simp: dir_at_def split: option.splits)
    ultimately show ?thesis using snoc.IH by blast
  qed
qed simp

lemma children_iff: "n \<in> set (children w q) \<longleftrightarrow> look w (q @ [n]) \<noteq> None"
proof
  show "n \<in> set (children w q) \<Longrightarrow> look w (q @ [n]) \<noteq> None"
    by (auto simp: children_def look_def map_of_eq_None_iff image_iff)
      (metis append_butlast_last_id fst_conv)
next
  assume "look w (q @ [n]) \<noteq> None"
  then have "q @ [n] \<in> set (map fst (nodes w))"
    by (auto simp: look_def map_of_eq_None_iff)
  then have "q @ [n] \<in> set (filter (\<lambda>k. k \<noteq> [] \<and> butlast k = q) (map fst (nodes w)))"
    by simp
  then show "n \<in> set (children w q)"
    unfolding children_def by force
qed

lemma fs_wf_no_children: "fs_wf w \<Longrightarrow> children w q = [] \<Longrightarrow> strict_prefix q k \<Longrightarrow> look w k = None"
proof (rule ccontr)
  assume wf: "fs_wf w" and c: "children w q = []" and p: "strict_prefix q k" and k: "look w k \<noteq> None"
  from p obtain n r where kr: "k = q @ n # r"
    by (rule strict_prefixE')
  have "look w (q @ [n]) \<noteq> None"
  proof (cases "r = []")
    case True
    with k kr show ?thesis by simp
  next
    case False
    then have "strict_prefix (q @ [n]) k"
      by (auto simp: kr strict_prefix_def)
    with wf k have "dir_at w (q @ [n])"
      by (rule fs_wf_prefix)
    then show ?thesis
      by (auto simp: dir_at_def split: option.splits)
  qed
  with c show False
    using children_iff [of n w q] by simp
qed

lemma fs_wf_retype:
  assumes wf: "fs_wf w" and q: "look w q = Some nd" and t: "i_type nd' = i_type nd"
  shows "fs_wf (set_node q nd' w)"
proof -
  have "dir_at (set_node q nd' w) k = dir_at w k" for k
    using q t by (auto simp: dir_at_def look_set_node)
  moreover have "distinct (map fst (nodes (set_node q nd' w)))"
    using wf by (simp add: set_node_def fs_wf_def distinct_update)
  ultimately show ?thesis
    using wf q by (auto simp: fs_wf_def look_set_node)
qed

lemma fs_wf_new:
  assumes wf: "fs_wf w" and q: "look w q = None" "q \<noteq> []" "dir_at w (butlast q)"
  shows "fs_wf (set_node q nd w)"
proof -
  have up: "dir_at w k \<Longrightarrow> dir_at (set_node q nd w) k" for k
    using q by (auto simp: dir_at_def look_set_node)
  moreover have "distinct (map fst (nodes (set_node q nd w)))"
    using wf by (simp add: set_node_def fs_wf_def distinct_update)
  ultimately show ?thesis
    using wf q by (auto simp: fs_wf_def look_set_node)
qed

text \<open>Deleting is safe for a set of locations that is closed under going down and spares the root.\<close>

lemma fs_wf_del:
  assumes wf: "fs_wf w" and root: "\<not> P []"
    and down: "\<And>k. look w k \<noteq> None \<Longrightarrow> k \<noteq> [] \<Longrightarrow> P (butlast k) \<Longrightarrow> P k"
  shows "fs_wf (del_nodes P w)"
proof -
  have "distinct (map fst (nodes (del_nodes P w)))"
    using wf by (auto simp: fs_wf_def del_nodes_def distinct_map inj_on_def)
  moreover have "dir_at (del_nodes P w) k \<longleftrightarrow> dir_at w k \<and> \<not> P k" for k
    by (simp add: dir_at_def look_del_nodes)
  ultimately show ?thesis
    using wf root down by (auto simp: fs_wf_def look_del_nodes)
qed

lemma fs_wf_del_leaf:
  assumes wf: "fs_wf w" and q: "q \<noteq> []" and leaf: "\<And>k. strict_prefix q k \<Longrightarrow> look w k = None"
  shows "fs_wf (del_nodes (\<lambda>k. k = q) w)"
proof (rule fs_wf_del [OF wf])
  fix k
  assume k: "look w k \<noteq> None" "k \<noteq> []" "butlast k = q"
  then have "strict_prefix q k"
    by (metis append_butlast_last_id strict_prefixI')
  with leaf k show "k = q" by simp
qed (use q in simp)

lemma fs_wf_non_dir:
  assumes "fs_wf w" and "\<not> dir_at w q" and "strict_prefix q k"
  shows "look w k = None"
  using assms fs_wf_prefix by blast

lemma prefix_butlast_down: "k \<noteq> [] \<Longrightarrow> prefix q (butlast k) \<Longrightarrow> prefix q k"
  by (metis append_butlast_last_id prefix_prefix)

lemma fs_wf_move:
  assumes wf: "fs_wf w" and par: "\<not> prefix a b" "\<not> prefix b a" and a: "look w a \<noteq> None"
    and b: "dir_at w (butlast b)" and empty: "\<And>k. strict_prefix b k \<Longrightarrow> look w k = None"
  shows "fs_wf (move_tree a b w)"
proof -
  let ?f = "\<lambda>(k, nd). if prefix a k then (b @ drop (length a) k, nd) else (k, nd)"
  let ?xs = "filter (\<lambda>(k, _). prefix a k \<or> \<not> prefix b k) (nodes w)"
  have nonnil: "a \<noteq> []" "b \<noteq> []" using par by auto
  have disj: "\<not> (prefix a k \<and> prefix b k)" for k
    using par prefix_same_cases by blast
  have inj: "inj_on (\<lambda>k. if prefix a k then b @ drop (length a) k else k)
      {k. prefix a k \<or> \<not> prefix b k}"
    by (auto simp: inj_on_def prefix_def)
  have keys: "map fst (map ?f ?xs) =
    map (\<lambda>k. if prefix a k then b @ drop (length a) k else k) (map fst ?xs)"
    by auto
  have "distinct (map fst ?xs)"
    using wf by (auto simp: fs_wf_def distinct_map inj_on_def)
  then have "distinct (map fst (map ?f ?xs))"
    unfolding keys by (subst distinct_map) (auto intro: inj_on_subset [OF inj])
  moreover have L: "look (move_tree a b w) k =
    (if prefix b k then look w (a @ drop (length b) k)
     else if prefix a k then None else look w k)" for k
    by (rule look_move_tree [OF par])
  moreover have "dir_at (move_tree a b w) []"
    using wf nonnil by (simp add: dir_at_def L fs_wf_def)
  moreover have "dir_at (move_tree a b w) (butlast k)"
    if k: "look (move_tree a b w) k \<noteq> None" "k \<noteq> []" for k
  proof (cases "prefix b k")
    case True
    then obtain r where r: "k = b @ r" by (auto simp: prefix_def)
    with k L have ar: "look w (a @ r) \<noteq> None" by simp
    show ?thesis
    proof (cases "r = []")
      case True
      have "\<not> prefix a (butlast b)" "\<not> prefix b (butlast b)"
        using par prefix_butlast_down [of b a] prefix_length_le [of b "butlast b"] nonnil(2)
        by (auto simp: Suc_le_eq length_greater_0_conv [symmetric] simp del: length_greater_0_conv)
      with b True r show ?thesis by (simp add: dir_at_def L)
    next
      case False
      with ar wf have "dir_at w (a @ butlast r)"
        by (auto simp: fs_wf_def butlast_append)
      with r False show ?thesis by (simp add: dir_at_def L butlast_append)
    qed
  next
    case False
    with k L have k': "look w k \<noteq> None" "\<not> prefix a k" by (auto split: if_splits)
    with wf k(2) have "dir_at w (butlast k)" by (auto simp: fs_wf_def)
    moreover have "\<not> prefix b (butlast k)" "\<not> prefix a (butlast k)"
      using False k'(2) k(2) prefix_butlast_down by blast+
    ultimately show ?thesis by (simp add: dir_at_def L)
  qed
  ultimately show ?thesis
    unfolding fs_wf_def by (simp add: move_tree_def)
qed

section \<open>Frames of the system calls\<close>

text \<open>Calls that look at the world and change nothing of it but the schedule.\<close>

definition only_sched :: "world \<Rightarrow> world \<Rightarrow> bool" where
  "only_sched v w \<longleftrightarrow> (\<exists>ds. w = v\<lparr>sched := ds\<rparr>) \<and> (sched v = [] \<longrightarrow> sched w = [])"

lemma only_sched_refl [simp]: "only_sched w w"
  by (auto simp: only_sched_def intro: exI [of _ "sched w"])

lemma only_sched_trans: "only_sched u v \<Longrightarrow> only_sched v w \<Longrightarrow> only_sched u w"
  by (auto simp: only_sched_def)

interpretation only_eff: effect only_sched
  by unfold_locales (auto intro: only_sched_trans)

lemma only_sched_imp_calm: "only_sched v w \<Longrightarrow> stays_calm v w"
  by (auto simp: only_sched_def stays_calm_def)

lemma only_sched_same_files: "only_sched v w \<Longrightarrow> same_files v w"
  by (auto simp: only_sched_def same_files_def)

lemma only_sched_same_conn: "only_sched v w \<Longrightarrow> same_conn v w"
  by (auto simp: only_sched_def same_conn_def)

lemma only_sched_keeps_wf: "only_sched v w \<Longrightarrow> keeps_wf v w"
  by (auto simp: keeps_wf_def fs_wf_same_files [OF only_sched_same_files])

lemma only_sched_out: "only_sched v w \<Longrightarrow> out_grows v w"
  by (auto simp: only_sched_def out_grows_def)

lemma only_sched_look: "only_sched v w \<Longrightarrow> look w = look v \<and> resolve w = resolve v"
  by (auto simp: only_sched_def fun_eq_iff)

lemma keeps_only_sched:
  "keeps only_sched m \<Longrightarrow> keeps stays_calm m"
  "keeps only_sched m \<Longrightarrow> keeps same_files m"
  "keeps only_sched m \<Longrightarrow> keeps same_conn m"
  "keeps only_sched m \<Longrightarrow> keeps keeps_wf m"
  "keeps only_sched m \<Longrightarrow> keeps out_grows m"
  by (auto simp: keeps_def intro: only_sched_imp_calm only_sched_same_files only_sched_same_conn
      only_sched_keeps_wf only_sched_out)

lemma only_sched_decision:
  assumes "\<And>d. keeps only_sched (f d)"
  shows "keeps only_sched (with_decision f)"
  unfolding keeps_def
proof
  fix w
  show "only_sched w (snd (with_decision f w))"
  proof (cases "sched w")
    case Nil
    with assms show ?thesis by (simp add: with_decision_def keeps_def)
  next
    case (Cons d ds)
    have "only_sched w (w\<lparr>sched := ds\<rparr>)"
      using Cons by (auto simp: only_sched_def)
    with Cons assms show ?thesis
      by (auto simp: with_decision_def keeps_def intro: only_sched_trans)
  qed
qed

lemma only_sched_syscall: "keeps only_sched m \<Longrightarrow> keeps only_sched (syscall m)"
  unfolding syscall_def
  by (rule only_sched_decision) (auto intro: only_eff.keeps_fail split: decision.splits)

lemma keeps_only_stat: "keeps only_sched (sys_stat f path)"
  unfolding sys_stat_def
  by (rule only_sched_syscall) (auto simp: keeps_def split: sum.splits option.splits)

lemma keeps_only_read_dir: "keeps only_sched (sys_read_dir path)"
  unfolding sys_read_dir_def
  by (rule only_sched_syscall) (auto simp: keeps_def split: sum.splits option.splits)

lemma keeps_only_open_read: "keeps only_sched (sys_open_read path)"
  unfolding sys_open_read_def
  by (rule only_sched_syscall) (auto simp: keeps_def split: sum.splits option.splits)

lemma keeps_only_read: "keeps only_sched (sys_read h n)"
  unfolding sys_read_def
  by (rule only_sched_decision) (auto simp: keeps_def split: prod.splits decision.splits)

lemma keeps_only_flush: "keeps only_sched (file_flush q)"
  unfolding file_flush_def by (rule only_sched_syscall) (rule only_eff.keeps_ret)

lemmas keeps_only_calls [keeps_intros] =
  keeps_only_stat keeps_only_read_dir keeps_only_open_read keeps_only_read keeps_only_flush

lemmas keeps_stat [keeps_intros] = keeps_only_stat [THEN keeps_only_sched(1)]
  keeps_only_stat [THEN keeps_only_sched(2)] keeps_only_stat [THEN keeps_only_sched(3)]
  keeps_only_stat [THEN keeps_only_sched(4)] keeps_only_stat [THEN keeps_only_sched(5)]

lemmas keeps_read_dir [keeps_intros] = keeps_only_read_dir [THEN keeps_only_sched(1)]
  keeps_only_read_dir [THEN keeps_only_sched(2)] keeps_only_read_dir [THEN keeps_only_sched(3)]
  keeps_only_read_dir [THEN keeps_only_sched(4)] keeps_only_read_dir [THEN keeps_only_sched(5)]

lemmas keeps_open_read [keeps_intros] = keeps_only_open_read [THEN keeps_only_sched(1)]
  keeps_only_open_read [THEN keeps_only_sched(2)] keeps_only_open_read [THEN keeps_only_sched(3)]
  keeps_only_open_read [THEN keeps_only_sched(4)] keeps_only_open_read [THEN keeps_only_sched(5)]

lemmas keeps_read [keeps_intros] = keeps_only_read [THEN keeps_only_sched(1)]
  keeps_only_read [THEN keeps_only_sched(2)] keeps_only_read [THEN keeps_only_sched(3)]
  keeps_only_read [THEN keeps_only_sched(4)] keeps_only_read [THEN keeps_only_sched(5)]

lemmas keeps_flush [keeps_intros] = keeps_only_flush [THEN keeps_only_sched(1)]
  keeps_only_flush [THEN keeps_only_sched(2)] keeps_only_flush [THEN keeps_only_sched(3)]
  keeps_only_flush [THEN keeps_only_sched(4)] keeps_only_flush [THEN keeps_only_sched(5)]

text \<open>Calls that change the file system leave the connection alone and keep it well formed.\<close>

lemma same_conn_updates [simp]:
  "same_conn w w" "same_conn w (set_node q nd w)" "same_conn w (del_nodes P w)"
  "same_conn w (move_tree a b w)" "same_conn w (file_append q bs w)"
  by (simp_all add: same_conn_def)

lemma same_conn_link_new: "same_conn w (snd (link_new q nd w))"
  by (simp add: link_new_def)

lemma calm_updates [simp]:
  "stays_calm w w" "stays_calm w (set_node q nd w)" "stays_calm w (del_nodes P w)"
  "stays_calm w (move_tree a b w)" "stays_calm w (file_append q bs w)"
  by (simp_all add: stays_calm_def)

lemma calm_link_new: "stays_calm w (snd (link_new q nd w))"
  by (simp add: link_new_def)

lemma wf_refl [simp]: "keeps_wf w w"
  by (simp add: keeps_wf_def)

lemma wf_link_new: "keeps_wf w (snd (link_new q nd w))"
  by (auto simp: link_new_def keeps_wf_def intro: fs_wf_new)

lemma wf_file_append: "keeps_wf w (file_append q bs w)"
  by (auto simp: keeps_wf_def file_append_def intro: fs_wf_retype split: option.splits)

lemmas fs_splits = sum.splits option.splits if_splits file_type.splits decision.splits prod.splits

lemma case_link_new:
  "snd (case link_new q nd w of (Inl e, w') \<Rightarrow> (Inl e, w') | (Inr x, w') \<Rightarrow> (Inr y, w')) =
     snd (link_new q nd w)"
  by (auto split: prod.splits sum.splits)

lemma conn_create_dir [keeps_intros]: "keeps same_conn (sys_create_dir path)"
  unfolding sys_create_dir_def
  by (rule conn_eff.keeps_syscall) (simp add: keeps_def same_conn_link_new split: sum.splits)

lemma calm_create_dir [keeps_intros]: "keeps stays_calm (sys_create_dir path)"
  unfolding sys_create_dir_def
  by (rule calm_syscall) (simp add: keeps_def calm_link_new split: sum.splits)

lemma wf_create_dir [keeps_intros]: "keeps keeps_wf (sys_create_dir path)"
  unfolding sys_create_dir_def
  by (rule wf_eff.keeps_syscall) (simp add: keeps_def wf_link_new split: sum.splits)

lemma conn_set_permissions [keeps_intros]: "keeps same_conn (sys_set_permissions path mode)"
  unfolding sys_set_permissions_def
  by (rule conn_eff.keeps_syscall) (simp add: keeps_def split: sum.splits option.splits)

lemma calm_set_permissions [keeps_intros]: "keeps stays_calm (sys_set_permissions path mode)"
  unfolding sys_set_permissions_def
  by (rule calm_syscall) (simp add: keeps_def split: sum.splits option.splits)

lemma wf_set_permissions [keeps_intros]: "keeps keeps_wf (sys_set_permissions path mode)"
  unfolding sys_set_permissions_def
  by (rule wf_eff.keeps_syscall)
    (auto simp: keeps_def keeps_wf_def intro: fs_wf_retype split: sum.splits option.splits)

lemma conn_remove_file [keeps_intros]: "keeps same_conn (sys_remove_file path)"
  unfolding sys_remove_file_def
  by (rule conn_eff.keeps_syscall) (simp add: keeps_def split: sum.splits option.splits)

lemma calm_remove_file [keeps_intros]: "keeps stays_calm (sys_remove_file path)"
  unfolding sys_remove_file_def
  by (rule calm_syscall) (simp add: keeps_def split: sum.splits option.splits)

lemma fs_wf_del_non_dir:
  assumes wf: "fs_wf w" and q: "look w q = Some nd" "i_type nd \<noteq> FtDir"
  shows "fs_wf (del_nodes (\<lambda>k. k = q) w)"
proof (rule fs_wf_del_leaf [OF wf])
  show "q \<noteq> []"
    using wf q by (auto simp: fs_wf_def dir_at_def)
  show "strict_prefix q k \<Longrightarrow> look w k = None" for k
    using fs_wf_non_dir [OF wf, of q k] q by (simp add: dir_at_def)
qed

lemma wf_remove_file [keeps_intros]: "keeps keeps_wf (sys_remove_file path)"
  unfolding sys_remove_file_def
  by (rule wf_eff.keeps_syscall)
    (auto simp: keeps_def keeps_wf_def intro: fs_wf_del_non_dir split: sum.splits option.splits)

lemma conn_remove_dir [keeps_intros]: "keeps same_conn (sys_remove_dir path)"
  unfolding sys_remove_dir_def
  by (rule conn_eff.keeps_syscall) (simp add: keeps_def split: sum.splits option.splits)

lemma calm_remove_dir [keeps_intros]: "keeps stays_calm (sys_remove_dir path)"
  unfolding sys_remove_dir_def
  by (rule calm_syscall) (simp add: keeps_def split: sum.splits option.splits)

lemma wf_remove_dir [keeps_intros]: "keeps keeps_wf (sys_remove_dir path)"
  unfolding sys_remove_dir_def
  by (rule wf_eff.keeps_syscall)
    (auto simp: keeps_def keeps_wf_def intro: fs_wf_del_leaf fs_wf_no_children
      split: sum.splits option.splits)

lemma conn_remove_dir_all [keeps_intros]: "keeps same_conn (sys_remove_dir_all path)"
  unfolding sys_remove_dir_all_def
  by (rule conn_eff.keeps_with_decision) (simp add: keeps_def split: fs_splits)

lemma calm_remove_dir_all [keeps_intros]: "keeps stays_calm (sys_remove_dir_all path)"
  unfolding sys_remove_dir_all_def
  by (rule calm_with_decision) (simp add: keeps_def split: fs_splits)

lemma fs_wf_del_tree: "fs_wf w \<Longrightarrow> q \<noteq> [] \<Longrightarrow> fs_wf (del_nodes (prefix q) w)"
  by (rule fs_wf_del) (auto intro: prefix_butlast_down)

lemma fs_wf_del_deep:
  "fs_wf w \<Longrightarrow> fs_wf (del_nodes (\<lambda>k. prefix q k \<and> length q + n < length k) w)"
  by (rule fs_wf_del) (auto intro: prefix_butlast_down)

lemma fs_wf_del_below: "fs_wf w \<Longrightarrow> fs_wf (del_nodes (\<lambda>k. n < length k) w)"
  using fs_wf_del_deep [of w "[]" n] by simp

lemma fs_wf_del_all: "fs_wf w \<Longrightarrow> fs_wf (del_nodes (\<lambda>k. k \<noteq> []) w)"
  by (rule fs_wf_del) auto

lemma wf_remove_dir_all [keeps_intros]: "keeps keeps_wf (sys_remove_dir_all path)"
  unfolding sys_remove_dir_all_def
  by (rule wf_eff.keeps_with_decision)
    (auto simp: keeps_def keeps_wf_def fs_wf_del_tree fs_wf_del_deep fs_wf_del_below fs_wf_del_all
      intro: fs_wf_del_non_dir split: fs_splits)

lemma conn_rename [keeps_intros]: "keeps same_conn (sys_rename a b)"
  unfolding sys_rename_def
  by (rule conn_eff.keeps_syscall) (simp add: keeps_def split: sum.splits option.splits)

lemma calm_rename [keeps_intros]: "keeps stays_calm (sys_rename a b)"
  unfolding sys_rename_def
  by (rule calm_syscall) (simp add: keeps_def split: sum.splits option.splits)

lemma wf_rename [keeps_intros]: "keeps keeps_wf (sys_rename a b)"
proof -
  have new: "fs_wf (move_tree a b w)"
    if wf: "fs_wf w" "look w a = Some nd" "dir_at w (butlast b)" "a \<noteq> b" "\<not> strict_prefix a b"
      "\<not> strict_prefix b a"
      and "look w b = None \<or> children w b = [] \<or> (\<exists>old. look w b = Some old \<and> i_type old \<noteq> FtDir)"
    for w a b nd
  proof (rule fs_wf_move)
    show "\<not> prefix a b" "\<not> prefix b a" using that by (auto simp: strict_prefix_def)
    show "look w k = None" if "strict_prefix b k" for k
      using \<open>look w b = None \<or> _ \<or> _\<close> fs_wf_no_children [OF wf(1) _ that]
        fs_wf_non_dir [OF wf(1) _ that] by (auto simp: dir_at_def)
  qed (use that in auto)
  show ?thesis
    unfolding sys_rename_def
    by (rule wf_eff.keeps_syscall)
      (auto simp: keeps_def keeps_wf_def intro!: new split: sum.splits option.splits)
qed

lemma conn_create_new [keeps_intros]: "keeps same_conn (sys_create_new path mode)"
  unfolding sys_create_new_def
  by (rule conn_eff.keeps_syscall)
    (simp add: keeps_def case_link_new same_conn_link_new split: sum.splits)

lemma calm_create_new [keeps_intros]: "keeps stays_calm (sys_create_new path mode)"
  unfolding sys_create_new_def
  by (rule calm_syscall) (simp add: keeps_def case_link_new calm_link_new split: sum.splits)

lemma wf_create_new [keeps_intros]: "keeps keeps_wf (sys_create_new path mode)"
  unfolding sys_create_new_def
  by (rule wf_eff.keeps_syscall) (simp add: keeps_def case_link_new wf_link_new split: sum.splits)

lemma conn_open_truncate [keeps_intros]: "keeps same_conn (sys_open_truncate path mode)"
  unfolding sys_open_truncate_def
  by (rule conn_eff.keeps_syscall)
    (simp add: keeps_def case_link_new same_conn_link_new
      split: sum.split option.split file_type.split)

lemma calm_open_truncate [keeps_intros]: "keeps stays_calm (sys_open_truncate path mode)"
  unfolding sys_open_truncate_def
  by (rule calm_syscall)
    (simp add: keeps_def case_link_new calm_link_new split: sum.split option.split file_type.split)

lemma wf_open_truncate [keeps_intros]: "keeps keeps_wf (sys_open_truncate path mode)"
proof -
  have t: "keeps_wf w (set_node q (nd\<lparr>i_data := [], i_mtime := clock w\<rparr>) w)"
    if "look w q = Some nd" for w q nd
    using that by (auto simp: keeps_wf_def intro: fs_wf_retype)
  show ?thesis
    unfolding sys_open_truncate_def
    by (rule wf_eff.keeps_syscall)
      (simp add: keeps_def case_link_new wf_link_new t split: sum.split option.split file_type.split)
qed

lemma conn_file_write [keeps_intros]: "keeps same_conn (file_write_all q bs)"
  unfolding file_write_all_def
  by (rule conn_eff.keeps_with_decision) (simp add: keeps_def split: decision.split)

lemma calm_file_write [keeps_intros]: "keeps stays_calm (file_write_all q bs)"
  unfolding file_write_all_def
  by (rule calm_with_decision) (simp add: keeps_def split: decision.split)

lemma wf_file_write [keeps_intros]: "keeps keeps_wf (file_write_all q bs)"
  unfolding file_write_all_def
  by (rule wf_eff.keeps_with_decision) (simp add: keeps_def wf_file_append split: decision.split)

lemma conn_create_dir_all [keeps_intros]: "keeps same_conn (create_dir_all path)"
  by (rule conn_eff.keeps_create_dir_all) (rule keeps_intros)+

lemma calm_create_dir_all [keeps_intros]: "keeps stays_calm (create_dir_all path)"
  by (rule calm_eff.keeps_create_dir_all) (rule keeps_intros)+

lemma wf_create_dir_all [keeps_intros]: "keeps keeps_wf (create_dir_all path)"
  by (rule wf_eff.keeps_create_dir_all) (rule keeps_intros)+

section \<open>The connection and the buffered writer\<close>

context effect
begin

lemma keeps_write_frame [keeps_intros]:
  "(\<And>bs. keeps R (wr bs)) \<Longrightarrow> keeps R (write_frame wr k rid p)"
  unfolding write_frame_def Let_def by (intro keeps_intros keeps_then keeps_fail)

lemma keeps_write_stream_frame [keeps_intros]:
  "(\<And>bs. keeps R (wr bs)) \<Longrightarrow> keeps R (write_stream_frame wr rid c eof p)"
  unfolding write_stream_frame_def Let_def by (intro keeps_if keeps_then keeps_fail keeps_map_err)

lemma keeps_write_json_frame [keeps_intros]:
  "(\<And>bs. keeps R (wr bs)) \<Longrightarrow> keeps R (write_json_frame to_vec wr k rid m)"
  unfolding write_json_frame_def by (intro keeps_case_sum keeps_fail keeps_write_frame)

lemma keeps_read_frame_into [keeps_intros]:
  "(\<And>n. keeps R (rd n)) \<Longrightarrow> keeps R (read_frame_into rd)"
  unfolding read_frame_into_def by (intro keeps_intros keeps_bind keeps_lift keeps_ret)

lemma keeps_read_frame [keeps_intros]: "(\<And>n. keeps R (rd n)) \<Longrightarrow> keeps R (read_frame rd)"
  unfolding read_frame_def
  by (intro keeps_bind keeps_case_prod keeps_ret keeps_read_frame_into)

lemma keeps_read_stream_frame [keeps_intros]:
  "(\<And>n. keeps R (rd n)) \<Longrightarrow> keeps R (read_stream_frame_into rd)"
  unfolding read_stream_frame_into_def
  by (intro keeps_bind keeps_case_prod keeps_ret keeps_lift keeps_read_frame_into)

end

lemma files_conn_write [keeps_intros]: "keeps same_files (conn_write_all bs)"
  unfolding conn_write_all_def
  by (rule files_eff.keeps_with_decision) (simp add: keeps_def same_files_def split: decision.split)

lemma wf_of_same_files: "keeps same_files m \<Longrightarrow> keeps keeps_wf m"
  by (auto simp: keeps_def keeps_wf_def dest: fs_wf_same_files)

lemma wf_conn_write [keeps_intros]: "keeps keeps_wf (conn_write_all bs)"
  by (rule wf_of_same_files) (rule files_conn_write)

lemma out_conn_write [keeps_intros]: "keeps out_grows (conn_write_all bs)"
  unfolding conn_write_all_def
  by (rule out_eff.keeps_with_decision) (simp add: keeps_def out_grows_def split: decision.split)

lemma calm_conn_write [keeps_intros]: "keeps stays_calm (conn_write_all bs)"
  unfolding conn_write_all_def
  by (rule calm_with_decision) (simp add: keeps_def stays_calm_def split: decision.split)

lemma files_conn_read [keeps_intros]: "keeps same_files (conn_read_exact n)"
  unfolding conn_read_exact_def
  by (rule files_eff.keeps_with_decision) (simp add: keeps_def same_files_def split: decision.split)

lemma wf_conn_read [keeps_intros]: "keeps keeps_wf (conn_read_exact n)"
  by (rule wf_of_same_files) (rule files_conn_read)

lemma out_conn_read [keeps_intros]: "keeps out_grows (conn_read_exact n)"
  unfolding conn_read_exact_def
  by (rule out_eff.keeps_with_decision) (simp add: keeps_def out_grows_def split: decision.split)

lemma calm_conn_read [keeps_intros]: "keeps stays_calm (conn_read_exact n)"
  unfolding conn_read_exact_def
  by (rule calm_with_decision) (simp add: keeps_def stays_calm_def split: decision.split)

text \<open>The connection is a writer whose healthy states are those with nothing left on the schedule.\<close>

interpretation conn_w: prefix_writer conn_write_all outp "\<lambda>w. sched w = []"
proof
  show "conn_write_all bs s = (Inr u, t) \<Longrightarrow> outp t = outp s @ bs" for bs s u t
    by (auto simp: conn_write_all_def with_decision_def split: list.splits decision.splits)
  show "conn_write_all bs s = (r, t) \<Longrightarrow> \<exists>k. outp t = outp s @ take k bs" for bs s r t
    by (auto simp: conn_write_all_def with_decision_def split: list.splits decision.splits
        intro: exI [of _ "length bs"])
  show "sched s = [] \<Longrightarrow> \<exists>t. conn_write_all bs s = (Inr (), t) \<and> sched t = []" for bs s
    by (simp add: conn_write_all_def with_decision_def)
qed

interpretation conn_r: byte_reader conn_read_exact inp "\<lambda>w. sched w = []"
proof
  show "conn_read_exact n s = (Inr bs, t) \<Longrightarrow> length bs = n \<and> inp s = bs @ inp t" for n bs s t
    by (auto simp: conn_read_exact_def with_decision_def split: list.splits decision.splits if_splits)
  show "sched s = [] \<Longrightarrow> n \<le> length (inp s) \<Longrightarrow>
      \<exists>t. conn_read_exact n s = (Inr (take n (inp s)), t) \<and> inp t = drop n (inp s) \<and> sched t = []"
    for n s
    by (simp add: conn_read_exact_def with_decision_def)
qed

text \<open>A buffered writer is a writer too: what it has accepted is what it passed on and what it holds.\<close>

lemma buf_byte_writer:
  assumes L: "bufwriter_spec L"
  shows "byte_writer (buf_write_all L cap) (\<lambda>w. outp w @ wbuf w) (\<lambda>w. sched w = [])"
proof
  have keep: "fst (bufwriter_put L cap buf bs) @ snd (bufwriter_put L cap buf bs) = buf @ bs"
    for buf bs using L by (auto simp: bufwriter_spec_def)
  show "buf_write_all L cap bs s = (Inr u, t) \<Longrightarrow> outp t @ wbuf t = (outp s @ wbuf s) @ bs"
    for bs s u t
    using keep [of "wbuf s" bs]
    by (auto simp: buf_write_all_def thenE_eq_Inr_iff split: prod.splits if_splits
        dest: conn_w.write_all_ok)
  show "sched s = [] \<Longrightarrow> \<exists>t. buf_write_all L cap bs s = (Inr (), t) \<and> sched t = []" for bs s
    by (auto simp: buf_write_all_def thenE_eq_Inr_iff conn_write_all_def with_decision_def
        split: prod.splits)
qed

text \<open>While everything written fits in the capacity, nothing leaves the buffer.\<close>

lemma buf_write_all_fits:
  assumes L: "bufwriter_spec L" and fits: "length (wbuf s) + length bs \<le> cap"
  shows "buf_write_all L cap bs s = (Inr (), s\<lparr>wbuf := wbuf s @ bs\<rparr>)"
proof -
  obtain out keep where p: "bufwriter_put L cap (wbuf s) bs = (out, keep)" by force
  with L fits have "out = []" "keep = wbuf s @ bs"
    by (metis append_Nil bufwriter_spec_def fst_conv snd_conv)+
  with p show ?thesis by (simp add: buf_write_all_def)
qed

lemma thenE_conn_modify [simp]:
  "snd (thenE m (modifyE f) s) = (case m s of (Inl e, t) \<Rightarrow> t | (Inr a, t) \<Rightarrow> f t)"
  by (auto simp: thenE_def bindE_def split: prod.splits sum.splits)

lemma files_buf_write [keeps_intros]: "keeps same_files (buf_write_all L cap bs)"
  using files_conn_write
  by (auto simp: keeps_def buf_write_all_def same_files_def split: prod.splits sum.splits)
    (metis snd_conv)+

end
