(* ===== verification/Resolve.thy ===== *)
theory Resolve
  imports World_Facts
begin

text \<open>
  How path resolution reacts to changes of the file system: a new plain file or new contents
  of a file never change where a path that resolved leads, and a name joined to a directory's
  path leads to that name in the directory.
\<close>

definition plain_node :: "inode \<Rightarrow> bool" where
  "plain_node nd \<longleftrightarrow> i_type nd \<noteq> FtDir \<and> i_type nd \<noteq> FtSymlink"

text \<open>Files may appear and change, directories may appear; links and directories stay.\<close>

definition walk_stable :: "(loc \<Rightarrow> inode option) \<Rightarrow> (loc \<Rightarrow> inode option) \<Rightarrow> bool" where
  "walk_stable m m' \<longleftrightarrow>
     (\<forall>k. case m k of
            None \<Rightarrow> (case m' k of None \<Rightarrow> True | Some nd' \<Rightarrow> i_type nd' \<noteq> FtSymlink)
          | Some nd \<Rightarrow>
              (case m' k of
                 None \<Rightarrow> plain_node nd
               | Some nd' \<Rightarrow>
                   (i_type nd = FtDir \<longrightarrow> i_type nd' = FtDir) \<and>
                   (i_type nd = FtSymlink \<longrightarrow> i_type nd' = FtSymlink \<and> i_data nd' = i_data nd) \<and>
                   (plain_node nd \<longrightarrow> i_type nd' \<noteq> FtSymlink)))"

lemma walk_stable_refl: "walk_stable m m"
  by (auto simp: walk_stable_def plain_node_def split: option.split)

lemma walk_stable_at:
  assumes "walk_stable m m'"
  shows "m k = None \<Longrightarrow> m' k = Some nd' \<Longrightarrow> i_type nd' \<noteq> FtSymlink"
    and "m k = Some nd \<Longrightarrow> m' k = None \<Longrightarrow> plain_node nd"
    and "m k = Some nd \<Longrightarrow> m' k = Some nd' \<Longrightarrow> i_type nd = FtDir \<Longrightarrow> i_type nd' = FtDir"
    and "m k = Some nd \<Longrightarrow> m' k = Some nd' \<Longrightarrow> i_type nd = FtSymlink \<Longrightarrow>
           i_type nd' = FtSymlink \<and> i_data nd' = i_data nd"
    and "m k = Some nd \<Longrightarrow> m' k = Some nd' \<Longrightarrow> plain_node nd \<Longrightarrow> i_type nd' \<noteq> FtSymlink"
  using assms [unfolded walk_stable_def, THEN spec, of k] by (auto simp: plain_node_def)

lemma walk_stable_Inr:
  assumes "walk_stable m m'" and "walk m follow n cur ps = Inr q"
  shows "walk m' follow n cur ps = Inr q"
  using assms
proof (induction m follow n cur ps rule: walk.induct)
  case (2 m follow n cur p ps)
  note st = walk_stable_at [OF "2.prems"(1)]
  show ?case
  proof (cases "trivial_part p \<or> p = ''..''")
    case True
    with 2 show ?thesis by auto
  next
    case name: False
    show ?thesis
    proof (cases "m (cur @ [p])")
      case None
      with 2 name have "ps = []" "q = cur @ [p]" by (auto split: if_splits)
      with name st(1) [OF None] show ?thesis
        by (auto split: option.split file_type.split)
    next
      case (Some nd)
      show ?thesis
      proof (cases "i_type nd")
        case FtDir
        with st(2) [OF Some] st(3) [OF Some] obtain nd' where "m' (cur @ [p]) = Some nd'" "i_type nd' = FtDir"
          by (cases "m' (cur @ [p])") (auto simp: plain_node_def)
        with FtDir Some name 2 show ?thesis by simp
      next
        case FtSymlink
        with st(2) [OF Some] have "m' (cur @ [p]) \<noteq> None" by (auto simp: plain_node_def)
        then obtain nd' where k: "m' (cur @ [p]) = Some nd'" by blast
        with st(4) [OF Some k FtSymlink]
        have nd': "m' (cur @ [p]) = Some nd'" "i_type nd' = FtSymlink" "i_data nd' = i_data nd"
          by simp_all
        let ?t = "from_bytes (i_data nd)"
        show ?thesis
        proof (cases "ps = [] \<and> \<not> follow")
          case True
          with nd' FtSymlink Some name "2.prems"(2) show ?thesis by simp
        next
          case False
          with FtSymlink Some name "2.prems"(2) have n: "n \<noteq> 0" and
            w: "walk m follow (n - 1) (if is_absolute ?t then [] else cur) (split_on (CHR ''/'') ?t @ ps) = Inr q"
            by (simp_all add: Let_def split: if_splits)
          with "2.IH"(4) [OF _ _ Some FtSymlink False n refl "2.prems"(1)] name
          have "walk m' follow (n - 1) (if is_absolute ?t then [] else cur)
              (split_on (CHR ''/'') ?t @ ps) = Inr q" by simp
          with nd' False n name show ?thesis by (auto simp: Let_def)
        qed
      next
        case FtFile
        then have "plain_node nd" by (simp add: plain_node_def)
        moreover from FtFile Some name 2 have "ps = []" "q = cur @ [p]" by (auto split: if_splits)
        ultimately show ?thesis
          using name st(5) [OF Some] by (auto split: option.split file_type.split)
      next
        case FtOther
        then have "plain_node nd" by (simp add: plain_node_def)
        moreover from FtOther Some name 2 have "ps = []" "q = cur @ [p]" by (auto split: if_splits)
        ultimately show ?thesis
          using name st(5) [OF Some] by (auto split: option.split file_type.split)
      qed
    qed
  qed
qed simp

lemma resolve_stable:
  assumes "walk_stable (look w) (look w')" "cwd w' = cwd w"
  shows "resolve w f s = Inr q \<Longrightarrow> resolve w' f s = Inr q"
    and "resolve_new w s = Inr q \<Longrightarrow> resolve_new w' s = Inr q"
  using assms walk_stable_Inr
  by (auto simp: resolve_def resolve_new_def resolve_parts_def split: if_splits)

lemma stable_set_plain:
  assumes "plain_node nd" "look w q = None \<or> (\<exists>old. look w q = Some old \<and> plain_node old)"
  shows "walk_stable (look w) (look (set_node q nd w))"
  using assms by (auto simp: walk_stable_def look_set_node plain_node_def split: option.split)

lemma stable_del_plain:
  assumes "\<And>k nd. P k \<Longrightarrow> look w k = Some nd \<Longrightarrow> plain_node nd"
  shows "walk_stable (look w) (look (del_nodes P w))"
  using assms by (auto simp: walk_stable_def look_del_nodes plain_node_def split: option.split)

text \<open>A resolved location has a directory above it, or is the root.\<close>

lemma walk_parent_dir:
  assumes "walk m follow n cur ps = Inr q"
    and "\<And>k. m k \<noteq> None \<Longrightarrow> k \<noteq> [] \<Longrightarrow> \<exists>nd. m (butlast k) = Some nd \<and> i_type nd = FtDir"
    and "\<exists>nd. m cur = Some nd \<and> i_type nd = FtDir"
    and "\<exists>nd. m [] = Some nd \<and> i_type nd = FtDir"
  shows "q = [] \<or> (\<exists>nd. m (butlast q) = Some nd \<and> i_type nd = FtDir)"
  using assms
proof (induction m follow n cur ps rule: walk.induct)
  case (1 m follow n cur)
  then show ?case by (metis option.distinct(1) sum.inject(2) walk.simps(1))
next
  case (2 m follow n cur p ps)
  have up: "\<exists>nd. m (butlast cur) = Some nd \<and> i_type nd = FtDir"
    using "2.prems"(2-4) by (cases "cur = []") auto
  show ?case
  proof (cases "trivial_part p \<or> p = ''..''")
    case True
    with 2(1-2) "2.prems" up show ?thesis by (auto split: if_splits)
  next
    case False
    with 2(3-4) "2.prems" show ?thesis
      by (auto simp: Let_def split: if_splits option.splits file_type.splits)
  qed
qed

text \<open>Following the last name changes nothing when it is no link.\<close>

lemma walk_follow:
  "walk m False n cur ps = Inr q \<Longrightarrow> (\<And>nd. m q = Some nd \<Longrightarrow> i_type nd \<noteq> FtSymlink) \<Longrightarrow>
     walk m True n cur ps = Inr q"
proof (induction m "False" n cur ps rule: walk.induct)
  case (1 m n cur)
  then show ?case by simp
next
  case (2 m n cur p ps)
  show ?case
  proof (cases "trivial_part p \<or> p = ''..''")
    case True
    with 2 show ?thesis by auto
  next
    case name: False
    show ?thesis
    proof (cases "m (cur @ [p])")
      case None
      with name "2.prems" show ?thesis by simp
    next
      case (Some x)
      show ?thesis
      proof (cases "i_type x")
        case FtDir
        with 2 Some name show ?thesis by auto
      next
        case FtSymlink
        with Some name "2.prems" have ps: "ps \<noteq> []" by auto
        with FtSymlink Some name "2.prems"(1) have n: "n \<noteq> 0" by (auto split: if_splits)
        with ps FtSymlink Some name "2.prems" "2.hyps"(4) [OF _ _ Some FtSymlink _ n refl]
        show ?thesis by (simp add: Let_def)
      qed (use Some name "2.prems" in \<open>auto split: if_splits\<close>)
    qed
  qed
qed

lemma resolve_follow:
  "resolve w False s = Inr q \<Longrightarrow> (\<And>nd. look w q = Some nd \<Longrightarrow> i_type nd \<noteq> FtSymlink) \<Longrightarrow>
     resolve w True s = Inr q"
  by (auto simp: resolve_def resolve_parts_def intro: walk_follow split: if_splits)

definition world_ok :: "world \<Rightarrow> bool" where
  "world_ok w \<longleftrightarrow> fs_wf w \<and> dir_at w (cwd w)"

lemma dir_at_iff: "dir_at w q \<longleftrightarrow> (\<exists>nd. look w q = Some nd \<and> i_type nd = FtDir)"
  by (auto simp: dir_at_def split: option.split)

lemma resolve_parent:
  assumes ok: "world_ok w" and r: "resolve w f s = Inr q \<or> resolve_new w s = Inr q" and q: "q \<noteq> []"
  shows "dir_at w (butlast q)"
proof -
  from r obtain ps where
    "walk (look w) f 40 (if is_absolute s then [] else cwd w) ps = Inr q \<or>
     walk (look w) False 40 (if is_absolute s then [] else cwd w) ps = Inr q"
    by (auto simp: resolve_def resolve_new_def resolve_parts_def split: if_splits)
  moreover have "\<And>k. look w k \<noteq> None \<Longrightarrow> k \<noteq> [] \<Longrightarrow> \<exists>nd. look w (butlast k) = Some nd \<and> i_type nd = FtDir"
    using ok by (simp add: world_ok_def fs_wf_def dir_at_iff)
  moreover have "\<exists>nd. look w (if is_absolute s then [] else cwd w) = Some nd \<and> i_type nd = FtDir"
    "\<exists>nd. look w [] = Some nd \<and> i_type nd = FtDir"
    using ok by (auto simp: world_ok_def fs_wf_def dir_at_iff)
  ultimately show ?thesis
    using q by (auto simp: dir_at_iff dest!: walk_parent_dir)
qed

text \<open>Walking on from a directory that a prefix of the parts leads to, with the links left.\<close>

lemma walk_append:
  assumes "walk m True n cur ps = Inr d" "m d = Some nd" "i_type nd = FtDir" "rest \<noteq> []"
  shows "\<exists>n'. walk m f n cur (ps @ rest) = walk m f n' d rest"
  using assms
proof (induction m "True" n cur ps rule: walk.induct)
  case (1 m n cur)
  then show ?case by auto
next
  case (2 m n cur p ps)
  show ?case
  proof (cases "trivial_part p \<or> p = ''..''")
    case True
    with 2 show ?thesis by auto
  next
    case name: False
    with "2.prems" obtain x where x: "m (cur @ [p]) = Some x"
      by (cases "m (cur @ [p])") (auto split: if_splits)
    show ?thesis
    proof (cases "i_type x")
      case FtDir
      with 2 x name show ?thesis by auto
    next
      case FtSymlink
      with x name "2.prems"(1) have n: "n \<noteq> 0" by (auto split: if_splits)
      with FtSymlink x name "2.prems" "2.hyps"(4) [OF _ _ x FtSymlink _ n refl] show ?thesis
        by (simp add: Let_def)
    qed (use x name "2.prems" in \<open>auto split: if_splits\<close>)
  qed
qed

lemma walk_trailing:
  "walk m True n cur (ps @ [[]]) = Inr d \<Longrightarrow> walk m True n cur ps = Inr d"
proof (induction m "True" n cur ps rule: walk.induct)
  case (1 m n cur)
  then show ?case by (simp add: trivial_part_def)
next
  case (2 m n cur p ps)
  show ?case
  proof (cases "trivial_part p \<or> p = ''..''")
    case True
    with 2 show ?thesis by auto
  next
    case name: False
    with "2.prems" obtain x where x: "m (cur @ [p]) = Some x"
      by (cases "m (cur @ [p])") (auto split: if_splits)
    show ?thesis
    proof (cases "i_type x")
      case FtDir
      with 2 x name show ?thesis by auto
    next
      case FtSymlink
      with x name "2.prems"(1) have n: "n \<noteq> 0" by (auto split: if_splits)
      with FtSymlink x name "2.prems" "2.hyps"(4) [OF _ _ x FtSymlink _ n refl] show ?thesis
        by (simp add: Let_def)
    qed (use x name "2.prems" in \<open>auto split: if_splits\<close>)
  qed
qed

text \<open>\<open>dir.join(name)\<close> leads to \<open>name\<close> in the directory, for any way of writing the directory's path.\<close>

lemma resolve_join_walk:
  assumes r: "resolve w True p = Inr d" and d: "dir_at w d" and n: "proper_name n"
  shows "\<exists>k. resolve w f (path_join p n) = walk (look w) f k d [n]"
proof -
  let ?start = "if is_absolute p then [] else cwd w"
  from r have p: "p \<noteq> []" and walk: "walk (look w) True 40 ?start (split_on (CHR ''/'') p) = Inr d"
    by (auto simp: resolve_def resolve_parts_def split: if_splits)
  from d obtain nd where nd: "look w d = Some nd" "i_type nd = FtDir"
    by (auto simp: dir_at_iff)
  have no_sep: "CHR ''/'' \<notin> set n" "n \<noteq> []" and rel: "\<not> is_absolute n"
    using n by (auto simp: proper_name_def is_absolute_def not_starts_slash trivial_part_def)
  obtain ps where ps: "split_on (CHR ''/'') (path_join p n) = ps @ [n]"
    and walk': "walk (look w) True 40 ?start ps = Inr d"
  proof (cases "last p = CHR ''/''")
    case True
    with p obtain a where a: "p = a @ ''/''"
      by (metis append_butlast_last_id)
    have "path_join p n = a @ CHR ''/'' # n"
      using rel by (simp add: path_join_def a)
    then have "split_on (CHR ''/'') (path_join p n) = split_on (CHR ''/'') a @ [n]"
      using no_sep by (simp add: split_on_append_sep split_on_no_sep)
    moreover have "split_on (CHR ''/'') p = split_on (CHR ''/'') a @ [[]]"
      using split_on_append_sep [of "CHR ''/''" a "[]"] by (simp add: a)
    from walk_trailing [OF walk [unfolded this]]
    have "walk (look w) True 40 ?start (split_on (CHR ''/'') a) = Inr d" .
    ultimately show ?thesis using that by blast
  next
    case False
    with p rel no_sep have "split_on (CHR ''/'') (path_join p n) = split_on (CHR ''/'') p @ [n]"
      by (simp add: path_join_def split_on_append_sep split_on_no_sep)
    with walk show ?thesis using that by blast
  qed
  have "is_absolute (path_join p n) = is_absolute p" "path_join p n \<noteq> []"
    using p rel by (auto simp: path_join_def is_absolute_def starts_with_def neq_Nil_conv)
  with walk_append [OF walk' nd, of "[n]" f] ps show ?thesis
    by (auto simp: resolve_def resolve_parts_def)
qed

lemma resolve_join:
  assumes "resolve w True p = Inr d" "dir_at w d" "proper_name n"
    and "\<not> f \<or> (\<forall>nd. look w (d @ [n]) = Some nd \<longrightarrow> i_type nd \<noteq> FtSymlink)"
  shows "resolve w f (path_join p n) = Inr (d @ [n])"
proof -
  obtain k where "resolve w f (path_join p n) = walk (look w) f k d [n]"
    using resolve_join_walk [OF assms(1-3)] by blast
  with assms(3,4) show ?thesis
    by (auto simp: proper_name_def split: option.splits file_type.splits)
qed

end
