(* ===== verification/Outcomes.thy ===== *)
theory Outcomes
  imports Resolve
begin

text \<open>
  What the outcome of a system call says of the file system, for every schedule: a failing
  call has left it alone (or, for a write or a recursive removal, has done part of its work),
  a successful one has done exactly its update.
\<close>

lemma same_files_look: "same_files v w \<Longrightarrow> look w = look v"
  by (auto simp: same_files_def look_def fun_eq_iff)

lemma same_files_refl [simp]: "same_files w w"
  by (simp add: same_files_def)

lemma same_files_trans: "same_files u v \<Longrightarrow> same_files v w \<Longrightarrow> same_files u w"
  by (simp add: same_files_def)

lemma same_files_sched [simp]:
  "same_files (w\<lparr>sched := ds\<rparr>) v \<longleftrightarrow> same_files w v" "same_files v (w\<lparr>sched := ds\<rparr>) \<longleftrightarrow> same_files v w"
  by (simp_all add: same_files_def)

lemma updates_sched [simp]:
  "set_node q nd (w\<lparr>sched := ds\<rparr>) = (set_node q nd w)\<lparr>sched := ds\<rparr>"
  "del_nodes P (w\<lparr>sched := ds\<rparr>) = (del_nodes P w)\<lparr>sched := ds\<rparr>"
  "move_tree a b (w\<lparr>sched := ds\<rparr>) = (move_tree a b w)\<lparr>sched := ds\<rparr>"
  "file_append q bs (w\<lparr>sched := ds\<rparr>) = (file_append q bs w)\<lparr>sched := ds\<rparr>"
  "new_inode t mode (w\<lparr>sched := ds\<rparr>) = new_inode t mode w"
  by (auto simp: set_node_def del_nodes_def move_tree_def file_append_def new_inode_def
      split: option.split)

lemma same_files_resolve:
  assumes "same_files v w"
  shows "resolve w = resolve v" "resolve_new w = resolve_new v" "dir_at w = dir_at v"
    "children w = children v"
proof -
  note eqs = same_files_look [OF assms]
  have c: "nodes w = nodes v" "cwd w = cwd v"
    using assms by (simp_all add: same_files_def)
  show "resolve w = resolve v" "resolve_new w = resolve_new v"
    by (intro ext; simp add: resolve_def resolve_new_def resolve_parts_def eqs c)+
  show "dir_at w = dir_at v"
    by (intro ext) (simp add: dir_at_def eqs)
  show "children w = children v"
    by (intro ext) (simp add: children_def c)
qed

lemma same_files_world_ok: "same_files v w \<Longrightarrow> world_ok w \<longleftrightarrow> world_ok v"
  using same_files_resolve(3) [of v w]
  by (simp add: world_ok_def fs_wf_same_files [of v w]) (simp add: same_files_def)

lemma syscall_cases:
  assumes "syscall m w = (r, v)"
  obtains (fails) e where "r = Inl e" "same_files w v"
    | (runs) ds where "m (w\<lparr>sched := ds\<rparr>) = (r, v)"
proof (cases "sched w")
  case Nil
  then have same: "w\<lparr>sched := []\<rparr> = w" by simp
  from assms Nil have "m w = (r, v)"
    by (simp add: syscall_def with_decision_def)
  then show ?thesis by (intro runs [of "[]"]) (simp only: same)
next
  case (Cons d ds)
  with assms fails runs show ?thesis
    by (cases d) (auto simp: syscall_def with_decision_def)
qed

lemma stat_ok:
  assumes "sys_stat f p w = (Inr md, v)"
  shows "\<exists>q nd. resolve w f p = Inr q \<and> look w q = Some nd \<and> md = metadata_of nd"
  using assms unfolding sys_stat_def
  by (rule syscall_cases) (auto split: sum.splits option.splits)

lemma create_new_ok:
  assumes "sys_create_new p mode w = (Inr q, v)"
  shows "resolve w False p = Inr q \<and> look w q = None \<and> q \<noteq> [] \<and> dir_at w (butlast q) \<and>
    same_files (set_node q (new_inode FtFile mode w) w) v"
  using assms unfolding sys_create_new_def
  by (rule syscall_cases) (auto simp: link_new_def split: sum.splits if_splits)

lemma create_new_fails: "sys_create_new p mode w = (Inl e, v) \<Longrightarrow> same_files w v"
  unfolding sys_create_new_def
  by (erule syscall_cases) (auto simp: link_new_def split: sum.splits if_splits)

lemma file_write_outcome:
  assumes "file_write_all q bs w = (r, v)"
  shows "\<exists>k. same_files (file_append q (take k bs) w) v \<and> (\<forall>u. r = Inr u \<longrightarrow> take k bs = bs)"
proof (cases "sched w")
  case (Cons d ds)
  with assms show ?thesis
  proof (cases d)
    case (Fail e n)
    with assms Cons show ?thesis
      by (intro exI [of _ n]) (auto simp: file_write_all_def with_decision_def)
  qed (use assms Cons in \<open>auto simp: file_write_all_def with_decision_def intro: exI [of _ "length bs"]\<close>)
qed (use assms in \<open>auto simp: file_write_all_def with_decision_def intro: exI [of _ "length bs"]\<close>)

lemma set_permissions_outcome:
  assumes "sys_set_permissions p mode w = (r, v)"
  shows "same_files w v \<or> (\<exists>q nd. resolve w True p = Inr q \<and> look w q = Some nd \<and> r = Inr () \<and>
    same_files (set_node q (nd\<lparr>i_mode := mode\<rparr>) w) v)"
  using assms unfolding sys_set_permissions_def
  by (rule syscall_cases) (auto split: sum.splits option.splits)

lemma set_permissions_ok:
  assumes "sys_set_permissions p mode w = (Inr u, v)"
  shows "\<exists>q nd. resolve w True p = Inr q \<and> look w q = Some nd \<and>
    same_files (set_node q (nd\<lparr>i_mode := mode\<rparr>) w) v"
  using assms unfolding sys_set_permissions_def
  by (rule syscall_cases) (auto split: sum.splits option.splits)

lemma remove_file_ok:
  assumes "sys_remove_file p w = (Inr u, v)"
  shows "\<exists>q nd. resolve w False p = Inr q \<and> look w q = Some nd \<and> i_type nd \<noteq> FtDir \<and>
    same_files (del_nodes (\<lambda>k. k = q) w) v"
  using assms unfolding sys_remove_file_def
  by (rule syscall_cases) (auto split: sum.splits option.splits if_splits)

lemma remove_file_fails: "sys_remove_file p w = (Inl e, v) \<Longrightarrow> same_files w v"
  unfolding sys_remove_file_def
  by (erule syscall_cases) (auto split: sum.splits option.splits if_splits)

lemma rename_ok:
  assumes "sys_rename p p' w = (Inr u, v)"
  shows "\<exists>a b nd. resolve w False p = Inr a \<and> resolve_new w p' = Inr b \<and> look w a = Some nd \<and>
    a \<noteq> [] \<and> b \<noteq> [] \<and> dir_at w (butlast b) \<and>
    (a = b \<and> same_files w v \<or>
     \<not> prefix a b \<and> \<not> prefix b a \<and> same_files (move_tree a b w) v \<and>
     (\<forall>old. look w b = Some old \<longrightarrow>
        (i_type nd = FtDir \<longleftrightarrow> i_type old = FtDir) \<and> (i_type old = FtDir \<longrightarrow> children w b = [])))"
  using assms unfolding sys_rename_def
  by (rule syscall_cases)
    (auto split: sum.splits option.splits if_splits simp: strict_prefix_def)

lemma rename_fails: "sys_rename p p' w = (Inl e, v) \<Longrightarrow> same_files w v"
  unfolding sys_rename_def
  by (erule syscall_cases) (auto split: sum.splits option.splits if_splits)

lemma only_same: "only_sched w v \<Longrightarrow> same_files w v \<and> outp v = outp w"
  by (auto simp: only_sched_same_files only_sched_def)

lemma open_read_ok:
  assumes "sys_open_read p w = (Inr h, v)"
  shows "only_sched w v \<and> (\<exists>q nd. resolve w True p = Inr q \<and> look w q = Some nd \<and> h = (nd, i_data nd))"
proof
  show "only_sched w v" using keeps_only_open_read assms by (rule keepsD)
  show "\<exists>q nd. resolve w True p = Inr q \<and> look w q = Some nd \<and> h = (nd, i_data nd)"
    using assms unfolding sys_open_read_def
    by (rule syscall_cases) (auto split: sum.splits option.splits)
qed

text \<open>A schedule on which no call is made to fail with \<open>NotFound\<close>: that error then tells the truth.\<close>

definition honest :: "world \<Rightarrow> bool" where
  "honest w \<longleftrightarrow> list_all (\<lambda>d. case d of Fail e _ \<Rightarrow> io_kind e \<noteq> NotFound | _ \<Rightarrow> True) (sched w)"

definition node_of :: "world \<Rightarrow> string \<Rightarrow> inode option" where
  "node_of w p = (case resolve w False p of Inl _ \<Rightarrow> None | Inr q \<Rightarrow> look w q)"

lemma only_sched_node: "only_sched w v \<Longrightarrow> node_of v p = node_of w p"
  by (drule only_sched_look) (simp add: node_of_def split: sum.split)

lemma remove_dir_ok:
  assumes "sys_remove_dir p w = (Inr u, v)"
  shows "\<exists>q nd. resolve w False p = Inr q \<and> look w q = Some nd \<and> children w q = [] \<and>
    same_files (del_nodes (\<lambda>k. k = q) w) v"
  using assms unfolding sys_remove_dir_def
  by (rule syscall_cases) (auto split: sum.splits option.splits if_splits)

lemma remove_dir_all_ok:
  assumes "sys_remove_dir_all p w = (Inr u, v)"
  shows "\<exists>q nd. resolve w False p = Inr q \<and> look w q = Some nd \<and>
    (i_type nd = FtSymlink \<and> same_files (del_nodes (\<lambda>k. k = q) w) v \<or>
     i_type nd = FtDir \<and> same_files (del_nodes (prefix q) w) v)"
proof (cases "sched w")
  case Nil
  with assms show ?thesis
    by (auto simp: sys_remove_dir_all_def with_decision_def split: sum.splits option.splits file_type.splits if_splits)
next
  case (Cons d ds)
  with assms show ?thesis
    by (auto simp: sys_remove_dir_all_def with_decision_def
        split: sum.splits option.splits file_type.splits if_splits decision.splits)
qed

text \<open>Removing one node of a well-formed file system that has nothing below it removes its whole subtree.\<close>

lemma del_leaf_tree:
  assumes wf: "fs_wf w" and q: "\<not> dir_at w q \<or> children w q = []"
  shows "look (del_nodes (\<lambda>k. k = q) w) k = (if prefix q k then None else look w k)"
proof -
  have "strict_prefix q k \<Longrightarrow> look w k = None"
    using q wf fs_wf_non_dir fs_wf_no_children by blast
  then show ?thesis
    by (auto simp: look_del_nodes strict_prefix_def)
qed

end
