(* ===== verification/Actions.thy ===== *)
theory Actions
  imports Outcomes
begin

text \<open>
  What the handlers of the daemon have in common: the \<open>?\<close> operator on I/O results with and
  without a context message, sending one response, and the loops that read an open file to
  its end. The read loops are proved once, for every way the system may cut the reads short.
\<close>

section \<open>Results of system calls inside \<open>anyhow\<close> code\<close>

definition ctx :: "string \<Rightarrow> 'a io \<Rightarrow> 'a app" where
  "ctx m = map_errE (io_context m)"

definition plain :: "'a io \<Rightarrow> 'a app" where
  "plain = map_errE anyhow_io"

definition proto :: "(world, protocol_error, 'a) act \<Rightarrow> 'a app" where
  "proto = map_errE anyhow_protocol"

definition send_response :: "libs \<Rightarrow> u32 \<Rightarrow> control_response \<Rightarrow> unit app" where
  "send_response L request_id response =
     proto (write_json_frame (response_to_vec L) conn_write_all Response request_id response)"

lemma ctx_Inr [simp]: "ctx m f w = (Inr a, v) \<longleftrightarrow> f w = (Inr a, v)"
  by (simp add: ctx_def)

lemma plain_Inr [simp]: "plain f w = (Inr a, v) \<longleftrightarrow> f w = (Inr a, v)"
  by (simp add: plain_def)

lemma proto_Inr [simp]: "proto f w = (Inr a, v) \<longleftrightarrow> f w = (Inr a, v)"
  by (simp add: proto_def)

lemma app_fails:
  "ctx m f w = (Inl err, v) \<Longrightarrow> \<exists>e. f w = (Inl e, v) \<and> err = io_context m e"
  "plain f w = (Inl err, v) \<Longrightarrow> \<exists>e. f w = (Inl e, v) \<and> err = anyhow_io e"
  "proto g w = (Inl err, v) \<Longrightarrow> \<exists>e. g w = (Inl e, v) \<and> err = anyhow_protocol e"
  by (auto simp: ctx_def plain_def proto_def map_errE_eq_Inl_iff)

lemma ctx_snd [simp]: "snd (ctx m f w) = snd (f w)"
  by (simp add: ctx_def)

lemma plain_snd [simp]: "snd (plain f w) = snd (f w)"
  by (simp add: plain_def)

lemma proto_snd [simp]: "snd (proto f w) = snd (f w)"
  by (simp add: proto_def)

lemma keeps_app [keeps_intros]:
  "keeps R f \<Longrightarrow> keeps R (ctx m f)" "keeps R f \<Longrightarrow> keeps R (plain f)"
  "keeps R g \<Longrightarrow> keeps R (proto g)"
  by (simp_all add: keeps_def)

lemma files_send [keeps_intros]: "keeps same_files (send_response L rid r)"
  unfolding send_response_def by (intro keeps_intros files_eff.keeps_write_json_frame)

lemma wf_send [keeps_intros]: "keeps keeps_wf (send_response L rid r)"
  by (rule wf_of_same_files) (rule files_send)

lemma out_send [keeps_intros]: "keeps out_grows (send_response L rid r)"
  unfolding send_response_def by (intro keeps_intros out_eff.keeps_write_json_frame)

lemma calm_send [keeps_intros]: "keeps stays_calm (send_response L rid r)"
  unfolding send_response_def by (intro keeps_intros calm_eff.keeps_write_json_frame)

text \<open>A response that was sent is one frame of the connection's output.\<close>

definition response_bytes :: "libs \<Rightarrow> u32 \<Rightarrow> control_response \<Rightarrow> bytes" where
  "response_bytes L rid r =
     (case response_to_vec L r of Inl _ \<Rightarrow> [] | Inr p \<Rightarrow> frame_bytes Response 0 rid p)"

definition sendable :: "libs \<Rightarrow> control_response \<Rightarrow> bool" where
  "sendable L r \<longleftrightarrow>
     (case response_to_vec L r of Inl _ \<Rightarrow> False | Inr p \<Rightarrow> length p \<le> MAX_PAYLOAD_LEN)"

lemma send_response_ok:
  assumes "send_response L rid r w = (Inr u, v)"
  shows "sendable L r \<and> outp v = outp w @ response_bytes L rid r \<and> same_files w v"
proof -
  have "same_files w v"
    using files_send assms by (rule keepsD)
  with conn_w.write_json_frame_ok [of "response_to_vec L" Response rid r w u v] assms show ?thesis
    by (auto simp: send_response_def sendable_def response_bytes_def)
qed

section \<open>System calls when nothing goes wrong\<close>

lemma calm_decision [simp]: "sched w = [] \<Longrightarrow> with_decision f w = f Proceed w"
  by (simp add: with_decision_def)

lemma calm_syscall_run [simp]: "sched w = [] \<Longrightarrow> syscall m w = m w"
  by (simp add: syscall_def)

lemma calm_open_read:
  "sched w = [] \<Longrightarrow> resolve w True p = Inr q \<Longrightarrow> look w q = Some nd \<Longrightarrow>
     sys_open_read p w = (Inr (nd, i_data nd), w)"
  by (simp add: sys_open_read_def)

lemma calm_stat:
  "sched w = [] \<Longrightarrow> resolve w f p = Inr q \<Longrightarrow> look w q = Some nd \<Longrightarrow>
     sys_stat f p w = (Inr (metadata_of nd), w)"
  by (simp add: sys_stat_def)

lemma calm_send_response:
  assumes calm: "sched w = []" and small: "sendable L r"
  shows "send_response L rid r w = (Inr (), w\<lparr>outp := outp w @ response_bytes L rid r\<rparr>)"
proof -
  from small obtain p where p: "response_to_vec L r = Inr p" "length p \<le> MAX_PAYLOAD_LEN"
    by (auto simp: sendable_def split: sum.splits)
  with calm show ?thesis
    by (simp add: send_response_def proto_def write_json_frame_def write_frame_def Let_def
        response_bytes_def frame_bytes_def map_errE_def thenE_def bindE_def conn_write_all_def)
qed

section \<open>Reading a file to its end\<close>

context effect
begin

text \<open>What follows an action may assume that the action returned its argument.\<close>

lemma keeps_bind_result:
  assumes m: "keeps R m" and f: "\<And>a s t. m s = (Inr a, t) \<Longrightarrow> keeps R (f a)"
  shows "keeps R (bindE m f)"
  unfolding keeps_def
proof
  fix s
  show "R s (snd (bindE m f s))"
  proof (cases "m s")
    case (Pair r t)
    with m have "R s t" by (rule keepsD)
    with Pair f show ?thesis
      by (cases r) (auto simp: bindE_def keeps_def intro: trans)
  qed
qed

end

lemma bindE_cong [fundef_cong]:
  "m = m' \<Longrightarrow> (\<And>a s t. m' s = (Inr a, t) \<Longrightarrow> f a = f' a) \<Longrightarrow> bindE m f = bindE m' f'"
  by (rule ext) (auto simp: bindE_def split: prod.splits sum.splits)

text \<open>Whatever a read returns comes off the front; it returns nothing only at the end.\<close>

lemma sys_read_ok:
  assumes "sys_read h n w = (Inr (chunk, nd, rest), v)"
  shows "nd = fst h" "snd h = chunk @ rest" "length chunk \<le> n" "only_sched w v"
    and "0 < n \<Longrightarrow> chunk = [] \<Longrightarrow> rest = []"
proof -
  from assms show "nd = fst h" "snd h = chunk @ rest" "length chunk \<le> n"
    by (auto simp: sys_read_def with_decision_def split: prod.splits list.splits if_splits decision.splits)
  from assms show "only_sched w v"
    by (rule keepsD [OF keeps_only_read])
  from assms show "0 < n \<Longrightarrow> chunk = [] \<Longrightarrow> rest = []"
    by (auto simp: sys_read_def with_decision_def split: prod.splits list.splits if_splits decision.splits)
qed

lemma sys_read_shrinks:
  "sys_read h n w = (Inr (chunk, h'), v) \<Longrightarrow> chunk \<noteq> [] \<Longrightarrow> length (snd h') < length (snd h)"
  by (cases h') (auto dest: sys_read_ok(2))

text \<open>
  The loop of \<open>sha256_path\<close>: \<open>hasher.update\<close> of one buffer after the other; the hasher's
  state is the bytes it has been given.
\<close>

function hash_loop :: "inode \<times> bytes \<Rightarrow> bytes \<Rightarrow> bytes io" where
  "hash_loop h fed =
     bindE (sys_read h DEFAULT_STREAM_CHUNK_SIZE) (\<lambda>(chunk, h').
     if chunk = [] then retE fed else hash_loop h' (fed @ chunk))"
  by pat_completeness auto
termination
  by (relation "measure (\<lambda>(h, _). length (snd h))") (auto dest: sys_read_shrinks)

declare hash_loop.simps [simp del]

text \<open>\<open>read_to_end\<close> on \<open>file.take(limit)\<close>: reads until the limit is used up or a read returns nothing.\<close>

function read_take :: "nat \<Rightarrow> inode \<times> bytes \<Rightarrow> bytes \<Rightarrow> bytes io" where
  "read_take limit h acc =
     (if limit = 0 then retE acc
      else
        bindE (sys_read h limit) (\<lambda>(chunk, h').
        if chunk = [] then retE acc else read_take (limit - length chunk) h' (acc @ chunk)))"
  by pat_completeness auto
termination
  by (relation "measure (\<lambda>(_, h, _). length (snd h))") (auto dest: sys_read_shrinks)

declare read_take.simps [simp del]

lemma hash_loop_ok:
  "hash_loop h fed w = (Inr bs, v) \<Longrightarrow> bs = fed @ snd h"
proof (induction h fed arbitrary: w rule: hash_loop.induct)
  case (1 h fed)
  from "1.prems" obtain chunk nd rest u where r: "sys_read h DEFAULT_STREAM_CHUNK_SIZE w = (Inr (chunk, nd, rest), u)"
    and rest: "(if chunk = [] then retE fed else hash_loop (nd, rest) (fed @ chunk)) u = (Inr bs, v)"
    by (subst (asm) hash_loop.simps) (auto simp: bindE_eq_Inr_iff)
  note ok = sys_read_ok [OF r]
  show ?case
  proof (cases "chunk = []")
    case True
    with ok rest show ?thesis by (simp add: DEFAULT_STREAM_CHUNK_SIZE_def)
  next
    case False
    with "1.IH" [OF r] rest ok show ?thesis by auto
  qed
qed

lemma keeps_hash_loop: "keeps only_sched (hash_loop h fed)"
proof (induction h fed rule: hash_loop.induct)
  case (1 h fed)
  show ?case
    by (subst hash_loop.simps, rule only_eff.keeps_bind_result [OF keeps_only_read])
      (use 1 in \<open>auto intro: only_eff.keeps_ret\<close>)
qed

lemma keeps_read_take: "keeps only_sched (read_take limit h acc)"
proof (induction limit h acc rule: read_take.induct)
  case (1 limit h acc)
  show ?case
    by (subst read_take.simps, rule keeps_if, rule only_eff.keeps_ret,
        rule only_eff.keeps_bind_result [OF keeps_only_read])
      (use 1 in \<open>auto intro: only_eff.keeps_ret\<close>)
qed

lemma read_take_ok:
  "read_take limit h acc w = (Inr bs, v) \<Longrightarrow> bs = acc @ take limit (snd h)"
proof (induction limit h acc arbitrary: w rule: read_take.induct)
  case (1 limit h acc)
  show ?case
  proof (cases "limit = 0")
    case True
    with "1.prems" show ?thesis by (simp add: read_take.simps)
  next
    case limit: False
    with "1.prems" obtain chunk nd rest u where r: "sys_read h limit w = (Inr (chunk, nd, rest), u)"
      and rest: "(if chunk = [] then retE acc
        else read_take (limit - length chunk) (nd, rest) (acc @ chunk)) u = (Inr bs, v)"
      by (subst (asm) read_take.simps) (auto simp: bindE_eq_Inr_iff)
    note ok = sys_read_ok [OF r]
    show ?thesis
    proof (cases "chunk = []")
      case True
      with ok rest limit show ?thesis by simp
    next
      case False
      with "1.IH" [OF limit r] rest ok show ?thesis by auto
    qed
  qed
qed

lemma calm_sys_read [simp]:
  "sched w = [] \<Longrightarrow> i_type nd \<noteq> FtDir \<Longrightarrow>
     sys_read (nd, bs) n w = (Inr (take n bs, nd, drop n bs), w)"
  by (simp add: sys_read_def)

lemma calm_hash_loop:
  "sched w = [] \<Longrightarrow> i_type (fst h) \<noteq> FtDir \<Longrightarrow> hash_loop h fed w = (Inr (fed @ snd h), w)"
proof (induction h fed rule: hash_loop.induct)
  case (1 h fed)
  obtain nd bs where h: "h = (nd, bs)" by force
  let ?n = DEFAULT_STREAM_CHUNK_SIZE
  have r: "sys_read h ?n w = (Inr (take ?n bs, nd, drop ?n bs), w)"
    using 1 h by simp
  show ?case
  proof (cases "take ?n bs = []")
    case True
    then have "bs = []" by (simp add: DEFAULT_STREAM_CHUNK_SIZE_def)
    with r h show ?thesis by (subst hash_loop.simps) (simp add: bindE_Inr)
  next
    case False
    with "1.IH" [OF r] "1.prems" h have
      "hash_loop (nd, drop ?n bs) (fed @ take ?n bs) w = (Inr (fed @ bs), w)" by simp
    with r h False show ?thesis by (subst hash_loop.simps) (simp add: bindE_Inr)
  qed
qed

lemma calm_read_take:
  "sched w = [] \<Longrightarrow> i_type (fst h) \<noteq> FtDir \<Longrightarrow>
     read_take limit h acc w = (Inr (acc @ take limit (snd h)), w)"
proof (induction limit h acc rule: read_take.induct)
  case (1 limit h acc)
  obtain nd bs where h: "h = (nd, bs)" by force
  show ?case
  proof (cases "limit = 0 \<or> bs = []")
    case True
    with h "1.prems" show ?thesis by (subst read_take.simps) (auto simp: bindE_Inr)
  next
    case False
    have r: "sys_read h limit w = (Inr (take limit bs, nd, drop limit bs), w)"
      using 1 h by simp
    have "read_take (limit - length (take limit bs)) (nd, drop limit bs) (acc @ take limit bs) w
        = (Inr (acc @ take limit bs), w)"
      using "1.IH" [OF _ r] "1.prems" h False by simp linarith
    with r h False show ?thesis by (subst read_take.simps) (simp add: bindE_Inr)
  qed
qed

text \<open>\<open>std::fs::read_to_string\<close>.\<close>

definition read_to_string :: "string \<Rightarrow> string io" where
  "read_to_string path =
     bindE (sys_open_read path) (\<lambda>file.
     bindE (hash_loop file []) (\<lambda>bs.
     if utf8_valid bs then retE (from_bytes bs)
     else failE (custom_error InvalidData ''stream did not contain valid UTF-8'')))"

end
