(* ===== verification/Daemon_Fs.thy ===== *)
theory Daemon_Fs
  imports Actions
begin

text \<open>
  The structured file-system operations of the daemon (\<open>device/rsdbd/src/main.rs\<close>, from
  \<open>handle_fs_stat\<close> to \<open>hex_digest\<close>, and the mode helpers at the end of the file).
\<close>

section \<open>Helpers\<close>

definition MAX_AGENT_FS_BYTES :: nat where
  "MAX_AGENT_FS_BYTES = 4 * 1024 * 1024"

definition validate_fs_path :: "string \<Rightarrow> string app" where
  "validate_fs_path path =
     (if path = [] then failE [CInvalidRequest ''path must not be empty''] else retE path)"

definition fs_precondition_failed :: "string \<Rightarrow> anyhow" where
  "fs_precondition_failed message = [CPrecondition message]"

definition normalize_mode :: "u32 \<Rightarrow> u32" where
  "normalize_mode mode = (let m = mode AND 0xFFF in if m = 0 then 0x1A4 else m)"

definition file_mode :: "fs_metadata \<Rightarrow> u32" where
  "file_mode md = md_mode md AND 0xFFF"

definition fs_entry_kind_of :: "fs_metadata \<Rightarrow> fs_entry_kind" where
  "fs_entry_kind_of md =
     (if md_type md = FtFile then FkFile
      else if md_type md = FtDir then FkDirectory
      else if md_type md = FtSymlink then FkSymlink
      else FkOther)"

definition U64_MAX :: nat where
  "U64_MAX = 2 ^ 64 - 1"

text \<open>Times are nanoseconds from the epoch; before it there is no duration.\<close>

definition metadata_mtime_unix_ms :: "fs_metadata \<Rightarrow> nat option" where
  "metadata_mtime_unix_ms md =
     (if md_mtime md < 0 then None else Some (min (nat (md_mtime md div 1000000)) U64_MAX))"

definition hex_digit :: "nat \<Rightarrow> char" where
  "hex_digit n = ''0123456789abcdef'' ! (n mod 16)"

definition hex_digest :: "bytes \<Rightarrow> string" where
  "hex_digest bs = concat (map (\<lambda>b. [hex_digit (unat b div 16), hex_digit (unat b)]) bs)"

definition sha256_bytes :: "libs \<Rightarrow> bytes \<Rightarrow> string" where
  "sha256_bytes L bs = hex_digest (sha256_digest L bs)"

definition sha256_path :: "libs \<Rightarrow> string \<Rightarrow> string app" where
  "sha256_path L path =
     bindE (ctx (''failed to open '' @ display path @ '' for hashing'') (sys_open_read path)) (\<lambda>file.
     bindE (plain (hash_loop file [])) (\<lambda>fed.
     retE (hex_digest (sha256_digest L fed))))"

definition encode_fs_content :: "libs \<Rightarrow> bytes \<Rightarrow> content_encoding \<Rightarrow> anyhow + string" where
  "encode_fs_content L bs encoding =
     (case encoding of
        Utf8 \<Rightarrow> if utf8_valid bs then Inr (from_bytes bs)
                else Inl [CInvalidRequest ''file is not valid UTF-8'']
      | Base64 \<Rightarrow> Inr (base64_encode L bs))"

definition decode_fs_content :: "libs \<Rightarrow> string \<Rightarrow> content_encoding \<Rightarrow> anyhow + bytes" where
  "decode_fs_content L content encoding =
     (case encoding of
        Utf8 \<Rightarrow> Inr (as_bytes content)
      | Base64 \<Rightarrow>
          (case base64_decode L content of
             Inl err \<Rightarrow> Inl [CInvalidRequest (''invalid base64 content: '' @ err)]
           | Inr bs \<Rightarrow> Inr bs))"

text \<open>The \<open>sha256\<close> field of an entry: a digest is taken of regular files only, and only on request.\<close>

definition entry_sha256 ::
  "libs \<Rightarrow> string \<Rightarrow> fs_metadata \<Rightarrow> hash_algorithm option \<Rightarrow> string option app" where
  "entry_sha256 L path md hash =
     (case hash of
        Some Sha256 \<Rightarrow>
          if md_type md = FtFile then bindE (sha256_path L path) (\<lambda>d. retE (Some d)) else retE None
      | None \<Rightarrow> retE None)"

section \<open>Stat and list\<close>

definition build_fs_stat ::
  "libs \<Rightarrow> string \<Rightarrow> fs_metadata \<Rightarrow> hash_algorithm option \<Rightarrow> agent_fs_stat app" where
  "build_fs_stat L path md hash =
     bindE (entry_sha256 L path md hash) (\<lambda>sha256.
     retE \<lparr>st_path = display path, st_exists = True, st_kind = Some (fs_entry_kind_of md),
           st_size = Some (md_len md), st_mode = Some (file_mode md),
           st_mtime_unix_ms = metadata_mtime_unix_ms md, st_sha256 = sha256\<rparr>)"

definition blocking_fs_stat :: "libs \<Rightarrow> string \<Rightarrow> hash_algorithm option \<Rightarrow> agent_fs_stat app" where
  "blocking_fs_stat L path hash =
     bindE (tryE (symlink_metadata path)) (\<lambda>r.
     case r of
       Inr md \<Rightarrow> build_fs_stat L path md hash
     | Inl err \<Rightarrow>
         if io_kind err = NotFound then
           retE \<lparr>st_path = display path, st_exists = False, st_kind = None, st_size = None,
                 st_mode = None, st_mtime_unix_ms = None, st_sha256 = None\<rparr>
         else failE (io_context (''failed to stat '' @ display path) err))"

definition build_fs_entry ::
  "libs \<Rightarrow> string \<Rightarrow> fs_metadata \<Rightarrow> hash_algorithm option \<Rightarrow> agent_fs_list_entry app" where
  "build_fs_entry L path md hash =
     bindE (entry_sha256 L path md hash) (\<lambda>sha256.
     retE \<lparr>le_path = display path, le_kind = fs_entry_kind_of md, le_size = md_len md,
           le_sha256 = sha256\<rparr>)"

text \<open>\<open>child.file_name().and_then(to_str).is_some_and(starts_with('.'))\<close>\<close>

definition is_hidden :: "string \<Rightarrow> bool" where
  "is_hidden path =
     (case file_name path of None \<Rightarrow> False | Some n \<Rightarrow> is_utf8 n \<and> starts_with n ''.'')"

text \<open>
  The loop over the sorted children of a directory; \<open>descend\<close> is the recursive call on a
  subdirectory, and the list so far is passed along as the code's \<open>&mut Vec\<close> is.
\<close>

fun collect_children ::
  "libs \<Rightarrow> (string \<Rightarrow> u32 \<Rightarrow> agent_fs_list_entry list \<Rightarrow> agent_fs_list_entry list app) \<Rightarrow>
   bool \<Rightarrow> u32 option \<Rightarrow> bool \<Rightarrow> hash_algorithm option \<Rightarrow> u32 \<Rightarrow> string list \<Rightarrow>
   agent_fs_list_entry list \<Rightarrow> agent_fs_list_entry list app" where
  "collect_children L descend recursive max_depth include_hidden hash depth [] entries = retE entries"
| "collect_children L descend recursive max_depth include_hidden hash depth (child # rest) entries =
     (if is_hidden child \<and> \<not> include_hidden
      then collect_children L descend recursive max_depth include_hidden hash depth rest entries
      else
        bindE (ctx (''failed to stat '' @ display child) (symlink_metadata child)) (\<lambda>md.
        bindE (build_fs_entry L child md hash) (\<lambda>entry.
        let child_depth = depth + 1;
            can_descend = recursive \<and> md_type md = FtDir \<and>
              (case max_depth of None \<Rightarrow> True | Some limit \<Rightarrow> child_depth < limit)
        in bindE (if can_descend then descend child child_depth (entries @ [entry])
                  else retE (entries @ [entry])) (\<lambda>entries'.
           collect_children L descend recursive max_depth include_hidden hash depth rest entries'))))"

definition out_of_fuel :: anyhow where
  "out_of_fuel = []"

primrec collect_fs_entries ::
  "nat \<Rightarrow> libs \<Rightarrow> string \<Rightarrow> bool \<Rightarrow> u32 option \<Rightarrow> bool \<Rightarrow> hash_algorithm option \<Rightarrow> u32 \<Rightarrow>
   agent_fs_list_entry list \<Rightarrow> agent_fs_list_entry list app" where
  "collect_fs_entries 0 L path recursive max_depth include_hidden hash depth entries =
     failE out_of_fuel"
| "collect_fs_entries (Suc n) L path recursive max_depth include_hidden hash depth entries =
     bindE (ctx (''failed to read directory '' @ display path) (sys_read_dir path)) (\<lambda>names.
     collect_children L
       (\<lambda>child. collect_fs_entries n L child recursive max_depth include_hidden hash)
       recursive max_depth include_hidden hash depth
       (sort_key components (map (path_join path) names)) entries)"

text \<open>
  The recursion of \<open>collect_fs_entries\<close> goes one directory down each time, so it is at most as
  deep as the deepest location of the file system.
\<close>

definition fs_height :: "world \<Rightarrow> nat" where
  "fs_height w = Suc (fold max (map (length \<circ> fst) (nodes w)) 0)"

definition blocking_fs_list ::
  "libs \<Rightarrow> string \<Rightarrow> bool \<Rightarrow> u32 option \<Rightarrow> bool \<Rightarrow> hash_algorithm option \<Rightarrow>
   agent_fs_list_entry list app" where
  "blocking_fs_list L path recursive max_depth include_hidden hash =
     bindE (ctx (''failed to stat '' @ display path) (symlink_metadata path)) (\<lambda>md.
     if md_type md = FtDir then
       bindE (getE fs_height) (\<lambda>fuel.
       collect_fs_entries fuel L path recursive max_depth include_hidden hash 0 [])
     else bindE (build_fs_entry L path md hash) (\<lambda>entry. retE [entry]))"

definition handle_fs_stat :: "libs \<Rightarrow> u32 \<Rightarrow> string \<Rightarrow> hash_algorithm option \<Rightarrow> unit app" where
  "handle_fs_stat L request_id path hash =
     bindE (validate_fs_path path) (\<lambda>requested.
     bindE (blocking_fs_stat L requested hash) (\<lambda>stat.
     send_response L request_id (RFsStat stat)))"

definition handle_fs_list ::
  "libs \<Rightarrow> u32 \<Rightarrow> string \<Rightarrow> bool \<Rightarrow> u32 option \<Rightarrow> bool \<Rightarrow> hash_algorithm option \<Rightarrow> unit app" where
  "handle_fs_list L request_id path recursive max_depth include_hidden hash =
     bindE (validate_fs_path path) (\<lambda>requested.
     bindE (blocking_fs_list L requested recursive max_depth include_hidden hash) (\<lambda>entries.
     send_response L request_id (RFsList entries)))"

section \<open>Read and write\<close>

definition handle_fs_read ::
  "libs \<Rightarrow> u32 \<Rightarrow> string \<Rightarrow> content_encoding \<Rightarrow> nat option \<Rightarrow> unit app" where
  "handle_fs_read L request_id path encoding max_bytes =
     bindE (validate_fs_path path) (\<lambda>requested.
     bindE (ctx (''failed to stat '' @ display requested) (symlink_metadata requested)) (\<lambda>md.
     if md_type md \<noteq> FtFile then
       failE [CInvalidRequest (''path is not a regular file: '' @ display requested)]
     else
       let read_limit = min (case max_bytes of None \<Rightarrow> MAX_AGENT_FS_BYTES | Some n \<Rightarrow> n)
             MAX_AGENT_FS_BYTES
       in bindE (ctx (''failed to open '' @ display requested) (sys_open_read requested)) (\<lambda>file.
          bindE (plain (read_take (read_limit + 1) file [])) (\<lambda>read.
          let truncated = read_limit < length read;
              bs = (if truncated then take read_limit read else read)
          in bindE (liftE (encode_fs_content L bs encoding)) (\<lambda>content.
             send_response L request_id (FsReadResult
               \<lparr>rr_path = display requested, rr_encoding = encoding, rr_content = content,
                rr_bytes = length bs, rr_truncated = truncated\<rparr>))))))"

definition write_direct_file :: "string \<Rightarrow> bytes \<Rightarrow> u32 option \<Rightarrow> unit app" where
  "write_direct_file path bs mode =
     bindE (ctx (''failed to open '' @ display path)
              (sys_open_truncate path (case mode of None \<Rightarrow> 0x1B6 | Some m \<Rightarrow> normalize_mode m))) (\<lambda>file.
     thenE (plain (file_write_all file bs))
    (thenE (plain (file_flush file))
           (case mode of
              None \<Rightarrow> retE ()
            | Some m \<Rightarrow>
                ctx (''failed to set permissions on '' @ display path)
                  (sys_set_permissions path (normalize_mode m)))))"

definition atomic_temp_path :: "string \<Rightarrow> int \<Rightarrow> string" where
  "atomic_temp_path path now =
     (let parent = (case parent_path path of Some p \<Rightarrow> if p = [] then ''.'' else p | None \<Rightarrow> ''.'');
          name = (case file_name path of
                    Some n \<Rightarrow> if is_utf8 n then n else ''rsdb-temp''
                  | None \<Rightarrow> ''rsdb-temp'');
          nonce = (if now < 0 then 0 else nat now)
      in path_join parent (''.'' @ name @ ''.rsdb-tmp-'' @ show_nat nonce))"

text \<open>The \<open>async\<close> block of \<open>write_atomic_file\<close>.\<close>

definition write_temp_and_rename :: "string \<Rightarrow> string \<Rightarrow> bytes \<Rightarrow> u32 option \<Rightarrow> unit app" where
  "write_temp_and_rename temp_path path bs mode =
     bindE (ctx (''failed to open '' @ display temp_path)
              (sys_create_new temp_path (case mode of None \<Rightarrow> 0x1B6 | Some m \<Rightarrow> normalize_mode m))) (\<lambda>file.
     thenE (plain (file_write_all file bs))
    (thenE (plain (file_flush file))
    (thenE (case mode of
              None \<Rightarrow> retE ()
            | Some m \<Rightarrow>
                ctx (''failed to set permissions on '' @ display temp_path)
                  (sys_set_permissions temp_path (normalize_mode m)))
           (ctx (''failed to rename '' @ display temp_path @ '' to '' @ display path)
              (sys_rename temp_path path)))))"

definition write_atomic_file :: "string \<Rightarrow> bytes \<Rightarrow> u32 option \<Rightarrow> unit app" where
  "write_atomic_file path bs mode =
     bindE (getE clock) (\<lambda>now.
     let temp_path = atomic_temp_path path now
     in bindE (tryE (write_temp_and_rename temp_path path bs mode)) (\<lambda>result.
        case result of
          Inr _ \<Rightarrow> retE ()
        | Inl err \<Rightarrow> bindE (tryE (sys_remove_file temp_path)) (\<lambda>_. failE err)))"

text \<open>\<open>match symlink_metadata(path)\<close>: the metadata, nothing when there is no such path, or an error.\<close>

definition stat_existing :: "string \<Rightarrow> fs_metadata option app" where
  "stat_existing path =
     bindE (tryE (symlink_metadata path)) (\<lambda>r.
     case r of
       Inr md \<Rightarrow> retE (Some md)
     | Inl err \<Rightarrow>
         if io_kind err = NotFound then retE None
         else failE (io_context (''failed to stat '' @ display path) err))"

text \<open>The \<open>if_sha256\<close> block of \<open>handle_fs_write\<close>: the digest of the file when one is required and matches.\<close>

definition check_if_sha256 ::
  "libs \<Rightarrow> string \<Rightarrow> fs_metadata option \<Rightarrow> string option \<Rightarrow> string option app" where
  "check_if_sha256 L requested existing if_sha256 =
     (case if_sha256 of
        None \<Rightarrow> retE None
      | Some expected \<Rightarrow>
          (case existing of
             None \<Rightarrow> failE (fs_precondition_failed (''path does not exist: '' @ display requested))
           | Some md \<Rightarrow>
               if md_type md \<noteq> FtFile then
                 failE (fs_precondition_failed (''path is not a regular file: '' @ display requested))
               else
                 bindE (sha256_path L requested) (\<lambda>actual.
                 if actual \<noteq> expected then
                   failE (fs_precondition_failed (''sha256 precondition failed for '' @ display requested))
                 else retE (Some actual))))"

definition content_changes ::
  "libs \<Rightarrow> string \<Rightarrow> fs_metadata option \<Rightarrow> bytes \<Rightarrow> string option \<Rightarrow> bool app" where
  "content_changes L requested existing bs previous_sha256 =
     (case existing of
        None \<Rightarrow> retE True
      | Some md \<Rightarrow>
          if md_type md \<noteq> FtFile then retE True
          else if md_len md \<noteq> length bs then retE True
          else
            bindE (case previous_sha256 of
                     Some d \<Rightarrow> retE d
                   | None \<Rightarrow> sha256_path L requested) (\<lambda>previous.
            retE (previous \<noteq> sha256_bytes L bs)))"

text \<open>The guards of \<open>handle_fs_write\<close> before anything is written; the result is \<open>changed\<close>.\<close>

definition fs_write_guards ::
  "libs \<Rightarrow> string \<Rightarrow> bytes \<Rightarrow> bool \<Rightarrow> string option \<Rightarrow> bool app" where
  "fs_write_guards L requested bs if_missing if_sha256 =
     bindE (stat_existing requested) (\<lambda>existing.
     if (case existing of None \<Rightarrow> False | Some md \<Rightarrow> md_type md = FtDir) then
       failE [CInvalidRequest (''path is a directory: '' @ display requested)]
     else if if_missing \<and> existing \<noteq> None then
       failE (fs_precondition_failed (''path already exists: '' @ display requested))
     else
       bindE (check_if_sha256 L requested existing if_sha256) (\<lambda>previous_sha256.
       content_changes L requested existing bs previous_sha256))"

definition handle_fs_write ::
  "libs \<Rightarrow> u32 \<Rightarrow> string \<Rightarrow> string \<Rightarrow> content_encoding \<Rightarrow> u32 option \<Rightarrow> bool \<Rightarrow> bool \<Rightarrow> bool \<Rightarrow>
   string option \<Rightarrow> unit app" where
  "handle_fs_write L request_id path content encoding mode create_parent atomic if_missing if_sha256 =
     bindE (validate_fs_path path) (\<lambda>requested.
     bindE (liftE (decode_fs_content L content encoding)) (\<lambda>bs.
     if MAX_AGENT_FS_BYTES < length bs then
       failE [CInvalidRequest (''write exceeds maximum payload of '' @ show_nat MAX_AGENT_FS_BYTES
         @ '' bytes'')]
     else
       thenE (case parent_path requested of
                None \<Rightarrow> retE ()
              | Some parent \<Rightarrow>
                  if parent \<noteq> [] \<and> create_parent
                  then ctx (''failed to create '' @ display parent) (create_dir_all parent)
                  else retE ())
       (bindE (fs_write_guards L requested bs if_missing if_sha256) (\<lambda>changed.
        thenE (if atomic then write_atomic_file requested bs mode
               else write_direct_file requested bs mode)
        (bindE (tryE (symlink_metadata requested)) (\<lambda>final.
         send_response L request_id (FsWriteResult
           \<lparr>wr_path = display requested, wr_bytes_written = length bs,
            wr_mode = (case final of Inl _ \<Rightarrow> None | Inr md \<Rightarrow> Some (file_mode md)),
            wr_sha256 = Some (sha256_bytes L bs), wr_changed = changed\<rparr>)))))))"

section \<open>Directories, removal and moves\<close>

definition handle_fs_mkdir :: "libs \<Rightarrow> u32 \<Rightarrow> string \<Rightarrow> bool \<Rightarrow> u32 option \<Rightarrow> unit app" where
  "handle_fs_mkdir L request_id path parents mode =
     bindE (validate_fs_path path) (\<lambda>requested.
     bindE (bindE (stat_existing requested) (\<lambda>existing.
              case existing of
                Some md \<Rightarrow>
                  if md_type md \<noteq> FtDir then
                    failE (fs_precondition_failed
                      (''path exists and is not a directory: '' @ display requested))
                  else retE False
              | None \<Rightarrow>
                  thenE (ctx (''failed to create '' @ display requested)
                          (if parents then create_dir_all requested else sys_create_dir requested))
                    (retE True))) (\<lambda>created.
     thenE (case mode of
              None \<Rightarrow> retE ()
            | Some m \<Rightarrow>
                ctx (''failed to set permissions on '' @ display requested)
                  (sys_set_permissions requested (normalize_mode m)))
       (send_response L request_id (FsMkdirResult
          \<lparr>mk_path = display requested, mk_created = created\<rparr>))))"

definition rm_metadata :: "string \<Rightarrow> bool \<Rightarrow> bool \<Rightarrow> fs_metadata option app" where
  "rm_metadata requested force if_exists =
     bindE (tryE (symlink_metadata requested)) (\<lambda>r.
     case r of
       Inr md \<Rightarrow> retE (Some md)
     | Inl err \<Rightarrow>
         if io_kind err = NotFound \<and> (force \<or> if_exists) then retE None
         else failE (io_context (''failed to stat '' @ display requested) err))"

definition remove_existing :: "string \<Rightarrow> bool \<Rightarrow> fs_metadata \<Rightarrow> unit app" where
  "remove_existing requested recursive md =
     ctx (''failed to remove '' @ display requested)
       (if md_type md = FtDir
        then (if recursive then sys_remove_dir_all requested else sys_remove_dir requested)
        else sys_remove_file requested)"

definition handle_fs_rm :: "libs \<Rightarrow> u32 \<Rightarrow> string \<Rightarrow> bool \<Rightarrow> bool \<Rightarrow> bool \<Rightarrow> unit app" where
  "handle_fs_rm L request_id path recursive force if_exists =
     bindE (validate_fs_path path) (\<lambda>requested.
     bindE (rm_metadata requested force if_exists) (\<lambda>existing.
     bindE (case existing of
              Some md \<Rightarrow> thenE (remove_existing requested recursive md) (retE True)
            | None \<Rightarrow> retE False) (\<lambda>removed.
     send_response L request_id (FsRmResult \<lparr>rm_path = display requested, rm_removed = removed\<rparr>))))"

definition handle_fs_move :: "libs \<Rightarrow> u32 \<Rightarrow> string \<Rightarrow> string \<Rightarrow> bool \<Rightarrow> unit app" where
  "handle_fs_move L request_id source destination overwrite =
     bindE (validate_fs_path source) (\<lambda>source_path.
     bindE (validate_fs_path destination) (\<lambda>destination_path.
     thenE (ctx (''failed to stat '' @ display source_path) (symlink_metadata source_path))
    (bindE (stat_existing destination_path) (\<lambda>destination_metadata.
     if destination_metadata \<noteq> None \<and> \<not> overwrite then
       failE (fs_precondition_failed (''destination already exists: '' @ display destination_path))
     else
       thenE (case destination_metadata of
                None \<Rightarrow> retE ()
              | Some md \<Rightarrow>
                  ctx (''failed to remove '' @ display destination_path)
                    (if md_type md = FtDir then sys_remove_dir_all destination_path
                     else sys_remove_file destination_path))
      (thenE (ctx (''failed to move '' @ display source_path @ '' to '' @ display destination_path)
               (sys_rename source_path destination_path))
        (send_response L request_id (FsMoveResult
           \<lparr>mv_source = display source_path, mv_destination = display destination_path,
            mv_overwritten = (destination_metadata \<noteq> None)\<rparr>)))))))"

end
