(* ===== verification/Samples.thy ===== *)
theory Samples
  imports Daemon_Fs "HOL-Library.Code_Target_Nat"
begin

text \<open>
  A small world and concrete libraries, on which the theorems are applied: a root directory
  with \<open>/tmp\<close> and the file \<open>/tmp/a\<close>, nothing on the schedule, and libraries that satisfy what is
  documented of the real ones for the values used.
\<close>

definition dir_node :: inode where
  "dir_node = \<lparr>i_type = FtDir, i_data = [], i_mode = 0x1ED, i_mtime = 0\<rparr>"

definition file_node :: "bytes \<Rightarrow> inode" where
  "file_node bs = \<lparr>i_type = FtFile, i_data = bs, i_mode = 0x1A4, i_mtime = 0\<rparr>"

definition world_of :: "(loc \<times> inode) list \<Rightarrow> bytes \<Rightarrow> world" where
  "world_of files input =
     \<lparr>nodes = ([], dir_node) # ([''tmp''], dir_node) # files, cwd = [], umask = 0x12, clock = 5,
      sched = [], inp = input, outp = [], wbuf = []\<rparr>"

definition sample_world :: world where
  "sample_world = world_of [([''tmp'', ''a''], file_node [104, 105])] []"

definition keep_all :: "nat \<Rightarrow> bytes \<Rightarrow> bytes \<Rightarrow> bytes \<times> bytes" where
  "keep_all cap buf bs = (if length buf + length bs \<le> cap then ([], buf @ bs) else (buf @ bs, []))"

definition sample_libs :: libs where
  "sample_libs =
     \<lparr>request_to_vec = (\<lambda>m. if m = Ping then Inr [1] else Inl ''''),
      request_from_slice = (\<lambda>bs. Inr Ping),
      response_to_vec = (\<lambda>m. Inr [2]),
      response_from_slice = (\<lambda>bs. Inr PushReady),
      probe_to_vec = (\<lambda>m. Inr [3]),
      probe_from_slice = (\<lambda>bs. Inr (Probe 0)),
      announce_to_vec = (\<lambda>m. Inr [4]),
      announce_from_slice = (\<lambda>bs. Inl ''''),
      base64_encode = from_bytes,
      base64_decode = (\<lambda>s. Inr (as_bytes s)),
      sha256_digest = rev,
      glob_with = (\<lambda>ns pat. Inr []),
      bufwriter_put = keep_all\<rparr>"

lemma sample_bufwriter: "bufwriter_spec sample_libs"
  by (simp add: bufwriter_spec_def sample_libs_def keep_all_def)

lemma run_pair: "fst x = a \<Longrightarrow> x = (a, snd x)"
  by (cases x) simp

lemma sample_world_ok: "world_ok sample_world"
  by (simp add: world_ok_def fs_wf_def sample_world_def world_of_def look_def dir_at_def dir_node_def)

lemma sample_a:
  "resolve sample_world False ''/tmp/a'' = Inr [''tmp'', ''a'']"
  "resolve_new sample_world ''/tmp/a'' = Inr [''tmp'', ''a'']"
  "look sample_world [''tmp'', ''a''] = Some (file_node [104, 105])"
  "resolve sample_world False (atomic_temp_path ''/tmp/a'' (clock sample_world)) =
     Inr [''tmp'', ''.a.rsdb-tmp-5'']"
  "look sample_world [''tmp'', ''.a.rsdb-tmp-5''] = None"
  by code_simp+

end
