(* ===== verification/Protocol.thy ===== *)
theory Protocol
  imports Samples
begin

text \<open>
  The properties of the wire protocol (\<open>crates/rsdb-proto/src/lib.rs\<close>) over the connection of
  the world model: what one side writes the other reads back, what is accepted at all, and
  what happens to input that breaks off.
\<close>

lemma conn_frame_sent:
  "write_frame conn_write_all k rid p w = (Inr u, v) \<Longrightarrow>
     drop (length (outp w)) (outp v) = frame_bytes k 0 rid p \<and> length p \<le> MAX_PAYLOAD_LEN"
  by (auto dest!: conn_w.write_frame_ok)

text \<open>
  C2: a frame that \<open>write_frame\<close> has sent is read back by \<open>read_frame\<close> with its kind, request id
  and payload, and nothing of what follows it is consumed.
\<close>

theorem frame_over_connection:
  assumes "write_frame conn_write_all k rid p w = (Inr u, v)"
    and "sched r = []" and "inp r = drop (length (outp w)) (outp v) @ rest"
  shows "\<exists>r'. read_frame conn_read_exact r =
      (Inr \<lparr>f_header = \<lparr>h_version = PROTOCOL_VERSION, h_kind = k, h_flags = 0, h_request_id = rid,
             h_payload_len = word_of_nat (length p)\<rparr>, f_payload = p\<rparr>, r')
    \<and> inp r' = rest \<and> sched r' = []"
  using assms conn_frame_sent [OF assms(1)] by (intro conn_r.read_frame_live) auto

theorem frame_over_connection_witness:
  "\<exists>r'. read_frame conn_read_exact (world_of [] (frame_bytes Event 0 7 [1, 2] @ [9])) =
      (Inr \<lparr>f_header = \<lparr>h_version = PROTOCOL_VERSION, h_kind = Event, h_flags = 0, h_request_id = 7,
             h_payload_len = word_of_nat (length [1, 2 :: u8])\<rparr>, f_payload = [1, 2]\<rparr>, r')
    \<and> inp r' = [9] \<and> sched r' = []"
proof -
  obtain v where v: "write_frame conn_write_all Event 7 [1, 2] sample_world = (Inr (), v)"
    using conn_w.write_frame_live [of sample_world "[1, 2]" Event 7]
    by (auto simp: sample_world_def world_of_def MAX_PAYLOAD_LEN_def)
  show ?thesis
    by (rule frame_over_connection [OF v])
      (use conn_frame_sent [OF v] in \<open>simp_all add: world_of_def\<close>)
qed

text \<open>
  The same for stream frames: channel, end-of-stream flag, request id and payload arrive as
  they were sent.
\<close>

theorem stream_frame_over_connection:
  assumes "write_stream_frame conn_write_all rid c eof p w = (Inr u, v)"
    and "sched r = []" and "inp r = drop (length (outp w)) (outp v) @ rest"
  shows "\<exists>r'. read_stream_frame_into conn_read_exact r =
      (Inr (\<lparr>s_request_id = rid, s_channel = c, s_eof = eof\<rparr>, p), r') \<and> inp r' = rest \<and> sched r' = []"
  using assms conn_w.write_stream_frame_ok [OF assms(1)]
  by (intro conn_r.read_stream_frame_live) auto

theorem stream_frame_over_connection_witness:
  "\<exists>r'. read_stream_frame_into conn_read_exact (world_of [] (stream_bytes 3 Stderr True [5])) =
      (Inr (\<lparr>s_request_id = 3, s_channel = Stderr, s_eof = True\<rparr>, [5]), r')
    \<and> inp r' = [] \<and> sched r' = []"
proof -
  obtain v where v: "write_stream_frame conn_write_all 3 Stderr True [5] sample_world = (Inr (), v)"
    using conn_w.write_stream_frame_live [of sample_world "[5]" 3 Stderr True]
    by (auto simp: sample_world_def world_of_def MAX_PAYLOAD_LEN_def)
  show ?thesis
    by (rule stream_frame_over_connection [OF v])
      (use conn_w.write_stream_frame_ok [OF v] in \<open>simp_all add: world_of_def\<close>)
qed

text \<open>
  C3: \<open>FrameHeader::decode\<close> accepts exactly the 24-byte strings that start with the encoding of a
  header of this protocol version and of a legal payload length, and it returns that header;
  only the four reserved bytes at the end are free.
\<close>

theorem header_decode_exact:
  "header_decode bs = Inr h \<and> length bs = HEADER_LEN \<longleftrightarrow>
     length bs = HEADER_LEN \<and> take 20 bs = take 20 (header_encode h) \<and>
     h_version h = PROTOCOL_VERSION \<and> unat (h_payload_len h) \<le> MAX_PAYLOAD_LEN"
proof -
  have "header_decode bs = header_decode (header_encode h)"
    if "take 20 bs = take 20 (header_encode h)"
  proof -
    have eq: "slice a b bs = slice a b (header_encode h)" if "b \<le> 20" for a b
      using arg_cong [OF \<open>take 20 bs = take 20 (header_encode h)\<close>, of "take b"] that
      by (simp add: slice_def min_def flip: drop_take)
    have "slice 0 4 bs = slice 0 4 (header_encode h)" "slice 4 6 bs = slice 4 6 (header_encode h)"
      "slice 6 8 bs = slice 6 8 (header_encode h)" "slice 8 12 bs = slice 8 12 (header_encode h)"
      "slice 12 16 bs = slice 12 16 (header_encode h)" "slice 16 20 bs = slice 16 20 (header_encode h)"
      by (rule eq, simp)+
    then show ?thesis unfolding header_decode_def by (simp only:)
  qed
  then show ?thesis
    using header_decode_sound [of bs h] by (auto simp: header_decode_encode)
qed

text \<open>
  When the peer's bytes break off inside a frame, \<open>read_frame\<close> returns an I/O error of kind
  \<open>UnexpectedEof\<close>; it never returns a shortened frame.
\<close>

theorem truncated_frame:
  assumes cut: "n < length (frame_bytes k fl rid p)" and len: "length p \<le> MAX_PAYLOAD_LEN"
    and r: "sched r = []" "inp r = take n (frame_bytes k fl rid p)"
  shows "\<exists>e r'. read_frame conn_read_exact r = (Inl (Io e), r') \<and> io_kind e = UnexpectedEof \<and> inp r' = []"
proof -
  let ?h = "\<lparr>h_version = PROTOCOL_VERSION, h_kind = k, h_flags = fl, h_request_id = rid,
             h_payload_len = word_of_nat (length p)\<rparr>"
  note run = read_frame_def read_frame_into_def bindE_def map_errE_def conn_read_exact_def custom_error_def
  show ?thesis
  proof (cases "n < HEADER_LEN")
    case True
    with r show ?thesis by (simp add: run)
  next
    case False
    then have "take HEADER_LEN (inp r) = header_encode ?h" "drop HEADER_LEN (inp r) = take (n - HEADER_LEN) p"
      using r by (simp_all add: frame_bytes_def min_def drop_take)
    moreover have "header_decode (header_encode ?h) = Inr ?h"
      using len by (simp add: header_decode_encode unat_payload_len)
    moreover have "\<not> length p \<le> n - HEADER_LEN"
      using cut False by simp
    moreover have "HEADER_LEN \<le> length (inp r)"
      using r False by simp
    ultimately show ?thesis
      using r(1) len by (simp add: run unat_payload_len)
  qed
qed

theorem truncated_frame_witness:
  "\<exists>e r'. read_frame conn_read_exact (world_of [] (take 25 (frame_bytes Request 0 1 [1, 2, 3]))) = (Inl (Io e), r')
    \<and> io_kind e = UnexpectedEof \<and> inp r' = []"
  by (rule truncated_frame [of 25 Request 0 1 "[1, 2, 3]"])
    (simp_all add: world_of_def HEADER_LEN_def MAX_PAYLOAD_LEN_def)

text \<open>
  C4: a discovery datagram is accepted exactly when it is the discovery magic followed by at
  most 16 KiB that parse as a message; and the message that \<open>encode_discovery_message\<close> encoded
  is the one that is read, given that \<open>serde_json\<close> reads back what it wrote.
\<close>

theorem discovery_exact:
  "(decode_discovery_message from_slice bs = Inr m \<longleftrightarrow>
      (\<exists>payload. bs = DISCOVERY_MAGIC @ payload \<and> length payload \<le> MAX_DISCOVERY_PAYLOAD_LEN \<and>
         from_slice payload = Inr m)) \<and>
   (json_roundtrip to_vec from_slice \<longrightarrow> encode_discovery_message to_vec m = Inr bs \<longrightarrow>
      decode_discovery_message from_slice bs = Inr m)"
proof -
  have "decode_discovery_message from_slice bs = Inr m \<longleftrightarrow>
      (\<exists>payload. bs = DISCOVERY_MAGIC @ payload \<and> length payload \<le> MAX_DISCOVERY_PAYLOAD_LEN \<and>
         from_slice payload = Inr m)" for bs
  proof
    assume d: "decode_discovery_message from_slice bs = Inr m"
    then have "bs = DISCOVERY_MAGIC @ drop 8 bs"
      by (metis append_take_drop_id decode_discovery_message_def length_DISCOVERY_MAGIC sum.distinct(1))
    with d show "\<exists>payload. bs = DISCOVERY_MAGIC @ payload \<and> length payload \<le> MAX_DISCOVERY_PAYLOAD_LEN \<and>
         from_slice payload = Inr m"
      by (intro exI [of _ "drop 8 bs"])
        (auto simp: decode_discovery_message_def Let_def split: if_splits sum.splits)
  qed (auto simp: decode_discovery_message_def Let_def)
  then show ?thesis
    by (auto simp: encode_discovery_message_def json_roundtrip_def split: sum.splits if_splits)
qed

theorem discovery_exact_witness:
  "decode_discovery_message (probe_from_slice sample_libs) (DISCOVERY_MAGIC @ [3]) = Inr (Probe 0)"
  using discovery_exact [of "probe_from_slice sample_libs" "DISCOVERY_MAGIC @ [3]" "Probe 0"
      "\<lambda>m. if m = Probe 0 then Inr [3] else Inl ''''"]
  by (simp add: json_roundtrip_def sample_libs_def MAX_DISCOVERY_PAYLOAD_LEN_def)

end
