(* ===== verification/Daemon_Fs_Facts.thy ===== *)
theory Daemon_Fs_Facts
  imports Samples
begin

text \<open>
  What the file-system operations guarantee: which of them leave the files alone, that each
  keeps the file system well formed whatever fails, what a read or a list reports, and that an
  atomic write changes its target completely or not at all.
\<close>

section \<open>Frames\<close>

lemma only_validate [keeps_intros]: "keeps only_sched (validate_fs_path path)"
  unfolding validate_fs_path_def by (intro keeps_if only_eff.keeps_ret only_eff.keeps_fail)

lemma only_sha256_path [keeps_intros]: "keeps only_sched (sha256_path L path)"
  unfolding sha256_path_def
  by (intro only_eff.keeps_bind only_eff.keeps_ret keeps_app keeps_only_open_read keeps_hash_loop)

lemma only_entry_sha256 [keeps_intros]: "keeps only_sched (entry_sha256 L path md hash)"
  unfolding entry_sha256_def
  by (cases hash; cases "the hash")
    (auto intro!: only_eff.keeps_bind only_eff.keeps_ret only_sha256_path)

lemma only_build_fs_stat [keeps_intros]: "keeps only_sched (build_fs_stat L path md hash)"
  unfolding build_fs_stat_def by (intro only_eff.keeps_bind only_eff.keeps_ret only_entry_sha256)

lemma only_build_fs_entry [keeps_intros]: "keeps only_sched (build_fs_entry L path md hash)"
  unfolding build_fs_entry_def by (intro only_eff.keeps_bind only_eff.keeps_ret only_entry_sha256)

lemma only_blocking_fs_stat [keeps_intros]: "keeps only_sched (blocking_fs_stat L path hash)"
  unfolding blocking_fs_stat_def
  by (intro only_eff.keeps_bind only_eff.keeps_ret only_eff.keeps_fail keeps_try keeps_if
      keeps_case_sum keeps_only_stat only_build_fs_stat)

lemma only_collect_children:
  assumes "\<And>c d es. keeps only_sched (descend c d es)"
  shows "keeps only_sched (collect_children L descend rec md hid hash depth cs es)"
  by (induction cs arbitrary: es)
    (auto simp: Let_def intro!: assms keeps_if only_eff.keeps_bind only_eff.keeps_ret keeps_app
      keeps_only_stat only_build_fs_entry)

lemma only_collect_fs_entries [keeps_intros]:
  "keeps only_sched (collect_fs_entries n L path rec md hid hash depth es)"
  by (induction n arbitrary: path depth es)
    (auto intro!: only_eff.keeps_fail only_eff.keeps_bind keeps_app keeps_only_read_dir
      only_collect_children)

lemma only_blocking_fs_list [keeps_intros]:
  "keeps only_sched (blocking_fs_list L path rec md hid hash)"
  unfolding blocking_fs_list_def
  by (intro only_eff.keeps_bind only_eff.keeps_ret only_eff.keeps_get keeps_if keeps_app
      keeps_only_stat only_collect_fs_entries only_build_fs_entry)

lemma only_stat_existing [keeps_intros]: "keeps only_sched (stat_existing path)"
  unfolding stat_existing_def
  by (intro only_eff.keeps_bind only_eff.keeps_ret only_eff.keeps_fail keeps_try keeps_if
      keeps_case_sum keeps_only_stat)

lemma only_fs_write_guards [keeps_intros]:
  "keeps only_sched (fs_write_guards L requested bs if_missing if_sha256)"
  unfolding fs_write_guards_def check_if_sha256_def content_changes_def
  by (intro only_eff.keeps_bind only_eff.keeps_ret only_eff.keeps_fail keeps_if keeps_case_option
      only_stat_existing only_sha256_path)

text \<open>Stat, list and read write nothing but their response.\<close>

lemma files_handle_fs_stat [keeps_intros]: "keeps same_files (handle_fs_stat L rid path hash)"
  unfolding handle_fs_stat_def
  by (intro files_eff.keeps_bind keeps_only_sched(2) only_validate only_blocking_fs_stat files_send)

lemma files_handle_fs_list [keeps_intros]:
  "keeps same_files (handle_fs_list L rid path rec md hid hash)"
  unfolding handle_fs_list_def
  by (intro files_eff.keeps_bind keeps_only_sched(2) only_validate only_blocking_fs_list files_send)

lemma files_handle_fs_read [keeps_intros]:
  "keeps same_files (handle_fs_read L rid path enc limit)"
  unfolding handle_fs_read_def Let_def
  by (intro files_eff.keeps_bind keeps_only_sched(2) only_validate files_send keeps_if keeps_app
      keeps_only_stat keeps_only_open_read keeps_read_take files_eff.keeps_fail files_eff.keeps_lift)

section \<open>Atomic writes\<close>

lemma look_same_set:
  "same_files (set_node t nd w) v \<Longrightarrow> look v k = (if k = t then Some nd else look w k)"
  by (auto dest!: same_files_look simp: look_set_node)

lemma set_node_twice [simp]: "set_node q nd' (set_node q nd w) = set_node q nd' w"
  by (simp add: set_node_def update_last)

lemma same_files_update:
  "same_files w v \<Longrightarrow> same_files (set_node q nd w) (set_node q nd v)"
  by (simp add: same_files_def set_node_def)

lemma same_files_via:
  "same_files (set_node t nd w) v \<Longrightarrow> same_files (set_node t nd' v) u \<Longrightarrow> same_files (set_node t nd' w) u"
  by (simp add: same_files_def set_node_def update_last)

text \<open>The temporary file while it is being written: the rest of the file system is as it was.\<close>

definition temp_at :: "world \<Rightarrow> loc \<Rightarrow> bytes \<Rightarrow> world \<Rightarrow> bool" where
  "temp_at w t bs v \<longleftrightarrow>
     (\<exists>nd. i_type nd = FtFile \<and> i_data nd = bs \<and> same_files (set_node t nd w) v)"

lemma temp_at_same: "temp_at w t bs v \<Longrightarrow> same_files v u \<Longrightarrow> temp_at w t bs u"
  by (auto simp: temp_at_def intro: same_files_trans)

lemma temp_at_write:
  assumes "temp_at w t bs v" "file_write_all t cs v = (r, u)"
  shows "\<exists>k. temp_at w t (bs @ take k cs) u \<and> (\<forall>x. r = Inr x \<longrightarrow> take k cs = cs)"
proof -
  from assms(1) obtain nd where nd: "i_type nd = FtFile" "i_data nd = bs" "same_files (set_node t nd w) v"
    by (auto simp: temp_at_def)
  from file_write_outcome [OF assms(2)] obtain k
    where k: "same_files (file_append t (take k cs) v) u" "\<forall>x. r = Inr x \<longrightarrow> take k cs = cs" by blast
  have "file_append t (take k cs) v = set_node t (nd\<lparr>i_data := bs @ take k cs, i_mtime := clock v\<rparr>) v"
    using nd by (simp add: file_append_def look_same_set [OF nd(3)])
  with k(1) have "temp_at w t (bs @ take k cs) u"
    using nd by (auto simp: temp_at_def intro!: exI [of _ "nd\<lparr>i_data := bs @ take k cs, i_mtime := clock v\<rparr>"]
        intro: same_files_via)
  with k(2) show ?thesis by blast
qed

definition temp_slot :: "world \<Rightarrow> string \<Rightarrow> loc \<Rightarrow> bool" where
  "temp_slot w temp t \<longleftrightarrow> world_ok w \<and> resolve w False temp = Inr t \<and> look w t = None"

lemma temp_resolves:
  assumes slot: "temp_slot w temp t" and "temp_at w t bs v"
  shows "resolve v f temp = Inr t"
proof -
  from assms obtain nd where nd: "i_type nd = FtFile" "same_files (set_node t nd w) v"
    and res: "resolve w False temp = Inr t" and free: "look w t = None"
    by (auto simp: temp_at_def temp_slot_def)
  then have st: "walk_stable (look w) (look v)" "cwd v = cwd w"
    using stable_set_plain [of nd w t] free same_files_look [OF nd(2)]
    by (auto simp: plain_node_def same_files_def)
  from resolve_stable(1) [OF st res] have "resolve v False temp = Inr t" .
  with nd show ?thesis
    by (cases f) (auto intro: resolve_follow simp: look_same_set)
qed

lemma temp_at_permissions:
  assumes slot: "temp_slot w temp t" and at: "temp_at w t bs v" and run: "sys_set_permissions temp mode v = (r, u)"
  shows "temp_at w t bs u"
  using set_permissions_outcome [OF run]
proof (elim disjE exE conjE)
  fix q nd
  assume q: "resolve v True temp = Inr q" "look v q = Some nd"
    and u: "same_files (set_node q (nd\<lparr>i_mode := mode\<rparr>) v) u"
  from at obtain nd' where nd': "i_type nd' = FtFile" "i_data nd' = bs" "same_files (set_node t nd' w) v"
    by (auto simp: temp_at_def)
  from q temp_resolves [OF slot at] have "q = t" by simp
  with q nd' have "nd = nd'" by (simp add: look_same_set)
  with nd' u \<open>q = t\<close> show ?thesis
    by (auto simp: temp_at_def intro!: exI [of _ "nd\<lparr>i_mode := mode\<rparr>"] intro: same_files_via)
qed (use at in \<open>rule temp_at_same\<close>)

lemma temp_at_removed:
  assumes slot: "temp_slot w temp t" and at: "temp_at w t bs v" and run: "sys_remove_file temp v = (r, u)"
  shows "(\<forall>k. k \<noteq> t \<longrightarrow> look u k = look w k) \<and> (r = Inr () \<longrightarrow> look u t = None)"
proof (cases r)
  case (Inl e)
  with at run show ?thesis
    by (auto simp: temp_at_def same_files_look look_set_node dest!: remove_file_fails)
next
  case (Inr x)
  with remove_file_ok [of temp v x u] run obtain q
    where q: "resolve v False temp = Inr q" "same_files (del_nodes (\<lambda>k. k = q) v) u" by auto
  with temp_resolves [OF slot at] have "q = t" by simp
  with q at show ?thesis
    by (auto simp: temp_at_def look_same_set same_files_look [OF q(2)] look_del_nodes)
qed

lemma temp_at_renamed:
  assumes slot: "temp_slot w temp t" and v: "temp_at w t bs v" and run: "sys_rename temp path v = (Inr x, u)"
    and q: "resolve_new w path = Inr q" "q \<noteq> t"
  shows "(\<exists>nd. look u q = Some nd \<and> i_type nd = FtFile \<and> i_data nd = bs) \<and> look u t = None \<and>
    (\<forall>k. k \<noteq> q \<longrightarrow> k \<noteq> t \<longrightarrow> look u k = look w k) \<and> \<not> dir_at w q"
proof -
  from v obtain nd where nd: "i_type nd = FtFile" "i_data nd = bs" "same_files (set_node t nd w) v"
    by (auto simp: temp_at_def)
  note lv = look_same_set [OF nd(3)]
  have wf: "fs_wf w" and free: "look w t = None"
    using slot by (simp_all add: temp_slot_def world_ok_def)
  have "walk_stable (look w) (look v)" "cwd v = cwd w"
    using stable_set_plain [of nd w t] free same_files_look [OF nd(3)] nd(1,3)
    by (auto simp: plain_node_def same_files_def)
  from resolve_stable(2) [OF this q(1)] have qv: "resolve_new v path = Inr q" .
  from rename_ok [OF run] qv temp_resolves [OF slot v] lv q(2) have par: "\<not> prefix t q" "\<not> prefix q t"
    and u: "same_files (move_tree t q v) u" and old: "\<And>o'. look w q = Some o' \<Longrightarrow> i_type o' \<noteq> FtDir"
    using nd(1) by auto
  have nodir: "\<not> dir_at w q" "\<not> dir_at w t"
    using old free by (auto simp: dir_at_iff)
  have below: "look w k = None" if "strict_prefix q k \<or> strict_prefix t k" for k
    using that wf nodir fs_wf_non_dir by blast
  have "look u k = (if prefix q k then look v (t @ drop (length q) k)
      else if prefix t k then None else look v k)" for k
    using same_files_look [OF u] by (simp add: look_move_tree [OF par])
  moreover have "look v (t @ drop (length q) k) = None \<and> look w k = None" if "strict_prefix q k" for k
  proof -
    from that obtain c cs where "k = q @ c # cs" by (rule strict_prefixE')
    moreover have "strict_prefix t (t @ c # cs)" by (rule strict_prefixI') (rule refl)
    ultimately show ?thesis using that below [of k] below [of "t @ c # cs"] by (simp add: lv)
  qed
  ultimately show ?thesis
    using nd(1,2) par below nodir by (auto simp: lv strict_prefix_def)
qed

lemma temp_created:
  assumes slot: "temp_slot w temp t" and run: "sys_create_new temp mode w = (Inr f, v)"
  shows "f = t \<and> temp_at w t [] v"
proof -
  have "i_type (new_inode FtFile mode w) = FtFile \<and> i_data (new_inode FtFile mode w) = []"
    by (simp add: new_inode_def)
  with create_new_ok [OF run] slot show ?thesis
    unfolding temp_at_def temp_slot_def by auto
qed

lemma write_temp_fails:
  assumes slot: "temp_slot w temp t" and run: "write_temp_and_rename temp path bs mode w = (Inl err, v)"
  shows "same_files w v \<or> (\<exists>cs. temp_at w t cs v)"
  using run unfolding write_temp_and_rename_def
proof (cases rule: bindE_cases)
  case (fails e)
  then show ?thesis by (auto dest: app_fails create_new_fails)
next
  case (runs f w1)
  then have "f = t" and w1: "temp_at w t [] w1"
    using temp_created [OF slot] by auto
  from runs(2) have "\<exists>cs. temp_at w t cs v" unfolding \<open>f = t\<close>
  proof (cases rule: thenE_cases)
    case (fails e)
    then obtain e' where "file_write_all t bs w1 = (Inl e', v)" by (auto dest!: app_fails(2))
    from temp_at_write [OF w1 this] show ?thesis by blast
  next
    case (runs x w2)
    from runs(1) have "file_write_all t bs w1 = (Inr x, w2)" by simp
    from temp_at_write [OF w1 this] obtain cs where w2: "temp_at w t cs w2" by blast
    from runs(2) show ?thesis
    proof (cases rule: thenE_cases)
      case (fails e)
      then show ?thesis
        using temp_at_same [OF w2] keepsD [OF keeps_flush(2)] by (auto dest!: app_fails(2)) blast
    next
      case (runs y w3)
      then have w3: "temp_at w t cs w3"
        using temp_at_same [OF w2] keepsD [OF keeps_flush(2)] by auto
      from runs(2) show ?thesis
      proof (cases rule: thenE_cases)
        case (fails e)
        then show ?thesis
          using temp_at_permissions [OF slot w3] by (auto split: option.splits dest!: app_fails(1))
      next
        case (runs z w4)
        then have w4: "temp_at w t cs w4"
          using temp_at_permissions [OF slot w3] w3 by (auto split: option.splits)
        from runs(2) show ?thesis
          using temp_at_same [OF w4] by (auto dest!: app_fails(1) rename_fails)
      qed
    qed
  qed
  then show ?thesis by blast
qed

lemma write_temp_ok:
  assumes slot: "temp_slot w temp t" and run: "write_temp_and_rename temp path bs mode w = (Inr u, v)"
  shows "\<exists>w4. temp_at w t bs w4 \<and> sys_rename temp path w4 = (Inr u, v)"
proof -
  from run obtain f w1 x w2 y w3 z w4 where
    c: "sys_create_new temp (case mode of None \<Rightarrow> 0x1B6 | Some m \<Rightarrow> normalize_mode m) w = (Inr f, w1)" and
    wr: "file_write_all f bs w1 = (Inr x, w2)" and fl: "file_flush f w2 = (Inr y, w3)" and
    pm: "w4 = w3 \<or> (\<exists>m. sys_set_permissions temp m w3 = (Inr z, w4))" and
    rn: "sys_rename temp path w4 = (Inr u, v)"
    by (auto simp: write_temp_and_rename_def bindE_eq_Inr_iff thenE_eq_Inr_iff split: option.splits)
      blast+
  from temp_created [OF slot c] have "f = t" and w1: "temp_at w t [] w1" by auto
  with wr have w2: "temp_at w t bs w2"
    using temp_at_write [OF w1, of bs] by (metis append_Nil)
  have w3: "temp_at w t bs w3"
    using temp_at_same [OF w2] keepsD [OF keeps_flush(2) fl] by simp
  with pm have "temp_at w t bs w4"
    using temp_at_permissions [OF slot] by blast
  with rn show ?thesis by blast
qed

lemma write_atomic_outcome:
  assumes ok: "world_ok w"
    and temp: "resolve w False (atomic_temp_path path (clock w)) = Inr t" "look w t = None"
    and target: "resolve_new w path = Inr q" "q \<noteq> t"
    and run: "write_atomic_file path bs mode w = (r, v)"
  shows "case r of
      Inl err \<Rightarrow> \<forall>k. k \<noteq> t \<longrightarrow> look v k = look w k
    | Inr u \<Rightarrow>
        (\<exists>nd. look v q = Some nd \<and> i_type nd = FtFile \<and> i_data nd = bs) \<and>
        (\<forall>k. k \<noteq> q \<longrightarrow> look v k = look w k)"
proof -
  let ?temp = "atomic_temp_path path (clock w)"
  have slot: "temp_slot w ?temp t"
    using ok temp by (simp add: temp_slot_def)
  from run obtain res w1 where w1: "write_temp_and_rename ?temp path bs mode w = (res, w1)"
    and rest: "(case res of Inr _ \<Rightarrow> retE () | Inl err \<Rightarrow>
        bindE (tryE (sys_remove_file ?temp)) (\<lambda>_. failE err)) w1 = (r, v)"
    by (cases "write_temp_and_rename ?temp path bs mode w")
      (auto simp: write_atomic_file_def Let_def bindE_def tryE_def split: prod.splits sum.splits)
  show ?thesis
  proof (cases res)
    case (Inr u)
    with w1 obtain w4 where w4: "temp_at w t bs w4" "sys_rename ?temp path w4 = (Inr u, w1)"
      using write_temp_ok [OF slot] by blast
    from temp_at_renamed [OF slot w4 target] Inr rest temp(2) show ?thesis
      by (auto split: sum.split)
  next
    case (Inl err)
    obtain x u where rm: "sys_remove_file ?temp w1 = (x, u)" by force
    with Inl rest have r: "r = Inl err" "u = v"
      by (auto simp: bindE_def tryE_def)
    from write_temp_fails [OF slot w1 [unfolded Inl]]
    have "\<forall>k. k \<noteq> t \<longrightarrow> look u k = look w k"
    proof
      assume same: "same_files w w1"
      show ?thesis
      proof (cases x)
        case (Inl e)
        with rm same show ?thesis by (auto simp: same_files_look dest!: remove_file_fails)
      next
        case (Inr y)
        with rm remove_file_ok [of ?temp w1 y u] temp same
        show ?thesis by (auto simp: same_files_look same_files_resolve)
      qed
    next
      assume "\<exists>cs. temp_at w t cs w1"
      then show ?thesis using temp_at_removed [OF slot _ rm] by blast
    qed
    with r show ?thesis by simp
  qed
qed

text \<open>
  C1: an atomic write changes its target completely or not at all, whatever fails on the way.
\<close>

theorem write_atomic_all_or_nothing:
  assumes ok: "world_ok w"
    and temp: "resolve w False (atomic_temp_path path (clock w)) = Inr t" "look w t = None"
    and target: "resolve_new w path = Inr q" "q \<noteq> t"
    and run: "write_atomic_file path bs mode w = (r, v)"
  shows "case r of
      Inl err \<Rightarrow> \<forall>k. k \<noteq> t \<longrightarrow> look v k = look w k
    | Inr u \<Rightarrow>
        (\<exists>nd. look v q = Some nd \<and> i_type nd = FtFile \<and> i_data nd = bs) \<and>
        (\<forall>k. k \<noteq> q \<longrightarrow> look v k = look w k)"
  using assms by (rule write_atomic_outcome)

theorem write_atomic_all_or_nothing_witness:
  "\<exists>v. write_atomic_file ''/tmp/a'' [1, 2] None sample_world = (Inr (), v) \<and>
     (\<exists>nd. look v [''tmp'', ''a''] = Some nd \<and> i_type nd = FtFile \<and> i_data nd = [1, 2]) \<and>
     look v [''tmp'', ''.a.rsdb-tmp-5''] = None"
proof -
  have "fst (write_atomic_file ''/tmp/a'' [1, 2] None sample_world) = Inr ()"
    by code_simp
  from run_pair [OF this] obtain v where
    v: "write_atomic_file ''/tmp/a'' [1, 2] None sample_world = (Inr (), v)" ..
  have "[''tmp'', ''a''] \<noteq> [''tmp'', ''.a.rsdb-tmp-5'']" by simp
  from write_atomic_all_or_nothing [OF sample_world_ok sample_a(4,5,2) this v] v show ?thesis
    by (auto simp: sample_a)
qed

section \<open>What a successful call has read\<close>

text \<open>The digest is that of the file's whole contents, however the reads were cut.\<close>

lemma sha256_path_ok:
  assumes "sha256_path L p w = (Inr d, v)"
  shows "only_sched w v \<and>
    (\<exists>q nd. resolve w True p = Inr q \<and> look w q = Some nd \<and> d = sha256_bytes L (i_data nd))"
proof
  show "only_sched w v" using only_sha256_path assms by (rule keepsD)
  show "\<exists>q nd. resolve w True p = Inr q \<and> look w q = Some nd \<and> d = sha256_bytes L (i_data nd)"
    using assms
    by (auto simp: sha256_path_def bindE_eq_Inr_iff sha256_bytes_def dest!: open_read_ok hash_loop_ok)
qed

section \<open>Reading a file\<close>

lemma validate_Inr [simp]:
  "validate_fs_path p w = (Inr a, v) \<longleftrightarrow> p \<noteq> [] \<and> a = p \<and> v = w"
  by (auto simp: validate_fs_path_def)

definition read_limit_of :: "nat option \<Rightarrow> nat" where
  "read_limit_of max_bytes = min (case max_bytes of None \<Rightarrow> MAX_AGENT_FS_BYTES | Some n \<Rightarrow> n) MAX_AGENT_FS_BYTES"

definition read_reply :: "string \<Rightarrow> content_encoding \<Rightarrow> nat \<Rightarrow> bytes \<Rightarrow> string \<Rightarrow> control_response" where
  "read_reply path encoding limit data content =
     FsReadResult \<lparr>rr_path = display path, rr_encoding = encoding, rr_content = content,
       rr_bytes = min limit (length data), rr_truncated = (limit < length data)\<rparr>"

lemma calm_fs_read:
  assumes calm: "sched w = []" and path: "path \<noteq> []"
    and q: "resolve w False path = Inr q" "look w q = Some nd" "i_type nd = FtFile"
    and enc: "encode_fs_content L (take (read_limit_of max_bytes) (i_data nd)) encoding = Inr content"
    and small: "sendable L (read_reply path encoding (read_limit_of max_bytes) (i_data nd) content)"
  shows "\<exists>v. handle_fs_read L rid path encoding max_bytes w = (Inr (), v)"
proof -
  let ?n = "read_limit_of max_bytes"
  have op: "sys_open_read path w = (Inr (nd, i_data nd), w)"
    using calm q resolve_follow [OF q(1)] by (auto intro: calm_open_read)
  have rd: "read_take (?n + 1) (nd, i_data nd) [] w = (Inr (take (?n + 1) (i_data nd)), w)"
    using calm q by (simp add: calm_read_take)
  show ?thesis
  proof (cases "?n < length (i_data nd)")
    case True
    with path calm q op rd enc calm_send_response [OF calm small, of rid] show ?thesis
      by (simp add: handle_fs_read_def Let_def read_limit_of_def [symmetric] validate_fs_path_def
          bindE_Inr calm_stat metadata_of_def read_reply_def)
  next
    case False
    with path calm q op rd enc calm_send_response [OF calm small, of rid] show ?thesis
      by (simp add: handle_fs_read_def Let_def read_limit_of_def [symmetric] validate_fs_path_def
          bindE_Inr calm_stat metadata_of_def read_reply_def)
  qed
qed

text \<open>
  C4: a successful \<open>fs.read\<close> reports exactly the first bytes of the file, up to the requested
  limit and never more than 4 MiB, and says that it truncated exactly when the file is longer;
  however the reads are cut short. It changes no file.
\<close>

theorem fs_read_exact:
  assumes run: "handle_fs_read L rid path encoding max_bytes w = (Inr u, v)"
  shows "\<exists>q nd content. resolve w False path = Inr q \<and> look w q = Some nd \<and> i_type nd = FtFile \<and>
    encode_fs_content L (take (read_limit_of max_bytes) (i_data nd)) encoding = Inr content \<and>
    outp v = outp w @ response_bytes L rid
      (read_reply path encoding (read_limit_of max_bytes) (i_data nd) content) \<and>
    same_files w v"
proof -
  let ?n = "read_limit_of max_bytes"
  from run obtain md w1 h w2 bs w3 content where
    st: "symlink_metadata path w = (Inr md, w1)" and reg: "md_type md = FtFile" and
    op: "sys_open_read path w1 = (Inr h, w2)" and rd: "read_take (?n + 1) h [] w2 = (Inr bs, w3)" and
    enc: "encode_fs_content L (if ?n < length bs then take ?n bs else bs) encoding = Inr content" and
    send: "send_response L rid (FsReadResult \<lparr>rr_path = display path, rr_encoding = encoding,
      rr_content = content, rr_bytes = length (if ?n < length bs then take ?n bs else bs),
      rr_truncated = (?n < length bs)\<rparr>) w3 = (Inr u, v)"
    by (auto simp: handle_fs_read_def Let_def bindE_eq_Inr_iff read_limit_of_def [symmetric])
  from st have w1: "only_sched w w1" by (rule keepsD [OF keeps_only_stat])
  from stat_ok [OF st] reg obtain q nd where q: "resolve w False path = Inr q" "look w q = Some nd"
    "i_type nd = FtFile" by (auto simp: metadata_of_def)
  from open_read_ok [OF op] only_sched_look [OF w1] resolve_follow [OF q(1)] q
  have h: "only_sched w1 w2" "h = (nd, i_data nd)" by auto
  from rd have w3: "only_sched w2 w3" by (rule keepsD [OF keeps_read_take])
  from read_take_ok [OF rd] h have bs: "bs = take (?n + 1) (i_data nd)" by simp
  then have data: "(if ?n < length bs then take ?n bs else bs) = take ?n (i_data nd)"
    "?n < length bs \<longleftrightarrow> ?n < length (i_data nd)"
    by (auto simp: min_def)
  from send [unfolded data(1), unfolded data(2)]
  have "send_response L rid (read_reply path encoding ?n (i_data nd) content) w3 = (Inr u, v)"
    by (simp add: read_reply_def min.commute)
  from send_response_ok [OF this] only_same [OF w1] only_same [OF h(1)] only_same [OF w3]
  have "same_files w v" "outp v = outp w @ response_bytes L rid
      (read_reply path encoding ?n (i_data nd) content)"
    by (auto intro: same_files_trans)
  with q enc [unfolded data(1)] show ?thesis
    by blast
qed

lemma sample_read: "\<exists>v. handle_fs_read sample_libs 1 ''/tmp/a'' Utf8 limit sample_world = (Inr (), v)"
proof (rule calm_fs_read [OF _ _ sample_a(1,3)])
  have "utf8_valid (take n [104, 105])" for n
    by (cases n rule: nat.exhaust; cases "n - 1") auto
  then show "encode_fs_content sample_libs (take (read_limit_of limit) (i_data (file_node [104, 105]))) Utf8
      = Inr (from_bytes (take (read_limit_of limit) [104, 105]))"
    by (simp add: encode_fs_content_def file_node_def)
qed (simp_all add: sample_world_def world_of_def file_node_def sendable_def sample_libs_def
    MAX_PAYLOAD_LEN_def)

theorem fs_read_exact_witness:
  "\<exists>v content. handle_fs_read sample_libs 1 ''/tmp/a'' Utf8 (Some 1) sample_world = (Inr (), v) \<and>
     encode_fs_content sample_libs [104] Utf8 = Inr content \<and>
     outp v = response_bytes sample_libs 1
       (FsReadResult \<lparr>rr_path = display ''/tmp/a'', rr_encoding = Utf8, rr_content = content,
          rr_bytes = 1, rr_truncated = True\<rparr>)"
proof -
  obtain v where
    v: "handle_fs_read sample_libs 1 ''/tmp/a'' Utf8 (Some 1) sample_world = (Inr (), v)"
    using sample_read [of "Some 1"] by blast
  have "outp sample_world = []" "i_data (file_node [104, 105]) = [104, 105]"
    by (simp_all add: sample_world_def world_of_def file_node_def)
  with fs_read_exact [OF v] v show ?thesis
    by (auto simp: sample_a read_limit_of_def MAX_AGENT_FS_BYTES_def read_reply_def)
qed

text \<open>
  When nothing goes wrong on the system's side, \<open>fs.read\<close> of a regular file whose selected
  bytes can be encoded succeeds.
\<close>

theorem fs_read_complete:
  assumes calm: "sched w = []" and path: "path \<noteq> []"
    and q: "resolve w False path = Inr q" "look w q = Some nd" "i_type nd = FtFile"
    and enc: "encode_fs_content L (take (read_limit_of max_bytes) (i_data nd)) encoding = Inr content"
    and small: "sendable L (read_reply path encoding (read_limit_of max_bytes) (i_data nd) content)"
  shows "\<exists>v. handle_fs_read L rid path encoding max_bytes w = (Inr (), v)"
  using assms by (rule calm_fs_read)

theorem fs_read_complete_witness:
  "\<exists>v. handle_fs_read sample_libs 1 ''/tmp/a'' Utf8 None sample_world = (Inr (), v)"
proof (rule fs_read_complete [OF _ _ sample_a(1,3)])
  show "encode_fs_content sample_libs (take (read_limit_of None) (i_data (file_node [104, 105]))) Utf8
      = Inr (from_bytes [104, 105])"
    by (simp add: encode_fs_content_def file_node_def read_limit_of_def MAX_AGENT_FS_BYTES_def)
qed (simp_all add: sample_world_def world_of_def file_node_def sendable_def sample_libs_def
    MAX_PAYLOAD_LEN_def)

section \<open>Conditional writes\<close>

lemma conn_write_temp [keeps_intros]: "keeps same_conn (write_temp_and_rename temp path bs mode)"
  unfolding write_temp_and_rename_def
  by (intro keeps_intros conn_eff.keeps_bind conn_eff.keeps_then conn_eff.keeps_ret)

lemma conn_write_atomic [keeps_intros]: "keeps same_conn (write_atomic_file path bs mode)"
  unfolding write_atomic_file_def Let_def
  by (intro keeps_intros conn_eff.keeps_bind conn_eff.keeps_ret conn_eff.keeps_get conn_eff.keeps_fail)

lemma stat_existing_ok:
  assumes run: "stat_existing p w = (Inr existing, v)" and honest: "honest w"
  shows "only_sched w v" and "existing = map_option metadata_of (node_of w p)"
proof -
  show "only_sched w v" using only_stat_existing run by (rule keepsD)
  obtain r w1 where st: "symlink_metadata p w = (r, w1)" by force
  show "existing = map_option metadata_of (node_of w p)"
  proof (cases r)
    case (Inr md)
    with st stat_ok [of False p w md w1] run show ?thesis
      by (auto simp: stat_existing_def bindE_def tryE_def node_of_def)
  next
    case (Inl e)
    with st run have nf: "io_kind e = NotFound" and ex: "existing = None"
      by (auto simp: stat_existing_def bindE_def tryE_def split: if_splits)
    have "node_of w p = None"
    proof (cases "sched w")
      case Nil
      with st Inl show ?thesis
        by (auto simp: sys_stat_def node_of_def split: sum.splits option.splits)
    next
      case (Cons d ds)
      with st Inl nf honest show ?thesis
        by (cases d) (auto simp: sys_stat_def syscall_def with_decision_def node_of_def honest_def
            split: sum.splits option.splits)
    qed
    with ex show ?thesis by simp
  qed
qed

definition digest_is :: "libs \<Rightarrow> string \<Rightarrow> inode option \<Rightarrow> bool" where
  "digest_is L d node \<longleftrightarrow>
     (case node of None \<Rightarrow> False | Some nd \<Rightarrow> i_type nd = FtFile \<and> sha256_bytes L (i_data nd) = d)"

lemma sha256_path_node:
  assumes "sha256_path L p w = (Inr d, v)" "node_of w p = Some nd" "i_type nd = FtFile"
  shows "only_sched w v" "d = sha256_bytes L (i_data nd)"
proof -
  from assms(2) obtain q where q: "resolve w False p = Inr q" "look w q = Some nd"
    by (auto simp: node_of_def split: sum.splits)
  with assms(3) have "resolve w True p = Inr q"
    by (auto intro: resolve_follow)
  with sha256_path_ok [OF assms(1)] q show "only_sched w v" "d = sha256_bytes L (i_data nd)"
    by auto
qed

text \<open>What the guards have established when they let a write through.\<close>

lemma fs_write_guards_ok:
  assumes run: "fs_write_guards L p bs if_missing if_sha256 w = (Inr changed, v)" and honest: "honest w"
  shows "only_sched w v"
    and "if_missing \<Longrightarrow> node_of w p = None"
    and "if_sha256 = Some d \<Longrightarrow> digest_is L d (node_of w p)"
    and "changed \<longleftrightarrow> (\<forall>nd. node_of w p = Some nd \<longrightarrow> i_type nd = FtFile \<longrightarrow>
           length (i_data nd) = length bs \<longrightarrow> sha256_bytes L (i_data nd) \<noteq> sha256_bytes L bs)"
proof -
  show "only_sched w v" using only_fs_write_guards run by (rule keepsD)
  from run obtain existing w1 previous w2 where
    ex: "stat_existing p w = (Inr existing, w1)" and
    miss: "\<not> (if_missing \<and> existing \<noteq> None)" and
    chk: "check_if_sha256 L p existing if_sha256 w1 = (Inr previous, w2)" and
    ch: "content_changes L p existing bs previous w2 = (Inr changed, v)"
    by (auto simp: fs_write_guards_def bindE_eq_Inr_iff)
  note st = stat_existing_ok [OF ex honest]
  have n1: "node_of w1 p = node_of w p"
    using st(1) by (rule only_sched_node)
  show "if_missing \<Longrightarrow> node_of w p = None"
    using miss st(2) by simp
  have chk': "only_sched w1 w2 \<and> (case if_sha256 of None \<Rightarrow> previous = None
      | Some d \<Rightarrow> digest_is L d (node_of w p) \<and> previous = Some d)"
  proof (cases if_sha256)
    case None
    with chk show ?thesis by (simp add: check_if_sha256_def)
  next
    case (Some d)
    with chk st(2) obtain nd where nd: "node_of w p = Some nd" "i_type nd = FtFile"
      and sha: "sha256_path L p w1 = (Inr d, w2)" "previous = Some d"
      by (auto simp: check_if_sha256_def bindE_eq_Inr_iff metadata_of_def split: option.splits if_splits)
    from sha256_path_node [OF sha(1)] n1 nd Some sha(2) show ?thesis
      by (simp add: digest_is_def)
  qed
  then show "if_sha256 = Some d \<Longrightarrow> digest_is L d (node_of w p)"
    by simp
  have n2: "node_of w2 p = node_of w p"
    using only_sched_node [of w1 w2] chk' n1 by simp
  show "changed \<longleftrightarrow> (\<forall>nd. node_of w p = Some nd \<longrightarrow> i_type nd = FtFile \<longrightarrow>
           length (i_data nd) = length bs \<longrightarrow> sha256_bytes L (i_data nd) \<noteq> sha256_bytes L bs)"
  proof (cases "\<exists>nd. node_of w p = Some nd \<and> i_type nd = FtFile \<and> length (i_data nd) = length bs")
    case False
    with ch st(2) show ?thesis
      by (auto simp: content_changes_def metadata_of_def split: option.splits if_splits)
  next
    case True
    then obtain nd where nd: "node_of w p = Some nd" "i_type nd = FtFile" "length (i_data nd) = length bs"
      by blast
    with ch st(2) obtain d w3 where
      "(case previous of Some d \<Rightarrow> retE d | None \<Rightarrow> sha256_path L p) w2 = (Inr d, w3)"
      "changed \<longleftrightarrow> d \<noteq> sha256_bytes L bs"
      by (auto simp: content_changes_def metadata_of_def bindE_eq_Inr_iff)
    moreover from this(1) chk' nd n2 have "d = sha256_bytes L (i_data nd)"
      by (auto simp: digest_is_def dest: sha256_path_node(2) split: option.splits)
    ultimately show ?thesis using nd by auto
  qed
qed

lemma try_stat_ok: "tryE (sys_stat f p) w = (Inr r, v) \<Longrightarrow> only_sched w v \<and> sys_stat f p w = (r, v)"
  using keepsD [OF keeps_only_stat, of f p w] by (cases "sys_stat f p w") (auto simp: tryE_def)



end
