(* ===== verification/Daemon_Fs_Ops.thy ===== *)
theory Daemon_Fs_Ops
  imports Daemon_Fs_Facts
begin

text \<open>
  Refused writes, removal, moves and listings of the daemon's file-system operations, and that
  every one of the operations keeps the file system well formed whatever fails.
\<close>

section \<open>Refusals\<close>

text \<open>Errors that say the request was refused, as opposed to a failure of the system or the connection.\<close>

definition refusal :: "anyhow \<Rightarrow> bool" where
  "refusal err \<longleftrightarrow> is_precondition_error err \<or> is_invalid_request_error err"

abbreviation no_refusal :: "anyhow \<Rightarrow> bool" where
  "no_refusal err \<equiv> \<not> refusal err"

lemma no_refusal_errors [simp]:
  "no_refusal (io_context m e)" "no_refusal (anyhow_io e)" "no_refusal (anyhow_protocol pe)"
  by (simp_all add: refusal_def io_context_def anyhow_io_def is_precondition_error_def
      is_invalid_request_error_def context_msg_def) (cases pe; simp)+

lemma no_refusal_app [fails_intros]:
  "fails_only no_refusal (ctx m f)" "fails_only no_refusal (plain f)" "fails_only no_refusal (proto g)"
  by (simp_all add: ctx_def plain_def proto_def fails_only_map_err)

lemma no_refusal_send [fails_intros]: "fails_only no_refusal (send_response L rid r)"
  unfolding send_response_def by (rule fails_intros)

lemma no_refusal_write_temp [fails_intros]:
  "fails_only no_refusal (write_temp_and_rename temp path bs mode)"
  unfolding write_temp_and_rename_def by (intro fails_intros)

lemma no_refusal_write_direct [fails_intros]: "fails_only no_refusal (write_direct_file path bs mode)"
  unfolding write_direct_file_def by (intro fails_intros)

lemma no_refusal_write_atomic [fails_intros]: "fails_only no_refusal (write_atomic_file path bs mode)"
  unfolding fails_only_def
proof (intro allI impI)
  fix w err v
  assume "write_atomic_file path bs mode w = (Inl err, v)"
  then obtain w1 where "write_temp_and_rename (atomic_temp_path path (clock w)) path bs mode w = (Inl err, w1)"
    by (cases "write_temp_and_rename (atomic_temp_path path (clock w)) path bs mode w")
      (auto simp: write_atomic_file_def Let_def bindE_def tryE_def split: sum.splits)
  then show "no_refusal err"
    using no_refusal_write_temp by (rule fails_onlyD [rotated])
qed



section \<open>Every operation keeps the file system well formed\<close>

lemma wf_write_direct [keeps_intros]: "keeps keeps_wf (write_direct_file path bs mode)"
  unfolding write_direct_file_def
  by (intro keeps_intros wf_eff.keeps_bind wf_eff.keeps_then wf_eff.keeps_ret)

lemma wf_write_temp [keeps_intros]: "keeps keeps_wf (write_temp_and_rename temp path bs mode)"
  unfolding write_temp_and_rename_def
  by (intro keeps_intros wf_eff.keeps_bind wf_eff.keeps_then wf_eff.keeps_ret)

lemma wf_write_atomic [keeps_intros]: "keeps keeps_wf (write_atomic_file path bs mode)"
  unfolding write_atomic_file_def Let_def
  by (intro keeps_intros wf_eff.keeps_bind wf_eff.keeps_ret wf_eff.keeps_get wf_eff.keeps_fail)

lemmas wf_reads [keeps_intros] = keeps_only_sched(4) [OF only_validate]
  keeps_only_sched(4) [OF only_fs_write_guards] keeps_only_sched(4) [OF only_stat_existing]

lemma wf_handle_fs_write [keeps_intros]:
  "keeps keeps_wf (handle_fs_write L rid path content enc mode par atomic miss sha)"
  unfolding handle_fs_write_def
  by (intro keeps_intros wf_eff.keeps_bind wf_eff.keeps_then wf_eff.keeps_ret wf_eff.keeps_fail
      wf_eff.keeps_lift)

lemma wf_handle_fs_mkdir [keeps_intros]: "keeps keeps_wf (handle_fs_mkdir L rid path parents mode)"
  unfolding handle_fs_mkdir_def
  by (intro keeps_intros wf_eff.keeps_bind wf_eff.keeps_then wf_eff.keeps_ret wf_eff.keeps_fail)

lemma wf_handle_fs_rm [keeps_intros]: "keeps keeps_wf (handle_fs_rm L rid path rec force if_exists)"
  unfolding handle_fs_rm_def rm_metadata_def remove_existing_def
  by (intro keeps_intros wf_eff.keeps_bind wf_eff.keeps_then wf_eff.keeps_ret wf_eff.keeps_fail)

lemma wf_handle_fs_move [keeps_intros]: "keeps keeps_wf (handle_fs_move L rid source destination overwrite)"
  unfolding handle_fs_move_def
  by (intro keeps_intros wf_eff.keeps_bind wf_eff.keeps_then wf_eff.keeps_ret wf_eff.keeps_fail)

lemmas wf_fs_readers [keeps_intros] =
  wf_of_same_files [OF files_handle_fs_stat] wf_of_same_files [OF files_handle_fs_list]
  wf_of_same_files [OF files_handle_fs_read]

section \<open>Removing and moving\<close>

lemma sample_honest: "honest sample_world"
  by (simp add: honest_def sample_world_def world_of_def)

definition keeps_honest :: "world \<Rightarrow> world \<Rightarrow> bool" where
  "keeps_honest v w \<longleftrightarrow> (honest v \<longrightarrow> honest w)"

interpretation honest_eff: effect keeps_honest
  by unfold_locales (auto simp: keeps_honest_def)

lemma honest_stat: "keeps keeps_honest (sys_stat f p)"
proof -
  have tail: "honest (w\<lparr>sched := ds\<rparr>)" if "honest w" "sched w = d # ds" for w d ds
    using that by (simp add: honest_def)
  show ?thesis
    by (auto simp: keeps_def keeps_honest_def sys_stat_def syscall_def with_decision_def tail
        split: list.splits decision.splits sum.splits option.splits)
qed

lemma sent_same:
  assumes "send_response L rid r w = (Inr u, v)"
  shows "look v = look w" "outp v = outp w @ response_bytes L rid r"
  using send_response_ok [OF assms] by (simp_all add: same_files_look)

text \<open>
  C8: a successful \<open>fs.rm\<close> has removed exactly the subtree at the path, and reports whether there
  was anything to remove.
\<close>

theorem fs_rm_exact:
  assumes wf: "fs_wf w" and honest: "honest w"
    and run: "handle_fs_rm L rid path recursive force if_exists w = (Inr u, v)"
  shows "outp v = outp w @ response_bytes L rid
      (FsRmResult \<lparr>rm_path = display path, rm_removed = (node_of w path \<noteq> None)\<rparr>) \<and>
    (case resolve w False path of
       Inl _ \<Rightarrow> look v = look w
     | Inr q \<Rightarrow> \<forall>k. look v k = (if prefix q k then None else look w k))"
proof -
  from run obtain existing w1 removed w2 where
    ex: "rm_metadata path force if_exists w = (Inr existing, w1)" and
    rm: "(case existing of Some md \<Rightarrow> thenE (remove_existing path recursive md) (retE True)
      | None \<Rightarrow> retE False) w1 = (Inr removed, w2)" and
    send: "send_response L rid (FsRmResult \<lparr>rm_path = display path, rm_removed = removed\<rparr>) w2 = (Inr u, v)"
    unfolding handle_fs_rm_def by (elim bindE_InrE) auto
  from ex have "stat_existing path w = (Inr existing, w1)"
    by (auto simp: rm_metadata_def stat_existing_def bindE_eq_Inr_iff split: sum.splits if_splits)
  note st = stat_existing_ok [OF this honest]
  have w1: "look w1 = look w" "resolve w1 = resolve w" "outp w1 = outp w" "fs_wf w1"
    using only_sched_look [OF st(1)] only_same [OF st(1)] wf fs_wf_same_files by auto
  show ?thesis
  proof (cases existing)
    case None
    with rm st(2) have none: "w2 = w1" "\<not> removed" "node_of w path = None" by auto
    have "look w k = None" if "prefix q k" "resolve w False path = Inr q" for q k
      using none(3) that wf fs_wf_non_dir [OF wf, of q k]
      by (cases "k = q") (auto simp: node_of_def dir_at_iff strict_prefix_def)
    then show ?thesis
      using sent_same [OF send] none w1 by (auto split: sum.split)
  next
    case (Some md)
    with st(2) obtain nd where "node_of w path = Some nd" "md = metadata_of nd"
      by (cases "node_of w path") auto
    then obtain q where q: "resolve w False path = Inr q" "look w q = Some nd" "md = metadata_of nd"
      by (auto simp: node_of_def split: sum.splits)
    from rm Some obtain x where removed: "removed" and
      rm': "(if md_type md = FtDir then (if recursive then sys_remove_dir_all path else sys_remove_dir path)
        else sys_remove_file path) w1 = (Inr x, w2)"
      by (auto simp: thenE_eq_Inr_iff remove_existing_def)
    have "same_files (del_nodes (prefix q) w1) w2 \<or>
      same_files (del_nodes (\<lambda>k. k = q) w1) w2 \<and> (\<not> dir_at w1 q \<or> children w1 q = [])"
    proof (cases "i_type nd = FtDir")
      case True
      with rm' q have "sys_remove_dir_all path w1 = (Inr x, w2) \<or> sys_remove_dir path w1 = (Inr x, w2)"
        by (auto simp: metadata_of_def split: if_splits)
      with remove_dir_all_ok [of path w1 x w2] remove_dir_ok [of path w1 x w2] True q w1 show ?thesis
        by auto
    next
      case False
      with rm' q have "sys_remove_file path w1 = (Inr x, w2)"
        by (auto simp: metadata_of_def)
      with remove_file_ok [OF this] q w1 False show ?thesis
        by (auto simp: dir_at_iff)
    qed
    then have "look w2 k = (if prefix q k then None else look w k)" for k
    proof
      assume "same_files (del_nodes (prefix q) w1) w2"
      from same_files_look [OF this] w1(1) show ?thesis by (simp add: look_del_nodes)
    next
      assume c: "same_files (del_nodes (\<lambda>k. k = q) w1) w2 \<and> (\<not> dir_at w1 q \<or> children w1 q = [])"
      from del_leaf_tree [OF w1(4) conjunct2 [OF c]] same_files_look [OF conjunct1 [OF c]] w1(1)
      show ?thesis by simp
    qed
    moreover have "keeps same_conn (if md_type md = FtDir then
        (if recursive then sys_remove_dir_all path else sys_remove_dir path) else sys_remove_file path)"
      by (intro keeps_intros)
    from keepsD [OF this rm'] have "outp w2 = outp w1"
      by (simp add: same_conn_def)
    ultimately show ?thesis
      using sent_same [OF send] q removed w1 by (simp add: node_of_def)
  qed
qed

theorem fs_rm_exact_witness:
  "\<exists>v. handle_fs_rm sample_libs 1 ''/tmp'' True False False sample_world = (Inr (), v) \<and>
     look v [''tmp''] = None \<and> look v [''tmp'', ''a''] = None \<and> look v [] = look sample_world []"
proof -
  have "fst (handle_fs_rm sample_libs 1 ''/tmp'' True False False sample_world) = Inr ()"
    by code_simp
  from run_pair [OF this] obtain v where
    v: "handle_fs_rm sample_libs 1 ''/tmp'' True False False sample_world = (Inr (), v)" ..
  have "resolve sample_world False ''/tmp'' = Inr [''tmp'']" by code_simp
  with fs_rm_exact [OF _ sample_honest v] sample_world_ok v show ?thesis
    by (simp add: world_ok_def)
qed



text \<open>
  \<open>fs.move\<close> with \<open>overwrite\<close> of a regular file onto itself deletes the file: the destination
  is removed first, and the rename then fails with \<open>FsNotFound\<close>.
\<close>

theorem fs_move_onto_itself:
  assumes calm: "sched w = []" and path: "path \<noteq> []"
    and q: "resolve w False path = Inr q" "resolve_new w path = Inr q" "look w q = Some nd" "i_type nd = FtFile"
  shows "\<exists>err v. handle_fs_move L rid path path True w = (Inl err, v) \<and>
    classify_fs_error err = FsNotFound \<and> look v q = None"
proof -
  let ?v = "del_nodes (\<lambda>k. k = q) w"
  have st: "walk_stable (look w) (look ?v)" "cwd ?v = cwd w" "sched ?v = []"
    using q calm by (auto intro!: stable_del_plain simp: plain_node_def)
  have rm: "sys_remove_file path w = (Inr (), ?v)"
    using calm q by (simp add: sys_remove_file_def)
  have mv: "sys_rename path path ?v = (Inl enoent, ?v)"
    using st resolve_stable [OF st(1,2)] q by (simp add: sys_rename_def look_del_nodes)
  have "handle_fs_move L rid path path True w =
    (Inl (io_context (''failed to move '' @ display path @ '' to '' @ display path) enoent), ?v)"
    using path calm q rm mv
    by (simp add: handle_fs_move_def validate_fs_path_def calm_stat stat_existing_def bindE_def thenE_def
        tryE_def ctx_def map_errE_def metadata_of_def)
  then show ?thesis
    by (simp add: look_del_nodes)
qed

theorem fs_move_onto_itself_witness:
  "\<exists>err v. handle_fs_move sample_libs 1 ''/tmp/a'' ''/tmp/a'' True sample_world = (Inl err, v) \<and>
    classify_fs_error err = FsNotFound \<and> look v [''tmp'', ''a''] = None"
  by (rule fs_move_onto_itself [OF _ _ sample_a(1-3)])
    (simp_all add: sample_world_def world_of_def file_node_def)

text \<open>
  C37: moving a staged file over a destination is not atomic, and what the client does after a
  failed move makes the loss complete. An atomic push ends with \<open>fs.move\<close> with \<open>overwrite\<close> from the
  staged path; when that fails, the client removes the staged path with a forced \<open>fs.rm\<close>. The daemon
  removes the destination before it renames; so if the rename fails, the error is reported,
  and after the cleanup both the old destination and the new content are gone, and nothing else
  has changed.
\<close>
theorem staged_move_loses_both:
  assumes sched: "sched w = [Proceed, Proceed, Proceed, Fail e n]"
    and paths: "staged \<noteq> []" "dest \<noteq> []"
    and s: "resolve w False staged = Inr s" "look w s = Some sn" "i_type sn = FtFile"
    and q: "resolve w False dest = Inr q" "look w q = Some dn" "i_type dn = FtFile" and ne: "s \<noteq> q"
    and small: "sendable L (FsRmResult \<lparr>rm_path = display staged, rm_removed = True\<rparr>)"
  shows "\<exists>v u. handle_fs_move L rid staged dest True w =
      (Inl (io_context (''failed to move '' @ display staged @ '' to '' @ display dest) e), v) \<and>
    handle_fs_rm L rid' staged True True True v = (Inr (), u) \<and>
    look u q = None \<and> look u s = None \<and> (\<forall>k. k \<noteq> q \<longrightarrow> k \<noteq> s \<longrightarrow> look u k = look w k)"
proof -
  let ?w = "\<lambda>ds. w\<lparr>sched := ds\<rparr>"
  let ?v = "del_nodes (\<lambda>k. k = q) (w\<lparr>sched := []\<rparr>)"
  have stat: "sys_stat False staged w = (Inr (metadata_of sn), ?w [Proceed, Proceed, Fail e n])"
    "sys_stat False dest (?w [Proceed, Proceed, Fail e n]) = (Inr (metadata_of dn), ?w [Proceed, Fail e n])"
    using sched s q by (simp_all add: sys_stat_def syscall_def with_decision_def)
  have rm: "sys_remove_file dest (?w [Proceed, Fail e n]) = (Inr (), (del_nodes (\<lambda>k. k = q) w)\<lparr>sched := [Fail e n]\<rparr>)"
    using q by (simp add: sys_remove_file_def syscall_def with_decision_def del_nodes_def)
  have mv: "sys_rename staged dest ((del_nodes (\<lambda>k. k = q) w)\<lparr>sched := [Fail e n]\<rparr>) = (Inl e, ?v)"
    by (simp add: sys_rename_def syscall_def with_decision_def del_nodes_def)
  have move: "handle_fs_move L rid staged dest True w =
      (Inl (io_context (''failed to move '' @ display staged @ '' to '' @ display dest) e), ?v)"
    using paths stat rm mv q(3)
    by (simp add: handle_fs_move_def validate_fs_path_def stat_existing_def bindE_def thenE_def tryE_def ctx_def
        map_errE_def metadata_of_def)
  have st: "walk_stable (look w) (look ?v)" "cwd ?v = cwd w" "sched ?v = []"
    using q by (auto simp: look_del_nodes plain_node_def walk_stable_def split: option.split)
  have s': "resolve ?v False staged = Inr s" "look ?v s = Some sn"
    using resolve_stable(1) [OF st(1,2) s(1)] s(2) ne by (simp_all add: look_del_nodes)
  let ?u = "del_nodes (\<lambda>k. k = s) ?v"
  have "sys_remove_file staged ?v = (Inr (), ?u)"
    using st(3) s' s(3) by (simp add: sys_remove_file_def)
  then have "handle_fs_rm L rid' staged True True True ?v =
      send_response L rid' (FsRmResult \<lparr>rm_path = display staged, rm_removed = True\<rparr>) ?u"
    using paths(1) calm_stat [OF st(3) s'] s(3)
    by (simp add: handle_fs_rm_def validate_fs_path_def rm_metadata_def remove_existing_def bindE_def thenE_def
        tryE_def ctx_def map_errE_def metadata_of_def)
  also have "\<dots> = (Inr (), ?u\<lparr>outp := outp ?u @ response_bytes L rid' (FsRmResult \<lparr>rm_path = display staged, rm_removed = True\<rparr>)\<rparr>)"
    by (rule calm_send_response [OF _ small]) (use st(3) in simp)
  finally show ?thesis
    using move by (auto simp: look_del_nodes)
qed

definition staged_host :: world where
  "staged_host = (world_of [([''tmp'', ''a''], file_node [104, 105]), ([''tmp'', ''s''], file_node [106])] [])
     \<lparr>sched := [Proceed, Proceed, Proceed, Fail eexist 0]\<rparr>"

theorem staged_move_loses_both_witness:
  "\<exists>v u. fst (handle_fs_move sample_libs 1 ''/tmp/s'' ''/tmp/a'' True staged_host) \<noteq> Inr () \<and>
    snd (handle_fs_move sample_libs 1 ''/tmp/s'' ''/tmp/a'' True staged_host) = v \<and>
    handle_fs_rm sample_libs 1 ''/tmp/s'' True True True v = (Inr (), u) \<and>
    look staged_host [''tmp'', ''a''] \<noteq> None \<and> look u [''tmp'', ''a''] = None \<and> look u [''tmp'', ''s''] = None"
proof -
  have paths: "resolve staged_host False ''/tmp/s'' = Inr [''tmp'', ''s'']"
    "look staged_host [''tmp'', ''s''] = Some (file_node [106])"
    "resolve staged_host False ''/tmp/a'' = Inr [''tmp'', ''a'']"
    "look staged_host [''tmp'', ''a''] = Some (file_node [104, 105])"
    by code_simp+
  have h: "sched staged_host = [Proceed, Proceed, Proceed, Fail eexist 0]" "i_type (file_node bs) = FtFile" for bs
    by (simp_all add: staged_host_def file_node_def)
  have small: "sendable sample_libs r" for r
    by (simp add: sendable_def sample_libs_def MAX_PAYLOAD_LEN_def)
  show ?thesis
    using staged_move_loses_both [OF h(1) _ _ paths(1,2) h(2) paths(3,4) h(2) _ small, of 1 1] paths(4) by auto
qed

end
