(* ===== verification/Daemon_Fs_List.thy ===== *)
theory Daemon_Fs_List
  imports Daemon_Fs_Ops
begin

text \<open>
  The completeness of \<open>fs.list\<close>: the fuel of the directory recursion is always enough, and the
  entries are exactly the selected part of the tree.
\<close>

section \<open>Listings\<close>

definition names_ok :: "world \<Rightarrow> bool" where
  "names_ok w \<longleftrightarrow> (\<forall>(k, _) \<in> set (nodes w). list_all proper_name k)"

lemma names_okD: "names_ok w \<Longrightarrow> look w (q @ n # r) = Some nd \<Longrightarrow> proper_name n"
  by (fastforce simp: names_ok_def look_def dest: map_of_SomeD)

definition hidden_name :: "string \<Rightarrow> bool" where
  "hidden_name n \<longleftrightarrow> is_utf8 n \<and> starts_with n ''.''"

text \<open>
  The relative locations a listing of the directory at \<open>q\<close> reports, when \<open>q\<close> itself was reached at
  the given depth.
\<close>

definition listed :: "world \<Rightarrow> loc \<Rightarrow> bool \<Rightarrow> u32 option \<Rightarrow> bool \<Rightarrow> nat \<Rightarrow> loc \<Rightarrow> bool" where
  "listed w q recursive max_depth include_hidden depth rel \<longleftrightarrow>
     rel \<noteq> [] \<and> look w (q @ rel) \<noteq> None \<and>
     (include_hidden \<or> list_all (\<lambda>n. \<not> hidden_name n) rel) \<and>
     (length rel = 1 \<or>
      recursive \<and> (case max_depth of None \<Rightarrow> True | Some limit \<Rightarrow> depth + length rel \<le> unat limit))"

definition join_all :: "string \<Rightarrow> loc \<Rightarrow> string" where
  "join_all p rel = foldl path_join p rel"

definition list_entry :: "world \<Rightarrow> string \<Rightarrow> loc \<Rightarrow> loc \<Rightarrow> agent_fs_list_entry" where
  "list_entry w p q rel =
     (let md = metadata_of (the (look w (q @ rel)))
      in \<lparr>le_path = display (join_all p rel), le_kind = fs_entry_kind_of md, le_size = md_len md,
          le_sha256 = None\<rparr>)"

lemma insort_key_map: "insort_key f (g x) (map g xs) = map g (insort_key (\<lambda>x. f (g x)) x xs)"
  by (induction xs) auto

lemma sort_key_map: "sort_key f (map g xs) = map g (sort_key (\<lambda>x. f (g x)) xs)"
  by (induction xs) (auto simp: insort_key_map)

lemma distinct_children: "fs_wf w \<Longrightarrow> distinct (children w q)"
proof -
  assume "fs_wf w"
  then have "distinct (filter (\<lambda>k. k \<noteq> [] \<and> butlast k = q) (map fst (nodes w)))"
    by (simp add: fs_wf_def)
  moreover have "inj_on last {k. k \<noteq> [] \<and> butlast k = q}"
    by (auto simp: inj_on_def) (metis append_butlast_last_id)
  ultimately show ?thesis
    unfolding children_def by (auto simp: distinct_map intro: inj_on_subset)
qed

lemma calm_read_dir:
  "sched w = [] \<Longrightarrow> resolve w True p = Inr q \<Longrightarrow> dir_at w q \<Longrightarrow>
     sys_read_dir p w = (Inr (children w q), w)"
  by (auto simp: sys_read_dir_def dir_at_iff)

lemma build_fs_entry_plain: "build_fs_entry L p md None = retE
   \<lparr>le_path = display p, le_kind = fs_entry_kind_of md, le_size = md_len md, le_sha256 = None\<rparr>"
  by (rule ext) (simp add: build_fs_entry_def entry_sha256_def bindE_def)

definition listing_of ::
  "world \<Rightarrow> string \<Rightarrow> loc \<Rightarrow> (loc \<Rightarrow> bool) \<Rightarrow> agent_fs_list_entry list \<Rightarrow> bool" where
  "listing_of w p q P es \<longleftrightarrow>
     (\<exists>rels. es = map (list_entry w p q) rels \<and> distinct rels \<and> set rels = {rel. P rel})"

lemma listing_of_append:
  assumes "listing_of w p q P es" "listing_of w p q Q fs" "\<And>rel. \<not> (P rel \<and> Q rel)"
    and "\<And>rel. R rel \<longleftrightarrow> P rel \<or> Q rel"
  shows "listing_of w p q R (es @ fs)"
proof -
  from assms(1,2) obtain rs ss where
    "es = map (list_entry w p q) rs" "distinct rs" "set rs = {rel. P rel}"
    "fs = map (list_entry w p q) ss" "distinct ss" "set ss = {rel. Q rel}"
    by (auto simp: listing_of_def)
  with assms(3,4) show ?thesis
    by (auto simp: listing_of_def intro!: exI [of _ "rs @ ss"])
qed

text \<open>The listing of a subdirectory is the part of the directory's listing below its name.\<close>

lemma listing_of_sub:
  assumes "listing_of w (path_join p n) (q @ [n]) P es"
  shows "listing_of w p q (\<lambda>rel. rel \<noteq> [] \<and> hd rel = n \<and> P (tl rel)) es"
proof -
  from assms obtain rels where rels: "es = map (list_entry w (path_join p n) (q @ [n])) rels"
    "distinct rels" "set rels = {rel. P rel}" by (auto simp: listing_of_def)
  have "list_entry w (path_join p n) (q @ [n]) rel = list_entry w p q (n # rel)" for rel
    by (simp add: list_entry_def join_all_def)
  then have "es = map (list_entry w p q) (map ((#) n) rels)"
    using rels(1) by simp
  moreover have "set (map ((#) n) rels) = {rel. rel \<noteq> [] \<and> hd rel = n \<and> P (tl rel)}"
    using rels(3) by (auto simp: image_iff) (metis list.collapse)
  ultimately show ?thesis
    using rels(2) unfolding listing_of_def by (metis distinct_map inj_on_Cons1)
qed


text \<open>One child of the directory: its own entry, and its subtree when the listing descends.\<close>

lemma listed_Cons:
  "listed w q rc mdep hid depth (n # rel) \<longleftrightarrow>
     (hid \<or> \<not> hidden_name n) \<and>
     (if rel = [] then look w (q @ [n]) \<noteq> None
      else rc \<and> (case mdep of None \<Rightarrow> True | Some limit \<Rightarrow> depth + 1 < unat limit) \<and>
           listed w (q @ [n]) rc mdep hid (depth + 1) rel)"
  by (cases rel) (auto simp: listed_def split: option.splits)

definition descends :: "bool \<Rightarrow> u32 option \<Rightarrow> nat \<Rightarrow> inode \<Rightarrow> bool" where
  "descends rc mdep depth nd \<longleftrightarrow> rc \<and> i_type nd = FtDir \<and>
     (case mdep of None \<Rightarrow> True | Some limit \<Rightarrow> depth + 1 < unat limit)"

lemma listing_of_child:
  assumes wf: "fs_wf w" and nd: "look w (q @ [n]) = Some nd" and hid: "hid \<or> \<not> hidden_name n"
    and sub: "if descends rc mdep depth nd
      then listing_of w (path_join p n) (q @ [n]) (listed w (q @ [n]) rc mdep hid (depth + 1)) sub
      else sub = []"
  shows "listing_of w p q (\<lambda>rel. listed w q rc mdep hid depth rel \<and> hd rel = n)
    (list_entry w p q [n] # sub)"
proof -
  let ?below = "\<lambda>rel. rel \<noteq> [] \<and> hd rel = n \<and> descends rc mdep depth nd \<and>
      listed w (q @ [n]) rc mdep hid (depth + 1) (tl rel)"
  have "listing_of w p q (\<lambda>rel. rel = [n]) [list_entry w p q [n]]"
    unfolding listing_of_def by (rule exI [of _ "[[n]]"]) auto
  moreover have "listing_of w p q ?below sub"
    using sub listing_of_sub [of w p n q "listed w (q @ [n]) rc mdep hid (depth + 1)" sub]
    by (auto simp: listing_of_def split: if_splits)
  moreover have "\<not> (rel = [n] \<and> ?below rel)" for rel
    by (auto simp: listed_def)
  moreover have "listed w q rc mdep hid depth rel \<and> hd rel = n \<longleftrightarrow> rel = [n] \<or> ?below rel" for rel
  proof (cases rel)
    case Nil
    then show ?thesis by (simp add: listed_def)
  next
    case (Cons m r)
    have dir: "i_type nd = FtDir" if "r \<noteq> []" "listed w (q @ [n]) rc mdep hid (depth + 1) r"
      using that fs_wf_prefix [OF wf, of "q @ [n] @ r" "q @ [n]"] nd
      by (auto simp: listed_def dir_at_iff strict_prefix_def)
    with Cons nd hid show ?thesis
      by (auto simp: listed_Cons descends_def)
  qed
  ultimately have "listing_of w p q (\<lambda>rel. listed w q rc mdep hid depth rel \<and> hd rel = n)
      ([list_entry w p q [n]] @ sub)"
    by (rule listing_of_append)
  then show ?thesis by simp
qed

lemma word_depth_less:
  "depth + 1 < 2 ^ 32 \<Longrightarrow> (word_of_nat depth + 1 < (limit :: u32)) \<longleftrightarrow> depth + 1 < unat limit"
proof -
  assume "depth + 1 < 2 ^ 32"
  moreover have "m < 2 ^ 32 \<Longrightarrow> unat (word_of_nat m :: u32) = m" for m
    by (simp add: unat_of_nat take_bit_eq_mod)
  ultimately have "unat (word_of_nat (depth + 1) :: u32) = depth + 1"
    by blast
  then show ?thesis
    by (simp add: word_less_nat_alt algebra_simps)
qed

lemma collect_children_listing:
  assumes calm: "sched w = []" and wf: "fs_wf w" and names: "names_ok w"
    and q: "resolve w True p = Inr q" "dir_at w q" and depth: "depth + 1 < 2 ^ 32"
    and descend: "\<And>n nd es. look w (q @ [n]) = Some nd \<Longrightarrow> descends rc mdep depth nd \<Longrightarrow>
      \<exists>sub. descend (path_join p n) (word_of_nat (depth + 1)) es w = (Inr (es @ sub), w) \<and>
        listing_of w (path_join p n) (q @ [n]) (listed w (q @ [n]) rc mdep hid (depth + 1)) sub"
    and ns: "distinct ns" "set ns \<subseteq> set (children w q)"
  shows "\<exists>new. collect_children L descend rc mdep hid None (word_of_nat depth) (map (path_join p) ns) es w
      = (Inr (es @ new), w) \<and>
    listing_of w p q (\<lambda>rel. listed w q rc mdep hid depth rel \<and> hd rel \<in> set ns) new"
  using ns
proof (induction ns arbitrary: es)
  case Nil
  then show ?case by (auto simp: listing_of_def)
next
  case (Cons n ns)
  from Cons.prems(2) obtain nd where nd: "look w (q @ [n]) = Some nd"
    by (auto simp: children_iff)
  then have n: "proper_name n" using names_okD [OF names] by auto
  let ?c = "path_join p n"
  have hidden: "is_hidden ?c \<longleftrightarrow> hidden_name n"
    by (simp add: is_hidden_def hidden_name_def file_name_join [OF n])
  show ?case
  proof (cases "hidden_name n \<and> \<not> hid")
    case True
    then have "listed w q rc mdep hid depth rel \<and> hd rel \<in> set (n # ns) \<longleftrightarrow>
        listed w q rc mdep hid depth rel \<and> hd rel \<in> set ns" for rel
      by (cases rel) (auto simp: listed_Cons, simp add: listed_def)
    with Cons.IH [of es] Cons.prems True hidden show ?thesis
      by simp
  next
    case vis: False
    have st: "symlink_metadata ?c w = (Inr (metadata_of nd), w)"
      using calm resolve_join [OF q n, of False] nd by (auto intro: calm_stat)
    have e: "\<lparr>le_path = display ?c, le_kind = fs_entry_kind_of (metadata_of nd),
        le_size = md_len (metadata_of nd), le_sha256 = None\<rparr> = list_entry w p q [n]"
      by (simp add: list_entry_def nd join_all_def Let_def)
    have can: "(rc \<and> md_type (metadata_of nd) = FtDir \<and> (case mdep of None \<Rightarrow> True
        | Some limit \<Rightarrow> word_of_nat depth + 1 < limit)) = descends rc mdep depth nd"
      using word_depth_less [OF depth] by (auto simp: descends_def metadata_of_def split: option.splits)
    obtain sub where sub: "(if descends rc mdep depth nd
        then descend ?c (word_of_nat depth + 1) (es @ [list_entry w p q [n]])
        else retE (es @ [list_entry w p q [n]])) w = (Inr (es @ list_entry w p q [n] # sub), w)"
      and l: "if descends rc mdep depth nd
        then listing_of w ?c (q @ [n]) (listed w (q @ [n]) rc mdep hid (depth + 1)) sub else sub = []"
    proof (cases "descends rc mdep depth nd")
      case True
      with descend [OF nd True, of "es @ [list_entry w p q [n]]"] that show ?thesis
        by (auto simp: algebra_simps)
    next
      case False
      with that [of "[]"] show ?thesis by simp
    qed
    have here: "listing_of w p q (\<lambda>rel. listed w q rc mdep hid depth rel \<and> hd rel = n) (list_entry w p q [n] # sub)"
      using listing_of_child [OF wf nd _ l] vis by blast
    have ns: "distinct ns" "set ns \<subseteq> set (children w q)" using Cons.prems by auto
    obtain new where new: "collect_children L descend rc mdep hid None (word_of_nat depth)
        (map (path_join p) ns) (es @ list_entry w p q [n] # sub) w
        = (Inr ((es @ list_entry w p q [n] # sub) @ new), w)"
      and rest: "listing_of w p q (\<lambda>rel. listed w q rc mdep hid depth rel \<and> hd rel \<in> set ns) new"
      using Cons.IH [OF ns, of "es @ list_entry w p q [n] # sub"] by blast
    have "collect_children L descend rc mdep hid None (word_of_nat depth) (map (path_join p) (n # ns)) es w
        = (Inr (es @ (list_entry w p q [n] # sub) @ new), w)"
      using st sub new vis hidden
      by (cases "descends rc mdep depth nd") (auto simp: bindE_Inr build_fs_entry_plain Let_def e can)
    moreover have "listing_of w p q (\<lambda>rel. listed w q rc mdep hid depth rel \<and> hd rel \<in> set (n # ns))
        ((list_entry w p q [n] # sub) @ new)"
      by (rule listing_of_append [OF here rest]) (use Cons.prems in auto)
    ultimately show ?thesis by blast
  qed
qed

lemma listed_child:
  assumes wf: "fs_wf w" and l: "listed w q rc mdep hid depth rel"
  shows "look w (q @ [hd rel]) \<noteq> None"
proof -
  from l obtain n r where rel: "rel = n # r" "look w (q @ n # r) \<noteq> None"
    by (cases rel) (auto simp: listed_def)
  then show ?thesis
    using fs_wf_prefix [OF wf, of "q @ n # r" "q @ [n]"]
    by (cases "r = []") (auto simp: dir_at_iff strict_prefix_def)
qed

lemma collect_fs_entries_listing:
  assumes calm: "sched w = []" and wf: "fs_wf w" and names: "names_ok w"
  shows "resolve w True p = Inr q \<Longrightarrow> dir_at w q \<Longrightarrow> depth + n < 2 ^ 32 \<Longrightarrow>
    \<forall>k. look w k \<noteq> None \<longrightarrow> length k < length q + n \<Longrightarrow>
    \<exists>new. collect_fs_entries n L p rc mdep hid None (word_of_nat depth) es w = (Inr (es @ new), w) \<and>
      listing_of w p q (listed w q rc mdep hid depth) new"
proof (induction n arbitrary: p q depth es)
  case 0
  then show ?case by (auto simp: dir_at_iff)
next
  case (Suc n)
  let ?names = "sort_key (\<lambda>x. components (path_join p x)) (children w q)"
  let ?rec = "\<lambda>child. collect_fs_entries n L child rc mdep hid None"
  have sub: "\<exists>sub. ?rec (path_join p m) (word_of_nat (depth + 1)) es' w = (Inr (es' @ sub), w) \<and>
        listing_of w (path_join p m) (q @ [m]) (listed w (q @ [m]) rc mdep hid (depth + 1)) sub"
    if nd: "look w (q @ [m]) = Some nd" and d: "descends rc mdep depth nd" for m nd es'
  proof (rule Suc.IH)
    show "resolve w True (path_join p m) = Inr (q @ [m])"
      using names_okD [OF names, of q m "[]"] nd d
      by (intro resolve_join [OF Suc.prems(1,2)]) (auto simp: descends_def)
    show "dir_at w (q @ [m])" using nd d by (simp add: dir_at_iff descends_def)
  qed (use Suc.prems in auto)
  have depth: "depth + 1 < 2 ^ 32"
  proof (cases n)
    case 0
    with Suc.prems show ?thesis by simp
  qed (use Suc.prems in simp)
  have "\<exists>new. collect_children L ?rec rc mdep hid None (word_of_nat depth) (map (path_join p) ?names) es w
      = (Inr (es @ new), w) \<and>
    listing_of w p q (\<lambda>rel. listed w q rc mdep hid depth rel \<and> hd rel \<in> set ?names) new"
    by (rule collect_children_listing [OF calm wf names Suc.prems(1,2) depth], rule sub)
      (use distinct_children [OF wf] in auto)
  moreover have "listed w q rc mdep hid depth rel \<and> hd rel \<in> set ?names \<longleftrightarrow> listed w q rc mdep hid depth rel" for rel
    using wf by (auto simp: children_iff dest: listed_child)
  ultimately show ?case
    using calm_read_dir [OF calm Suc.prems(1,2)]
    by (simp add: bindE_Inr sort_key_map)
qed

lemma fs_height_bound: "look w k \<noteq> None \<Longrightarrow> length k < fs_height w"
proof -
  have "fold max xs m \<ge> m \<and> (\<forall>x \<in> set xs. x \<le> fold max xs m)" for xs :: "nat list" and m
    by (induction xs arbitrary: m) (auto, (meson le_trans max.cobounded1 max.cobounded2)+)
  moreover assume "look w k \<noteq> None"
  then have "length k \<in> set (map (length \<circ> fst) (nodes w))"
    by (force simp: look_def dest: map_of_SomeD)
  ultimately show ?thesis
    by (auto simp: fs_height_def less_Suc_eq_le)
qed

text \<open>
  C7: when nothing goes wrong on the system's side, listing a directory reports exactly the
  locations below it that the request selects: every visible name of the directory itself,
  and when the listing is recursive everything visible below it down to the depth limit; each
  location once, with its kind and size. Symbolic links are reported and not followed, and the
  recursion always ends.
\<close>

theorem fs_list_complete:
  assumes calm: "sched w = []" and wf: "fs_wf w" and names: "names_ok w" and small: "fs_height w < 2 ^ 32"
    and q: "resolve w False p = Inr q" "dir_at w q"
  shows "\<exists>rels. blocking_fs_list L p recursive max_depth include_hidden None w =
      (Inr (map (list_entry w p q) rels), w) \<and> distinct rels \<and>
    set rels = {rel. listed w q recursive max_depth include_hidden 0 rel}"
proof -
  from q obtain nd where nd: "look w q = Some nd" "i_type nd = FtDir"
    by (auto simp: dir_at_iff)
  with q have "resolve w True p = Inr q"
    by (auto intro: resolve_follow)
  from collect_fs_entries_listing [OF calm wf names this q(2), of 0 "fs_height w" L recursive max_depth include_hidden "[]"]
    fs_height_bound [of w] small
  have "\<exists>new. collect_fs_entries (fs_height w) L p recursive max_depth include_hidden None 0 [] w = (Inr new, w) \<and>
      listing_of w p q (listed w q recursive max_depth include_hidden 0) new"
    by (simp add: trans_less_add2)
  then show ?thesis
    using calm_stat [OF calm q(1) nd(1)] nd(2)
    by (auto simp: blocking_fs_list_def bindE_Inr metadata_of_def listing_of_def)
qed

theorem fs_list_complete_witness:
  "\<exists>rels. blocking_fs_list sample_libs ''/'' True None True None sample_world =
      (Inr (map (list_entry sample_world ''/'' []) rels), sample_world) \<and>
    set rels = {rel. listed sample_world [] True None True 0 rel}"
proof -
  have "\<exists>rels. blocking_fs_list sample_libs ''/'' True None True None sample_world =
      (Inr (map (list_entry sample_world ''/'' []) rels), sample_world) \<and> distinct rels \<and>
    set rels = {rel. listed sample_world [] True None True 0 rel}"
  proof (rule fs_list_complete)
    show "fs_wf sample_world" using sample_world_ok by (simp add: world_ok_def)
    show "names_ok sample_world" "fs_height sample_world < 2 ^ 32" "resolve sample_world False ''/'' = Inr []"
      "dir_at sample_world []" by code_simp+
  qed (simp add: sample_world_def world_of_def)
  then show ?thesis by blast
qed

end
