(* ===== verification/Daemon_Transfer.thy ===== *)
theory Daemon_Transfer
  imports Daemon_Fs
begin

text \<open>
  File transfer on the daemon's side (\<open>device/rsdbd/src/main.rs\<close>, from \<open>handle_push\<close> to
  \<open>glob_match_options\<close>): single files and batches, received from the connection or sent to it.

  The loops that receive a file end because every frame takes at least a header off the input;
  the loops that send one end because every read takes bytes off the file; the recursion over
  a directory tree takes fuel, at most the height of the file system.
\<close>

section \<open>Receiving a file\<close>

text \<open>The payload that the code keeps in a reused buffer is returned with the frame's header.\<close>

definition read_file_stream_chunk_into ::
  "u32 \<Rightarrow> string \<Rightarrow> (stream_frame_header \<times> bytes) app" where
  "read_file_stream_chunk_into request_id context_name =
     bindE (map_errE (protocol_context (''failed to read '' @ context_name @ '' frame''))
              (read_stream_frame_into conn_read_exact)) (\<lambda>(chunk, payload).
     if s_request_id chunk \<noteq> request_id then
       failE (anyhow_msg (''stream frame request id mismatch: expected '' @ show_nat (unat request_id)
         @ '', got '' @ show_nat (unat (s_request_id chunk))))
     else if s_channel chunk \<noteq> File then
       failE (anyhow_msg (''unexpected stream channel: expected '' @ stream_channel_debug File
         @ '', got '' @ stream_channel_debug (s_channel chunk)))
     else retE (chunk, payload))"

lemma read_chunk_ok:
  assumes "read_file_stream_chunk_into rid name w = (Inr (chunk, payload), v)"
  shows "HEADER_LEN + length payload + length (inp v) = length (inp w)"
    and "s_request_id chunk = rid" "s_channel chunk = File"
proof -
  from assms obtain h where "read_frame_into conn_read_exact w = (Inr (h, payload), v)"
    by (auto simp: read_file_stream_chunk_into_def read_stream_frame_into_def bindE_eq_Inr_iff
        split: if_splits)
  from conn_r.read_frame_into_ok [OF this]
  show "HEADER_LEN + length payload + length (inp v) = length (inp w)" by auto
  from assms show "s_request_id chunk = rid" "s_channel chunk = File"
    by (auto simp: read_file_stream_chunk_into_def bindE_eq_Inr_iff split: if_splits)
qed

lemma file_write_inp: "file_write_all q bs w = (r, v) \<Longrightarrow> inp v = inp w"
  using keepsD [OF conn_file_write] by (auto simp: same_conn_def)

definition write_chunk :: "loc \<Rightarrow> bytes \<Rightarrow> unit app" where
  "write_chunk file payload = (if payload \<noteq> [] then plain (file_write_all file payload) else retE ())"

lemma write_chunk_inp: "write_chunk q bs w = (r, v) \<Longrightarrow> inp v = inp w"
  by (auto simp: write_chunk_def plain_def map_errE_def split: if_splits prod.splits sum.splits
      dest: file_write_inp)

text \<open>The loop of \<open>handle_push\<close>; the result is \<open>bytes_written\<close>.\<close>

function push_receive :: "u32 \<Rightarrow> loc \<Rightarrow> nat \<Rightarrow> world \<Rightarrow> (anyhow + nat) \<times> world" where
  "push_receive request_id file bytes_written w =
     (case read_file_stream_chunk_into request_id ''push'' w of
        (Inl e, w1) \<Rightarrow> (Inl e, w1)
      | (Inr (chunk, payload), w1) \<Rightarrow>
          (case write_chunk file payload w1 of
             (Inl e, w2) \<Rightarrow> (Inl e, w2)
           | (Inr _, w2) \<Rightarrow>
               if s_eof chunk then (Inr (bytes_written + length payload), w2)
               else push_receive request_id file (bytes_written + length payload) w2))"
  by pat_completeness auto
termination
  by (relation "measure (\<lambda>(_, _, _, w). length (inp w))")
    (auto dest!: read_chunk_ok(1) [OF sym] write_chunk_inp [OF sym] simp: HEADER_LEN_def)

declare push_receive.simps [simp del]

definition resolve_push_destination :: "string \<Rightarrow> string option \<Rightarrow> string app" where
  "resolve_push_destination path source_name =
     (if path = [] then failE (anyhow_msg ''remote path must not be empty'')
      else
        bindE (bindE (tryE (metadata path)) (\<lambda>r.
                 case r of
                   Inr md \<Rightarrow> retE (Some md)
                 | Inl err \<Rightarrow>
                     if io_kind err = NotFound then retE None
                     else failE (io_context (''failed to stat remote path: '' @ path) err))) (\<lambda>md.
        if (case md of None \<Rightarrow> False | Some m \<Rightarrow> md_type m = FtDir) \<or> ends_with path ''/'' then
          (case source_name of
             Some name \<Rightarrow>
               if trim name \<noteq> [] then retE (path_join path name)
               else failE (anyhow_msg ''remote path refers to a directory but source file name is missing'')
           | None \<Rightarrow>
               failE (anyhow_msg ''remote path refers to a directory but source file name is missing''))
        else retE path))"

definition handle_push :: "libs \<Rightarrow> u32 \<Rightarrow> string \<Rightarrow> u32 \<Rightarrow> string option \<Rightarrow> unit app" where
  "handle_push L request_id path mode source_name =
     bindE (resolve_push_destination path source_name) (\<lambda>resolved_path.
     bindE (ctx (''failed to open remote path for write: '' @ display resolved_path)
              (sys_open_truncate resolved_path (normalize_mode mode))) (\<lambda>file.
     thenE (send_response L request_id PushReady)
    (bindE (push_receive request_id file 0) (\<lambda>bytes_written.
     thenE (plain (file_flush file))
    (thenE (if mode \<noteq> 0 then
              ctx (''failed to set permissions on '' @ display resolved_path)
                (sys_set_permissions resolved_path (normalize_mode mode))
            else retE ())
           (send_response L request_id (PushComplete bytes_written)))))))"

section \<open>Sending a file\<close>

text \<open>A \<open>BufWriter\<close> lives as long as the action that made it; what it then still holds is lost.\<close>

definition with_bufwriter :: "'a app \<Rightarrow> 'a app" where
  "with_bufwriter m =
     thenE buf_new (bindE (tryE m) (\<lambda>r. thenE buf_drop (liftE r)))"

definition BUFFER_CAPACITY :: nat where
  "BUFFER_CAPACITY = HEADER_LEN + DEFAULT_STREAM_CHUNK_SIZE"

definition buf_stream_frame :: "libs \<Rightarrow> u32 \<Rightarrow> bool \<Rightarrow> bytes \<Rightarrow> unit app" where
  "buf_stream_frame L request_id eof payload =
     proto (write_stream_frame (buf_write_all L BUFFER_CAPACITY) request_id File eof payload)"

definition buf_response :: "libs \<Rightarrow> u32 \<Rightarrow> control_response \<Rightarrow> unit app" where
  "buf_response L request_id response =
     proto (write_json_frame (response_to_vec L) (buf_write_all L BUFFER_CAPACITY) Response request_id
       response)"

lemma plain_cong [fundef_cong]: "m = m' \<Longrightarrow> plain m = plain m'"
  by simp

function send_file_chunks :: "libs \<Rightarrow> u32 \<Rightarrow> inode \<times> bytes \<Rightarrow> nat \<Rightarrow> nat app" where
  "send_file_chunks L request_id file sent =
     bindE (plain (sys_read file DEFAULT_STREAM_CHUNK_SIZE)) (\<lambda>(chunk, file').
     if chunk = [] then retE sent
     else thenE (buf_stream_frame L request_id False chunk)
            (send_file_chunks L request_id file' (sent + length chunk)))"
  by pat_completeness auto
termination
  by (relation "measure (\<lambda>(_, _, h, _). length (snd h))") (auto dest: sys_read_shrinks)

declare send_file_chunks.simps [simp del]

definition handle_pull :: "libs \<Rightarrow> u32 \<Rightarrow> string \<Rightarrow> unit app" where
  "handle_pull L request_id path =
     bindE (ctx (''failed to stat remote path: '' @ path) (metadata path)) (\<lambda>file_meta.
     if md_type file_meta \<noteq> FtFile then
       failE (anyhow_msg (''remote path is not a regular file: '' @ path))
     else
       bindE (ctx (''failed to open remote path for read: '' @ path) (sys_open_read path)) (\<lambda>file.
       with_bufwriter
        (thenE (buf_response L request_id (PullMetadata (md_len file_meta) (file_mode file_meta)))
        (bindE (send_file_chunks L request_id file 0) (\<lambda>bytes_sent.
         thenE (buf_stream_frame L request_id True [])
               (buf_response L request_id (PullComplete bytes_sent)))))))"

section \<open>Receiving a batch\<close>

fun ensure_unique_root_names_from :: "string list \<Rightarrow> transfer_root list \<Rightarrow> anyhow + unit" where
  "ensure_unique_root_names_from seen [] = Inr ()"
| "ensure_unique_root_names_from seen (root # roots) =
     (if tr_source_name root \<in> set seen then
        Inl (anyhow_msg (''duplicate transfer root name `'' @ tr_source_name root @ ''` is not supported''))
      else ensure_unique_root_names_from (tr_source_name root # seen) roots)"

definition ensure_unique_root_names :: "transfer_root list \<Rightarrow> anyhow + unit" where
  "ensure_unique_root_names roots = ensure_unique_root_names_from [] roots"

definition resolve_batch_destination_roots ::
  "string \<Rightarrow> transfer_root list \<Rightarrow> string list app" where
  "resolve_batch_destination_roots destination roots =
     (if roots = [] then failE (anyhow_msg ''transfer manifest did not include any roots'')
      else
        thenE (liftE (ensure_unique_root_names roots))
       (if destination = [] then failE (anyhow_msg ''remote path must not be empty'')
        else
          bindE (bindE (tryE (metadata destination)) (\<lambda>r.
                   case r of
                     Inr md \<Rightarrow> retE (Some md)
                   | Inl err \<Rightarrow>
                       if io_kind err = NotFound then retE None
                       else failE (io_context (''failed to stat remote destination ''
                              @ display destination) err))) (\<lambda>md.
          if length roots = 1 then
            let treat_as_directory =
                  (case md of None \<Rightarrow> False | Some m \<Rightarrow> md_type m = FtDir) \<or> ends_with destination ''/''
            in retE [if treat_as_directory then path_join destination (tr_source_name (hd roots))
                     else destination]
          else if (case md of None \<Rightarrow> False | Some m \<Rightarrow> md_type m \<noteq> FtDir) then
            failE (anyhow_msg (''remote destination is not a directory: '' @ destination))
          else retE (map (\<lambda>root. path_join destination (tr_source_name root)) roots))))"

text \<open>The loop over the frames of one file; the result is what it added to \<open>bytes_written\<close>.\<close>

function batch_receive_file :: "u32 \<Rightarrow> string \<Rightarrow> loc \<Rightarrow> nat \<Rightarrow> nat \<Rightarrow> world \<Rightarrow> (anyhow + nat) \<times> world" where
  "batch_receive_file request_id output_path file remaining bytes_written w =
     (if remaining = 0 then (Inr bytes_written, w)
      else
        case read_file_stream_chunk_into request_id ''push'' w of
          (Inl e, w1) \<Rightarrow> (Inl e, w1)
        | (Inr (chunk, payload), w1) \<Rightarrow>
            if s_eof chunk then
              (Inl (anyhow_msg (''unexpected end of push stream while writing '' @ display output_path)), w1)
            else if remaining < length payload then
              (Inl (anyhow_msg (''push stream overflow while writing '' @ display output_path)), w1)
            else
              (case write_chunk file payload w1 of
                 (Inl e, w2) \<Rightarrow> (Inl e, w2)
               | (Inr _, w2) \<Rightarrow>
                   batch_receive_file request_id output_path file (remaining - length payload)
                     (bytes_written + length payload) w2))"
  by pat_completeness auto
termination
  by (relation "measure (\<lambda>(_, _, _, _, _, w). length (inp w))")
    (auto dest!: read_chunk_ok(1) [OF sym] write_chunk_inp [OF sym] simp: HEADER_LEN_def)

declare batch_receive_file.simps [simp del]

definition receive_entry :: "u32 \<Rightarrow> string list \<Rightarrow> transfer_entry \<Rightarrow> nat \<Rightarrow> nat app" where
  "receive_entry request_id root_paths entry bytes_written =
     bindE (liftE (resolve_transfer_entry_path root_paths entry)) (\<lambda>output_path.
     case te_kind entry of
       TDirectory \<Rightarrow>
         thenE (ctx (''failed to create remote directory '' @ display output_path)
                  (create_dir_all output_path))
        (thenE (if te_mode entry \<noteq> 0 then
                  ctx (''failed to set permissions on '' @ display output_path)
                    (sys_set_permissions output_path (te_mode entry AND 0xFFF))
                else retE ())
               (retE bytes_written))
     | TFile \<Rightarrow>
         thenE (case parent_path output_path of
                  Some parent \<Rightarrow>
                    if parent \<noteq> [] then
                      ctx (''failed to create remote directory '' @ display parent) (create_dir_all parent)
                    else retE ()
                | None \<Rightarrow> retE ())
        (bindE (ctx (''failed to open remote path for write: '' @ display output_path)
                  (sys_open_truncate output_path (normalize_mode (te_mode entry)))) (\<lambda>file.
         bindE (batch_receive_file request_id output_path file (te_size entry) bytes_written)
           (\<lambda>bytes_written'.
         thenE (plain (file_flush file))
        (thenE (if te_mode entry \<noteq> 0 then
                  ctx (''failed to set permissions on '' @ display output_path)
                    (sys_set_permissions output_path (normalize_mode (te_mode entry)))
                else retE ())
               (retE bytes_written'))))))"

primrec receive_entries ::
  "u32 \<Rightarrow> string list \<Rightarrow> transfer_entry list \<Rightarrow> nat \<Rightarrow> nat \<Rightarrow> (nat \<times> nat) app" where
  "receive_entries request_id root_paths [] entries_written bytes_written =
     retE (entries_written, bytes_written)"
| "receive_entries request_id root_paths (entry # entries) entries_written bytes_written =
     bindE (receive_entry request_id root_paths entry bytes_written) (\<lambda>bytes_written'.
     receive_entries request_id root_paths entries (entries_written + 1) bytes_written')"

definition expect_file_stream_eof :: "u32 \<Rightarrow> string \<Rightarrow> unit app" where
  "expect_file_stream_eof request_id context_name =
     bindE (read_file_stream_chunk_into request_id context_name) (\<lambda>(chunk, payload).
     if \<not> s_eof chunk \<or> payload \<noteq> [] then
       failE (anyhow_msg (''expected end of '' @ context_name @ '' file stream''))
     else retE ())"

definition handle_push_batch ::
  "libs \<Rightarrow> u32 \<Rightarrow> string \<Rightarrow> transfer_root list \<Rightarrow> transfer_entry list \<Rightarrow> unit app" where
  "handle_push_batch L request_id destination roots entries =
     bindE (resolve_batch_destination_roots destination roots) (\<lambda>root_paths.
     thenE (send_response L request_id PushBatchReady)
    (bindE (receive_entries request_id root_paths entries 0 0) (\<lambda>(entries_written, bytes_written).
     thenE (expect_file_stream_eof request_id ''push'')
           (send_response L request_id (PushBatchComplete entries_written bytes_written)))))"

section \<open>Sending a batch\<close>

record batch_file_source =
  bf_path :: string
  bf_size :: nat

record batch_manifest =
  bm_roots :: "transfer_root list"
  bm_entries :: "transfer_entry list"
  bm_files :: "batch_file_source list"
  bm_total_bytes :: nat

text \<open>The part of the manifest that \<open>append_manifest_entry\<close> extends through its \<open>&mut\<close> arguments.\<close>

type_synonym manifest_lists = "transfer_entry list \<times> batch_file_source list \<times> nat"

text \<open>\<open>path.exists()\<close>: following links, false on any error.\<close>

definition path_exists :: "string \<Rightarrow> bool app" where
  "path_exists path = bindE (tryE (metadata path)) (\<lambda>r. retE (case r of Inl _ \<Rightarrow> False | Inr _ \<Rightarrow> True))"

definition sys_canonicalize :: "string \<Rightarrow> string io" where
  "sys_canonicalize path = syscall (\<lambda>w.
     case resolve w True path of
       Inl e \<Rightarrow> (Inl e, w)
     | Inr q \<Rightarrow>
         (case look w q of
            None \<Rightarrow> (Inl enoent, w)
          | Some _ \<Rightarrow> (Inr (CHR ''/'' # join_with ''/'' q), w)))"

definition transfer_source_name :: "string \<Rightarrow> string app" where
  "transfer_source_name path =
     (case file_name path of
        Some name \<Rightarrow> retE (display name)
      | None \<Rightarrow>
          bindE (ctx (''failed to canonicalize '' @ display path) (sys_canonicalize path)) (\<lambda>canonical.
          case file_name canonical of
            Some name \<Rightarrow> retE (display name)
          | None \<Rightarrow> failE (anyhow_msg (''path has no usable file name: '' @ display path))))"

fun collect_matches :: "string \<Rightarrow> (io_error + string) list \<Rightarrow> anyhow + string list" where
  "collect_matches spec [] = Inr []"
| "collect_matches spec (entry # rest) =
     (case entry of
        Inl e \<Rightarrow> Inl (io_context (''failed to resolve remote match for '' @ spec) e)
      | Inr p \<Rightarrow> (case collect_matches spec rest of Inl e \<Rightarrow> Inl e | Inr ps \<Rightarrow> Inr (p # ps)))"

definition expand_remote_source :: "libs \<Rightarrow> string \<Rightarrow> string list app" where
  "expand_remote_source L spec =
     bindE (if has_glob_pattern spec then bindE (path_exists spec) (\<lambda>b. retE (\<not> b)) else retE False)
       (\<lambda>expand.
     if expand then
       bindE (getE (\<lambda>w. glob_with L (nodes w) spec)) (\<lambda>found.
       case found of
         Inl err \<Rightarrow> failE (context_msg (''invalid remote glob pattern: '' @ spec) (anyhow_msg err))
       | Inr results \<Rightarrow>
           bindE (liftE (collect_matches spec results)) (\<lambda>paths.
           if paths = [] then
             failE (anyhow_io (custom_error NotFound (''remote pattern matched no paths: '' @ spec)))
           else retE (sort_key components paths)))
     else
       thenE (ctx (''failed to stat remote path '' @ display spec) (metadata spec)) (retE [spec]))"

primrec expand_remote_sources :: "libs \<Rightarrow> string list \<Rightarrow> string list \<Rightarrow> string list app" where
  "expand_remote_sources L [] sources = retE sources"
| "expand_remote_sources L (spec # specs) sources =
     bindE (expand_remote_source L spec) (\<lambda>found. expand_remote_sources L specs (sources @ found))"

text \<open>The loop over the children of a directory; \<open>descend\<close> is the recursive call.\<close>

primrec append_children ::
  "(string \<Rightarrow> string \<Rightarrow> fs_metadata \<Rightarrow> manifest_lists \<Rightarrow> manifest_lists app) \<Rightarrow> string \<Rightarrow> string list \<Rightarrow>
   manifest_lists \<Rightarrow> manifest_lists app" where
  "append_children descend relative_path [] acc = retE acc"
| "append_children descend relative_path (child # rest) acc =
     (case file_name child of
        None \<Rightarrow> failE (anyhow_msg (''path has no file name: '' @ display child))
      | Some child_name \<Rightarrow>
          let child_relative = (if relative_path = [] then child_name
                                else path_join relative_path child_name)
          in bindE (ctx (''failed to stat remote path '' @ display child) (symlink_metadata child))
               (\<lambda>child_metadata.
             bindE (descend child child_relative child_metadata acc) (\<lambda>acc'.
             append_children descend relative_path rest acc')))"

primrec append_manifest_entry ::
  "nat \<Rightarrow> u32 \<Rightarrow> string \<Rightarrow> string \<Rightarrow> fs_metadata \<Rightarrow> manifest_lists \<Rightarrow> manifest_lists app" where
  "append_manifest_entry 0 root_index path relative_path md acc = failE out_of_fuel"
| "append_manifest_entry (Suc n) root_index path relative_path md acc =
     (case acc of (entries, files, total_bytes) \<Rightarrow>
      if md_type md = FtSymlink then
        failE (anyhow_msg (''symbolic links are not supported in batch pull: '' @ display path))
      else if md_type md = FtDir then
        bindE (liftE (path_to_transfer_string relative_path)) (\<lambda>relative.
        let entry = \<lparr>te_root_index = root_index, te_relative_path = relative, te_kind = TDirectory,
                     te_mode = file_mode md, te_size = 0\<rparr>
        in bindE (ctx (''failed to read remote directory '' @ display path) (sys_read_dir path)) (\<lambda>names.
           append_children (append_manifest_entry n root_index) relative_path
             (sort_key components (map (path_join path) names)) (entries @ [entry], files, total_bytes)))
      else if md_type md \<noteq> FtFile then
        failE (anyhow_msg (''unsupported remote path type: '' @ display path))
      else
        bindE (liftE (path_to_transfer_string relative_path)) (\<lambda>relative.
        retE (entries @ [\<lparr>te_root_index = root_index, te_relative_path = relative, te_kind = TFile,
                          te_mode = file_mode md, te_size = md_len md\<rparr>],
              files @ [\<lparr>bf_path = path, bf_size = md_len md\<rparr>],
              total_bytes + md_len md)))"

definition add_source :: "string \<Rightarrow> transfer_root list \<Rightarrow> manifest_lists \<Rightarrow>
   (transfer_root list \<times> manifest_lists) app" where
  "add_source source roots acc =
     bindE (ctx (''failed to stat remote path '' @ display source) (symlink_metadata source)) (\<lambda>md.
     if md_type md = FtSymlink then
       failE (anyhow_msg (''symbolic links are not supported in batch pull: '' @ display source))
     else if md_type md \<noteq> FtDir \<and> md_type md \<noteq> FtFile then
       failE (anyhow_msg (''unsupported remote path type: '' @ display source))
     else
       bindE (transfer_source_name source) (\<lambda>source_name.
       let kind = (if md_type md = FtDir then TDirectory else TFile);
           root_index = word_of_nat (length roots);
           root = \<lparr>tr_source_name = source_name, tr_kind = kind, tr_mode = file_mode md\<rparr>
       in bindE (getE fs_height) (\<lambda>fuel.
          bindE (append_manifest_entry fuel root_index source [] md acc) (\<lambda>acc'.
          retE (roots @ [root], acc')))))"

primrec add_sources :: "string list \<Rightarrow> transfer_root list \<Rightarrow> manifest_lists \<Rightarrow>
   (transfer_root list \<times> manifest_lists) app" where
  "add_sources [] roots acc = retE (roots, acc)"
| "add_sources (source # sources) roots acc =
     bindE (add_source source roots acc) (\<lambda>(roots', acc'). add_sources sources roots' acc')"

definition build_batch_manifest_from_sources :: "libs \<Rightarrow> string list \<Rightarrow> batch_manifest app" where
  "build_batch_manifest_from_sources L source_specs =
     bindE (expand_remote_sources L source_specs []) (\<lambda>sources.
     bindE (add_sources sources [] ([], [], 0)) (\<lambda>(roots, entries, files, total_bytes).
     thenE (liftE (ensure_unique_root_names roots))
           (retE \<lparr>bm_roots = roots, bm_entries = entries, bm_files = files,
                  bm_total_bytes = total_bytes\<rparr>)))"

definition send_batch_file :: "libs \<Rightarrow> u32 \<Rightarrow> batch_file_source \<Rightarrow> nat \<Rightarrow> nat app" where
  "send_batch_file L request_id file_entry total_bytes =
     bindE (ctx (''failed to open remote path for read: '' @ display (bf_path file_entry))
              (sys_open_read (bf_path file_entry))) (\<lambda>file.
     bindE (send_file_chunks L request_id file 0) (\<lambda>file_bytes.
     if file_bytes \<noteq> bf_size file_entry then
       failE (anyhow_msg (''remote file changed during pull: expected '' @ show_nat (bf_size file_entry)
         @ '' bytes, read '' @ show_nat file_bytes @ '' from '' @ display (bf_path file_entry)))
     else retE (total_bytes + file_bytes)))"

primrec send_batch_files :: "libs \<Rightarrow> u32 \<Rightarrow> batch_file_source list \<Rightarrow> nat \<Rightarrow> nat app" where
  "send_batch_files L request_id [] total_bytes = retE total_bytes"
| "send_batch_files L request_id (file_entry # rest) total_bytes =
     bindE (send_batch_file L request_id file_entry total_bytes) (\<lambda>total.
     send_batch_files L request_id rest total)"

definition stream_batch_files :: "libs \<Rightarrow> u32 \<Rightarrow> batch_file_source list \<Rightarrow> nat app" where
  "stream_batch_files L request_id files =
     with_bufwriter
       (bindE (send_batch_files L request_id files 0) (\<lambda>total_bytes.
        thenE (plain buf_flush) (retE total_bytes)))"

definition handle_pull_batch :: "libs \<Rightarrow> u32 \<Rightarrow> string list \<Rightarrow> unit app" where
  "handle_pull_batch L request_id sources =
     bindE (build_batch_manifest_from_sources L sources) (\<lambda>manifest.
     thenE (send_response L request_id
              (PullBatchMetadata (bm_roots manifest) (bm_entries manifest) (bm_total_bytes manifest)))
    (bindE (stream_batch_files L request_id (bm_files manifest)) (\<lambda>bytes_sent.
     if bytes_sent \<noteq> bm_total_bytes manifest then
       failE (anyhow_msg (''pull size mismatch before completion: expected ''
         @ show_nat (bm_total_bytes manifest) @ '' bytes, streamed '' @ show_nat bytes_sent))
     else
       thenE (proto (write_stream_frame conn_write_all request_id File True []))
             (send_response L request_id
                (PullBatchComplete (length (bm_entries manifest)) bytes_sent)))))"

end
