(* ===== verification/Daemon_Exec.thy ===== *)
theory Daemon_Exec
  imports Daemon_Transfer
begin

text \<open>
  Running commands on the device (\<open>device/rsdbd/src/main.rs\<close>): \<open>handle_exec_request\<close> with its
  buffered and its streaming form, the shells over pipes and over a PTY, the quoting of shell
  commands, and what the daemon finds out about its host at start.

  A child process is what the daemon sees of it: the order in which the branches of a
  \<open>select!\<close> loop complete, with their results. Every order is a list of events, and a branch
  whose guard is off is not polled, so its events pass by. When the list ends nothing further
  happens: a loop with a time limit is stopped by it, one without waits for ever. The time
  limit strikes while a loop waits for the child and not in the middle of a write. What a child
  does to the file system is not part of the world.

  The task that feeds a shell's standard input owns the reading half of the connection, the
  loop that relays the output owns the writing half, so the task is run first on everything
  the peer will ever send; when it reports, relative to the child's output, is again in the
  event list.
\<close>

section \<open>Processes\<close>

record server_state =
  server_id :: string
  device_name :: string
  platform :: string
  shell_path :: string
  home_path :: string
  ss_exec_timeout :: nat
  tcp_port :: u16

record command_spec =
  c_program :: string
  c_args :: "string list"
  c_current_dir :: "string option"
  c_env :: "(string \<times> string) list"
  c_stdin_piped :: bool
  c_kill_on_drop :: bool

datatype exec_event =
    ReadOut "io_error + bytes"
  | ReadErr "io_error + bytes"
  | Waited "io_error + i32 option"
  | StdinRecv

datatype pty_event = PtyRecv | PtyWaited "io_error + i32 option" | PtyStdinRecv

record winsize =
  ws_row :: u16
  ws_col :: u16
  ws_xpixel :: u16
  ws_ypixel :: u16

text \<open>
  \<open>tokio::process\<close> and the PTY library. \<open>cmd_output c t\<close> is \<open>Command::output\<close> under a limit of
  \<open>t\<close> seconds, \<open>None\<close> when the limit strikes. A spawned child's events depend on the time limit
  and on what its standard input delivers; on a PTY there are the results of reading the
  controller and the events of the loop.
\<close>

record processes =
  cmd_output :: "command_spec \<Rightarrow> nat \<Rightarrow> (io_error + i32 option \<times> bytes \<times> bytes) option"
  spawn_piped :: "command_spec \<Rightarrow> nat option \<Rightarrow> io_error + (bytes \<Rightarrow> exec_event list)"
  spawn_on_pty :: "command_spec \<Rightarrow> winsize option \<Rightarrow>
    io_error + (bytes \<Rightarrow> (io_error + bytes) list \<times> pty_event list)"

section \<open>Quoting for the shell\<close>

definition shell_safe :: "char \<Rightarrow> bool" where
  "shell_safe c \<longleftrightarrow>
     (let n = (of_char c :: nat) in
        0x61 \<le> n \<and> n \<le> 0x7A \<or> 0x41 \<le> n \<and> n \<le> 0x5A \<or> 0x30 \<le> n \<and> n \<le> 0x39 \<or>
        c \<in> set ''_-./:@+='')"

definition shell_quote :: "string \<Rightarrow> string" where
  "shell_quote value =
     (if value = [] then [CHR 0x27, CHR 0x27]
      else if list_all shell_safe value then value
      else
        [CHR 0x27]
        @ concat (map (\<lambda>c. if c = CHR 0x27 then [CHR 0x27, CHR 0x22, CHR 0x27, CHR 0x22, CHR 0x27]
                           else [c]) value)
        @ [CHR 0x27])"

definition join_shell_command :: "string \<Rightarrow> string list \<Rightarrow> string" where
  "join_shell_command command args = join_with '' '' (map shell_quote (command # args))"

section \<open>Frames of a running command\<close>

text \<open>\<open>tokio::io::BufWriter::new\<close>.\<close>

definition DEFAULT_BUF_SIZE :: nat where
  "DEFAULT_BUF_SIZE = 8 * 1024"

definition relay_frame :: "libs \<Rightarrow> u32 \<Rightarrow> stream_channel \<Rightarrow> bytes \<Rightarrow> unit app" where
  "relay_frame L request_id channel data =
     thenE (proto (write_stream_frame (buf_write_all L DEFAULT_BUF_SIZE) request_id channel
              (data = []) data))
       (plain buf_flush)"

definition relay_response :: "libs \<Rightarrow> u32 \<Rightarrow> control_response \<Rightarrow> unit app" where
  "relay_response L request_id response =
     thenE (proto (write_json_frame (response_to_vec L) (buf_write_all L DEFAULT_BUF_SIZE) Response
              request_id response))
       (plain buf_flush)"

datatype loop_end = Exited "i32 option" | Stopped | Pending

text \<open>
  The loop that \<open>stream_command_output\<close> and \<open>handle_pipe_shell\<close> share. They differ in the words
  of a failed wait and in the branch on the standard-input task, which only the shell has;
  \<open>on_recv\<close> says whether that branch ends the loop.
\<close>

primrec select_loop ::
  "libs \<Rightarrow> u32 \<Rightarrow> string \<Rightarrow> bool app \<Rightarrow> exec_event list \<Rightarrow> bool \<Rightarrow> bool \<Rightarrow> i32 option option \<Rightarrow>
   loop_end app" where
  "select_loop L rid wait_context on_recv [] stdout_open stderr_open exit_status =
     retE (case exit_status of
             Some code \<Rightarrow> if stdout_open \<or> stderr_open then Pending else Exited code
           | None \<Rightarrow> Pending)"
| "select_loop L rid wait_context on_recv (event # events) stdout_open stderr_open exit_status =
     (if stdout_open \<or> stderr_open \<or> exit_status = None then
        case event of
          ReadOut r \<Rightarrow>
            if stdout_open then
              bindE (plain (liftE r)) (\<lambda>data.
              thenE (relay_frame L rid Stdout data)
                (select_loop L rid wait_context on_recv events (data \<noteq> []) stderr_open exit_status))
            else select_loop L rid wait_context on_recv events stdout_open stderr_open exit_status
        | ReadErr r \<Rightarrow>
            if stderr_open then
              bindE (plain (liftE r)) (\<lambda>data.
              thenE (relay_frame L rid Stderr data)
                (select_loop L rid wait_context on_recv events stdout_open (data \<noteq> []) exit_status))
            else select_loop L rid wait_context on_recv events stdout_open stderr_open exit_status
        | Waited r \<Rightarrow>
            if exit_status = None then
              bindE (ctx wait_context (liftE r)) (\<lambda>code.
              select_loop L rid wait_context on_recv events stdout_open stderr_open (Some code))
            else select_loop L rid wait_context on_recv events stdout_open stderr_open exit_status
        | StdinRecv \<Rightarrow>
            bindE on_recv (\<lambda>stop.
            if stop then retE Stopped
            else select_loop L rid wait_context on_recv events stdout_open stderr_open exit_status)
      else retE (case exit_status of Some code \<Rightarrow> Exited code | None \<Rightarrow> Pending))"

definition status_code :: "i32 option \<Rightarrow> i32" where
  "status_code code = (case code of Some n \<Rightarrow> n | None \<Rightarrow> -1)"

section \<open>Exec\<close>

definition exec_timeout :: "nat option \<Rightarrow> nat \<Rightarrow> nat" where
  "exec_timeout timeout_secs default_timeout =
     (case timeout_secs of Some t \<Rightarrow> t | None \<Rightarrow> default_timeout)"

definition timeout_response :: "nat \<Rightarrow> control_response" where
  "timeout_response t =
     ErrorResponse ExecTimeout (''command timed out after '' @ show_nat t @ '' seconds'')"

definition exec_spec :: "string \<Rightarrow> string list \<Rightarrow> string option \<Rightarrow> command_spec" where
  "exec_spec command args dir =
     \<lparr>c_program = command, c_args = args, c_current_dir = dir, c_env = [],
      c_stdin_piped = False, c_kill_on_drop = True\<rparr>"

text \<open>\<open>String::from_utf8_lossy\<close>.\<close>

definition lossy_string :: "bytes \<Rightarrow> string" where
  "lossy_string bs = from_bytes (utf8_lossy bs)"

definition execute_command ::
  "processes \<Rightarrow> string \<Rightarrow> string list \<Rightarrow> string option \<Rightarrow> nat option \<Rightarrow> server_state \<Rightarrow>
   anyhow + control_response" where
  "execute_command P command args dir timeout_secs state =
     (if trim command = [] then Inl (anyhow_msg ''command must not be empty'')
      else
        let t = exec_timeout timeout_secs (ss_exec_timeout state) in
        case cmd_output P (exec_spec command args dir) t of
          None \<Rightarrow> Inr (timeout_response t)
        | Some (Inl e) \<Rightarrow> Inl (io_context (''failed to execute command: '' @ command) e)
        | Some (Inr (code, out, err)) \<Rightarrow>
            Inr (ExecResult (status_code code) (lossy_string out) (lossy_string err) False))"

definition stream_command_output ::
  "libs \<Rightarrow> processes \<Rightarrow> u32 \<Rightarrow> string \<Rightarrow> string list \<Rightarrow> string option \<Rightarrow> nat option \<Rightarrow>
   server_state \<Rightarrow> unit app" where
  "stream_command_output L P request_id command args dir timeout_secs state =
     (if trim command = [] then failE (anyhow_msg ''command must not be empty'')
      else
        let t = exec_timeout timeout_secs (ss_exec_timeout state) in
        bindE (ctx (''failed to execute command: '' @ command)
                 (liftE (spawn_piped P (exec_spec command args dir) (Some t)))) (\<lambda>child.
        bindE (with_bufwriter
                (bindE (select_loop L request_id ''failed to wait for exec process'' (retE False)
                          (child []) True True None) (\<lambda>end.
                 case end of
                   Exited code \<Rightarrow>
                     thenE (relay_response L request_id (ExecResult (status_code code) [] [] False))
                       (retE True)
                 | _ \<Rightarrow> retE False))) (\<lambda>finished.
        if finished then retE ()
        else send_response L request_id (timeout_response t))))"

definition handle_exec_request ::
  "libs \<Rightarrow> processes \<Rightarrow> u32 \<Rightarrow> string \<Rightarrow> string list \<Rightarrow> string option \<Rightarrow> nat option \<Rightarrow> bool \<Rightarrow>
   server_state \<Rightarrow> unit app" where
  "handle_exec_request L P request_id command args dir timeout_secs stream_output state =
     (if stream_output then
        bindE (tryE (stream_command_output L P request_id command args dir timeout_secs state)) (\<lambda>r.
        case r of
          Inr _ \<Rightarrow> retE ()
        | Inl err \<Rightarrow> send_response L request_id (ErrorResponse ExecFailed (anyhow_display err)))
      else
        send_response L request_id
          (case execute_command P command args dir timeout_secs state of
             Inr response \<Rightarrow> response
           | Inl err \<Rightarrow> ErrorResponse ExecFailed (anyhow_display err)))"

definition send_error :: "libs \<Rightarrow> u32 \<Rightarrow> error_code \<Rightarrow> anyhow \<Rightarrow> unit app" where
  "send_error L request_id code err =
     send_response L request_id (ErrorResponse code (anyhow_display err))"

section \<open>Standard input of a shell\<close>

definition other_error :: "string \<Rightarrow> protocol_error" where
  "other_error m = Io (custom_error OtherIo m)"

text \<open>The two checks on a frame of the standard-input task.\<close>

definition stdin_frame_error :: "u32 \<Rightarrow> stream_frame_header \<Rightarrow> protocol_error option" where
  "stdin_frame_error request_id header =
     (if s_request_id header \<noteq> request_id then
        Some (other_error (''stream frame request id mismatch: expected ''
          @ show_nat (unat request_id) @ '', got '' @ show_nat (unat (s_request_id header))))
      else if s_channel header \<noteq> Stdin then
        Some (other_error (''unexpected stream channel: expected '' @ stream_channel_debug Stdin
          @ '', got '' @ stream_channel_debug (s_channel header)))
      else None)"

text \<open>\<open>write_all\<close> and \<open>flush\<close> on a pipe or PTY: what was delivered, and the error if there was one.\<close>

definition feed_child :: "bytes \<Rightarrow> world \<Rightarrow> (bytes \<times> io_error option) \<times> world" where
  "feed_child bs w =
     (if bs = [] then (([], None), w)
      else
        case with_decision (\<lambda>d. case d of Fail e n \<Rightarrow> retE (take n bs, Some e) | _ \<Rightarrow> retE (bs, None)) w of
          (Inr r, v) \<Rightarrow> (r, v)
        | (Inl e, v) \<Rightarrow> (([], Some e), v))"

definition read_stdin_frame :: "u32 \<Rightarrow> (world, protocol_error, stream_frame_header \<times> bytes) act" where
  "read_stdin_frame request_id =
     bindE (read_stream_frame_into conn_read_exact) (\<lambda>(header, payload).
     case stdin_frame_error request_id header of
       Some e \<Rightarrow> failE e
     | None \<Rightarrow> retE (header, payload))"

definition is_eof_error :: "protocol_error \<Rightarrow> bool" where
  "is_eof_error e \<longleftrightarrow> (case e of Io err \<Rightarrow> io_kind err = UnexpectedEof | _ \<Rightarrow> False)"

lemma read_stdin_ok:
  assumes "read_stdin_frame rid w = (Inr (header, payload), v)"
  shows "HEADER_LEN + length payload + length (inp v) = length (inp w)"
proof -
  from assms obtain h where "read_frame_into conn_read_exact w = (Inr (h, payload), v)"
    by (auto simp: read_stdin_frame_def read_stream_frame_into_def bindE_eq_Inr_iff
        split: if_splits option.splits)
  from conn_r.read_frame_into_ok [OF this] show ?thesis by auto
qed

lemma feed_child_inp: "feed_child bs w = (r, v) \<Longrightarrow> inp v = inp w"
  by (auto simp: feed_child_def with_decision_def split: if_splits list.splits decision.splits)

text \<open>
  The task of \<open>handle_pipe_shell\<close>: the bytes the child's standard input has received when the
  task ends (the pipe closes with it) and the error it reports.
\<close>

function pipe_stdin_task :: "u32 \<Rightarrow> bytes \<Rightarrow> world \<Rightarrow> (bytes \<times> protocol_error option) \<times> world" where
  "pipe_stdin_task request_id fed w =
     (case read_stdin_frame request_id w of
        (Inl e, w1) \<Rightarrow> ((fed, if is_eof_error e then None else Some e), w1)
      | (Inr (header, payload), w1) \<Rightarrow>
          (case feed_child payload w1 of
             ((part, Some e), w2) \<Rightarrow> ((fed @ part, Some (Io e)), w2)
           | ((part, None), w2) \<Rightarrow>
               if s_eof header then ((fed @ part, None), w2)
               else pipe_stdin_task request_id (fed @ part) w2))"
  by pat_completeness auto
termination
  by (relation "measure (\<lambda>(_, _, w). length (inp w))")
    (auto dest!: read_stdin_ok [OF sym] feed_child_inp [OF sym] simp: HEADER_LEN_def)

declare pipe_stdin_task.simps [simp del]


section \<open>The shells\<close>

text \<open>What both kinds of shell run: the words shown to the client, the program and its arguments.\<close>

definition shell_command_line ::
  "string option \<Rightarrow> string list \<Rightarrow> string \<Rightarrow> anyhow + string \<times> string \<times> string list" where
  "shell_command_line command args shell =
     (case command of
        Some cmd \<Rightarrow>
          if trim cmd \<noteq> [] then
            let command_line = join_shell_command cmd args
            in Inr (shell @ '' -lc '' @ command_line, shell, [''-lc'', command_line])
          else Inl (anyhow_msg ''shell command must not be empty'')
      | None \<Rightarrow> Inr (shell @ '' -l -i'', shell, [''-l'', ''-i'']))"

definition spawn_pipe_shell ::
  "processes \<Rightarrow> string option \<Rightarrow> string list \<Rightarrow> string \<Rightarrow> string \<Rightarrow>
   (string \<times> (bytes \<Rightarrow> exec_event list)) app" where
  "spawn_pipe_shell P command args shell home =
     bindE (liftE (shell_command_line command args shell)) (\<lambda>(display_command, program, argv).
     bindE (ctx (''failed to spawn shell command: '' @ program)
              (liftE (spawn_piped P
                 \<lparr>c_program = program, c_args = argv, c_current_dir = None, c_env = [(''HOME'', home)],
                  c_stdin_piped = True, c_kill_on_drop = False\<rparr> None))) (\<lambda>child.
     retE (display_command, child)))"

text \<open>
  A shell's handler returns \<open>Some ()\<close> when it ends and \<open>None\<close> when it waits for ever: a shell has
  no time limit.
\<close>

definition report_stdin_error :: "libs \<Rightarrow> u32 \<Rightarrow> protocol_error option \<Rightarrow> bool app" where
  "report_stdin_error L request_id err =
     (case err of
        None \<Rightarrow> retE False
      | Some e \<Rightarrow>
          thenE (relay_response L request_id
                   (ErrorResponse ExecFailed (anyhow_display (anyhow_protocol e))))
            (retE True))"

definition run_task :: "(world \<Rightarrow> 'a \<times> world) \<Rightarrow> 'a app" where
  "run_task f w = (case f w of (a, v) \<Rightarrow> (Inr a, v))"

definition handle_pipe_shell ::
  "libs \<Rightarrow> processes \<Rightarrow> u32 \<Rightarrow> string option \<Rightarrow> string list \<Rightarrow> server_state \<Rightarrow> unit option app" where
  "handle_pipe_shell L P request_id command args state =
     bindE (spawn_pipe_shell P command args (shell_path state) (home_path state)) (\<lambda>(display_command, child).
     with_bufwriter
       (thenE (relay_response L request_id (ShellStarted display_command))
       (bindE (run_task (pipe_stdin_task request_id [])) (\<lambda>(fed, stdin_err).
        bindE (select_loop L request_id ''failed to wait for shell process''
                 (report_stdin_error L request_id stdin_err) (child fed) True True None) (\<lambda>end.
        case end of
          Exited code \<Rightarrow>
            thenE (relay_response L request_id (ShellExit (status_code code))) (retE (Some ()))
        | Stopped \<Rightarrow> retE (Some ())
        | Pending \<Rightarrow> retE None)))))"

subsection \<open>Over a PTY\<close>

datatype pty_input = PtyInData bytes | PtyInClose

datatype pty_output = PtyOutData bytes | PtyOutEof | PtyOutError string

definition shell_winsize :: "u16 option \<Rightarrow> u16 option \<Rightarrow> winsize option" where
  "shell_winsize rows cols =
     (case (rows, cols) of
        (Some r, Some c) \<Rightarrow>
          if 0 < r \<and> 0 < c then Some \<lparr>ws_row = r, ws_col = c, ws_xpixel = 0, ws_ypixel = 0\<rparr> else None
      | _ \<Rightarrow> None)"

definition EIO :: int where
  "EIO = 5"

definition is_pty_closed_error :: "io_error \<Rightarrow> bool" where
  "is_pty_closed_error err \<longleftrightarrow>
     io_kind err \<in> {BrokenPipe, ConnectionReset, UnexpectedEof} \<or> io_raw_os_error err = Some EIO"

text \<open>\<open>start_pty_output_pump\<close>: the messages it sends for the results of reading the controller.\<close>

fun pty_output_pump :: "(io_error + bytes) list \<Rightarrow> pty_output list" where
  "pty_output_pump [] = []"
| "pty_output_pump (Inr data # reads) =
     (if data = [] then [PtyOutEof] else PtyOutData data # pty_output_pump reads)"
| "pty_output_pump (Inl err # reads) =
     (if is_pty_closed_error err then [PtyOutEof] else [PtyOutError (io_message err)])"

text \<open>\<open>start_pty_input_pump\<close>: what reaches the controller.\<close>

fun pty_input_pump :: "pty_input list \<Rightarrow> bytes \<Rightarrow> world \<Rightarrow> bytes \<times> world" where
  "pty_input_pump [] fed w = (fed, w)"
| "pty_input_pump (PtyInClose # inputs) fed w = (fed, w)"
| "pty_input_pump (PtyInData data # inputs) fed w =
     (case feed_child data w of
        ((part, Some e), v) \<Rightarrow> (fed @ part, v)
      | ((part, None), v) \<Rightarrow> pty_input_pump inputs (fed @ part) v)"

text \<open>A message to the input pump; sending fails when the pump has stopped.\<close>

definition pty_send :: "pty_input \<Rightarrow> world \<Rightarrow> (pty_input list \<times> bool) \<times> world" where
  "pty_send m w =
     (case with_decision (\<lambda>d. retE (case d of Fail _ _ \<Rightarrow> ([], False) | _ \<Rightarrow> ([m], True))) w of
        (Inr r, v) \<Rightarrow> (r, v)
      | (Inl (e :: io_error), v) \<Rightarrow> (([], False), v))"

definition pty_send_data :: "bytes \<Rightarrow> world \<Rightarrow> (pty_input list \<times> bool) \<times> world" where
  "pty_send_data data w = (if data = [] then (([], True), w) else pty_send (PtyInData data) w)"

definition pty_close :: "pty_input list \<Rightarrow> 'a \<Rightarrow> world \<Rightarrow> (pty_input list \<times> 'a) \<times> world" where
  "pty_close sent r w = (case pty_send PtyInClose w of ((ms, _), v) \<Rightarrow> ((sent @ ms, r), v))"

lemma pty_send_data_inp: "pty_send_data bs w = (r, v) \<Longrightarrow> inp v = inp w"
  by (auto simp: pty_send_data_def pty_send_def with_decision_def split: if_splits list.splits)

text \<open>The task of \<open>handle_pty_shell\<close>: the messages the pump receives and the error reported.\<close>

function pty_stdin_task ::
  "u32 \<Rightarrow> pty_input list \<Rightarrow> world \<Rightarrow> (pty_input list \<times> protocol_error option) \<times> world" where
  "pty_stdin_task request_id sent w =
     (case read_stdin_frame request_id w of
        (Inl e, w1) \<Rightarrow> pty_close sent (if is_eof_error e then None else Some e) w1
      | (Inr (header, payload), w1) \<Rightarrow>
          (case pty_send_data payload w1 of
             ((ms, False), w2) \<Rightarrow> ((sent @ ms, None), w2)
           | ((ms, True), w2) \<Rightarrow>
               if s_eof header then pty_close (sent @ ms) None w2
               else pty_stdin_task request_id (sent @ ms) w2))"
  by pat_completeness auto
termination
  by (relation "measure (\<lambda>(_, _, w). length (inp w))")
    (auto dest!: read_stdin_ok [OF sym] pty_send_data_inp [OF sym] simp: HEADER_LEN_def)

declare pty_stdin_task.simps [simp del]

definition spawn_pty_shell ::
  "processes \<Rightarrow> string option \<Rightarrow> string list \<Rightarrow> string option \<Rightarrow> u16 option \<Rightarrow> u16 option \<Rightarrow>
   string \<Rightarrow> string \<Rightarrow> (string \<times> (bytes \<Rightarrow> (io_error + bytes) list \<times> pty_event list)) app" where
  "spawn_pty_shell P command args term rows cols shell home =
     bindE (liftE (shell_command_line command args shell)) (\<lambda>(display_command, program, argv).
     thenE (map_errE (\<lambda>e. anyhow_msg (''failed to allocate PTY: os error ''
              @ show_int (case io_raw_os_error e of Some n \<Rightarrow> n | None \<Rightarrow> 0)))
              (syscall (retE ())))
    (bindE (ctx (''failed to spawn PTY shell command: '' @ program)
              (liftE (spawn_on_pty P
                 \<lparr>c_program = program, c_args = argv, c_current_dir = None,
                  c_env = (''HOME'', home)
                    # (case term of
                         Some t \<Rightarrow> if trim t \<noteq> [] then [(''TERM'', t)] else []
                       | None \<Rightarrow> []),
                  c_stdin_piped = False, c_kill_on_drop = False\<rparr>
                 (shell_winsize rows cols)))) (\<lambda>child.
     retE (display_command, child))))"

text \<open>The loop of \<open>handle_pty_shell\<close>; \<open>outputs\<close> are the messages of the output pump still to come.\<close>

primrec pty_loop ::
  "libs \<Rightarrow> u32 \<Rightarrow> protocol_error option \<Rightarrow> pty_event list \<Rightarrow> pty_output list \<Rightarrow> bool \<Rightarrow>
   i32 option option \<Rightarrow> loop_end app" where
  "pty_loop L rid stdin_err [] outputs stdout_open exit_status =
     retE (case exit_status of
             Some code \<Rightarrow> if stdout_open then Pending else Exited code
           | None \<Rightarrow> Pending)"
| "pty_loop L rid stdin_err (event # events) outputs stdout_open exit_status =
     (if stdout_open \<or> exit_status = None then
        case event of
          PtyStdinRecv \<Rightarrow>
            (case stdin_err of
               Some e \<Rightarrow> failE (anyhow_protocol e)
             | None \<Rightarrow> pty_loop L rid stdin_err events outputs stdout_open exit_status)
        | PtyRecv \<Rightarrow>
            if stdout_open then
              case outputs of
                [] \<Rightarrow> pty_loop L rid stdin_err events outputs stdout_open exit_status
              | PtyOutData data # rest \<Rightarrow>
                  thenE (thenE (proto (write_stream_frame (buf_write_all L DEFAULT_BUF_SIZE) rid Stdout
                                  False data)) (plain buf_flush))
                    (pty_loop L rid stdin_err events rest True exit_status)
              | PtyOutEof # rest \<Rightarrow>
                  thenE (relay_frame L rid Stdout [])
                    (pty_loop L rid stdin_err events rest False exit_status)
              | PtyOutError message # rest \<Rightarrow> failE (anyhow_msg (''PTY stream failed: '' @ message))
            else pty_loop L rid stdin_err events outputs stdout_open exit_status
        | PtyWaited r \<Rightarrow>
            if exit_status = None then
              bindE (ctx ''failed to wait for shell process'' (liftE r)) (\<lambda>code.
              pty_loop L rid stdin_err events outputs stdout_open (Some code))
            else pty_loop L rid stdin_err events outputs stdout_open exit_status
      else retE (case exit_status of Some code \<Rightarrow> Exited code | None \<Rightarrow> Pending))"

definition handle_pty_shell ::
  "libs \<Rightarrow> processes \<Rightarrow> u32 \<Rightarrow> string option \<Rightarrow> string list \<Rightarrow> string option \<Rightarrow> u16 option \<Rightarrow>
   u16 option \<Rightarrow> server_state \<Rightarrow> unit option app" where
  "handle_pty_shell L P request_id command args term rows cols state =
     bindE (spawn_pty_shell P command args term rows cols (shell_path state) (home_path state))
       (\<lambda>(display_command, child).
     with_bufwriter
       (thenE (relay_response L request_id (ShellStarted display_command))
       (thenE (ctx ''failed to clone PTY controller for output'' (syscall (retE ())))
       (bindE (run_task (pty_stdin_task request_id [])) (\<lambda>(inputs, stdin_err).
        bindE (run_task (pty_input_pump inputs [])) (\<lambda>fed.
        case child fed of (reads, events) \<Rightarrow>
        bindE (pty_loop L request_id stdin_err events (pty_output_pump reads) True None) (\<lambda>end.
        case end of
          Exited code \<Rightarrow>
            thenE (relay_response L request_id (ShellExit (status_code code))) (retE (Some ()))
        | _ \<Rightarrow> retE None)))))))"

definition handle_shell ::
  "libs \<Rightarrow> processes \<Rightarrow> u32 \<Rightarrow> string option \<Rightarrow> string list \<Rightarrow>
   (string option \<times> u16 option \<times> u16 option) option \<Rightarrow> server_state \<Rightarrow> unit option app" where
  "handle_shell L P request_id command args pty state =
     (case pty of
        Some (term, rows, cols) \<Rightarrow>
          handle_pty_shell L P request_id command args term rows cols state
      | None \<Rightarrow> handle_pipe_shell L P request_id command args state)"

end
