(* ===== verification/Daemon.thy ===== *)
theory Daemon
  imports Daemon_Exec
begin

text \<open>
  The daemon as a whole (\<open>device/rsdbd/src/main.rs\<close>): what it finds out at start, the answer to
  discovery probes, and the handling of a connection, which carries one request. Each request
  goes to its handler, and an error of the handler becomes an error response where the code
  makes it one.

  The environment's variables, the host's architecture, and commands run at start are
  parameters. A connection whose first frame does not arrive within the time limit is one with
  \<open>in_time\<close> false.
\<close>

section \<open>The host\<close>

record host =
  env_var :: "string \<Rightarrow> string option"
  const_os :: string
  const_arch :: string
  sync_output :: "string \<Rightarrow> string list \<Rightarrow> io_error + bool \<times> bytes"

text \<open>\<open>std::env::var(name).ok().filter(|value| !value.trim().is_empty())\<close>.\<close>

definition env_nonblank :: "host \<Rightarrow> string \<Rightarrow> string option" where
  "env_nonblank H name =
     (case env_var H name of Some v \<Rightarrow> if trim v \<noteq> [] then Some v else None | None \<Rightarrow> None)"

definition default_server_id :: "host \<Rightarrow> string" where
  "default_server_id H =
     (case env_nonblank H ''RSDB_SERVER_ID'' of Some v \<Rightarrow> v | None \<Rightarrow> ''rsdbd'')"

fun find_os_release :: "string \<Rightarrow> string list \<Rightarrow> string option" where
  "find_os_release key [] = None"
| "find_os_release key (line # ls) =
     (case strip_prefix_str line (key @ ''='') of
        None \<Rightarrow> find_os_release key ls
      | Some raw \<Rightarrow>
          let v = trim_matches (CHR 0x22) (trim raw)
          in if v \<noteq> [] then Some v else find_os_release key ls)"

definition detect_os_release_value :: "string \<Rightarrow> string option io" where
  "detect_os_release_value key =
     bindE (tryE (read_to_string ''/etc/os-release'')) (\<lambda>r.
     case r of
       Inl _ \<Rightarrow> retE None
     | Inr content \<Rightarrow> retE (find_os_release key (str_lines content)))"

definition run_command :: "host \<Rightarrow> string \<Rightarrow> string option" where
  "run_command H cmd =
     (case split_whitespace cmd of
        [] \<Rightarrow> None
      | program # args \<Rightarrow>
          (case sync_output H program args of
             Inl _ \<Rightarrow> None
           | Inr (success, out) \<Rightarrow>
               if success then
                 let v = trim (lossy_string out) in if v \<noteq> [] then Some v else None
               else None))"

definition detect_device_name :: "host \<Rightarrow> string io" where
  "detect_device_name H =
     bindE (detect_os_release_value ''NAME'') (\<lambda>a.
     case a of
       Some n \<Rightarrow> retE n
     | None \<Rightarrow>
         bindE (detect_os_release_value ''PRETTY_NAME'') (\<lambda>b.
         case b of
           Some n \<Rightarrow> retE n
         | None \<Rightarrow> retE (case run_command H ''uname -s'' of Some n \<Rightarrow> n | None \<Rightarrow> const_os H)))"

definition detect_os_name :: "host \<Rightarrow> string io" where
  "detect_os_name H =
     bindE (detect_os_release_value ''PRETTY_NAME'') (\<lambda>a.
     case a of
       Some n \<Rightarrow> retE n
     | None \<Rightarrow> retE (case run_command H ''uname -sr'' of Some n \<Rightarrow> n | None \<Rightarrow> const_os H))"

definition detect_platform :: "host \<Rightarrow> string io" where
  "detect_platform H =
     bindE (detect_os_name H) (\<lambda>os_name. retE (os_name @ '' ('' @ const_arch H @ '')''))"

primrec first_existing :: "string list \<Rightarrow> string \<Rightarrow> string io" where
  "first_existing [] fallback = retE fallback"
| "first_existing (candidate # cs) fallback =
     bindE (tryE (metadata candidate)) (\<lambda>r.
     case r of Inr _ \<Rightarrow> retE candidate | Inl _ \<Rightarrow> first_existing cs fallback)"

definition detect_default_shell :: "host \<Rightarrow> string io" where
  "detect_default_shell H =
     (case env_nonblank H ''RSDB_DEFAULT_SHELL'' of
        Some shell \<Rightarrow> retE shell
      | None \<Rightarrow>
          first_existing [''/bin/bash'', ''/usr/bin/bash'', ''/bin/sh'', ''/usr/bin/sh''] ''/bin/sh'')"

text \<open>The sixth field of the first line that starts with \<open>root:\<close>.\<close>

fun passwd_home :: "string list \<Rightarrow> string option" where
  "passwd_home [] = None"
| "passwd_home (line # ls) =
     (if starts_with line ''root:'' then
        (case drop 5 (split_on (CHR '':'') line) of
           home # _ \<Rightarrow> if trim home \<noteq> [] then Some home else None
         | [] \<Rightarrow> None)
      else passwd_home ls)"

definition detect_default_home :: "host \<Rightarrow> string io" where
  "detect_default_home H =
     (case env_nonblank H ''RSDB_DEFAULT_HOME'' of
        Some home \<Rightarrow> retE home
      | None \<Rightarrow>
          (case env_nonblank H ''HOME'' of
             Some home \<Rightarrow> retE home
           | None \<Rightarrow>
               bindE (tryE (read_to_string ''/etc/passwd'')) (\<lambda>r.
               case r of
                 Inl _ \<Rightarrow> retE ''/root''
               | Inr passwd \<Rightarrow>
                   retE (case passwd_home (str_lines passwd) of Some h \<Rightarrow> h | None \<Rightarrow> ''/root''))))"

record daemon_args =
  arg_listen :: string
  arg_server_id :: "string option"
  arg_exec_timeout_secs :: nat

text \<open>The state that \<open>main\<close> sets up once the listener is bound to \<open>port\<close>.\<close>

definition server_setup :: "host \<Rightarrow> daemon_args \<Rightarrow> u16 \<Rightarrow> server_state io" where
  "server_setup H a port =
     bindE (detect_device_name H) (\<lambda>device.
     bindE (detect_platform H) (\<lambda>plat.
     bindE (detect_default_shell H) (\<lambda>shell.
     bindE (detect_default_home H) (\<lambda>home.
     retE \<lparr>server_id = (case arg_server_id a of Some s \<Rightarrow> s | None \<Rightarrow> default_server_id H),
           device_name = device, platform = plat, shell_path = shell, home_path = home,
           ss_exec_timeout = arg_exec_timeout_secs a, tcp_port = port\<rparr>))))"

section \<open>Discovery\<close>

definition capabilities :: capability_set where
  "capabilities =
     \<lparr>cap_protocol_version = PROTOCOL_VERSION,
      cap_transports = [''tcp'', ''udp-discovery''],
      cap_security = [''none''],
      cap_features =
        [''exec.direct'', ''exec.stream'', ''agent.exec.v1'', ''agent.fs.stat.v1'', ''agent.fs.list.v1'',
         ''agent.fs.read.v1'', ''agent.fs.write.v1'', ''agent.fs.mkdir.v1'', ''agent.fs.rm.v1'',
         ''agent.fs.move.v1'', ''agent.transfer.push.v1'', ''agent.transfer.pull.v1'', ''shell.exec'',
         ''shell.interactive'', ''shell.pty'', ''fs.push'', ''fs.pull'', ''fs.push.batch'',
         ''fs.pull.batch'']\<rparr>"

definition discovery_answer :: "server_state \<Rightarrow> nat \<Rightarrow> discovery_response" where
  "discovery_answer state nonce =
     \<lparr>dr_nonce = nonce, dr_server_id = server_id state, dr_device_name = device_name state,
      dr_platform = platform state, dr_tcp_port = tcp_port state,
      dr_protocol_version = PROTOCOL_VERSION, dr_features = cap_features capabilities\<rparr>"

definition DISCOVERY_BUFFER_LEN :: nat where
  "DISCOVERY_BUFFER_LEN = MAX_DISCOVERY_PAYLOAD_LEN + length DISCOVERY_MAGIC"

text \<open>
  One turn of the loop for each result of \<open>recv_from\<close>: a datagram (cut to the buffer), its sender,
  and whether an answer to it can be sent. The result is the answers sent and the error that
  ended the loop, if one did.
\<close>

fun handle_discovery ::
  "libs \<Rightarrow> server_state \<Rightarrow> (io_error + bytes \<times> string \<times> io_error option) list \<Rightarrow>
   (string \<times> bytes) list \<times> anyhow option" where
  "handle_discovery L state [] = ([], None)"
| "handle_discovery L state (Inl e # received) = ([], Some (io_context ''discovery recv failed'' e))"
| "handle_discovery L state (Inr (datagram, peer, send_result) # received) =
     (case decode_discovery_message (probe_from_slice L) (take DISCOVERY_BUFFER_LEN datagram) of
        Inl _ \<Rightarrow> handle_discovery L state received
      | Inr (Probe nonce) \<Rightarrow>
          (case encode_discovery_message (announce_to_vec L) (discovery_answer state nonce) of
             Inl e \<Rightarrow> ([], Some (anyhow_protocol e))
           | Inr payload \<Rightarrow>
               (case send_result of
                  Some e \<Rightarrow>
                    ([], Some (io_context (''failed to send discovery response to '' @ peer) e))
                | None \<Rightarrow>
                    (case handle_discovery L state received of
                       (sent, end) \<Rightarrow> ((peer, payload) # sent, end)))))"

section \<open>Requests\<close>

text \<open>\<open>if let Err(err) = handler { send_error(.., code of err, err)? }\<close>.\<close>

definition or_send_error :: "libs \<Rightarrow> u32 \<Rightarrow> (anyhow \<Rightarrow> error_code) \<Rightarrow> unit app \<Rightarrow> unit option app" where
  "or_send_error L request_id code handler =
     bindE (tryE handler) (\<lambda>r.
     case r of
       Inr _ \<Rightarrow> retE (Some ())
     | Inl err \<Rightarrow> thenE (send_error L request_id (code err) err) (retE (Some ())))"

definition handle_request ::
  "libs \<Rightarrow> processes \<Rightarrow> u32 \<Rightarrow> control_request \<Rightarrow> server_state \<Rightarrow> unit option app" where
  "handle_request L P request_id request state =
     (case request of
        Ping \<Rightarrow>
          thenE (send_response L request_id (Pong (server_id state) PROTOCOL_VERSION)) (retE (Some ()))
      | GetCapabilities \<Rightarrow>
          thenE (send_response L request_id (Capabilities (server_id state) capabilities)) (retE (Some ()))
      | Exec command args dir timeout_secs stream_output \<Rightarrow>
          thenE (handle_exec_request L P request_id command args dir timeout_secs stream_output state)
            (retE (Some ()))
      | FsStat path hash \<Rightarrow>
          or_send_error L request_id classify_fs_error (handle_fs_stat L request_id path hash)
      | FsList path recursive max_depth include_hidden hash \<Rightarrow>
          or_send_error L request_id classify_fs_error
            (handle_fs_list L request_id path recursive max_depth include_hidden hash)
      | FsRead path encoding max_bytes \<Rightarrow>
          or_send_error L request_id classify_fs_error (handle_fs_read L request_id path encoding max_bytes)
      | FsWrite path content encoding mode create_parent atomic if_missing if_sha256 \<Rightarrow>
          or_send_error L request_id classify_fs_error
            (handle_fs_write L request_id path content encoding mode create_parent atomic if_missing if_sha256)
      | FsMkdir path parents mode \<Rightarrow>
          or_send_error L request_id classify_fs_error (handle_fs_mkdir L request_id path parents mode)
      | FsRm path recursive force if_exists \<Rightarrow>
          or_send_error L request_id classify_fs_error (handle_fs_rm L request_id path recursive force if_exists)
      | FsMove source destination overwrite \<Rightarrow>
          or_send_error L request_id classify_fs_error
            (handle_fs_move L request_id source destination overwrite)
      | Push path mode source_name \<Rightarrow>
          or_send_error L request_id (\<lambda>_. FileTransferFailed) (handle_push L request_id path mode source_name)
      | Pull path \<Rightarrow>
          or_send_error L request_id classify_pull_error (handle_pull L request_id path)
      | PushBatch destination roots entries \<Rightarrow>
          or_send_error L request_id (\<lambda>_. FileTransferFailed)
            (handle_push_batch L request_id destination roots entries)
      | PullBatch sources \<Rightarrow>
          or_send_error L request_id classify_pull_error (handle_pull_batch L request_id sources)
      | Shell command args pty term rows cols \<Rightarrow>
          handle_shell L P request_id command args (if pty then Some (term, rows, cols) else None) state)"

definition INITIAL_REQUEST_TIMEOUT :: nat where
  "INITIAL_REQUEST_TIMEOUT = 30"

definition handle_connection ::
  "libs \<Rightarrow> processes \<Rightarrow> server_state \<Rightarrow> bool \<Rightarrow> unit option app" where
  "handle_connection L P state in_time =
     (if \<not> in_time then
        failE (anyhow_msg (''timed out waiting for initial request after ''
          @ show_nat INITIAL_REQUEST_TIMEOUT @ '' seconds''))
      else
        bindE (tryE (read_frame conn_read_exact)) (\<lambda>r.
        case r of
          Inl e \<Rightarrow> if is_eof_error e then retE (Some ()) else failE (anyhow_protocol e)
        | Inr frame \<Rightarrow>
            bindE (proto (liftE (decode_json (request_from_slice L) frame Request))) (\<lambda>request.
            handle_request L P (h_request_id (f_header frame)) request state)))"

section \<open>Serving connections\<close>

text \<open>
  What \<open>main\<close>'s accept loop lets happen to the file system: one connection after another, each
  with its own input and its own faults. An error of a connection is logged and does not stop
  the loop.
\<close>

definition accept :: "bytes \<Rightarrow> decision list \<Rightarrow> world \<Rightarrow> world" where
  "accept input faults w = w\<lparr>inp := input, outp := [], wbuf := [], sched := faults\<rparr>"

inductive serves :: "libs \<Rightarrow> processes \<Rightarrow> server_state \<Rightarrow> world \<Rightarrow> world \<Rightarrow> bool"
  for L P state where
  serves_start: "serves L P state w w"
| serves_next: "serves L P state w v \<Longrightarrow>
    handle_connection L P state in_time (accept input faults v) = (result, u) \<Longrightarrow>
    serves L P state w u"

end
