(* ===== verification/Daemon_Transfer_Facts.thy ===== *)
theory Daemon_Transfer_Facts
  imports Daemon_Transfer Samples
begin

text \<open>
  What the daemon's transfers guarantee: a push stores exactly the bytes of its stream, a batch
  push receives its whole manifest and stays below its roots, a batch pull sends exactly the
  files of its manifest; and what the single pull loses.
\<close>

section \<open>Receiving\<close>

lemma keeps_read_chunk [keeps_intros]:
  "keeps same_files (read_file_stream_chunk_into rid name)" (is ?a)
  "keeps keeps_wf (read_file_stream_chunk_into rid name)" (is ?b)
  "keeps out_grows (read_file_stream_chunk_into rid name)" (is ?c)
proof -
  show files: ?a
    unfolding read_file_stream_chunk_into_def
    by (intro files_eff.keeps_bind keeps_map_err files_eff.keeps_read_stream_frame files_conn_read
        keeps_case_prod keeps_if files_eff.keeps_fail files_eff.keeps_ret)
  from files show ?b by (rule wf_of_same_files)
  show ?c
    unfolding read_file_stream_chunk_into_def
    by (intro out_eff.keeps_bind keeps_map_err out_eff.keeps_read_stream_frame out_conn_read
        keeps_case_prod keeps_if out_eff.keeps_fail out_eff.keeps_ret)
qed

lemma wf_write_chunk [keeps_intros]: "keeps keeps_wf (write_chunk q bs)"
  unfolding write_chunk_def by (intro keeps_intros wf_eff.keeps_ret)

lemma out_write_chunk: "write_chunk q bs w = (r, v) \<Longrightarrow> outp v = outp w"
  by (auto simp: write_chunk_def plain_def map_errE_def same_conn_def split: if_splits prod.splits sum.splits
      dest: keepsD [OF conn_file_write])

lemma keeps_push_receive:
  assumes eff: "effect S" and rd: "keeps S (read_file_stream_chunk_into rid ''push'')"
    and wr: "\<And>bs. keeps S (write_chunk q bs)"
  shows "keeps S (push_receive rid q n)"
proof -
  have "S w (snd (push_receive rid q n w))" for w
    using rd wr
  proof (induction rid q n w rule: push_receive.induct)
    case (1 rid q n w)
    obtain r w1 where r: "read_file_stream_chunk_into rid ''push'' w = (r, w1)" by force
    have s1: "S w w1" using "1.prems"(1) r by (rule keepsD)
    show ?case
    proof (cases r)
      case (Inl e)
      with r s1 show ?thesis by (subst push_receive.simps) simp
    next
      case (Inr c)
      obtain chunk payload where c: "c = (chunk, payload)" by force
      obtain x w2 where x: "write_chunk q payload w1 = (x, w2)" by force
      have s2: "S w w2"
        using effect.trans [OF eff s1 keepsD [OF "1.prems"(2) x]] .
      show ?thesis
      proof (cases "s_eof chunk \<or> (\<exists>e. x = Inl e)")
        case True
        with r Inr c x s2 show ?thesis
          by (subst push_receive.simps) (auto split: sum.split)
      next
        case False
        then obtain u where u: "x = Inr u" "\<not> s_eof chunk" by (cases x) auto
        from "1.IH" [OF r [symmetric] Inr c [symmetric] x [symmetric] u] "1.prems"
        have "S w2 (snd (push_receive rid q (n + length payload) w2))" by blast
        with r Inr c x u effect.trans [OF eff s2] show ?thesis
          by (subst push_receive.simps) simp
      qed
    qed
  qed
  then show ?thesis by (simp add: keeps_def)
qed

lemma keeps_batch_receive_file:
  assumes eff: "effect S" and rd: "keeps S (read_file_stream_chunk_into rid ''push'')"
    and wr: "\<And>bs. keeps S (write_chunk q bs)"
  shows "keeps S (batch_receive_file rid p q m n)"
proof -
  have "S w (snd (batch_receive_file rid p q m n w))" for w
    using rd wr
  proof (induction rid p q m n w rule: batch_receive_file.induct)
    case (1 rid p q m n w)
    show ?case
    proof (cases "m = 0")
      case True
      then show ?thesis by (subst batch_receive_file.simps) (simp add: effect.refl [OF eff])
    next
      case m: False
      obtain r w1 where r: "read_file_stream_chunk_into rid ''push'' w = (r, w1)" by force
      have s1: "S w w1" using "1.prems"(1) r by (rule keepsD)
      show ?thesis
      proof (cases r)
        case (Inl e)
        with r s1 m show ?thesis by (subst batch_receive_file.simps) simp
      next
        case (Inr c)
        obtain chunk payload where c: "c = (chunk, payload)" by force
        obtain x w2 where x: "write_chunk q payload w1 = (x, w2)" by force
        have s2: "S w w2"
          using effect.trans [OF eff s1 keepsD [OF "1.prems"(2) x]] .
        show ?thesis
        proof (cases "s_eof chunk \<or> m < length payload \<or> (\<exists>e. x = Inl e)")
          case True
          with r Inr c x s1 s2 m show ?thesis
            by (subst batch_receive_file.simps) (auto split: sum.split)
        next
          case False
          then obtain u where u: "\<not> s_eof chunk" "\<not> m < length payload" "x = Inr u" by (cases x) auto
          from "1.IH" [OF m r [symmetric] Inr c [symmetric] u(1,2) x [symmetric] u(3)] "1.prems"
          have "S w2 (snd (batch_receive_file rid p q (m - length payload) (n + length payload) w2))"
            by blast
          with r Inr c x u m effect.trans [OF eff s2] show ?thesis
            by (subst batch_receive_file.simps) simp
        qed
      qed
    qed
  qed
  then show ?thesis by (simp add: keeps_def)
qed

lemmas wf_receive [keeps_intros] =
  keeps_push_receive [OF wf_eff.effect_axioms keeps_read_chunk(2) wf_write_chunk]
  keeps_batch_receive_file [OF wf_eff.effect_axioms keeps_read_chunk(2) wf_write_chunk]


subsection \<open>What is received when nothing goes wrong\<close>

lemma calm_read_exact:
  "sched w = [] \<Longrightarrow> inp w = a @ b \<Longrightarrow> length a = n \<Longrightarrow>
     conn_read_exact n w = (Inr a, w\<lparr>inp := b\<rparr>)"
  by (simp add: conn_read_exact_def)

lemma calm_read_stream:
  assumes calm: "sched w = []" and inp: "inp w = stream_bytes rid c eof p @ rest"
    and len: "length p \<le> MAX_PAYLOAD_LEN"
  shows "read_stream_frame_into conn_read_exact w =
    (Inr (\<lparr>s_request_id = rid, s_channel = c, s_eof = eof\<rparr>, p), w\<lparr>inp := rest\<rparr>)"
proof -
  let ?h = "\<lparr>h_version = PROTOCOL_VERSION, h_kind = Stream, h_flags = stream_flags c eof,
      h_request_id = rid, h_payload_len = word_of_nat (length p)\<rparr>"
  have 1: "conn_read_exact HEADER_LEN w = (Inr (header_encode ?h), w\<lparr>inp := p @ rest\<rparr>)"
    using calm inp by (intro calm_read_exact) (simp_all add: stream_bytes_def frame_bytes_def)
  have 2: "conn_read_exact (length p) (w\<lparr>inp := p @ rest\<rparr>) = (Inr p, w\<lparr>inp := rest\<rparr>)"
    using calm calm_read_exact [of "w\<lparr>inp := p @ rest\<rparr>" p rest "length p"] by simp
  show ?thesis
    using 1 2 len
    by (simp add: read_stream_frame_into_def read_frame_into_def bindE_def map_errE_def
        header_decode_encode unat_payload_len decode_stream_frame_header_flags)
qed

lemma calm_read_chunk:
  "sched w = [] \<Longrightarrow> inp w = stream_bytes rid File eof p @ rest \<Longrightarrow> length p \<le> MAX_PAYLOAD_LEN \<Longrightarrow>
     read_file_stream_chunk_into rid name w =
       (Inr (\<lparr>s_request_id = rid, s_channel = File, s_eof = eof\<rparr>, p), w\<lparr>inp := rest\<rparr>)"
  by (simp add: read_file_stream_chunk_into_def bindE_def map_errE_def calm_read_stream)

definition appended :: "loc \<Rightarrow> bytes \<Rightarrow> world \<Rightarrow> world" where
  "appended q bs w = (if bs = [] then w else file_append q bs w)"

lemma appended_frames [simp]:
  "inp (appended q bs w) = inp w" "outp (appended q bs w) = outp w" "sched (appended q bs w) = sched w"
  by (auto simp: appended_def)

lemma appended_inp [simp]: "appended q bs (w\<lparr>inp := i\<rparr>) = (appended q bs w)\<lparr>inp := i\<rparr>"
  by (auto simp: appended_def file_append_def set_node_def split: option.split)

lemma clock_append [simp]: "clock (file_append q bs w) = clock w" "cwd (file_append q bs w) = cwd w"
  "umask (file_append q bs w) = umask w"
  by (auto simp: file_append_def set_node_def split: option.split)

lemma appended_twice: "appended q b (appended q a w) = appended q (a @ b) w"
proof (cases "look w q")
  case None
  then show ?thesis by (auto simp: appended_def file_append_def)
next
  case (Some nd)
  have "look (set_node q x w) q = Some x" for x by (simp add: look_set_node)
  with Some show ?thesis
    by (auto simp: appended_def file_append_def set_node_def update_last)
qed

lemma calm_write_chunk:
  "sched w = [] \<Longrightarrow> write_chunk q bs w = (Inr (), appended q bs w)"
  by (simp add: write_chunk_def appended_def plain_def map_errE_def file_write_all_def)

definition chunk_frames :: "u32 \<Rightarrow> bytes list \<Rightarrow> bytes" where
  "chunk_frames rid cs = concat (map (stream_bytes rid File False) cs)"

definition chunks_ok :: "bytes list \<Rightarrow> bool" where
  "chunks_ok cs \<longleftrightarrow> list_all (\<lambda>c. length c \<le> MAX_PAYLOAD_LEN) cs"

lemma calm_push_receive:
  assumes "sched w = []" "chunks_ok (cs @ [z])"
    and "inp w = chunk_frames rid cs @ stream_bytes rid File True z @ rest"
  shows "push_receive rid q n w =
    (Inr (n + length (concat cs @ z)), (appended q (concat cs @ z) w)\<lparr>inp := rest\<rparr>)"
  using assms
proof (induction cs arbitrary: n w)
  case Nil
  then show ?case
    by (subst push_receive.simps)
      (simp add: chunk_frames_def chunks_ok_def calm_read_chunk calm_write_chunk)
next
  case (Cons c cs)
  let ?i = "chunk_frames rid cs @ stream_bytes rid File True z @ rest"
  let ?w = "(appended q c w)\<lparr>inp := ?i\<rparr>"
  have rd: "read_file_stream_chunk_into rid ''push'' w =
      (Inr (\<lparr>s_request_id = rid, s_channel = File, s_eof = False\<rparr>, c), w\<lparr>inp := ?i\<rparr>)"
    using Cons.prems by (intro calm_read_chunk) (simp_all add: chunk_frames_def chunks_ok_def)
  have wr: "write_chunk q c (w\<lparr>inp := ?i\<rparr>) = (Inr (), ?w)"
    using Cons.prems calm_write_chunk [of "w\<lparr>inp := ?i\<rparr>" q c] by simp
  have "push_receive rid q (n + length c) ?w =
    (Inr (n + length c + length (concat cs @ z)), (appended q (concat cs @ z) ?w)\<lparr>inp := rest\<rparr>)"
    by (rule Cons.IH) (use Cons.prems in \<open>simp_all add: chunks_ok_def\<close>)
  then show ?case
    by (subst push_receive.simps) (simp add: rd wr appended_twice add.assoc)
qed

lemma calm_batch_receive_file:
  assumes "sched w = []" "chunks_ok cs" "length (concat cs) = m" "\<forall>c \<in> set cs. c \<noteq> []"
    and "inp w = chunk_frames rid cs @ rest"
  shows "batch_receive_file rid p q m n w =
    (Inr (n + m), (appended q (concat cs) w)\<lparr>inp := rest\<rparr>)"
  using assms
proof (induction cs arbitrary: m n w)
  case Nil
  then show ?case
    by (subst batch_receive_file.simps) (simp add: chunk_frames_def appended_def)
next
  case (Cons c cs)
  let ?i = "chunk_frames rid cs @ rest"
  let ?w = "(appended q c w)\<lparr>inp := ?i\<rparr>"
  have rd: "read_file_stream_chunk_into rid ''push'' w =
      (Inr (\<lparr>s_request_id = rid, s_channel = File, s_eof = False\<rparr>, c), w\<lparr>inp := ?i\<rparr>)"
    using Cons.prems by (intro calm_read_chunk) (simp_all add: chunk_frames_def chunks_ok_def)
  have wr: "write_chunk q c (w\<lparr>inp := ?i\<rparr>) = (Inr (), ?w)"
    using Cons.prems calm_write_chunk [of "w\<lparr>inp := ?i\<rparr>" q c] by simp
  have m: "m \<noteq> 0" "\<not> m < length c" "m - length c = length (concat cs)"
    using Cons.prems by auto
  have "batch_receive_file rid p q (length (concat cs)) (n + length c) ?w =
    (Inr (n + length c + length (concat cs)), (appended q (concat cs) ?w)\<lparr>inp := rest\<rparr>)"
    by (rule Cons.IH) (use Cons.prems in \<open>simp_all add: chunks_ok_def\<close>)
  then show ?case
    using m by (subst batch_receive_file.simps) (simp add: rd wr appended_twice)
qed


subsection \<open>A pushed file\<close>

text \<open>Where a write goes: an existing regular file, or a free name of a directory.\<close>

definition writable_at :: "world \<Rightarrow> string \<Rightarrow> loc \<Rightarrow> bool" where
  "writable_at w p q \<longleftrightarrow>
     resolve w True p = Inr q \<and> q \<noteq> [] \<and> dir_at w (butlast q) \<and>
     (case look w q of None \<Rightarrow> True | Some nd \<Rightarrow> i_type nd = FtFile)"

lemma calm_truncates:
  assumes calm: "sched w = []" and wr: "writable_at w p q"
  shows "\<exists>nd. sys_open_truncate p m w = (Inr q, set_node q nd w) \<and> i_type nd = FtFile \<and> i_data nd = []"
proof (cases "look w q")
  case None
  with calm wr show ?thesis
    by (auto simp: sys_open_truncate_def writable_at_def link_new_def new_inode_def)
next
  case (Some nd)
  with calm wr show ?thesis
    by (auto simp: sys_open_truncate_def writable_at_def)
qed

lemma calm_chmods:
  "sched w = [] \<Longrightarrow> resolve w True p = Inr q \<Longrightarrow> look w q = Some nd \<Longrightarrow>
     sys_set_permissions p m w = (Inr (), set_node q (nd\<lparr>i_mode := m\<rparr>) w)"
  by (simp add: sys_set_permissions_def)

lemma calm_flush: "sched w = [] \<Longrightarrow> file_flush q w = (Inr (), w)"
  by (simp add: file_flush_def)

lemma set_node_out [simp]:
  "set_node q nd (w\<lparr>outp := bs\<rparr>) = (set_node q nd w)\<lparr>outp := bs\<rparr>"
  "set_node q nd (w\<lparr>inp := bs\<rparr>) = (set_node q nd w)\<lparr>inp := bs\<rparr>"
  by (simp_all add: set_node_def)

lemma set_node_set_node [simp]: "set_node q nd' (set_node q nd w) = set_node q nd' w"
  by (simp add: set_node_def update_last)

lemma appended_set_node:
  assumes "i_type nd = FtFile"
  shows "\<exists>nd'. appended q bs (set_node q nd w) = set_node q nd' w \<and> i_type nd' = FtFile \<and>
    i_data nd' = i_data nd @ bs \<and> i_mode nd' = i_mode nd"
  using assms by (auto simp: appended_def file_append_def look_set_node
      intro: exI [of _ "nd\<lparr>i_data := i_data nd @ bs, i_mtime := clock (set_node q nd w)\<rparr>"])

lemma resolve_io [simp]:
  "resolve (w\<lparr>outp := bs\<rparr>) f p = resolve w f p" "resolve (w\<lparr>inp := bs\<rparr>) f p = resolve w f p"
  by (simp_all add: resolve_def resolve_parts_def)

lemma writable_stays:
  assumes "writable_at w p q" "i_type nd = FtFile"
  shows "resolve (set_node q nd w) True p = Inr q"
proof -
  have "walk_stable (look w) (look (set_node q nd w))"
    using assms by (intro stable_set_plain) (auto simp: plain_node_def writable_at_def split: option.splits)
  from resolve_stable(1) [OF this] assms show ?thesis
    by (simp add: writable_at_def)
qed

text \<open>
  Without faults, a push whose destination can be written stores exactly the bytes of the
  file stream up to and including its end-of-stream frame, gives the file the requested mode,
  answers \<open>PushReady\<close> and the exact byte count, changes no other location, and leaves the input
  after the stream unread.
\<close>
theorem push_exact:
  assumes calm: "sched w = []" and dest: "resolve_push_destination path source_name w = (Inr p, w)"
    and wr: "writable_at w p q"
    and frames: "chunks_ok (cs @ [z])" "inp w = chunk_frames rid cs @ stream_bytes rid File True z @ rest"
    and small: "sendable L PushReady" "sendable L (PushComplete (length (concat cs @ z)))"
  shows "\<exists>v nd. handle_push L rid path mode source_name w = (Inr (), v) \<and>
    look v q = Some nd \<and> i_type nd = FtFile \<and> i_data nd = concat cs @ z \<and>
    (mode \<noteq> 0 \<longrightarrow> i_mode nd = normalize_mode mode) \<and>
    (\<forall>k. k \<noteq> q \<longrightarrow> look v k = look w k) \<and> inp v = rest \<and>
    outp v = outp w @ response_bytes L rid PushReady
      @ response_bytes L rid (PushComplete (length (concat cs @ z)))"
proof -
  from calm_truncates [OF calm wr, of "normalize_mode mode"] obtain nd0 where
    op: "sys_open_truncate p (normalize_mode mode) w = (Inr q, set_node q nd0 w)"
    and nd0: "i_type nd0 = FtFile" "i_data nd0 = []" by blast
  let ?w1 = "(set_node q nd0 w)\<lparr>outp := outp w @ response_bytes L rid PushReady\<rparr>"
  have ready: "send_response L rid PushReady (set_node q nd0 w) = (Inr (), ?w1)"
    using calm_send_response [of "set_node q nd0 w" L PushReady rid] calm small by simp
  have recv: "push_receive rid q 0 ?w1 =
      (Inr (length (concat cs @ z)), (appended q (concat cs @ z) ?w1)\<lparr>inp := rest\<rparr>)"
    using calm_push_receive [of ?w1 cs z rid rest q 0] calm frames by simp
  from appended_set_node [OF nd0(1), of q "concat cs @ z" w] nd0(2) obtain nd1 where
    nd1: "appended q (concat cs @ z) (set_node q nd0 w) = set_node q nd1 w"
    "i_type nd1 = FtFile" "i_data nd1 = concat cs @ z" by auto
  have app: "appended q bs (v\<lparr>outp := o'\<rparr>) = (appended q bs v)\<lparr>outp := o'\<rparr>" for bs v o'
    by (auto simp: appended_def file_append_def split: option.split)
  let ?w2 = "(set_node q nd1 w)\<lparr>outp := outp w @ response_bytes L rid PushReady, inp := rest\<rparr>"
  have recv': "push_receive rid q 0 ?w1 = (Inr (length (concat cs @ z)), ?w2)"
    using recv by (simp add: app nd1)
  define nd2 where "nd2 = (if mode \<noteq> 0 then nd1\<lparr>i_mode := normalize_mode mode\<rparr> else nd1)"
  let ?w3 = "(set_node q nd2 w)\<lparr>outp := outp w @ response_bytes L rid PushReady, inp := rest\<rparr>"
  have perm: "(if mode \<noteq> 0 then ctx m (sys_set_permissions p (normalize_mode mode)) else retE ()) ?w2 = (Inr (), ?w3)" for m
    using calm_chmods [of ?w2 p q nd1 "normalize_mode mode"] writable_stays [OF wr nd1(2)] calm
    by (simp add: nd2_def look_set_node)
  have done_: "send_response L rid (PushComplete (length (concat cs @ z))) ?w3 =
      (Inr (), ?w3\<lparr>outp := outp ?w3 @ response_bytes L rid (PushComplete (length (concat cs @ z)))\<rparr>)"
    using calm_send_response [of ?w3 L "PushComplete (length (concat cs @ z))" rid] calm small by simp
  have "handle_push L rid path mode source_name w =
      (Inr (), ?w3\<lparr>outp := outp ?w3 @ response_bytes L rid (PushComplete (length (concat cs @ z)))\<rparr>)"
    unfolding handle_push_def
    using calm dest op ready recv' calm_flush [of ?w2 q] perm done_
    by (simp add: bindE_Inr thenE_Inr del: length_append length_concat)
  then show ?thesis
    using nd1 by (auto simp: look_set_node nd2_def)
qed


subsection \<open>A received batch\<close>

lemma batch_receive_file_counts:
  "batch_receive_file rid p q m n w = (Inr k, v) \<Longrightarrow> k = n + m"
proof (induction rid p q m n w rule: batch_receive_file.induct)
  case (1 rid p q m n w)
  show ?case
  proof (cases "m = 0")
    case True
    with "1.prems" show ?thesis by (subst (asm) batch_receive_file.simps) simp
  next
    case m: False
    from "1.prems" m obtain chunk payload w1 x w2 where
      r: "read_file_stream_chunk_into rid ''push'' w = (Inr (chunk, payload), w1)" and
      g: "\<not> s_eof chunk" "\<not> m < length payload" and
      x: "write_chunk q payload w1 = (Inr x, w2)" and
      rest: "batch_receive_file rid p q (m - length payload) (n + length payload) w2 = (Inr k, v)"
      by (subst (asm) batch_receive_file.simps) (auto split: prod.splits sum.splits if_splits)
    from "1.IH" [OF m r [symmetric] refl refl g x [symmetric] refl rest] g show ?thesis by simp
  qed
qed

definition entry_bytes :: "transfer_entry \<Rightarrow> nat" where
  "entry_bytes entry = (case te_kind entry of TFile \<Rightarrow> te_size entry | TDirectory \<Rightarrow> 0)"

lemma receive_entry_counts:
  "receive_entry rid roots entry n w = (Inr m, v) \<Longrightarrow> m = n + entry_bytes entry"
  by (auto simp: receive_entry_def entry_bytes_def bindE_eq_Inr_iff thenE_eq_Inr_iff
      split: transfer_entry_kind.splits dest!: batch_receive_file_counts)

lemma receive_entries_counts:
  "receive_entries rid roots entries k n w = (Inr (k', n'), v) \<Longrightarrow>
     k' = k + length entries \<and> n' = n + sum_list (map entry_bytes entries)"
  by (induction entries arbitrary: k n w)
    (fastforce simp: bindE_eq_Inr_iff dest!: receive_entry_counts)+

lemma conn_bind: "keeps same_conn m \<Longrightarrow> m w = (r, v) \<Longrightarrow> outp v = outp w"
  by (auto dest: keepsD simp: same_conn_def)

lemma out_read_exact: "conn_read_exact n w = (r, v) \<Longrightarrow> outp v = outp w"
  by (auto simp: conn_read_exact_def with_decision_def split: list.splits decision.splits if_splits)

definition same_out :: "world \<Rightarrow> world \<Rightarrow> bool" where
  "same_out v w \<longleftrightarrow> outp w = outp v"

interpretation same_out_eff: world_effect same_out
  by unfold_locales (auto simp: same_out_def)

lemma same_out_of_conn: "keeps same_conn m \<Longrightarrow> keeps same_out m"
  by (simp add: keeps_def same_conn_def same_out_def)

lemma same_out_read_chunk: "keeps same_out (read_file_stream_chunk_into rid name)"
proof -
  have "keeps same_out (conn_read_exact n)" for n
    using out_read_exact by (auto simp: keeps_def same_out_def) (metis prod.collapse)
  then show ?thesis
    unfolding read_file_stream_chunk_into_def
    by (intro same_out_eff.keeps_bind keeps_map_err same_out_eff.keeps_read_stream_frame
        keeps_case_prod keeps_if same_out_eff.keeps_fail same_out_eff.keeps_ret)
qed

lemma same_out_write_chunk: "keeps same_out (write_chunk q bs)"
  unfolding write_chunk_def
  by (intro keeps_if keeps_app same_out_of_conn conn_file_write same_out_eff.keeps_ret)

lemmas same_out_calls =
  same_out_of_conn [OF conn_create_dir_all] same_out_of_conn [OF conn_set_permissions]
  same_out_of_conn [OF conn_open_truncate] same_out_of_conn [OF keeps_flush(3)]
  keeps_batch_receive_file [OF same_out_eff.effect_axioms same_out_read_chunk same_out_write_chunk]

lemma same_out_receive_entry: "keeps same_out (receive_entry rid roots entry n)"
  unfolding receive_entry_def
  by (cases "te_kind entry"; simp;
      intro same_out_eff.keeps_bind same_out_eff.keeps_then same_out_eff.keeps_lift same_out_eff.keeps_ret
        keeps_if keeps_case_option keeps_app same_out_calls)

lemma same_out_receive_entries: "keeps same_out (receive_entries rid roots entries k n)"
  by (induction entries arbitrary: k n)
    (auto intro!: same_out_eff.keeps_bind same_out_eff.keeps_ret same_out_receive_entry)

lemma same_out_roots: "keeps same_out (resolve_batch_destination_roots d roots)"
  unfolding resolve_batch_destination_roots_def Let_def
  by (intro same_out_eff.keeps_bind same_out_eff.keeps_then same_out_eff.keeps_lift same_out_eff.keeps_ret
      same_out_eff.keeps_fail keeps_if keeps_try keeps_case_sum same_out_of_conn [OF keeps_stat(3)])

lemma same_out_eof: "keeps same_out (expect_file_stream_eof rid name)"
  unfolding expect_file_stream_eof_def
  by (intro same_out_eff.keeps_bind keeps_case_prod keeps_if same_out_eff.keeps_ret
      same_out_eff.keeps_fail same_out_read_chunk)


text \<open>
  C12: every path that a manifest entry is written to lies below its root: it has the components of
  the root's path followed by plain names, whatever relative path the peer sent. An entry with
  an absolute path, a \<open>..\<close> or a root index out of range is refused.
\<close>

theorem entry_paths_below_root:
  "resolve_transfer_entry_path root_paths entry = Inr p \<Longrightarrow>
     unat (te_root_index entry) < length root_paths \<and>
     (\<exists>ns. components p = components (root_paths ! unat (te_root_index entry)) @ map Normal ns \<and>
        components (te_relative_path entry) = map Normal ns \<and> (\<forall>n \<in> set ns. proper_name n))"
  by (auto simp: resolve_transfer_entry_path_def Let_def split: if_splits
      dest!: join_transfer_relative_path_ok)

text \<open>
  C13: the name of a root is not checked the same way: when the destination is an existing
  directory, a root whose name is an absolute path is written to that path, outside the
  destination.
\<close>

theorem root_name_escapes:
  assumes calm: "sched w = []" and dest: "destination \<noteq> []"
    and dir: "resolve w True destination = Inr q" "dir_at w q"
    and name: "is_absolute (tr_source_name root)"
  shows "resolve_batch_destination_roots destination [root] w = (Inr [tr_source_name root], w)"
proof -
  from dir obtain nd where nd: "look w q = Some nd" "i_type nd = FtDir" by (auto simp: dir_at_iff)
  have "metadata destination w = (Inr (metadata_of nd), w)"
    by (rule calm_stat [OF calm dir(1) nd(1)])
  with assms nd show ?thesis
    by (simp add: resolve_batch_destination_roots_def thenE_def bindE_def tryE_def metadata_of_def
        path_join_absolute ensure_unique_root_names_def)
qed

section \<open>Sending\<close>

lemma buf_stream_frame_ok:
  assumes L: "bufwriter_spec L" and run: "buf_stream_frame L rid eof p w = (Inr u, v)"
  shows "outp v @ wbuf v = outp w @ wbuf w @ stream_bytes rid File eof p"
  using byte_writer.write_stream_frame_ok [OF buf_byte_writer [OF L], of BUFFER_CAPACITY rid File eof p w u v] run
  by (simp add: buf_stream_frame_def)

lemma buf_stream_frame_fits:
  assumes L: "bufwriter_spec L" and fits: "length (wbuf w) + HEADER_LEN + length p \<le> BUFFER_CAPACITY"
  shows "buf_stream_frame L rid eof p w = (Inr (), w\<lparr>wbuf := wbuf w @ stream_bytes rid File eof p\<rparr>)"
proof -
  have "\<not> MAX_PAYLOAD_LEN < length p"
    using fits by (simp add: BUFFER_CAPACITY_def HEADER_LEN_def DEFAULT_STREAM_CHUNK_SIZE_def MAX_PAYLOAD_LEN_def)
  with fits show ?thesis
    by (simp add: buf_stream_frame_def proto_def write_stream_frame_def Let_def map_errE_def thenE_def bindE_def
        buf_write_all_fits [OF L] stream_bytes_def frame_bytes_def stream_flags_def)
qed

lemma buf_response_fits:
  assumes L: "bufwriter_spec L" and p: "response_to_vec L r = Inr p"
    and fits: "length (wbuf w) + HEADER_LEN + length p \<le> BUFFER_CAPACITY"
  shows "buf_response L rid r w = (Inr (), w\<lparr>wbuf := wbuf w @ frame_bytes Response 0 rid p\<rparr>)"
proof -
  have "\<not> MAX_PAYLOAD_LEN < length p"
    using fits by (simp add: BUFFER_CAPACITY_def HEADER_LEN_def DEFAULT_STREAM_CHUNK_SIZE_def MAX_PAYLOAD_LEN_def)
  with fits p show ?thesis
    by (simp add: buf_response_def proto_def write_json_frame_def write_frame_def Let_def map_errE_def thenE_def
        bindE_def buf_write_all_fits [OF L] frame_bytes_def)
qed

definition nonempty :: "bytes \<Rightarrow> bytes list" where
  "nonempty bs = (if bs = [] then [] else [bs])"

lemma calm_send_small:
  assumes L: "bufwriter_spec L" and calm: "sched w = []" and nd: "i_type nd \<noteq> FtDir"
    and fits: "length (wbuf w) + HEADER_LEN + length bs \<le> BUFFER_CAPACITY"
  shows "send_file_chunks L rid (nd, bs) n w =
    (Inr (n + length bs), w\<lparr>wbuf := wbuf w @ chunk_frames rid (nonempty bs)\<rparr>)"
proof (cases "bs = []")
  case True
  with calm nd show ?thesis
    by (subst send_file_chunks.simps) (simp add: bindE_Inr chunk_frames_def nonempty_def)
next
  case False
  let ?w = "w\<lparr>wbuf := wbuf w @ stream_bytes rid File False bs\<rparr>"
  have short: "length bs \<le> DEFAULT_STREAM_CHUNK_SIZE"
    using fits by (simp add: BUFFER_CAPACITY_def)
  have "send_file_chunks L rid (nd, []) (n + length bs) ?w = (Inr (n + length bs), ?w)"
    using calm nd by (subst send_file_chunks.simps) (simp add: bindE_Inr)
  with False calm nd short buf_stream_frame_fits [OF L fits, of rid False] show ?thesis
    by (subst send_file_chunks.simps) (simp add: bindE_Inr thenE_Inr chunk_frames_def nonempty_def)
qed


lemma files_buf_stream [keeps_intros]: "keeps same_files (buf_stream_frame L rid eof p)"
  unfolding buf_stream_frame_def
  by (intro keeps_app files_eff.keeps_write_stream_frame files_buf_write)

definition small_chunks :: "bytes list \<Rightarrow> bool" where
  "small_chunks cs \<longleftrightarrow> list_all (\<lambda>c. c \<noteq> [] \<and> length c \<le> DEFAULT_STREAM_CHUNK_SIZE) cs"

lemma chunk_frames_append [simp]: "chunk_frames rid (a @ b) = chunk_frames rid a @ chunk_frames rid b"
  by (simp add: chunk_frames_def)

text \<open>However the reads are cut, what is sent is the file's contents in non-empty frames.\<close>

lemma send_file_chunks_ok:
  "bufwriter_spec L \<Longrightarrow> send_file_chunks L rid h n w = (Inr m, v) \<Longrightarrow>
    same_files w v \<and> m = n + length (snd h) \<and>
    (\<exists>cs. small_chunks cs \<and> concat cs = snd h \<and>
       outp v @ wbuf v = outp w @ wbuf w @ chunk_frames rid cs)"
proof (induction L rid h n arbitrary: w rule: send_file_chunks.induct)
  case (1 L rid h n)
  note L = "1.prems"(1)
  from "1.prems"(2) obtain chunk nd rest w1 where
    r: "sys_read h DEFAULT_STREAM_CHUNK_SIZE w = (Inr (chunk, nd, rest), w1)" and
    k: "(if chunk = [] then retE n else thenE (buf_stream_frame L rid False chunk)
        (send_file_chunks L rid (nd, rest) (n + length chunk))) w1 = (Inr m, v)"
    by (subst (asm) send_file_chunks.simps) (auto simp: bindE_eq_Inr_iff)
  note ok = sys_read_ok [OF r]
  have w1: "same_files w w1" "outp w1 = outp w" "wbuf w1 = wbuf w"
    using ok(4) only_sched_same_conn [of w w1] only_same [of w w1] by (auto simp: same_conn_def)
  show ?case
  proof (cases "chunk = []")
    case True
    with k ok w1 show ?thesis
      by (auto simp: DEFAULT_STREAM_CHUNK_SIZE_def small_chunks_def chunk_frames_def intro!: exI [of _ "[]"])
  next
    case False
    with k obtain x w2 where x: "buf_stream_frame L rid False chunk w1 = (Inr x, w2)"
      and k': "send_file_chunks L rid (nd, rest) (n + length chunk) w2 = (Inr m, v)"
      by (auto simp: thenE_eq_Inr_iff)
    have w2: "same_files w1 w2" using files_buf_stream x by (rule keepsD)
    have "plain (sys_read h DEFAULT_STREAM_CHUNK_SIZE) w = (Inr (chunk, nd, rest), w1)"
      using r by simp
    from "1.IH" [OF this refl False L k'] obtain cs where
      cs: "same_files w2 v" "m = n + length chunk + length rest" "small_chunks cs" "concat cs = rest"
        "outp v @ wbuf v = outp w2 @ wbuf w2 @ chunk_frames rid cs"
      by auto
    have "outp v @ wbuf v = outp w @ wbuf w @ chunk_frames rid (chunk # cs)"
      using cs(5) buf_stream_frame_ok [OF L x] w1 by (simp add: chunk_frames_def)
    moreover have "small_chunks (chunk # cs)" "concat (chunk # cs) = snd h" "m = n + length (snd h)"
      using cs ok(2,3) False by (auto simp: small_chunks_def)
    ultimately show ?thesis
      using cs(1) w1(1) w2 by (blast intro: same_files_trans)
  qed
qed


definition file_content :: "world \<Rightarrow> batch_file_source \<Rightarrow> bytes" where
  "file_content w f =
     (case resolve w True (bf_path f) of
        Inl _ \<Rightarrow> []
      | Inr q \<Rightarrow> (case look w q of None \<Rightarrow> [] | Some nd \<Rightarrow> i_data nd))"

lemma file_content_same: "same_files w v \<Longrightarrow> file_content v f = file_content w f"
proof -
  assume "same_files w v"
  note eq = same_files_look [OF this] same_files_resolve(1) [OF this]
  show ?thesis unfolding file_content_def eq by (rule refl)
qed

lemma send_batch_files_ok:
  assumes L: "bufwriter_spec L"
  shows "send_batch_files L rid files n w = (Inr m, v) \<Longrightarrow>
    same_files w v \<and> m = n + sum_list (map bf_size files) \<and>
    list_all (\<lambda>f. length (file_content w f) = bf_size f) files \<and>
    (\<exists>cs. small_chunks cs \<and> concat cs = concat (map (file_content w) files) \<and>
       outp v @ wbuf v = outp w @ wbuf w @ chunk_frames rid cs)"
proof (induction files arbitrary: n w)
  case Nil
  then show ?case by (auto simp: small_chunks_def chunk_frames_def intro!: exI [of _ "[]"])
next
  case (Cons f files)
  from Cons.prems obtain h w1 k w2 where
    op: "sys_open_read (bf_path f) w = (Inr h, w1)" and
    send: "send_file_chunks L rid h 0 w1 = (Inr k, w2)" and size: "k = bf_size f" and
    rest: "send_batch_files L rid files (n + k) w2 = (Inr m, v)"
    by (auto simp: send_batch_file_def bindE_eq_Inr_iff)
  from open_read_ok [OF op] have w1: "only_sched w w1" and h: "snd h = file_content w f"
    by (auto simp: file_content_def)
  have conn: "outp w1 = outp w" "wbuf w1 = wbuf w"
    using only_sched_same_conn [OF w1] by (simp_all add: same_conn_def)
  from send_file_chunks_ok [OF L send] obtain cs where
    cs: "same_files w1 w2" "k = length (file_content w f)" "small_chunks cs" "concat cs = file_content w f"
      "outp w2 @ wbuf w2 = outp w @ wbuf w @ chunk_frames rid cs"
    using h conn by auto
  have same: "same_files w w2"
    using only_sched_same_files [OF w1] cs(1) by (rule same_files_trans)
  from Cons.IH [OF rest] obtain ds where
    ds: "same_files w2 v" "m = n + k + sum_list (map bf_size files)"
      "list_all (\<lambda>f. length (file_content w f) = bf_size f) files"
      "small_chunks ds" "concat ds = concat (map (file_content w) files)"
      "outp v @ wbuf v = outp w2 @ wbuf w2 @ chunk_frames rid ds"
    by (auto simp: file_content_same [OF same])
  have "small_chunks (cs @ ds)" "concat (cs @ ds) = concat (map (file_content w) (f # files))"
    using cs ds by (simp_all add: small_chunks_def)
  moreover have "outp v @ wbuf v = outp w @ wbuf w @ chunk_frames rid (cs @ ds)"
    using cs(5) ds(6) by (metis append.assoc chunk_frames_append)
  ultimately show ?case
    using same_files_trans [OF same ds(1)] ds cs size by auto
qed

lemma buf_flush_ok:
  "buf_flush w = (Inr u, v) \<Longrightarrow> same_files w v \<and> outp v = outp w @ wbuf w \<and> wbuf v = []"
  by (auto simp: buf_flush_def thenE_eq_Inr_iff same_files_def split: if_splits
      dest: conn_w.write_all_ok keepsD [OF files_conn_write])

lemma with_bufwriter_Inr:
  "with_bufwriter m w = (Inr a, v) \<longleftrightarrow>
     (\<exists>v'. m (w\<lparr>wbuf := []\<rparr>) = (Inr a, v') \<and> v = v'\<lparr>wbuf := []\<rparr>)"
  by (cases "m (w\<lparr>wbuf := []\<rparr>)")
    (auto simp: with_bufwriter_def buf_new_def buf_drop_def thenE_def bindE_def tryE_def)

lemma stream_batch_files_ok:
  assumes L: "bufwriter_spec L" and run: "stream_batch_files L rid files w = (Inr m, v)"
  shows "same_files w v \<and> m = sum_list (map bf_size files) \<and>
    list_all (\<lambda>f. length (file_content w f) = bf_size f) files \<and>
    (\<exists>cs. small_chunks cs \<and> concat cs = concat (map (file_content w) files) \<and>
       outp v = outp w @ chunk_frames rid cs)"
proof -
  let ?w = "w\<lparr>wbuf := []\<rparr>"
  from run obtain w1 u w2 where
    send: "send_batch_files L rid files 0 ?w = (Inr m, w1)" and
    fl: "buf_flush w1 = (Inr u, w2)" and v: "v = w2\<lparr>wbuf := []\<rparr>"
    by (auto simp: stream_batch_files_def with_bufwriter_Inr bindE_eq_Inr_iff thenE_eq_Inr_iff)
  have w: "file_content ?w = file_content w"
    by (intro ext file_content_same) (simp add: same_files_def)
  from send_batch_files_ok [OF L send] buf_flush_ok [OF fl] v show ?thesis
    by (auto simp: w same_files_def)
qed

subsection \<open>The manifest\<close>

lemma only_path_exists: "keeps only_sched (path_exists p)"
  unfolding path_exists_def by (intro only_eff.keeps_bind only_eff.keeps_ret keeps_try keeps_only_stat)

lemma only_expand_source: "keeps only_sched (expand_remote_source L spec)"
  unfolding expand_remote_source_def
  by (intro only_eff.keeps_bind only_eff.keeps_then only_eff.keeps_ret only_eff.keeps_get
      only_eff.keeps_fail only_eff.keeps_lift keeps_if keeps_case_sum keeps_app keeps_only_stat
      only_path_exists)

lemma only_expand_sources: "keeps only_sched (expand_remote_sources L specs sources)"
  by (induction specs arbitrary: sources)
    (auto intro!: only_eff.keeps_bind only_eff.keeps_ret only_expand_source)

lemma only_source_name: "keeps only_sched (transfer_source_name p)"
proof -
  have "keeps only_sched (sys_canonicalize p)"
    unfolding sys_canonicalize_def
    by (rule only_sched_syscall) (auto simp: keeps_def split: sum.splits option.splits)
  then show ?thesis
    unfolding transfer_source_name_def
    by (intro keeps_case_option only_eff.keeps_bind only_eff.keeps_ret only_eff.keeps_fail keeps_app)
qed

lemma only_append_children:
  assumes "\<And>c r md acc. keeps only_sched (descend c r md acc)"
  shows "keeps only_sched (append_children descend rel cs acc)"
  by (induction cs arbitrary: acc)
    (auto simp: Let_def intro!: assms keeps_case_option only_eff.keeps_bind only_eff.keeps_ret
      only_eff.keeps_fail keeps_app keeps_only_stat)

lemma only_append_entry: "keeps only_sched (append_manifest_entry n i p rel md acc)"
proof (induction n arbitrary: p rel md acc)
  case 0
  show ?case unfolding append_manifest_entry.simps by (rule only_eff.keeps_fail)
next
  case (Suc n)
  then show ?case
    by (cases acc) (auto simp: Let_def intro!: keeps_if only_eff.keeps_bind only_eff.keeps_ret
        only_eff.keeps_fail only_eff.keeps_lift keeps_app keeps_only_read_dir only_append_children)
qed

lemma only_add_source: "keeps only_sched (add_source s roots acc)"
  unfolding add_source_def Let_def
  by (intro only_eff.keeps_bind only_eff.keeps_ret only_eff.keeps_get only_eff.keeps_fail keeps_if
      keeps_app keeps_only_stat only_source_name only_append_entry)

lemma only_add_sources: "keeps only_sched (add_sources ss roots acc)"
  by (induction ss arbitrary: roots acc)
    (auto intro!: only_eff.keeps_bind only_eff.keeps_ret only_add_source keeps_case_prod)

lemma only_build_manifest: "keeps only_sched (build_batch_manifest_from_sources L specs)"
  unfolding build_batch_manifest_from_sources_def
  by (intro only_eff.keeps_bind only_eff.keeps_then only_eff.keeps_ret only_eff.keeps_lift
      keeps_case_prod only_expand_sources only_add_sources)

text \<open>The three lists of a manifest agree: one source per file entry, and the announced total is the sum.\<close>

definition lists_agree :: "manifest_lists \<Rightarrow> bool" where
  "lists_agree acc = (case acc of (entries, files, tot) \<Rightarrow>
     tot = sum_list (map bf_size files) \<and>
     map te_size (filter (\<lambda>e. te_kind e = TFile) entries) = map bf_size files \<and>
     list_all (\<lambda>e. te_kind e = TDirectory \<longrightarrow> te_size e = 0) entries)"

lemma append_children_agree:
  assumes "\<And>c r md acc w acc' v. descend c r md acc w = (Inr acc', v) \<Longrightarrow> lists_agree acc \<Longrightarrow> lists_agree acc'"
  shows "append_children descend rel cs acc w = (Inr acc', v) \<Longrightarrow> lists_agree acc \<Longrightarrow> lists_agree acc'"
proof (induction cs arbitrary: acc w)
  case (Cons c cs)
  from Cons.prems(1) obtain r md w1 acc1 w2 where
    "descend c r md acc w1 = (Inr acc1, w2)" "append_children descend rel cs acc1 w2 = (Inr acc', v)"
    by (auto simp: Let_def bindE_eq_Inr_iff split: option.splits)
  with Cons.IH Cons.prems(2) assms show ?case by blast
qed simp

lemma append_entry_agree:
  "append_manifest_entry n i p rel md acc w = (Inr acc', v) \<Longrightarrow> lists_agree acc \<Longrightarrow> lists_agree acc'"
proof (induction n arbitrary: p rel md acc w acc' v)
  case (Suc n)
  obtain entries files tot where acc: "acc = (entries, files, tot)" by (cases acc)
  show ?case
  proof (cases "md_type md = FtDir")
    case True
    with Suc.prems(1) acc obtain relative names w1 w2 where
      "append_children (append_manifest_entry n i) rel (sort_key components (map (path_join p) names))
        (entries @ [\<lparr>te_root_index = i, te_relative_path = relative, te_kind = TDirectory,
           te_mode = file_mode md, te_size = 0\<rparr>], files, tot) w1 = (Inr acc', w2)"
      by (auto simp: Let_def bindE_eq_Inr_iff split: if_splits)
    then show ?thesis
      by (rule append_children_agree [rotated]) (use Suc acc in \<open>auto simp: lists_agree_def\<close>)
  next
    case False
    with Suc.prems acc show ?thesis
      by (auto simp: lists_agree_def bindE_eq_Inr_iff split: if_splits)
  qed
qed simp

lemma add_sources_agree:
  "add_sources ss roots acc w = (Inr (roots', acc'), v) \<Longrightarrow> lists_agree acc \<Longrightarrow>
     lists_agree acc' \<and> length roots' = length roots + length ss"
proof (induction ss arbitrary: roots acc w)
  case (Cons s ss)
  from Cons.prems(1) obtain roots1 acc1 w1 where
    a: "add_source s roots acc w = (Inr (roots1, acc1), w1)"
    and rest: "add_sources ss roots1 acc1 w1 = (Inr (roots', acc'), v)"
    by (auto simp: bindE_eq_Inr_iff)
  from a Cons.prems(2) have "lists_agree acc1" "length roots1 = Suc (length roots)"
    by (auto simp: add_source_def Let_def bindE_eq_Inr_iff dest: append_entry_agree)
  with Cons.IH [OF rest] show ?case by simp
qed simp

text \<open>
  C11: a batch pull that succeeds has announced a manifest whose total is the sum of its file
  sizes, has then sent exactly the contents of the manifest's files, one after the other in
  frames of at most 64 KiB, the end of the stream, and the completion with the same counts; and
  it has changed no file. This holds however reads are cut short.
\<close>

theorem pull_batch_exact:
  assumes L: "bufwriter_spec L" and run: "handle_pull_batch L rid sources w = (Inr u, v)"
  shows "\<exists>m w1 cs. build_batch_manifest_from_sources L sources w = (Inr m, w1) \<and>
    lists_agree (bm_entries m, bm_files m, bm_total_bytes m) \<and>
    list_all (\<lambda>f. length (file_content w f) = bf_size f) (bm_files m) \<and>
    small_chunks cs \<and> concat cs = concat (map (file_content w) (bm_files m)) \<and>
    outp v = outp w
      @ response_bytes L rid (PullBatchMetadata (bm_roots m) (bm_entries m) (bm_total_bytes m))
      @ chunk_frames rid cs @ stream_bytes rid File True []
      @ response_bytes L rid (PullBatchComplete (length (bm_entries m)) (bm_total_bytes m)) \<and>
    same_files w v"
proof -
  from run obtain m w1 x w2 n w3 y w4 where
    b: "build_batch_manifest_from_sources L sources w = (Inr m, w1)" and
    s1: "send_response L rid (PullBatchMetadata (bm_roots m) (bm_entries m) (bm_total_bytes m)) w1 = (Inr x, w2)" and
    st: "stream_batch_files L rid (bm_files m) w2 = (Inr n, w3)" and n: "n = bm_total_bytes m" and
    e: "write_stream_frame conn_write_all rid File True [] w3 = (Inr y, w4)" and
    s2: "send_response L rid (PullBatchComplete (length (bm_entries m)) n) w4 = (Inr u, v)"
    by (auto simp: handle_pull_batch_def bindE_eq_Inr_iff thenE_eq_Inr_iff)
  have w1: "same_files w w1" "outp w1 = outp w"
    using only_same [OF keepsD [OF only_build_manifest b]] by auto
  from b obtain ss w5 roots entries files tot where
    "add_sources ss [] ([], [], 0) w5 = (Inr (roots, entries, files, tot), w1)"
    "m = \<lparr>bm_roots = roots, bm_entries = entries, bm_files = files, bm_total_bytes = tot\<rparr>"
    by (auto simp: build_batch_manifest_from_sources_def bindE_eq_Inr_iff thenE_eq_Inr_iff)
  with add_sources_agree have agree: "lists_agree (bm_entries m, bm_files m, bm_total_bytes m)"
    by (fastforce simp: lists_agree_def)
  have w2: "same_files w w2" "outp w2 = outp w
      @ response_bytes L rid (PullBatchMetadata (bm_roots m) (bm_entries m) (bm_total_bytes m))"
    using send_response_ok [OF s1] w1 by (auto intro: same_files_trans)
  have fc: "file_content w2 = file_content w"
    by (intro ext file_content_same w2)
  from stream_batch_files_ok [OF L st] obtain cs where
    cs: "same_files w2 w3" "list_all (\<lambda>f. length (file_content w f) = bf_size f) (bm_files m)"
      "small_chunks cs" "concat cs = concat (map (file_content w) (bm_files m))"
      "outp w3 = outp w2 @ chunk_frames rid cs"
    by (auto simp: fc)
  have w4: "same_files w3 w4" "outp w4 = outp w3 @ stream_bytes rid File True []"
    using conn_w.write_stream_frame_ok [OF e]
      keepsD [OF files_eff.keeps_write_stream_frame [OF files_conn_write] e] by auto
  have "same_files w v"
    using w2(1) cs(1) w4(1) send_response_ok [OF s2] by (blast intro: same_files_trans)
  with b agree cs w2 w4 send_response_ok [OF s2] n show ?thesis
    by (intro exI [of _ m] exI [of _ w1] exI [of _ cs]) simp
qed

section \<open>Well-formedness\<close>

lemma wf_resolve_push [keeps_intros]: "keeps keeps_wf (resolve_push_destination path name)"
  unfolding resolve_push_destination_def
  by (intro keeps_intros wf_eff.keeps_bind wf_eff.keeps_ret wf_eff.keeps_fail)

lemma wf_handle_push [keeps_intros]: "keeps keeps_wf (handle_push L rid path mode name)"
  unfolding handle_push_def
  by (intro keeps_intros wf_eff.keeps_bind wf_eff.keeps_then wf_eff.keeps_ret)

lemma wf_receive_entry [keeps_intros]: "keeps keeps_wf (receive_entry rid roots entry n)"
  unfolding receive_entry_def
  by (cases "te_kind entry"; simp;
      intro keeps_intros wf_eff.keeps_bind wf_eff.keeps_then wf_eff.keeps_ret wf_eff.keeps_lift)

lemma wf_receive_entries [keeps_intros]: "keeps keeps_wf (receive_entries rid roots entries k n)"
  by (induction entries arbitrary: k n)
    (auto intro!: wf_eff.keeps_bind wf_eff.keeps_ret wf_receive_entry)

lemma wf_roots [keeps_intros]: "keeps keeps_wf (resolve_batch_destination_roots d roots)"
  unfolding resolve_batch_destination_roots_def Let_def
  by (intro keeps_intros wf_eff.keeps_bind wf_eff.keeps_then wf_eff.keeps_lift wf_eff.keeps_ret
      wf_eff.keeps_fail)

lemma wf_handle_push_batch [keeps_intros]: "keeps keeps_wf (handle_push_batch L rid d roots entries)"
  unfolding handle_push_batch_def expect_file_stream_eof_def
  by (intro keeps_intros wf_eff.keeps_bind wf_eff.keeps_then wf_eff.keeps_ret wf_eff.keeps_fail)

lemma files_buf_response [keeps_intros]: "keeps same_files (buf_response L rid r)"
  unfolding buf_response_def by (intro keeps_app files_eff.keeps_write_json_frame files_buf_write)

lemma files_send_chunks [keeps_intros]: "keeps same_files (send_file_chunks L rid h n)"
proof (induction L rid h n rule: send_file_chunks.induct)
  case (1 L rid h n)
  show ?case
    by (subst send_file_chunks.simps, rule files_eff.keeps_bind_result [OF keeps_app(2) [OF keeps_read(2)]])
      (use 1 in \<open>auto intro!: files_eff.keeps_ret files_eff.keeps_then files_buf_stream\<close>)
qed

lemma files_bufwriter [keeps_intros]: "keeps same_files m \<Longrightarrow> keeps same_files (with_bufwriter m)"
  unfolding with_bufwriter_def buf_new_def buf_drop_def
  by (intro files_eff.keeps_then files_eff.keeps_bind keeps_try files_eff.keeps_lift)
    (auto simp: keeps_def same_files_def)

lemma files_buf_flush [keeps_intros]: "keeps same_files buf_flush"
  using files_conn_write
  by (auto simp: keeps_def buf_flush_def same_files_def split: prod.splits sum.splits) (metis snd_conv)+

lemma files_handle_pull [keeps_intros]: "keeps same_files (handle_pull L rid path)"
  unfolding handle_pull_def
  by (intro keeps_intros files_eff.keeps_bind files_eff.keeps_then files_eff.keeps_fail)

lemma files_send_batch_files [keeps_intros]: "keeps same_files (send_batch_files L rid files n)"
  by (induction files arbitrary: n)
    (auto simp: send_batch_file_def intro!: keeps_intros files_eff.keeps_bind files_eff.keeps_ret files_eff.keeps_fail)

lemma files_handle_pull_batch [keeps_intros]: "keeps same_files (handle_pull_batch L rid sources)"
  unfolding handle_pull_batch_def stream_batch_files_def
  by (intro keeps_intros files_eff.keeps_bind files_eff.keeps_then files_eff.keeps_fail files_eff.keeps_ret
      keeps_only_sched(2) [OF only_build_manifest] files_eff.keeps_write_stream_frame)

lemmas wf_pulls [keeps_intros] =
  wf_of_same_files [OF files_handle_pull] wf_of_same_files [OF files_handle_pull_batch]

section \<open>The transfers on concrete inputs\<close>

definition push_world :: world where
  "push_world = world_of [([''tmp'', ''a''], file_node [104, 105])]
     (chunk_frames 1 [[1, 2]] @ stream_bytes 1 File True [3] @ [9])"

lemma push_world_facts:
  "resolve_push_destination ''/tmp/a'' None push_world = (Inr ''/tmp/a'', push_world)"
  "writable_at push_world ''/tmp/a'' [''tmp'', ''a'']"
  by code_simp+

theorem push_exact_witness:
  "\<exists>v nd. handle_push sample_libs 1 ''/tmp/a'' 0x1A4 None push_world = (Inr (), v) \<and>
    look v [''tmp'', ''a''] = Some nd \<and> i_data nd = [1, 2, 3] \<and> inp v = [9]"
proof -
  have "\<exists>v nd. handle_push sample_libs 1 ''/tmp/a'' 0x1A4 None push_world = (Inr (), v) \<and>
    look v [''tmp'', ''a''] = Some nd \<and> i_type nd = FtFile \<and> i_data nd = concat [[1, 2]] @ [3] \<and>
    ((0x1A4 :: u32) \<noteq> 0 \<longrightarrow> i_mode nd = normalize_mode 0x1A4) \<and>
    (\<forall>k. k \<noteq> [''tmp'', ''a''] \<longrightarrow> look v k = look push_world k) \<and> inp v = [9] \<and>
    outp v = outp push_world @ response_bytes sample_libs 1 PushReady
      @ response_bytes sample_libs 1 (PushComplete (length (concat [[1, 2]] @ [3 :: u8])))"
    by (rule push_exact [OF _ push_world_facts])
      (simp_all add: push_world_def world_of_def chunks_ok_def MAX_PAYLOAD_LEN_def sendable_def sample_libs_def)
  then show ?thesis by auto
qed

definition batch_entry :: transfer_entry where
  "batch_entry = \<lparr>te_root_index = 0, te_relative_path = ''sub/x'', te_kind = TFile, te_mode = 0, te_size = 2\<rparr>"

definition batch_world :: world where
  "batch_world = world_of [] (chunk_frames 1 [[1, 2]] @ stream_bytes 1 File True [])"

definition batch_root :: "string \<Rightarrow> transfer_root" where
  "batch_root name = \<lparr>tr_source_name = name, tr_kind = TDirectory, tr_mode = 0\<rparr>"


theorem entry_paths_below_root_witness:
  "\<exists>ns. components ''/tmp/d/sub/x'' = components ''/tmp/d'' @ map Normal ns \<and> (\<forall>n \<in> set ns. proper_name n)"
proof -
  have "resolve_transfer_entry_path [''/tmp/d''] batch_entry = Inr ''/tmp/d/sub/x''"
    by code_simp
  from entry_paths_below_root [OF this] show ?thesis
    by (auto simp: batch_entry_def)
qed

theorem root_name_escapes_witness:
  "resolve_batch_destination_roots ''/tmp'' [batch_root ''/etc''] batch_world = (Inr [''/etc''], batch_world)"
proof -
  have "resolve_batch_destination_roots ''/tmp'' [batch_root ''/etc''] batch_world
      = (Inr [tr_source_name (batch_root ''/etc'')], batch_world)"
  proof (rule root_name_escapes)
    show "resolve batch_world True ''/tmp'' = Inr [''tmp'']" "dir_at batch_world [''tmp'']"
      "is_absolute (tr_source_name (batch_root ''/etc''))" by code_simp+
  qed (simp_all add: batch_world_def world_of_def)
  then show ?thesis by (simp add: batch_root_def)
qed


theorem pull_batch_exact_witness:
  "\<exists>v (m :: batch_manifest) cs. handle_pull_batch sample_libs 1 [''/tmp''] sample_world = (Inr (), v) \<and>
     concat cs = concat (map (file_content sample_world) (bm_files m)) \<and>
     outp v = response_bytes sample_libs 1
         (PullBatchMetadata (bm_roots m) (bm_entries m) (bm_total_bytes m))
      @ chunk_frames 1 cs @ stream_bytes 1 File True []
      @ response_bytes sample_libs 1 (PullBatchComplete (length (bm_entries m)) (bm_total_bytes m))"
proof -
  have "fst (handle_pull_batch sample_libs 1 [''/tmp''] sample_world) = Inr ()"
    by code_simp
  from run_pair [OF this] obtain v where
    v: "handle_pull_batch sample_libs 1 [''/tmp''] sample_world = (Inr (), v)" ..
  have none: "outp sample_world = []" by (simp add: sample_world_def world_of_def)
  from pull_batch_exact [OF sample_bufwriter v] v show ?thesis
    unfolding none append_Nil by blast
qed

end
