(* ===== verification/Daemon_Exec_Facts.thy ===== *)
theory Daemon_Exec_Facts
  imports Daemon_Exec Daemon_Transfer_Facts
begin

text \<open>
  What the exec and shell handlers guarantee. The relay of a child's output is stated as a
  small machine with one step per completed branch of the \<open>select!\<close> loop; its invariant is
  that a channel carries data frames and then one end-of-stream frame, and the loop of the
  code is proved to follow it for every order of events and every fault of the connection.
  Quoting for the shell is proved to survive the shell's own splitting into words.
\<close>

section \<open>Effects of writing to the connection\<close>

text \<open>
  A relation that the connection's writes and the buffer respect is respected by everything
  the relay loops do.
\<close>

locale wire_effect = effect R for R :: "world \<Rightarrow> world \<Rightarrow> bool" +
  assumes conn_write: "keeps R (conn_write_all bs)"
    and buffer: "R w (w\<lparr>wbuf := b\<rparr>)"
begin

lemma keeps_set_buffer: "keeps R (modifyE (\<lambda>w. w\<lparr>wbuf := b\<rparr>))"
  by (simp add: keeps_def buffer)

lemma keeps_buf_write: "keeps R (buf_write_all L cap bs)"
  unfolding keeps_def
proof
  fix w :: world
  obtain out keep where p: "bufwriter_put L cap (wbuf w) bs = (out, keep)" by force
  have "keeps R (thenE (conn_write_all out) (modifyE (\<lambda>w. w\<lparr>wbuf := keep\<rparr>)) :: unit io)"
    by (intro keeps_then conn_write keeps_set_buffer)
  then show "R w (snd (buf_write_all L cap bs w))"
    by (simp add: buf_write_all_def p buffer keeps_def)
qed

lemma keeps_buf_flush: "keeps R buf_flush"
  unfolding keeps_def
proof
  fix w :: world
  have "keeps R (thenE (conn_write_all (wbuf w)) (modifyE (\<lambda>w. w\<lparr>wbuf := []\<rparr>)) :: unit io)"
    by (intro keeps_then conn_write keeps_set_buffer)
  then show "R w (snd (buf_flush w))"
    by (simp add: buf_flush_def refl keeps_def)
qed

lemma keeps_send_response: "keeps R (send_response L rid r)"
  unfolding send_response_def by (intro keeps_app keeps_write_json_frame conn_write)

lemma keeps_relay_frame: "keeps R (relay_frame L rid c d)"
  unfolding relay_frame_def
  by (intro keeps_then keeps_app keeps_write_stream_frame keeps_buf_write keeps_buf_flush)

lemma keeps_relay_response: "keeps R (relay_response L rid r)"
  unfolding relay_response_def
  by (intro keeps_then keeps_app keeps_write_json_frame keeps_buf_write keeps_buf_flush)

lemma keeps_report_stdin_error: "keeps R (report_stdin_error L rid err)"
  unfolding report_stdin_error_def
  by (intro keeps_case_option keeps_then keeps_ret keeps_relay_response)

lemma keeps_select_loop:
  assumes "keeps R on_recv"
  shows "keeps R (select_loop L rid m on_recv events so se x)"
  using assms
proof (induction events arbitrary: so se x)
  case Nil
  show ?case by (simp only: select_loop.simps keeps_ret)
next
  case (Cons event events)
  then show ?case
    by (cases event)
      (auto intro!: keeps_bind keeps_then keeps_app keeps_lift keeps_ret keeps_relay_frame
        simp del: failE_run retE_run)
qed

lemma keeps_pty_loop: "keeps R (pty_loop L rid err events outputs so x)"
proof (induction events arbitrary: err outputs so x)
  case Nil
  show ?case by (simp only: pty_loop.simps keeps_ret)
next
  case (Cons event events)
  have data: "keeps R (proto (write_stream_frame (buf_write_all L DEFAULT_BUF_SIZE) rid Stdout False d))" for d
    by (intro keeps_app keeps_write_stream_frame keeps_buf_write)
  show ?case
    by (cases event)
      (auto intro!: keeps_bind keeps_then keeps_app(1,2) keeps_lift keeps_ret keeps_fail keeps_relay_frame
        keeps_buf_flush data Cons.IH
        simp del: failE_run retE_run split: option.split list.split pty_output.split)
qed

lemma keeps_with_bufwriter: "keeps R m \<Longrightarrow> keeps R (with_bufwriter m)"
  unfolding with_bufwriter_def buf_new_def buf_drop_def
  by (intro keeps_then keeps_bind keeps_try keeps_lift keeps_set_buffer)

lemma keeps_stream_command: "keeps R (stream_command_output L P rid c as d t st)"
  unfolding stream_command_output_def Let_def
  by (intro keeps_if keeps_bind keeps_then keeps_fail keeps_ret keeps_app keeps_lift keeps_with_bufwriter
      keeps_select_loop keeps_send_response)
    (auto intro!: keeps_then keeps_ret keeps_relay_response split: loop_end.split
      simp del: failE_run retE_run)

lemma keeps_handle_exec: "keeps R (handle_exec_request L P rid c as d t stream st)"
  unfolding handle_exec_request_def
  by (intro keeps_if keeps_bind keeps_try keeps_case_sum keeps_ret keeps_send_response keeps_stream_command)

end

interpretation files_wire: wire_effect same_files
  by unfold_locales (auto intro: files_conn_write simp: same_files_def)

interpretation calm_wire: wire_effect stays_calm
  by unfold_locales (auto intro: calm_conn_write simp: stays_calm_def)

interpretation out_wire: wire_effect out_grows
  by unfold_locales (auto intro: out_conn_write simp: out_grows_def)

definition same_inp :: "world \<Rightarrow> world \<Rightarrow> bool" where
  "same_inp v w \<longleftrightarrow> inp w = inp v"

interpretation inp_wire: wire_effect same_inp
  by unfold_locales (auto simp: same_inp_def keeps_def conn_write_all_def with_decision_def
      split: list.split decision.split)

lemma inp_clone: "keeps same_inp (syscall (retE ()) :: unit io)"
  by (auto simp: keeps_def same_inp_def syscall_def with_decision_def split: list.split decision.split)

lemma calm_clone: "keeps stays_calm (syscall (retE ()) :: unit io)"
  by (auto simp: keeps_def stays_calm_def syscall_def with_decision_def split: list.split decision.split)

section \<open>The relay as a machine\<close>

record relay_state =
  out_open :: bool
  err_open :: bool
  exited :: "i32 option option"
  relayed :: "(stream_channel \<times> bytes) list"

definition running :: "relay_state \<Rightarrow> bool" where
  "running s \<longleftrightarrow> out_open s \<or> err_open s \<or> exited s = None"

fun enabled :: "relay_state \<Rightarrow> exec_event \<Rightarrow> bool" where
  "enabled s (ReadOut _) = out_open s"
| "enabled s (ReadErr _) = err_open s"
| "enabled s (Waited _) = (exited s = None)"
| "enabled s StdinRecv = False"

text \<open>An empty read is the end of its channel. Events of a branch that is off change nothing.\<close>

inductive relay_step :: "relay_state \<Rightarrow> exec_event \<Rightarrow> relay_state \<Rightarrow> bool" where
  relay_out: "out_open s \<Longrightarrow>
    relay_step s (ReadOut (Inr d)) (s\<lparr>out_open := d \<noteq> [], relayed := relayed s @ [(Stdout, d)]\<rparr>)"
| relay_err: "err_open s \<Longrightarrow>
    relay_step s (ReadErr (Inr d)) (s\<lparr>err_open := d \<noteq> [], relayed := relayed s @ [(Stderr, d)]\<rparr>)"
| relay_exit: "exited s = None \<Longrightarrow> relay_step s (Waited (Inr code)) (s\<lparr>exited := Some code\<rparr>)"
| relay_pass: "\<not> enabled s e \<Longrightarrow> relay_step s e s"

inductive relay_run :: "relay_state \<Rightarrow> exec_event list \<Rightarrow> relay_state \<Rightarrow> bool" where
  relay_nil: "relay_run s [] s"
| relay_cons: "running s \<Longrightarrow> relay_step s e t \<Longrightarrow> relay_run t es u \<Longrightarrow> relay_run s (e # es) u"

inductive_cases relay_stepE: "relay_step s e t"
inductive_simps relay_run_Nil [simp]: "relay_run s [] t"
inductive_simps relay_run_Cons: "relay_run s (e # es) t"

definition relay_init :: relay_state where
  "relay_init = \<lparr>out_open = True, err_open = True, exited = None, relayed = []\<rparr>"

text \<open>The payloads a channel has carried, and the bytes of all frames on the connection.\<close>

definition channel :: "stream_channel \<Rightarrow> (stream_channel \<times> bytes) list \<Rightarrow> bytes list" where
  "channel c fs = map snd (filter (\<lambda>f. fst f = c) fs)"

definition relay_bytes :: "u32 \<Rightarrow> (stream_channel \<times> bytes) list \<Rightarrow> bytes" where
  "relay_bytes rid fs = concat (map (\<lambda>(c, d). stream_bytes rid c (d = []) d) fs)"

lemma channel_append [simp]: "channel c (fs @ gs) = channel c fs @ channel c gs"
  by (simp add: channel_def)

lemma relay_bytes_append [simp]: "relay_bytes rid (fs @ gs) = relay_bytes rid fs @ relay_bytes rid gs"
  by (simp add: relay_bytes_def)

lemma channel_single [simp]: "channel c [] = []" "channel c [(c', d)] = (if c' = c then [d] else [])"
  by (simp_all add: channel_def)

text \<open>Data, then one end-of-stream frame: an open channel has sent none, a closed one exactly one, last.\<close>

definition stream_shape :: "bool \<Rightarrow> bytes list \<Rightarrow> bool" where
  "stream_shape opn ds \<longleftrightarrow>
     (if opn then [] \<notin> set ds else ds \<noteq> [] \<and> last ds = [] \<and> [] \<notin> set (butlast ds))"

definition relay_inv :: "relay_state \<Rightarrow> bool" where
  "relay_inv s \<longleftrightarrow>
     stream_shape (out_open s) (channel Stdout (relayed s)) \<and>
     stream_shape (err_open s) (channel Stderr (relayed s)) \<and>
     set (map fst (relayed s)) \<subseteq> {Stdout, Stderr}"

lemma stream_shape_snoc: "stream_shape True ds \<Longrightarrow> stream_shape (d \<noteq> []) (ds @ [d])"
  by (auto simp: stream_shape_def)

lemma relay_step_inv: "relay_step s e t \<Longrightarrow> relay_inv s \<Longrightarrow> relay_inv t"
  by (induction rule: relay_step.induct) (auto simp: relay_inv_def stream_shape_snoc)

lemma relay_run_inv: "relay_run s es t \<Longrightarrow> relay_inv s \<Longrightarrow> relay_inv t"
  by (induction rule: relay_run.induct) (auto dest: relay_step_inv)

lemma relay_init_inv: "relay_inv relay_init"
  by (simp add: relay_inv_def relay_init_def stream_shape_def)

text \<open>A run's channels carry what the events of that channel brought, up to its end.\<close>

fun reads_of :: "stream_channel \<Rightarrow> exec_event list \<Rightarrow> bytes list" where
  "reads_of c [] = []"
| "reads_of c (ReadOut (Inr d) # es) = (if c = Stdout then d # reads_of c es else reads_of c es)"
| "reads_of c (ReadErr (Inr d) # es) = (if c = Stderr then d # reads_of c es else reads_of c es)"
| "reads_of c (_ # es) = reads_of c es"

lemma reads_of_other [simp]:
  "reads_of Stderr (ReadOut r # es) = reads_of Stderr es"
  "reads_of Stdout (ReadErr r # es) = reads_of Stdout es"
  by (cases r; simp)+

fun upto_end :: "bytes list \<Rightarrow> bytes list" where
  "upto_end [] = []"
| "upto_end (d # ds) = (if d = [] then [[]] else d # upto_end ds)"

lemma relay_run_content:
  "relay_run s es t \<Longrightarrow>
     channel Stdout (relayed t) = channel Stdout (relayed s)
       @ (if out_open s then upto_end (reads_of Stdout es) else []) \<and>
     channel Stderr (relayed t) = channel Stderr (relayed s)
       @ (if err_open s then upto_end (reads_of Stderr es) else [])"
proof (induction rule: relay_run.induct)
  case (relay_cons s e t es u)
  from relay_cons.hyps(2) relay_cons.IH show ?case
  proof (cases rule: relay_step.cases)
    case relay_pass
    with relay_cons.IH show ?thesis
      by (cases e) auto
  qed auto
qed simp

section \<open>The loop of the code follows the machine\<close>

lemma relay_frame_ok:
  assumes L: "bufwriter_spec L" and buf: "wbuf w = []" and run: "relay_frame L rid c d w = (Inr u, v)"
  shows "outp v = outp w @ stream_bytes rid c (d = []) d" "wbuf v = []" "length d \<le> MAX_PAYLOAD_LEN"
proof -
  from run obtain u' w1 where
    x: "write_stream_frame (buf_write_all L DEFAULT_BUF_SIZE) rid c (d = []) d w = (Inr u', w1)"
    and fl: "buf_flush w1 = (Inr u, v)"
    by (auto simp: relay_frame_def thenE_eq_Inr_iff)
  from byte_writer.write_stream_frame_ok [OF buf_byte_writer [OF L] x] buf_flush_ok [OF fl] buf
  show "outp v = outp w @ stream_bytes rid c (d = []) d" "wbuf v = []" "length d \<le> MAX_PAYLOAD_LEN"
    by auto
qed

lemma relay_response_ok:
  assumes L: "bufwriter_spec L" and buf: "wbuf w = []" and run: "relay_response L rid r w = (Inr u, v)"
  shows "outp v = outp w @ response_bytes L rid r" "wbuf v = []" "sendable L r"
proof -
  from run obtain u' w1 where
    x: "write_json_frame (response_to_vec L) (buf_write_all L DEFAULT_BUF_SIZE) Response rid r w = (Inr u', w1)"
    and fl: "buf_flush w1 = (Inr u, v)"
    by (auto simp: relay_response_def thenE_eq_Inr_iff)
  from byte_writer.write_json_frame_ok [OF buf_byte_writer [OF L] x] buf_flush_ok [OF fl] buf
  show "outp v = outp w @ response_bytes L rid r" "wbuf v = []" "sendable L r"
    by (auto simp: response_bytes_def sendable_def)
qed

lemma report_None: "report_stdin_error L rid None = retE False"
  by (rule ext) (simp add: report_stdin_error_def)

lemma bind_report_None: "bindE (report_stdin_error L rid None) f = f False"
  by (rule ext) (simp add: report_stdin_error_def bindE_def)

text \<open>How the loop can end, and what it sends after the relayed frames.\<close>

fun loop_tail :: "libs \<Rightarrow> u32 \<Rightarrow> protocol_error option \<Rightarrow> relay_state \<Rightarrow> exec_event list \<Rightarrow> loop_end \<Rightarrow> bytes \<Rightarrow> bool" where
  "loop_tail L rid err t rest (Exited code) tail \<longleftrightarrow> \<not> running t \<and> exited t = Some code \<and> tail = []"
| "loop_tail L rid err t rest Pending tail \<longleftrightarrow> running t \<and> rest = [] \<and> tail = []"
| "loop_tail L rid err t rest Stopped tail \<longleftrightarrow>
     running t \<and>
     (\<exists>e. err = Some e \<and>
        tail = response_bytes L rid (ErrorResponse ExecFailed (anyhow_display (anyhow_protocol e))))"

definition follows ::
  "libs \<Rightarrow> u32 \<Rightarrow> protocol_error option \<Rightarrow> relay_state \<Rightarrow> exec_event list \<Rightarrow> world \<Rightarrow> loop_end \<Rightarrow> world \<Rightarrow> bool" where
  "follows L rid err s events w r v \<longleftrightarrow>
     wbuf v = [] \<and>
     (\<exists>seen rest t fs tail. events = seen @ rest \<and> relay_run s seen t \<and> relayed t = relayed s @ fs \<and>
        outp v = outp w @ relay_bytes rid fs @ tail \<and> loop_tail L rid err t rest r tail)"

lemma follows_stop:
  "wbuf v = [] \<Longrightarrow> outp v = outp w @ tail \<Longrightarrow> loop_tail L rid err s events r tail \<Longrightarrow>
     follows L rid err s events w r v"
  unfolding follows_def
  by (intro conjI exI [of _ "[]"] exI [of _ events] exI [of _ s] exI [of _ tail])
    (auto simp: relay_bytes_def intro: relay_nil)

lemma follows_cons:
  assumes "running s" "relay_step s e s1" "relayed s1 = relayed s @ gs"
    and "outp w1 = outp w @ relay_bytes rid gs" and "follows L rid err s1 events w1 r v"
  shows "follows L rid err s (e # events) w r v"
proof -
  from assms(5) obtain seen rest t fs tail where
    *: "wbuf v = []" "events = seen @ rest" "relay_run s1 seen t" "relayed t = relayed s1 @ fs"
      "outp v = outp w1 @ relay_bytes rid fs @ tail" "loop_tail L rid err t rest r tail"
    by (auto simp: follows_def)
  have "relay_run s (e # seen) t"
    using assms(1,2) *(3) by (rule relay_cons)
  moreover have "relayed t = relayed s @ (gs @ fs)" "outp v = outp w @ relay_bytes rid (gs @ fs) @ tail"
    using assms * by simp_all
  ultimately show ?thesis
    unfolding follows_def using *(1,2,6) by (metis append_Cons)
qed

lemma select_loop_follows:
  assumes L: "bufwriter_spec L"
  shows "wbuf w = [] \<Longrightarrow>
    select_loop L rid m (report_stdin_error L rid err) events (out_open s) (err_open s) (exited s) w = (Inr r, v) \<Longrightarrow>
    follows L rid err s events w r v"
proof (induction events arbitrary: s w)
  case Nil
  then show ?case
    by (intro follows_stop [where tail = "[]"])
      (auto simp: running_def split: option.splits if_splits)
next
  case (Cons e events)
  note buf = Cons.prems(1) and run = Cons.prems(2)
  show ?case
  proof (cases "running s")
    case False
    with buf run show ?thesis
      by (intro follows_stop [where tail = "[]"]) (auto simp: running_def split: option.splits)
  next
    case True
    then have on: "out_open s \<or> err_open s \<or> exited s = None" by (simp add: running_def)
    have pass: "follows L rid err s (e # events) w r v" if "\<not> enabled s e"
      and "select_loop L rid m (report_stdin_error L rid err) events (out_open s) (err_open s) (exited s) w = (Inr r, v)"
      by (rule follows_cons [OF True relay_pass [OF that(1)] _ _ Cons.IH [OF buf that(2)], where gs = "[]"])
        (simp_all add: relay_bytes_def)
    show ?thesis
    proof (cases e)
      case (ReadOut x)
      show ?thesis
      proof (cases "out_open s")
        case False
        with ReadOut on run show ?thesis by (intro pass) simp_all
      next
        case opn: True
        with ReadOut run obtain d u w1 where d: "x = Inr d" and fr: "relay_frame L rid Stdout d w = (Inr u, w1)"
          and go: "select_loop L rid m (report_stdin_error L rid err) events (d \<noteq> []) (err_open s) (exited s) w1 = (Inr r, v)"
          by (auto simp: bindE_eq_Inr_iff thenE_eq_Inr_iff)
        let ?s = "s\<lparr>out_open := d \<noteq> [], relayed := relayed s @ [(Stdout, d)]\<rparr>"
        have fo: "follows L rid err ?s events w1 r v"
          by (rule Cons.IH) (use go relay_frame_ok [OF L buf fr] in simp_all)
        show ?thesis
          unfolding ReadOut d
          by (rule follows_cons [OF True relay_out [OF opn] _ _ fo, where gs = "[(Stdout, d)]"])
            (simp_all add: relay_frame_ok [OF L buf fr] relay_bytes_def)
      qed
    next
      case (ReadErr x)
      show ?thesis
      proof (cases "err_open s")
        case False
        with ReadErr on run show ?thesis by (intro pass) simp_all
      next
        case opn: True
        with ReadErr run obtain d u w1 where d: "x = Inr d" and fr: "relay_frame L rid Stderr d w = (Inr u, w1)"
          and go: "select_loop L rid m (report_stdin_error L rid err) events (out_open s) (d \<noteq> []) (exited s) w1 = (Inr r, v)"
          by (auto simp: bindE_eq_Inr_iff thenE_eq_Inr_iff)
        let ?s = "s\<lparr>err_open := d \<noteq> [], relayed := relayed s @ [(Stderr, d)]\<rparr>"
        have fo: "follows L rid err ?s events w1 r v"
          by (rule Cons.IH) (use go relay_frame_ok [OF L buf fr] in simp_all)
        show ?thesis
          unfolding ReadErr d
          by (rule follows_cons [OF True relay_err [OF opn] _ _ fo, where gs = "[(Stderr, d)]"])
            (simp_all add: relay_frame_ok [OF L buf fr] relay_bytes_def)
      qed
    next
      case (Waited x)
      show ?thesis
      proof (cases "exited s = None")
        case False
        with Waited on run show ?thesis by (intro pass) (auto split: if_splits)
      next
        case opn: True
        with Waited run obtain code where x: "x = Inr code"
          and go: "select_loop L rid m (report_stdin_error L rid err) events (out_open s) (err_open s) (Some code) w = (Inr r, v)"
          by (auto simp: bindE_eq_Inr_iff)
        have fo: "follows L rid err (s\<lparr>exited := Some code\<rparr>) events w r v"
          by (rule Cons.IH) (use go buf in simp_all)
        show ?thesis
          unfolding Waited x
          by (rule follows_cons [OF True relay_exit [OF opn] _ _ fo, where gs = "[]"])
            (simp_all add: relay_bytes_def)
      qed
    next
      case StdinRecv
      show ?thesis
      proof (cases err)
        case None
        with StdinRecv on run show ?thesis
          by (intro pass) (auto simp: bind_report_None)
      next
        case (Some pe)
        with StdinRecv on run have "r = Stopped"
          and "relay_response L rid (ErrorResponse ExecFailed (anyhow_display (anyhow_protocol pe))) w = (Inr (), v)"
          by (auto simp: report_stdin_error_def bindE_eq_Inr_iff thenE_eq_Inr_iff)
        with Some True relay_response_ok [OF L buf] show ?thesis
          by (intro follows_stop) auto
      qed
    qed
  qed
qed

lemma unsendable_fails:
  "\<not> sendable L r \<Longrightarrow> \<exists>e. send_response L rid r w = (Inl e, w)"
  by (auto simp: sendable_def send_response_def proto_def map_errE_def write_json_frame_def write_frame_def
      split: sum.splits)

section \<open>Exec\<close>

text \<open>What ends a streamed exec, given where the relay stopped.\<close>

definition exec_answer :: "nat \<Rightarrow> relay_state \<Rightarrow> control_response" where
  "exec_answer T t =
     (case exited t of
        Some code \<Rightarrow>
          if running t then timeout_response T else ExecResult (status_code code) [] [] False
      | None \<Rightarrow> timeout_response T)"

lemma stream_command_run:
  assumes L: "bufwriter_spec L" and T: "T = exec_timeout secs (ss_exec_timeout st)"
    and run: "stream_command_output L P rid c as dir secs st w = (Inr u, v)"
  shows "\<exists>child seen rest t. spawn_piped P (exec_spec c as dir) (Some T) = Inr child \<and> trim c \<noteq> [] \<and>
    child [] = seen @ rest \<and> relay_run relay_init seen t \<and> (running t \<longrightarrow> rest = []) \<and>
    outp v = outp w @ relay_bytes rid (relayed t) @ response_bytes L rid (exec_answer T t) \<and>
    sendable L (exec_answer T t)"
proof -
  let ?w = "w\<lparr>wbuf := []\<rparr>"
  from run obtain child fin v1 end' w2 where
    child: "spawn_piped P (exec_spec c as dir) (Some T) = Inr child" "trim c \<noteq> []"
    and loop: "select_loop L rid ''failed to wait for exec process'' (retE False) (child []) True True None ?w
        = (Inr end', w2)"
    and ending: "(case end' of
        Exited code \<Rightarrow> thenE (relay_response L rid (ExecResult (status_code code) [] [] False)) (retE True)
      | _ \<Rightarrow> retE False) w2 = (Inr fin, v1)"
    and v: "(if fin then retE () else send_response L rid (timeout_response T)) (v1\<lparr>wbuf := []\<rparr>) = (Inr u, v)"
    using T by (auto simp: stream_command_output_def Let_def bindE_eq_Inr_iff with_bufwriter_Inr
        split: if_splits simp del: retE_run)
  have "follows L rid None relay_init (child []) ?w end' w2"
    by (rule select_loop_follows [OF L, where m = "''failed to wait for exec process''"])
      (use loop in \<open>simp_all add: relay_init_def report_None del: retE_run\<close>)
  then obtain seen rest t fs tail where f: "wbuf w2 = []" "child [] = seen @ rest"
    "relay_run relay_init seen t" "relayed t = fs" "outp w2 = outp w @ relay_bytes rid fs @ tail"
    "loop_tail L rid None t rest end' tail"
    by (auto simp: follows_def relay_init_def)
  have "(running t \<longrightarrow> rest = []) \<and> outp v = outp w @ relay_bytes rid fs @ response_bytes L rid (exec_answer T t)
      \<and> sendable L (exec_answer T t)"
  proof (cases end')
    case (Exited code)
    with ending v obtain u' where "relay_response L rid (ExecResult (status_code code) [] [] False) w2 = (Inr u', v1)"
      and "v = v1\<lparr>wbuf := []\<rparr>"
      by (auto simp: thenE_eq_Inr_iff)
    with relay_response_ok [OF L f(1)] f(5,6) Exited show ?thesis
      by (simp add: exec_answer_def)
  next
    case Pending
    with ending v have "send_response L rid (timeout_response T) (w2\<lparr>wbuf := []\<rparr>) = (Inr u, v)" by auto
    from send_response_ok [OF this] f(5,6) Pending show ?thesis
      by (auto simp: exec_answer_def split: option.split)
  qed (use f(6) in simp)
  with child f show ?thesis by blast
qed


subsection \<open>Both forms of exec agree\<close>

fun exit_of :: "exec_event list \<Rightarrow> i32 option option" where
  "exit_of [] = None"
| "exit_of (Waited (Inr code) # es) = Some code"
| "exit_of (_ # es) = exit_of es"

text \<open>
  What tokio documents of \<open>Command::output\<close>: it waits for the process to exit and collects all
  of its output. \<open>None\<close> is the time limit.
\<close>

definition output_spec :: "processes \<Rightarrow> bool" where
  "output_spec P \<longleftrightarrow>
     (\<forall>spec T child. spawn_piped P spec (Some T) = Inr child \<longrightarrow>
        cmd_output P spec T =
          (let es = child [] in
           case exit_of es of
             Some code \<Rightarrow>
               if [] \<in> set (reads_of Stdout es) \<and> [] \<in> set (reads_of Stderr es)
               then Some (Inr (code, concat (upto_end (reads_of Stdout es)), concat (upto_end (reads_of Stderr es))))
               else None
           | None \<Rightarrow> None))"

lemma relay_run_exit:
  "relay_run s es t \<Longrightarrow> exited t = (case exited s of None \<Rightarrow> exit_of es | Some c \<Rightarrow> Some c)"
proof (induction rule: relay_run.induct)
  case (relay_cons s e t es u)
  from relay_cons.hyps(2) relay_cons.IH show ?case
  proof (cases rule: relay_step.cases)
    case relay_pass
    with relay_cons.IH show ?thesis by (cases e) (auto split: option.splits)
  qed (auto split: option.splits)
qed (simp split: option.split)

lemma relay_run_closed:
  "relay_run s es t \<Longrightarrow>
     (out_open t \<longleftrightarrow> out_open s \<and> [] \<notin> set (reads_of Stdout es)) \<and>
     (err_open t \<longleftrightarrow> err_open s \<and> [] \<notin> set (reads_of Stderr es))"
proof (induction rule: relay_run.induct)
  case (relay_cons s e t es u)
  from relay_cons.hyps(2) relay_cons.IH show ?case
  proof (cases rule: relay_step.cases)
    case relay_pass
    with relay_cons.IH show ?thesis by (cases e) auto
  qed auto
qed simp

lemma reads_of_append [simp]: "reads_of c (es @ fs) = reads_of c es @ reads_of c fs"
  by (induction c es rule: reads_of.induct) auto

lemma upto_end_append: "[] \<in> set ds \<Longrightarrow> upto_end (ds @ es) = upto_end ds"
  by (induction ds) auto

lemma exit_of_append: "exit_of es = Some code \<Longrightarrow> exit_of (es @ fs) = Some code"
  by (induction es rule: exit_of.induct) auto

text \<open>
  The two forms of exec agree. When the streamed form has relayed frames \<open>fs\<close> and ended with
  a status, the buffered form of the same command answers with the same status and with the
  concatenated data of \<open>fs\<close> as its standard output and error (as lossy UTF-8); when the
  streamed form ended with a time-out, so does the buffered one.
\<close>
theorem exec_forms_agree:
  assumes L: "bufwriter_spec L" and P: "output_spec P"
    and run: "stream_command_output L P rid c as dir secs st w = (Inr (), v)"
  shows "\<exists>fs answer. outp v = outp w @ relay_bytes rid fs @ response_bytes L rid answer \<and>
    execute_command P c as dir secs st = Inr
      (case answer of
         ExecResult code _ _ late \<Rightarrow>
           ExecResult code (lossy_string (concat (channel Stdout fs)))
             (lossy_string (concat (channel Stderr fs))) late
       | _ \<Rightarrow> answer)"
proof -
  define T where "T = exec_timeout secs (ss_exec_timeout st)"
  from stream_command_run [OF L T_def run] obtain child seen rest t where
    r: "spawn_piped P (exec_spec c as dir) (Some T) = Inr child" "trim c \<noteq> []" "child [] = seen @ rest"
      "relay_run relay_init seen t" "running t \<longrightarrow> rest = []"
      "outp v = outp w @ relay_bytes rid (relayed t) @ response_bytes L rid (exec_answer T t)"
    by blast
  note facts = relay_run_content [OF r(4)] relay_run_exit [OF r(4)] relay_run_closed [OF r(4)]
  have "execute_command P c as dir secs st = Inr
      (case exec_answer T t of
         ExecResult code _ _ late \<Rightarrow>
           ExecResult code (lossy_string (concat (channel Stdout (relayed t))))
             (lossy_string (concat (channel Stderr (relayed t)))) late
       | _ \<Rightarrow> exec_answer T t)"
  proof (cases "running t")
    case True
    with r(5) facts have "cmd_output P (exec_spec c as dir) T = None"
      using P r(1,3) by (auto simp: output_spec_def running_def relay_init_def Let_def split: option.split)
    with r(2) True show ?thesis
      by (simp add: execute_command_def Let_def exec_answer_def timeout_response_def flip: T_def split: option.split)
  next
    case False
    then obtain code where code: "exited t = Some code" by (auto simp: running_def)
    with False facts have "exit_of seen = Some code" "[] \<in> set (reads_of Stdout seen)" "[] \<in> set (reads_of Stderr seen)"
      by (auto simp: running_def relay_init_def)
    with P r(1,3) facts have "cmd_output P (exec_spec c as dir) T =
        Some (Inr (code, concat (channel Stdout (relayed t)), concat (channel Stderr (relayed t))))"
      by (simp add: output_spec_def Let_def exit_of_append upto_end_append relay_init_def)
    with r(2) False code show ?thesis
      by (simp add: execute_command_def Let_def exec_answer_def flip: T_def)
  qed
  with r(6) show ?thesis by blast
qed

subsection \<open>Exec always answers\<close>

definition exec_final :: "control_response \<Rightarrow> bool" where
  "exec_final r \<longleftrightarrow>
     (case r of
        ExecResult _ out err late \<Rightarrow> out = [] \<and> err = [] \<and> \<not> late
      | ErrorResponse code _ \<Rightarrow> code \<in> {ExecFailed, ExecTimeout}
      | _ \<Rightarrow> False)"

text \<open>
  C17: on a healthy connection a streamed exec always answers, whatever the command, whether it
  can be started, and whatever its process does, including never ending: the last thing on
  the connection is one final response. Only when that response itself has no encoding or is
  larger than a frame may be does the handler end with an error instead.
\<close>
theorem exec_always_answers:
  assumes L: "bufwriter_spec L" and calm: "sched w = []"
  shows "\<exists>r pre v. exec_final r \<and>
    (if sendable L r then
       handle_exec_request L P rid c as dir secs True st w = (Inr (), v) \<and>
       outp v = outp w @ pre @ response_bytes L rid r
     else \<exists>err. handle_exec_request L P rid c as dir secs True st w = (Inl err, v) \<and>
       outp v = outp w @ pre)"
proof (cases "stream_command_output L P rid c as dir secs st w")
  case (Pair res v)
  let ?T = "exec_timeout secs (ss_exec_timeout st)"
  show ?thesis
  proof (cases res)
    case (Inr u)
    with Pair stream_command_run [OF L refl] obtain t where
      "outp v = outp w @ relay_bytes rid (relayed t) @ response_bytes L rid (exec_answer ?T t)"
      and "sendable L (exec_answer ?T t)"
      by blast
    moreover have "exec_final (exec_answer ?T t)"
      by (simp add: exec_answer_def exec_final_def timeout_response_def split: option.split)
    moreover have "handle_exec_request L P rid c as dir secs True st w = (Inr (), v)"
      using Pair Inr by (simp add: handle_exec_request_def bindE_def tryE_def)
    ultimately show ?thesis by (metis (full_types))
  next
    case (Inl err)
    let ?r = "ErrorResponse ExecFailed (anyhow_display err)"
    have "stays_calm w v" "out_grows w v"
      using Pair calm_wire.keeps_stream_command out_wire.keeps_stream_command by (metis keepsD)+
    with calm obtain pre where v: "sched v = []" "outp v = outp w @ pre"
      by (auto simp: stays_calm_def out_grows_def prefix_def)
    have go: "handle_exec_request L P rid c as dir secs True st w = send_response L rid ?r v"
      using Pair Inl by (simp add: handle_exec_request_def bindE_def tryE_def)
    have "exec_final ?r" by (simp add: exec_final_def)
    with go v calm_send_response [OF v(1), of L ?r rid] unsendable_fails [of L ?r rid v] show ?thesis
      by (intro exI [of _ ?r] exI [of _ pre]) (cases "sendable L ?r"; auto)
  qed
qed

section \<open>Quoting survives the shell\<close>

text \<open>
  How a POSIX shell splits a command line into words (XCU 2.2, 2.3), for lines without
  expansions: single quotes keep everything up to the next one, double quotes keep everything
  but \<open>$\<close>, backquote and backslash, blanks separate words. A character that is special outside
  quotes, or an open quote at the end, gives \<open>None\<close>.
\<close>

definition shell_special :: "char \<Rightarrow> bool" where
  "shell_special c \<longleftrightarrow> c \<in> set ''|&;<>()$*?[]#~{}!^%,'' \<union> {CHR 0x5C, CHR 0x60, CHR 0x0A}"

definition word_so_far :: "string option \<Rightarrow> string" where
  "word_so_far cur = (case cur of None \<Rightarrow> [] | Some w \<Rightarrow> w)"

fun sh_split :: "char option \<Rightarrow> string option \<Rightarrow> string \<Rightarrow> string list option" where
  "sh_split (Some q) cur [] = None"
| "sh_split None cur [] = Some (case cur of None \<Rightarrow> [] | Some w \<Rightarrow> [w])"
| "sh_split (Some q) cur (c # s) =
     (if c = q then sh_split None cur s
      else if q = CHR 0x22 \<and> c \<in> {CHR ''$'', CHR 0x5C, CHR 0x60} then None
      else sh_split (Some q) (Some (word_so_far cur @ [c])) s)"
| "sh_split None cur (c # s) =
     (if c = CHR 0x27 \<or> c = CHR 0x22 then sh_split (Some c) (Some (word_so_far cur)) s
      else if c = CHR '' '' \<or> c = CHR 0x09 then
        (case cur of
           None \<Rightarrow> sh_split None None s
         | Some w \<Rightarrow> map_option (\<lambda>ws. w # ws) (sh_split None None s))
      else if shell_special c then None
      else sh_split None (Some (word_so_far cur @ [c])) s)"

definition sh_words :: "string \<Rightarrow> string list option" where
  "sh_words s = sh_split None None s"

lemma safe_not_special:
  "shell_safe c \<Longrightarrow> \<not> shell_special c \<and> c \<notin> {CHR 0x27, CHR 0x22, CHR '' '', CHR 0x09}"
  by (auto simp: shell_safe_def shell_special_def Let_def)

lemma sh_split_safe:
  "list_all shell_safe v \<Longrightarrow> v \<noteq> [] \<Longrightarrow>
     sh_split None cur (v @ s) = sh_split None (Some (word_so_far cur @ v)) s"
proof (induction v arbitrary: cur)
  case (Cons c v)
  from Cons.prems safe_not_special [of c] have
    "sh_split None cur ((c # v) @ s) = sh_split None (Some (word_so_far cur @ [c])) (v @ s)"
    by simp
  also have "\<dots> = sh_split None (Some (word_so_far cur @ c # v)) s"
    using Cons by (cases "v = []") (simp_all add: word_so_far_def)
  finally show ?case .
qed simp

lemma sh_split_quoted:
  "sh_split (Some (CHR 0x27)) (Some a)
     (concat (map (\<lambda>c. if c = CHR 0x27 then [CHR 0x27, CHR 0x22, CHR 0x27, CHR 0x22, CHR 0x27] else [c]) v)
      @ CHR 0x27 # s) = sh_split None (Some (a @ v)) s"
  by (induction v arbitrary: a) (auto simp: word_so_far_def)

lemma sh_split_quote: "sh_split None None (shell_quote v @ s) = sh_split None (Some v) s"
  using sh_split_safe [of v None s] sh_split_quoted [of "[]" v s]
  by (auto simp: shell_quote_def word_so_far_def)

text \<open>
  C18: the command line built for \<open>sh -lc\<close> splits into exactly the command and its arguments,
  whatever bytes they hold: nothing in them is seen by the shell as a separator, a quote or a
  special character.
\<close>
theorem shell_command_words: "sh_words (join_shell_command command args) = Some (command # args)"
  unfolding join_shell_command_def sh_words_def
proof (induction args arbitrary: command)
  case Nil
  show ?case using sh_split_quote [of command "[]"] by simp
next
  case (Cons a args)
  then show ?case
    by (simp add: sh_split_quote [of command] del: sh_split.simps(4))
      (simp add: sh_split.simps(4))
qed

section \<open>Standard input of a shell\<close>

text \<open>What the reading half of a shell respects: reading the connection and the schedule.\<close>

locale reading_effect = world_effect +
  assumes conn_read: "keeps R (conn_read_exact n)"
begin

lemma keeps_read_stdin: "keeps R (read_stdin_frame rid)"
  unfolding read_stdin_frame_def read_stream_frame_into_def
  by (intro keeps_bind keeps_case_prod keeps_case_option keeps_fail keeps_ret keeps_lift
      keeps_read_frame_into conn_read)

lemma feed_child_respects: "feed_child bs w = (r, v) \<Longrightarrow> R w v"
  by (auto simp: feed_child_def with_decision_def refl sched
      split: if_splits list.splits decision.splits)

lemma pipe_stdin_respects: "R w (snd (pipe_stdin_task rid fed w))"
proof (induction rid fed w rule: pipe_stdin_task.induct)
  case (1 rid fed w)
  show ?case
  proof (cases "read_stdin_frame rid w")
    case (Pair r w1)
    with keeps_read_stdin have w1: "R w w1" by (rule keepsD)
    show ?thesis
    proof (cases r)
      case (Inl e)
      with Pair w1 show ?thesis by (simp add: pipe_stdin_task.simps)
    next
      case (Inr hp)
      obtain h p where hp: "hp = (h, p)" by force
      obtain part e w2 where f: "feed_child p w1 = ((part, e), w2)" by (metis prod.exhaust)
      have "R w w2" using w1 feed_child_respects [OF f] by (rule trans)
      with 1 [OF Pair [symmetric] Inr hp [symmetric] f [symmetric] HOL.refl] Pair Inr hp f show ?thesis
        by (auto simp: pipe_stdin_task.simps [of rid fed w] split: option.split intro: trans)
    qed
  qed
qed

lemma pty_send_respects: "pty_send m w = (r, v) \<Longrightarrow> R w v"
  by (auto simp: pty_send_def with_decision_def refl sched split: list.splits)

lemma pty_send_data_respects: "pty_send_data bs w = (r, v) \<Longrightarrow> R w v"
  by (auto simp: pty_send_data_def refl split: if_splits dest: pty_send_respects)

lemma pty_close_respects: "R w (snd (pty_close sent r w))"
  by (auto simp: pty_close_def split: prod.split dest: pty_send_respects)

lemma pty_stdin_respects: "R w (snd (pty_stdin_task rid sent w))"
proof (induction rid sent w rule: pty_stdin_task.induct)
  case (1 rid sent w)
  show ?case
  proof (cases "read_stdin_frame rid w")
    case (Pair r w1)
    with keeps_read_stdin have w1: "R w w1" by (rule keepsD)
    show ?thesis
    proof (cases r)
      case (Inl e)
      with Pair w1 show ?thesis
        by (auto simp: pty_stdin_task.simps [of rid sent w] intro: trans pty_close_respects)
    next
      case (Inr hp)
      obtain h p where hp: "hp = (h, p)" by force
      obtain ms ok w2 where f: "pty_send_data p w1 = ((ms, ok), w2)" by (metis prod.exhaust)
      have "R w w2" using w1 pty_send_data_respects [OF f] by (rule trans)
      with 1 [OF Pair [symmetric] Inr hp [symmetric] f [symmetric] HOL.refl] Pair Inr hp f show ?thesis
        by (auto simp: pty_stdin_task.simps [of rid sent w] split: bool.split
            intro: trans pty_close_respects)
    qed
  qed
qed

lemma pty_pump_respects: "R w (snd (pty_input_pump inputs fed w))"
  by (induction inputs fed w rule: pty_input_pump.induct)
    (auto simp: refl split: prod.split option.split dest: feed_child_respects intro: trans)

lemma keeps_tasks:
  "keeps R (run_task (pipe_stdin_task rid fed))" "keeps R (run_task (pty_stdin_task rid sent))"
  "keeps R (run_task (pty_input_pump inputs fed))"
  using pipe_stdin_respects pty_stdin_respects pty_pump_respects
  by (simp_all add: keeps_def run_task_def split_def)

end

definition same_written :: "world \<Rightarrow> world \<Rightarrow> bool" where
  "same_written v w \<longleftrightarrow> outp w = outp v \<and> wbuf w = wbuf v"

interpretation files_reading: reading_effect same_files
  by unfold_locales (rule files_conn_read)

interpretation written_reading: reading_effect same_written
  by unfold_locales (auto simp: same_written_def keeps_def conn_read_exact_def with_decision_def
      split: list.split decision.split)

definition stdin_frames :: "u32 \<Rightarrow> bytes list \<Rightarrow> bytes" where
  "stdin_frames rid cs = concat (map (stream_bytes rid Stdin False) cs)"

lemma calm_read_stdin:
  "sched w = [] \<Longrightarrow> inp w = stream_bytes rid Stdin eof p @ rest \<Longrightarrow> length p \<le> MAX_PAYLOAD_LEN \<Longrightarrow>
     read_stdin_frame rid w =
       (Inr (\<lparr>s_request_id = rid, s_channel = Stdin, s_eof = eof\<rparr>, p), w\<lparr>inp := rest\<rparr>)"
  by (simp add: read_stdin_frame_def bindE_def calm_read_stream stdin_frame_error_def)

lemma calm_feed_child: "sched w = [] \<Longrightarrow> feed_child bs w = ((bs, None), w)"
  by (simp add: feed_child_def)

lemma calm_pipe_stdin:
  "sched w = [] \<Longrightarrow> chunks_ok (cs @ [z]) \<Longrightarrow>
     inp w = stdin_frames rid cs @ stream_bytes rid Stdin True z @ rest \<Longrightarrow>
     pipe_stdin_task rid fed w = ((fed @ concat cs @ z, None), w\<lparr>inp := rest\<rparr>)"
proof (induction cs arbitrary: fed w)
  case Nil
  then show ?case
    by (subst pipe_stdin_task.simps) (simp add: stdin_frames_def chunks_ok_def calm_read_stdin calm_feed_child)
next
  case (Cons c cs)
  let ?w = "w\<lparr>inp := stdin_frames rid cs @ stream_bytes rid Stdin True z @ rest\<rparr>"
  have rd: "read_stdin_frame rid w = (Inr (\<lparr>s_request_id = rid, s_channel = Stdin, s_eof = False\<rparr>, c), ?w)"
    using Cons.prems by (intro calm_read_stdin) (simp_all add: stdin_frames_def chunks_ok_def)
  have "pipe_stdin_task rid (fed @ c) ?w = ((fed @ c @ concat cs @ z, None), ?w\<lparr>inp := rest\<rparr>)"
    using Cons.IH [of ?w "fed @ c"] Cons.prems by (simp add: chunks_ok_def)
  with rd Cons.prems(1) show ?case
    by (subst pipe_stdin_task.simps) (simp add: calm_feed_child)
qed

definition pty_datas :: "bytes list \<Rightarrow> pty_input list" where
  "pty_datas cs = map PtyInData (filter (\<lambda>c. c \<noteq> []) cs)"

lemma calm_pty_stdin:
  "sched w = [] \<Longrightarrow> chunks_ok (cs @ [z]) \<Longrightarrow>
     inp w = stdin_frames rid cs @ stream_bytes rid Stdin True z @ rest \<Longrightarrow>
     pty_stdin_task rid sent w = ((sent @ pty_datas (cs @ [z]) @ [PtyInClose], None), w\<lparr>inp := rest\<rparr>)"
proof (induction cs arbitrary: sent w)
  case Nil
  then show ?case
    by (subst pty_stdin_task.simps)
      (simp add: stdin_frames_def chunks_ok_def calm_read_stdin pty_send_data_def pty_send_def pty_close_def pty_datas_def)
next
  case (Cons c cs)
  let ?w = "w\<lparr>inp := stdin_frames rid cs @ stream_bytes rid Stdin True z @ rest\<rparr>"
  have rd: "read_stdin_frame rid w = (Inr (\<lparr>s_request_id = rid, s_channel = Stdin, s_eof = False\<rparr>, c), ?w)"
    using Cons.prems by (intro calm_read_stdin) (simp_all add: stdin_frames_def chunks_ok_def)
  have "pty_stdin_task rid (sent @ pty_datas [c]) ?w =
      ((sent @ pty_datas [c] @ pty_datas (cs @ [z]) @ [PtyInClose], None), ?w\<lparr>inp := rest\<rparr>)"
    using Cons.IH [of ?w "sent @ pty_datas [c]"] Cons.prems by (simp add: chunks_ok_def)
  moreover have "pty_send_data c ?w = ((pty_datas [c], True), ?w)"
    using Cons.prems(1) by (simp add: pty_send_data_def pty_send_def pty_datas_def)
  moreover have "pty_datas ((c # cs) @ [z]) = pty_datas [c] @ pty_datas (cs @ [z])"
    by (simp add: pty_datas_def)
  ultimately show ?case
    by (subst pty_stdin_task.simps) (simp add: rd)
qed

lemma calm_pty_pump:
  "sched w = [] \<Longrightarrow> pty_input_pump (pty_datas cs @ PtyInClose # ms) fed w = (fed @ concat cs, w)"
  by (induction cs arbitrary: fed) (simp_all add: pty_datas_def calm_feed_child)

text \<open>
  A shell's child receives on its standard input exactly the data of the client's
  standard-input frames, up to and including the end-of-stream frame, and no error is
  reported; over a PTY the same bytes reach the controller through the input pump.
\<close>
lemma shell_stdin_exact:
  assumes calm: "sched w = []" and small: "chunks_ok (cs @ [z])"
    and inp: "inp w = stdin_frames rid cs @ stream_bytes rid Stdin True z @ rest"
  shows "pipe_stdin_task rid [] w = ((concat (cs @ [z]), None), w\<lparr>inp := rest\<rparr>) \<and>
    (\<exists>inputs. pty_stdin_task rid [] w = ((inputs, None), w\<lparr>inp := rest\<rparr>) \<and>
      fst (pty_input_pump inputs [] (w\<lparr>inp := rest\<rparr>)) = concat (cs @ [z]))"
  using calm_pipe_stdin [OF assms, of "[]"] calm_pty_stdin [OF assms, of "[]"]
    calm_pty_pump [of "w\<lparr>inp := rest\<rparr>" "cs @ [z]" "[]" "[]"] calm
  by simp

section \<open>Shells\<close>

lemma run_task_run [simp]: "run_task f w = (Inr a, v) \<longleftrightarrow> f w = (a, v)"
  by (auto simp: run_task_def split: prod.splits)

lemma spawn_pipe_shell_ok:
  "spawn_pipe_shell P command args shell home w = (Inr (display_command, child), v) \<Longrightarrow>
     v = w \<and> (\<exists>program argv. shell_command_line command args shell = Inr (display_command, program, argv))"
  by (auto simp: spawn_pipe_shell_def bindE_eq_Inr_iff)

text \<open>
  A shell over pipes that ends has sent \<open>ShellStarted\<close>, then relayed its child's output as
  exec does, and then exactly one closing response: the child's status once both channels
  have closed and it has exited, or the error of the standard-input task. The child's output
  is that of a child fed with what the task delivered.
\<close>
lemma pipe_shell_run:
  assumes L: "bufwriter_spec L"
    and spawn: "spawn_pipe_shell P command args (shell_path st) (home_path st) w = (Inr (display_command, child), w)"
    and run: "handle_pipe_shell L P rid command args st w = (Inr (Some ()), v)"
  shows "\<exists>w1 fed err seen rest t final.
    fst (pipe_stdin_task rid [] w1) = (fed, err) \<and> inp w1 = inp w \<and> (sched w = [] \<longrightarrow> sched w1 = []) \<and>
    child fed = seen @ rest \<and> relay_run relay_init seen t \<and>
    channel Stdout (relayed t) = upto_end (reads_of Stdout seen) \<and>
    channel Stderr (relayed t) = upto_end (reads_of Stderr seen) \<and>
    stream_shape (out_open t) (channel Stdout (relayed t)) \<and>
    stream_shape (err_open t) (channel Stderr (relayed t)) \<and>
    (if running t
     then \<exists>e. err = Some e \<and> final = ErrorResponse ExecFailed (anyhow_display (anyhow_protocol e))
     else (\<exists>code. exited t = Some code \<and> final = ShellExit (status_code code))) \<and>
    sendable L (ShellStarted display_command) \<and> (running t \<or> sendable L final) \<and>
    outp v = outp w @ response_bytes L rid (ShellStarted display_command)
      @ relay_bytes rid (relayed t) @ response_bytes L rid final"
proof -
  let ?w = "w\<lparr>wbuf := []\<rparr>"
  let ?m = "''failed to wait for shell process''"
  from run spawn obtain u w1 fed err w2 end' w3 v1 where
    start: "relay_response L rid (ShellStarted display_command) ?w = (Inr u, w1)"
    and task: "pipe_stdin_task rid [] w1 = ((fed, err), w2)"
    and loop: "select_loop L rid ?m (report_stdin_error L rid err) (child fed) True True None w2 = (Inr end', w3)"
    and fin: "(case end' of
        Exited code \<Rightarrow> thenE (relay_response L rid (ShellExit (status_code code))) (retE (Some ()))
      | Stopped \<Rightarrow> retE (Some ()) | Pending \<Rightarrow> retE None) w3 = (Inr (Some ()), v1)"
    and v: "v = v1\<lparr>wbuf := []\<rparr>"
    by (auto simp: handle_pipe_shell_def bindE_eq_Inr_iff thenE_eq_Inr_iff with_bufwriter_Inr simp del: retE_run)
  have w1: "outp w1 = outp w @ response_bytes L rid (ShellStarted display_command)" "wbuf w1 = []"
    using relay_response_ok [OF L _ start] by auto
  have "keeps same_inp (relay_response L rid (ShellStarted display_command))"
    by (rule inp_wire.keeps_relay_response)
  from keepsD [OF this start] have inp: "inp w1 = inp w" by (simp add: same_inp_def)
  have "keeps stays_calm (relay_response L rid (ShellStarted display_command))"
    by (rule calm_wire.keeps_relay_response)
  from keepsD [OF this start] have calm: "sched w = [] \<longrightarrow> sched w1 = []" by (simp add: stays_calm_def)
  have "same_written w1 w2"
    using written_reading.pipe_stdin_respects [of w1 rid "[]"] task by simp
  with w1 have w2: "outp w2 = outp w @ response_bytes L rid (ShellStarted display_command)" "wbuf w2 = []"
    by (auto simp: same_written_def)
  have "follows L rid err relay_init (child fed) w2 end' w3"
    by (rule select_loop_follows [OF L w2(2), where m = ?m]) (use loop in \<open>simp add: relay_init_def\<close>)
  then obtain seen rest t fs tail where f: "wbuf w3 = []" "child fed = seen @ rest"
    "relay_run relay_init seen t" "relayed t = fs" "outp w3 = outp w2 @ relay_bytes rid fs @ tail"
    "loop_tail L rid err t rest end' tail"
    by (auto simp: follows_def relay_init_def)
  note t = relay_run_inv [OF f(3) relay_init_inv] relay_run_content [OF f(3)]
  have started: "sendable L (ShellStarted display_command)" using relay_response_ok(3) [OF L _ start] by simp
  show ?thesis
  proof (cases end')
    case (Exited code)
    with fin obtain u' where "relay_response L rid (ShellExit (status_code code)) w3 = (Inr u', v1)"
      by (auto simp: thenE_eq_Inr_iff)
    with relay_response_ok [OF L f(1)] v have
      "outp v = outp w3 @ response_bytes L rid (ShellExit (status_code code))"
      "sendable L (ShellExit (status_code code))" by auto
    with Exited f t w2 task inp calm started show ?thesis
      by (intro exI [of _ w1] exI [of _ fed] exI [of _ err] exI [of _ seen] exI [of _ rest] exI [of _ t]
          exI [of _ "ShellExit (status_code code)"])
        (simp add: relay_inv_def relay_init_def)
  next
    case Stopped
    with f(6) obtain e where e: "err = Some e" "running t"
      "tail = response_bytes L rid (ErrorResponse ExecFailed (anyhow_display (anyhow_protocol e)))"
      by auto
    from Stopped fin v have "outp v = outp w3" by auto
    with e f t w2 task inp calm started show ?thesis
      by (intro exI [of _ w1] exI [of _ fed] exI [of _ err] exI [of _ seen] exI [of _ rest] exI [of _ t]
          exI [of _ "ErrorResponse ExecFailed (anyhow_display (anyhow_protocol e))"])
        (simp add: relay_inv_def relay_init_def)
  qed (use fin in simp)
qed

text \<open>The PTY loop: the pump's messages in order, data frames and one end-of-stream frame.\<close>

lemma pty_data_ok:
  assumes L: "bufwriter_spec L" and buf: "wbuf w = []"
    and run: "thenE (proto (write_stream_frame (buf_write_all L DEFAULT_BUF_SIZE) rid Stdout False d)) (plain buf_flush) w
      = (Inr u, v)"
  shows "outp v = outp w @ stream_bytes rid Stdout False d" "wbuf v = []" "length d \<le> MAX_PAYLOAD_LEN"
proof -
  from run obtain u' w1 where
    x: "write_stream_frame (buf_write_all L DEFAULT_BUF_SIZE) rid Stdout False d w = (Inr u', w1)"
    and fl: "buf_flush w1 = (Inr u, v)"
    by (auto simp: thenE_eq_Inr_iff)
  from byte_writer.write_stream_frame_ok [OF buf_byte_writer [OF L] x] buf_flush_ok [OF fl] buf
  show "outp v = outp w @ stream_bytes rid Stdout False d" "wbuf v = []" "length d \<le> MAX_PAYLOAD_LEN" by auto
qed

definition pty_frames :: "u32 \<Rightarrow> bytes list \<Rightarrow> bytes" where
  "pty_frames rid ds = concat (map (stream_bytes rid Stdout False) ds) @ stream_bytes rid Stdout True []"

lemma pty_loop_ok:
  assumes L: "bufwriter_spec L"
  shows "wbuf w = [] \<Longrightarrow> pty_loop L rid err events outs opn x w = (Inr (Exited code), v) \<Longrightarrow>
    wbuf v = [] \<and>
    (if opn then \<exists>ds rest. outs = map PtyOutData ds @ PtyOutEof # rest \<and> outp v = outp w @ pty_frames rid ds \<and>
       (\<forall>d \<in> set ds. length d \<le> MAX_PAYLOAD_LEN)
     else outp v = outp w)"
proof (induction events arbitrary: outs opn x w)
  case Nil
  then show ?case by (auto split: option.splits if_splits)
next
  case IH: (Cons e events)
  note buf = IH.prems(1) and run = IH.prems(2)
  show ?case
  proof (cases "opn \<or> x = None")
    case False
    with run buf show ?thesis by (auto split: option.splits)
  next
    case True
    show ?thesis
    proof (cases e)
      case PtyStdinRecv
      with True run have "pty_loop L rid err events outs opn x w = (Inr (Exited code), v)"
        by (cases err) auto
      from IH.IH [OF buf this] show ?thesis .
    next
      case (PtyWaited r)
      with True run obtain x' where "pty_loop L rid err events outs opn x' w = (Inr (Exited code), v)"
        by (cases "x = None") (auto simp: bindE_eq_Inr_iff)
      from IH.IH [OF buf this] show ?thesis .
    next
      case PtyRecv
      show ?thesis
      proof (cases opn)
        case False
        with PtyRecv True run IH.IH [OF buf, of outs False x] show ?thesis by simp
      next
        case opn: True
        show ?thesis
        proof (cases outs)
          case Nil
          with opn PtyRecv run IH.IH [OF buf, of "[]" True x] show ?thesis by simp
        next
          case (Cons o' outs')
          show ?thesis
          proof (cases o')
            case (PtyOutData d)
            with Cons opn PtyRecv run have
              "thenE (thenE (proto (write_stream_frame (buf_write_all L DEFAULT_BUF_SIZE) rid Stdout False d)) (plain buf_flush))
                (pty_loop L rid err events outs' True x) w = (Inr (Exited code), v)" by simp
            then obtain u w1 where
              fr: "thenE (proto (write_stream_frame (buf_write_all L DEFAULT_BUF_SIZE) rid Stdout False d)) (plain buf_flush) w
                = (Inr u, w1)" and go: "pty_loop L rid err events outs' True x w1 = (Inr (Exited code), v)"
              by (rule thenE_InrE)
            from pty_data_ok [OF L buf fr] IH.IH [OF _ go] obtain ds rest where
              "wbuf v = []" "outs' = map PtyOutData ds @ PtyOutEof # rest" "outp v = outp w1 @ pty_frames rid ds"
              "\<forall>d \<in> set ds. length d \<le> MAX_PAYLOAD_LEN"
              by auto
            with pty_data_ok [OF L buf fr] Cons PtyOutData opn show ?thesis
              by (auto simp: pty_frames_def intro!: exI [of _ "d # ds"])
          next
            case PtyOutEof
            with Cons opn PtyRecv run obtain u w1 where fr: "relay_frame L rid Stdout [] w = (Inr u, w1)"
              and go: "pty_loop L rid err events outs' False x w1 = (Inr (Exited code), v)"
              by (auto elim!: thenE_InrE)
            from relay_frame_ok [OF L buf fr] IH.IH [OF _ go] Cons PtyOutEof opn show ?thesis
              by simp (rule exI [of _ "[]"], simp add: pty_frames_def)
          next
            case (PtyOutError m)
            with Cons opn PtyRecv run show ?thesis by simp
          qed
        qed
      qed
    qed
  qed
qed


lemma written_spawn_pty: "keeps same_written (spawn_pty_shell P command args trm rows cols shell home)"
  unfolding spawn_pty_shell_def
  by (intro written_reading.keeps_bind written_reading.keeps_then written_reading.keeps_lift
      written_reading.keeps_ret written_reading.keeps_syscall keeps_case_prod keeps_app keeps_map_err)

text \<open>The data of the controller's reads, up to the read that closes the stream.\<close>

fun pty_reads :: "(io_error + bytes) list \<Rightarrow> bytes list option" where
  "pty_reads [] = None"
| "pty_reads (Inr d # rs) = (if d = [] then Some [] else map_option (\<lambda>ds. d # ds) (pty_reads rs))"
| "pty_reads (Inl e # rs) = (if is_pty_closed_error e then Some [] else None)"

lemma pty_output_pump_eof:
  "pty_output_pump rs = map PtyOutData ds @ PtyOutEof # rest \<Longrightarrow> pty_reads rs = Some ds"
  by (induction rs arbitrary: ds rule: pty_output_pump.induct)
    (auto simp: Cons_eq_append_conv Cons_eq_map_conv split: if_splits)

lemma spawn_pty_keeps:
  assumes "spawn_pty_shell P command args trm rows cols shell home w = (r, v)"
  shows "inp v = inp w" "sched w = [] \<Longrightarrow> sched v = []"
proof -
  have "keeps same_inp (spawn_pty_shell P command args trm rows cols shell home)"
    unfolding spawn_pty_shell_def
    by (intro inp_wire.keeps_bind inp_wire.keeps_then inp_wire.keeps_lift inp_wire.keeps_ret
        inp_clone keeps_case_prod keeps_app keeps_map_err)
  from keepsD [OF this assms] show "inp v = inp w" by (simp add: same_inp_def)
  have "keeps stays_calm (spawn_pty_shell P command args trm rows cols shell home)"
    unfolding spawn_pty_shell_def
    by (intro calm_eff.keeps_bind calm_eff.keeps_then calm_eff.keeps_lift calm_eff.keeps_ret
        calm_clone keeps_case_prod keeps_app keeps_map_err)
  from keepsD [OF this assms] show "sched w = [] \<Longrightarrow> sched v = []" by (simp add: stays_calm_def)
qed

text \<open>
  A shell on a PTY that ends has sent \<open>ShellStarted\<close>, then the data read from the
  controller, in order and complete up to where the controller closed (an empty read, or an
  error that counts as closed, such as \<open>EIO\<close>), then one end-of-stream frame and the exit status.
  The controller was fed by the pump with what the standard-input task delivered.
\<close>
lemma pty_shell_run:
  assumes L: "bufwriter_spec L"
    and spawn: "spawn_pty_shell P command args trm rows cols (shell_path st) (home_path st) w =
      (Inr (display_command, child), w0)"
    and run: "handle_pty_shell L P rid command args trm rows cols st w = (Inr (Some ()), v)"
  shows "\<exists>w1 inputs err w2 fed w3 ds code. inp w1 = inp w \<and> (sched w = [] \<longrightarrow> sched w1 = []) \<and>
    pty_stdin_task rid [] w1 = ((inputs, err), w2) \<and> pty_input_pump inputs [] w2 = (fed, w3) \<and>
    pty_reads (fst (child fed)) = Some ds \<and> (\<forall>d \<in> set ds. length d \<le> MAX_PAYLOAD_LEN) \<and>
    sendable L (ShellStarted display_command) \<and> sendable L (ShellExit (status_code code)) \<and>
    outp v = outp w @ response_bytes L rid (ShellStarted display_command) @ pty_frames rid ds
      @ response_bytes L rid (ShellExit (status_code code))"
proof -
  let ?w = "w0\<lparr>wbuf := []\<rparr>"
  from run spawn obtain u w1 u' w2 inputs err w3 fed w4 v1 where
    start: "relay_response L rid (ShellStarted display_command) ?w = (Inr u, w1)"
    and clone: "(syscall (retE ()) :: unit io) w1 = (Inr u', w2)"
    and task: "pty_stdin_task rid [] w2 = ((inputs, err), w3)"
    and pump: "pty_input_pump inputs [] w3 = (fed, w4)"
    and go: "(case child fed of (reads, events) \<Rightarrow>
        bindE (pty_loop L rid err events (pty_output_pump reads) True None) (\<lambda>end. case end of
          Exited code \<Rightarrow> thenE (relay_response L rid (ShellExit (status_code code))) (retE (Some ()))
        | _ \<Rightarrow> retE None)) w4 = (Inr (Some ()), v1)"
    and v: "v = v1\<lparr>wbuf := []\<rparr>"
    by (auto simp: handle_pty_shell_def bindE_eq_Inr_iff [of _ _ w] bindE_eq_Inr_iff [of "run_task _"]
        thenE_eq_Inr_iff with_bufwriter_Inr simp del: retE_run)
  obtain reads events where child: "child fed = (reads, events)" by force
  from go child obtain end' w5 where
    loop: "pty_loop L rid err events (pty_output_pump reads) True None w4 = (Inr end', w5)"
    and fin: "(case end' of
          Exited code \<Rightarrow> thenE (relay_response L rid (ShellExit (status_code code))) (retE (Some ()))
        | _ \<Rightarrow> retE None) w5 = (Inr (Some ()), v1)"
    by (auto simp: bindE_eq_Inr_iff simp del: retE_run)
  from fin obtain code u'' where code: "end' = Exited code"
    and exit: "relay_response L rid (ShellExit (status_code code)) w5 = (Inr u'', v1)"
    by (cases end') (auto simp: thenE_eq_Inr_iff)
  have w0: "outp w0 = outp w"
    using keepsD [OF written_spawn_pty spawn] by (simp add: same_written_def)
  have w1: "outp w1 = outp w @ response_bytes L rid (ShellStarted display_command)" "wbuf w1 = []"
    using relay_response_ok [OF L _ start] w0 by auto
  have "same_written w1 w2"
    using keepsD [OF written_reading.keeps_syscall [OF written_reading.keeps_ret] clone] .
  moreover have "same_written w2 w3" "same_written w3 w4"
    using written_reading.pty_stdin_respects [of w2 rid "[]"] task
      written_reading.pty_pump_respects [of w3 inputs "[]"] pump by simp_all
  ultimately have w4: "outp w4 = outp w @ response_bytes L rid (ShellStarted display_command)" "wbuf w4 = []"
    using w1 by (auto simp: same_written_def)
  from pty_loop_ok [OF L w4(2) loop [unfolded code]] obtain ds rest where
    ds: "wbuf w5 = []" "pty_output_pump reads = map PtyOutData ds @ PtyOutEof # rest"
      "outp w5 = outp w4 @ pty_frames rid ds" "\<forall>d \<in> set ds. length d \<le> MAX_PAYLOAD_LEN" by auto
  from relay_response_ok [OF L ds(1) exit] v ds(3) w4 have
    "outp v = outp w @ response_bytes L rid (ShellStarted display_command) @ pty_frames rid ds
      @ response_bytes L rid (ShellExit (status_code code))" by simp
  moreover have "inp w2 = inp w" "sched w = [] \<longrightarrow> sched w2 = []"
    using spawn_pty_keeps [OF spawn] keepsD [OF inp_wire.keeps_relay_response start]
      keepsD [OF calm_wire.keeps_relay_response start] keepsD [OF inp_clone clone] keepsD [OF calm_clone clone]
    by (simp_all add: same_inp_def stays_calm_def)
  ultimately show ?thesis
    using pty_output_pump_eof [OF ds(2)] child task pump ds(4) relay_response_ok(3) [OF L _ start]
      relay_response_ok(3) [OF L ds(1) exit]
    by (intro exI [of _ w2] exI [of _ inputs] exI [of _ err] exI [of _ w3] exI [of _ fed] exI [of _ w4] exI [of _ ds]
        exI [of _ code]) simp
qed

section \<open>Shells leave the files alone\<close>

lemma files_handle_shell: "keeps same_files (handle_shell L P rid command args pty st)"
proof -
  have pipe: "keeps same_files (handle_pipe_shell L P rid command args st)"
    unfolding handle_pipe_shell_def spawn_pipe_shell_def
    by (intro files_eff.keeps_bind files_eff.keeps_then files_eff.keeps_lift files_eff.keeps_ret
        keeps_case_prod keeps_app files_wire.keeps_with_bufwriter files_wire.keeps_relay_response
        files_reading.keeps_tasks files_wire.keeps_select_loop files_wire.keeps_report_stdin_error)
      (auto intro!: files_eff.keeps_then files_eff.keeps_ret files_wire.keeps_relay_response
        simp del: retE_run split: loop_end.split)
  have pty: "keeps same_files (handle_pty_shell L P rid command args trm rows cols st)" for trm rows cols
    unfolding handle_pty_shell_def spawn_pty_shell_def
    by (intro files_eff.keeps_bind files_eff.keeps_then files_eff.keeps_lift files_eff.keeps_ret
        keeps_case_prod keeps_app keeps_map_err files_eff.keeps_syscall files_wire.keeps_with_bufwriter
        files_wire.keeps_relay_response files_reading.keeps_tasks files_wire.keeps_pty_loop)
      (auto intro!: files_eff.keeps_then files_eff.keeps_ret files_wire.keeps_relay_response
        simp del: retE_run split: loop_end.split)
  show ?thesis
    unfolding handle_shell_def by (intro keeps_case_option keeps_case_prod pipe pty)
qed

section \<open>Concrete runs\<close>

definition echo_events :: "bytes \<Rightarrow> exec_event list" where
  "echo_events fed =
     [ReadOut (Inr (104 # fed)), Waited (Inr (Some 3)), StdinRecv, ReadErr (Inr []), ReadOut (Inr [])]"

definition eio :: io_error where
  "eio = os_error OtherIo 5 ''Input/output error''"

definition sample_procs :: processes where
  "sample_procs =
     \<lparr>cmd_output = (\<lambda>spec T. Some (Inr (Some 3, [104], []))),
      spawn_piped = (\<lambda>spec T. Inr echo_events),
      spawn_on_pty = (\<lambda>spec ws. Inr (\<lambda>fed. ([Inr (104 # fed), Inl eio],
        [PtyRecv, PtyWaited (Inr None), PtyRecv])))\<rparr>"

definition sample_state :: server_state where
  "sample_state =
     \<lparr>server_id = ''rsdbd'', device_name = ''dev'', platform = ''Linux'', shell_path = ''/bin/sh'',
      home_path = ''/root'', ss_exec_timeout = 60, tcp_port = 27101\<rparr>"

lemma sample_output_spec: "output_spec sample_procs"
  by (simp add: output_spec_def sample_procs_def echo_events_def Let_def)

lemma sample_exec:
  "fst (stream_command_output sample_libs sample_procs 7 ''ls'' [] None None sample_state sample_world) = Inr ()"
  by code_simp

definition exec_world :: world where
  "exec_world = snd (stream_command_output sample_libs sample_procs 7 ''ls'' [] None None sample_state sample_world)"

lemma exec_world_run:
  "stream_command_output sample_libs sample_procs 7 ''ls'' [] None None sample_state sample_world =
     (Inr (), exec_world)"
  unfolding exec_world_def using sample_exec by (rule run_pair)


theorem exec_forms_agree_witness:
  "\<exists>fs answer. outp exec_world = outp sample_world @ relay_bytes 7 fs @ response_bytes sample_libs 7 answer \<and>
    execute_command sample_procs ''ls'' [] None None sample_state = Inr
      (case answer of
         ExecResult code _ _ late \<Rightarrow>
           ExecResult code (lossy_string (concat (channel Stdout fs)))
             (lossy_string (concat (channel Stderr fs))) late
       | _ \<Rightarrow> answer)"
  using exec_forms_agree [OF sample_bufwriter sample_output_spec exec_world_run] .

theorem exec_always_answers_witness:
  "\<exists>r pre v. exec_final r \<and> sched sample_world = [] \<and>
    (if sendable sample_libs r then
       handle_exec_request sample_libs sample_procs 7 ''ls'' [] None None True sample_state sample_world = (Inr (), v) \<and>
       outp v = outp sample_world @ pre @ response_bytes sample_libs 7 r
     else \<exists>err. handle_exec_request sample_libs sample_procs 7 ''ls'' [] None None True sample_state sample_world
         = (Inl err, v) \<and> outp v = outp sample_world @ pre)"
proof -
  have calm: "sched sample_world = []" by (simp add: sample_world_def world_of_def)
  from exec_always_answers [OF sample_bufwriter calm, of sample_procs 7 "''ls''" "[]" None None sample_state] calm
  show ?thesis by simp
qed

definition stdin_world :: world where
  "stdin_world = world_of [] (stdin_frames 7 [[1, 2]] @ stream_bytes 7 Stdin True [3] @ [9])"

end
