(* ===== verification/Daemon_Facts.thy ===== *)
theory Daemon_Facts
  imports Daemon Daemon_Exec_Facts Daemon_Fs_Ops
begin

text \<open>
  What the daemon guarantees as a whole: its file system stays a tree through any sequence of
  connections, whatever they send and whatever fails; a request that a client wrote is the
  request that is handled; every file-system request has one answer; and discovery answers
  exactly the probes.
\<close>

section \<open>The file system stays a tree\<close>

lemma keeps_or_send_error:
  assumes "keeps keeps_wf m"
  shows "keeps keeps_wf (or_send_error L rid code m)"
  unfolding or_send_error_def send_error_def
  by (intro wf_eff.keeps_bind wf_eff.keeps_then keeps_try keeps_case_sum wf_eff.keeps_ret wf_send assms)

lemma wf_handle_request: "keeps keeps_wf (handle_request L P rid request st)"
proof (cases request)
  case Ping
  then show ?thesis
    by (simp add: handle_request_def wf_eff.keeps_then wf_send wf_eff.keeps_ret del: retE_run)
next
  case GetCapabilities
  then show ?thesis
    by (simp add: handle_request_def wf_eff.keeps_then wf_send wf_eff.keeps_ret del: retE_run)
next
  case (Exec command args dir secs stream)
  then show ?thesis
    by (simp add: handle_request_def wf_eff.keeps_then wf_of_same_files files_wire.keeps_handle_exec
        wf_eff.keeps_ret del: retE_run)
next
  case (Shell command args pty trm rows cols)
  then show ?thesis
    by (simp add: handle_request_def wf_of_same_files files_handle_shell)
qed (simp_all add: handle_request_def keeps_or_send_error wf_of_same_files files_handle_fs_stat
    files_handle_fs_list files_handle_fs_read wf_handle_fs_write wf_handle_fs_mkdir wf_handle_fs_rm
    wf_handle_fs_move wf_handle_push files_handle_pull wf_handle_push_batch files_handle_pull_batch)

lemma wf_handle_connection: "keeps keeps_wf (handle_connection L P st in_time)"
  unfolding handle_connection_def
  by (intro keeps_if wf_eff.keeps_fail wf_eff.keeps_bind keeps_try keeps_case_sum wf_eff.keeps_ret
      wf_eff.keeps_lift keeps_app wf_eff.keeps_read_frame wf_conn_read wf_handle_request)


section \<open>A request arrives as it was sent\<close>

lemma calm_read_frame:
  assumes calm: "sched w = []" and inp: "inp w = frame_bytes k fl rid p @ rest"
    and len: "length p \<le> MAX_PAYLOAD_LEN"
  shows "read_frame conn_read_exact w =
    (Inr \<lparr>f_header = \<lparr>h_version = PROTOCOL_VERSION, h_kind = k, h_flags = fl, h_request_id = rid,
       h_payload_len = word_of_nat (length p)\<rparr>, f_payload = p\<rparr>, w\<lparr>inp := rest\<rparr>)"
proof -
  let ?h = "\<lparr>h_version = PROTOCOL_VERSION, h_kind = k, h_flags = fl, h_request_id = rid,
      h_payload_len = word_of_nat (length p)\<rparr>"
  have 1: "conn_read_exact HEADER_LEN w = (Inr (header_encode ?h), w\<lparr>inp := p @ rest\<rparr>)"
    using calm inp by (intro calm_read_exact) (simp_all add: frame_bytes_def)
  have 2: "conn_read_exact (length p) (w\<lparr>inp := p @ rest\<rparr>) = (Inr p, w\<lparr>inp := rest\<rparr>)"
    using calm calm_read_exact [of "w\<lparr>inp := p @ rest\<rparr>" p rest "length p"] by simp
  show ?thesis
    using 1 2 len
    by (simp add: read_frame_def read_frame_into_def bindE_def map_errE_def header_decode_encode unat_payload_len)
qed

lemma connection_request:
  assumes calm: "sched w = []" and json: "json_roundtrip (request_to_vec L) (request_from_slice L)"
    and req: "request_to_vec L request = Inr payload" "length payload \<le> MAX_PAYLOAD_LEN"
    and inp: "inp w = frame_bytes Request 0 rid payload @ rest"
  shows "handle_connection L P st True w = handle_request L P rid request st (w\<lparr>inp := rest\<rparr>)"
proof -
  have "request_from_slice L payload = Inr request"
    using json req by (simp add: json_roundtrip_def)
  then show ?thesis
    using calm_read_frame [OF calm inp req(2)]
    by (simp add: handle_connection_def bindE_def tryE_def proto_def map_errE_def decode_json_def
        decode_json_payload_def)
qed

section \<open>One answer to a file-system request\<close>

text \<open>
  \<open>answers L rid m\<close>: when \<open>m\<close> succeeds it has written one response and nothing else; when it
  fails it has written nothing, unless it failed while sending its response, and then a
  part of that. With nothing on the schedule it stays so, and a failure has written nothing.
\<close>

definition answers :: "libs \<Rightarrow> u32 \<Rightarrow> unit app \<Rightarrow> bool" where
  "answers L rid m \<longleftrightarrow>
     (\<forall>w r v. m w = (r, v) \<longrightarrow> stays_calm w v \<and>
        (case r of
           Inr _ \<Rightarrow> \<exists>a. sendable L a \<and> outp v = outp w @ response_bytes L rid a
         | Inl _ \<Rightarrow> \<exists>a k. outp v = outp w @ take k (response_bytes L rid a) \<and> (sched w = [] \<longrightarrow> k = 0)))"

definition silent :: "world \<Rightarrow> world \<Rightarrow> bool" where
  "silent v w \<longleftrightarrow> stays_calm v w \<and> outp w = outp v"

interpretation silent_eff: world_rel silent
  by unfold_locales (auto simp: silent_def stays_calm_def)

lemma silentI: "keeps same_conn m \<Longrightarrow> keeps stays_calm m \<Longrightarrow> keeps silent m"
  by (auto simp: keeps_def silent_def same_conn_def)

lemma silent_only: "keeps only_sched m \<Longrightarrow> keeps silent m"
  by (rule silentI) (simp_all add: keeps_only_sched)

lemma send_response_answers: "answers L rid (send_response L rid a)"
  unfolding answers_def
proof (intro allI impI conjI)
  fix w r v
  assume run: "send_response L rid a w = (r, v)"
  show "stays_calm w v" using calm_send run by (rule keepsD)
  show "case r of
      Inr _ \<Rightarrow> \<exists>a. sendable L a \<and> outp v = outp w @ response_bytes L rid a
    | Inl _ \<Rightarrow> \<exists>a k. outp v = outp w @ take k (response_bytes L rid a) \<and> (sched w = [] \<longrightarrow> k = 0)"
  proof (cases r)
    case (Inr u)
    with send_response_ok run show ?thesis by fastforce
  next
    case (Inl e)
    show ?thesis
    proof (cases "sendable L a")
      case False
      with unsendable_fails [OF this, of rid w] run Inl show ?thesis
        by (auto intro: exI [of _ 0])
    next
      case True
      then have faulty: "sched w \<noteq> []"
        using calm_send_response [OF _ True, of w rid] run Inl by auto
      from True obtain p where p: "response_to_vec L a = Inr p" "length p \<le> MAX_PAYLOAD_LEN"
        by (auto simp: sendable_def split: sum.splits)
      from run Inl p obtain r' where "write_frame conn_write_all Response rid p w = (r', v)"
        by (auto simp: send_response_def write_json_frame_def proto_def map_errE_def split: prod.splits sum.splits)
      from conn_w.write_frame_prefix [OF this] obtain n where
        "outp v = outp w @ take n (response_bytes L rid a)"
        using p by (auto simp: response_bytes_def)
      with faulty show ?thesis unfolding Inl sum.case by blast
    qed
  qed
qed

lemma answers_fail: "answers L rid (failE e)"
  by (auto simp: answers_def stays_calm_def intro: exI [of _ 0])

lemma answers_bind:
  assumes m: "keeps silent m" and f: "\<And>a. answers L rid (f a)"
  shows "answers L rid (bindE m f)"
  unfolding answers_def
proof (intro allI impI)
  fix w r v
  assume "bindE m f w = (r, v)"
  then show "stays_calm w v \<and>
    (case r of Inr _ \<Rightarrow> \<exists>a. sendable L a \<and> outp v = outp w @ response_bytes L rid a
     | Inl _ \<Rightarrow> \<exists>a k. outp v = outp w @ take k (response_bytes L rid a) \<and> (sched w = [] \<longrightarrow> k = 0))"
  proof (cases rule: bindE_cases)
    case (fails e)
    with keepsD [OF m fails(1)] show ?thesis by (auto simp: silent_def intro: exI [of _ 0])
  next
    case (runs a t)
    from f have "stays_calm t v \<and>
      (case r of Inr _ \<Rightarrow> \<exists>a. sendable L a \<and> outp v = outp t @ response_bytes L rid a
       | Inl _ \<Rightarrow> \<exists>a k. outp v = outp t @ take k (response_bytes L rid a) \<and> (sched t = [] \<longrightarrow> k = 0))"
      using runs(2) unfolding answers_def by blast
    with keepsD [OF m runs(1)] show ?thesis
      by (auto simp: silent_def stays_calm_def split: sum.splits)
  qed
qed

lemma answers_then: "keeps silent m \<Longrightarrow> answers L rid n \<Longrightarrow> answers L rid (thenE m n)"
  unfolding thenE_def by (rule answers_bind)

lemma answers_if: "(b \<Longrightarrow> answers L rid m) \<Longrightarrow> (\<not> b \<Longrightarrow> answers L rid n) \<Longrightarrow> answers L rid (if b then m else n)"
  by simp

lemmas silent_calls =
  silentI [OF conn_create_dir calm_create_dir] silentI [OF conn_set_permissions calm_set_permissions]
  silentI [OF conn_remove_file calm_remove_file] silentI [OF conn_remove_dir calm_remove_dir]
  silentI [OF conn_remove_dir_all calm_remove_dir_all] silentI [OF conn_rename calm_rename]
  silentI [OF conn_create_new calm_create_new] silentI [OF conn_open_truncate calm_open_truncate]
  silentI [OF conn_file_write calm_file_write] silentI [OF conn_create_dir_all calm_create_dir_all]
  silent_only [OF keeps_only_stat] silent_only [OF keeps_only_open_read] silent_only [OF keeps_only_flush]
  silent_only [OF only_validate] silent_only [OF only_stat_existing] silent_only [OF only_fs_write_guards]
  silent_only [OF only_blocking_fs_stat] silent_only [OF only_blocking_fs_list]
  silent_only [OF keeps_read_take]

lemmas silent_rules =
  silent_eff.keeps_bind silent_eff.keeps_then silent_eff.keeps_ret silent_eff.keeps_fail
  silent_eff.keeps_lift silent_eff.keeps_get keeps_if keeps_case_option keeps_case_sum keeps_case_prod
  keeps_try keeps_app keeps_map_err silent_calls

lemma silent_write_direct: "keeps silent (write_direct_file path bs mode)"
  unfolding write_direct_file_def by (intro silent_rules)

lemma silent_write_atomic: "keeps silent (write_atomic_file path bs mode)"
  unfolding write_atomic_file_def write_temp_and_rename_def Let_def by (intro silent_rules)

lemma fs_handlers_answer:
  "answers L rid (handle_fs_stat L rid path hash)"
  "answers L rid (handle_fs_list L rid path rec depth hid hash)"
  "answers L rid (handle_fs_read L rid path enc limit)"
  "answers L rid (handle_fs_write L rid path content enc mode par atomic miss sha)"
  "answers L rid (handle_fs_mkdir L rid path parents mode)"
  "answers L rid (handle_fs_rm L rid path rec force if_exists)"
  "answers L rid (handle_fs_move L rid path destination overwrite)"
  unfolding handle_fs_stat_def handle_fs_list_def handle_fs_read_def handle_fs_write_def handle_fs_mkdir_def
    handle_fs_rm_def handle_fs_move_def rm_metadata_def remove_existing_def Let_def
  by (intro answers_bind answers_then answers_if answers_fail send_response_answers silent_rules
      silent_write_direct silent_write_atomic)+

definition is_fs_request :: "control_request \<Rightarrow> bool" where
  "is_fs_request request \<longleftrightarrow>
     (case request of
        FsStat _ _ \<Rightarrow> True | FsList _ _ _ _ _ \<Rightarrow> True | FsRead _ _ _ \<Rightarrow> True
      | FsWrite _ _ _ _ _ _ _ _ \<Rightarrow> True | FsMkdir _ _ _ \<Rightarrow> True | FsRm _ _ _ _ \<Rightarrow> True
      | FsMove _ _ _ \<Rightarrow> True | _ \<Rightarrow> False)"

lemma answers_ok:
  "answers L rid m \<Longrightarrow> m w = (Inr u, v) \<Longrightarrow> \<exists>a. sendable L a \<and> outp v = outp w @ response_bytes L rid a"
  unfolding answers_def by (drule spec [of _ w], drule spec [of _ "Inr u"], drule spec [of _ v]) simp

lemma answers_err:
  "answers L rid m \<Longrightarrow> m w = (Inl e, v) \<Longrightarrow>
     stays_calm w v \<and> (\<exists>a k. outp v = outp w @ take k (response_bytes L rid a) \<and> (sched w = [] \<longrightarrow> k = 0))"
  unfolding answers_def by (drule spec [of _ w], drule spec [of _ "Inl e"], drule spec [of _ v]) simp

lemma fs_request_handler:
  assumes "is_fs_request request"
  shows "\<exists>handler. answers L rid handler \<and>
    handle_request L P rid request st = or_send_error L rid classify_fs_error handler"
  using assms
  by (cases request; simp add: is_fs_request_def handle_request_def)
    (rule exI, rule conjI [rotated], rule refl, rule fs_handlers_answer)+


lemma fs_request_run:
  assumes fs: "is_fs_request request" and calm: "sched w = []"
  shows "\<exists>a v. if sendable L a
    then handle_request L P rid request st w = (Inr (Some ()), v) \<and> outp v = outp w @ response_bytes L rid a
    else \<exists>e. handle_request L P rid request st w = (Inl e, v) \<and> outp v = outp w"
proof -
  from fs_request_handler [OF fs] obtain handler where ans: "answers L rid handler"
    and h: "handle_request L P rid request st = or_send_error L rid classify_fs_error handler"
    by blast
  obtain res t where t: "handler w = (res, t)" by force
  show ?thesis
  proof (cases res)
    case (Inr u)
    with answers_ok [OF ans] t obtain a where "sendable L a" "outp t = outp w @ response_bytes L rid a"
      by blast
    moreover have "handle_request L P rid request st w = (Inr (Some ()), t)"
      using h t Inr by (simp add: or_send_error_def bindE_def tryE_def)
    ultimately show ?thesis by (metis (full_types))
  next
    case (Inl err)
    let ?a = "ErrorResponse (classify_fs_error err) (anyhow_display err)"
    from answers_err [OF ans t [unfolded Inl]] calm have "sched t = []" "outp t = outp w"
      by (auto simp: stays_calm_def)
    moreover have "handle_request L P rid request st w =
        thenE (send_response L rid ?a) (retE (Some ())) t"
      using h t Inl by (simp add: or_send_error_def send_error_def bindE_def tryE_def)
    ultimately show ?thesis
      using calm_send_response [of t L ?a rid] unsendable_fails [of L ?a rid t]
      by (intro exI [of _ ?a]) (cases "sendable L ?a"; auto simp: thenE_def bindE_def)
  qed
qed

section \<open>Discovery\<close>

text \<open>What arrives at the discovery socket: probes of clients, and datagrams that are none.\<close>

type_synonym datagram_source = "string \<times> (nat + bytes)"

definition probe_datagram :: "libs \<Rightarrow> nat \<Rightarrow> bytes" where
  "probe_datagram L nonce =
     (case encode_discovery_message (probe_to_vec L) (Probe nonce) of Inr d \<Rightarrow> d | Inl _ \<Rightarrow> [])"

fun arrives :: "libs \<Rightarrow> datagram_source \<Rightarrow> io_error + bytes \<times> string \<times> io_error option" where
  "arrives L (peer, Inl nonce) = Inr (probe_datagram L nonce, peer, None)"
| "arrives L (peer, Inr junk) = Inr (junk, peer, None)"

fun probe_of :: "datagram_source \<Rightarrow> (string \<times> nat) option" where
  "probe_of (peer, Inl nonce) = Some (peer, nonce)"
| "probe_of (peer, Inr _) = None"

lemma discovery_decodes:
  assumes "json_roundtrip to_vec from_slice" and "encode_discovery_message to_vec m = Inr d"
  shows "length d \<le> MAX_DISCOVERY_PAYLOAD_LEN + length DISCOVERY_MAGIC"
    and "decode_discovery_message from_slice d = Inr m"
  using assms
  by (auto simp: encode_discovery_message_def decode_discovery_message_def json_roundtrip_def Let_def
      split: sum.splits if_splits)

definition replies :: "libs \<Rightarrow> server_state \<Rightarrow> datagram_source list \<Rightarrow> (string \<times> (protocol_error + discovery_response)) list" where
  "replies L st sources =
     map (\<lambda>(peer, payload). (peer, decode_discovery_message (announce_from_slice L) payload))
       (fst (handle_discovery L st (map (arrives L) sources)))"

text \<open>
  The discovery loop answers exactly the probes, in the order they arrive: whatever other
  datagrams come between, each probing peer gets one answer, which decodes to this server's
  description with the nonce of that peer's probe, and the loop goes on.
\<close>
theorem discovery_answers_probes:
  assumes probe: "json_roundtrip (probe_to_vec L) (probe_from_slice L)"
    and announce: "json_roundtrip (announce_to_vec L) (announce_from_slice L)"
    and fits: "\<And>peer n. (peer, Inl n) \<in> set sources \<Longrightarrow>
      (\<exists>d. encode_discovery_message (probe_to_vec L) (Probe n) = Inr d) \<and>
      (\<exists>d. encode_discovery_message (announce_to_vec L) (discovery_answer st n) = Inr d)"
    and junk: "\<And>peer bs. (peer, Inr bs) \<in> set sources \<Longrightarrow> \<not> prefix DISCOVERY_MAGIC bs"
  shows "snd (handle_discovery L st (map (arrives L) sources)) = None \<and>
    replies L st sources =
      map (\<lambda>(peer, nonce). (peer, Inr (discovery_answer st nonce))) (List.map_filter probe_of sources)"
  using fits junk
proof (induction sources)
  case (Cons s sources)
  have IH: "snd (handle_discovery L st (map (arrives L) sources)) = None"
    "replies L st sources =
      map (\<lambda>(peer, nonce). (peer, Inr (discovery_answer st nonce))) (List.map_filter probe_of sources)"
    using Cons.IH [OF Cons.prems(1) Cons.prems(2), OF list.set_intros(2) list.set_intros(2)] by auto
  obtain sent where sent: "handle_discovery L st (map (arrives L) sources) = (sent, None)"
    using IH(1) by (metis prod.collapse)
  obtain peer x where s: "s = (peer, x)" by force
  show ?case
  proof (cases x)
    case (Inl nonce)
    obtain d e where d: "encode_discovery_message (probe_to_vec L) (Probe nonce) = Inr d"
      and e: "encode_discovery_message (announce_to_vec L) (discovery_answer st nonce) = Inr e"
      using Cons.prems(1) s Inl by (metis list.set_intros(1))
    from discovery_decodes [OF probe d] discovery_decodes [OF announce e] IH(2) sent s Inl d e show ?thesis
      by (simp add: replies_def probe_datagram_def map_filter_simps DISCOVERY_BUFFER_LEN_def)
  next
    case (Inr bs)
    with Cons.prems s have "\<not> prefix DISCOVERY_MAGIC bs" by auto
    then have "decode_discovery_message (probe_from_slice L) (take DISCOVERY_BUFFER_LEN bs) = Inl InvalidDiscoveryMagic"
      by (auto simp: decode_discovery_message_def DISCOVERY_BUFFER_LEN_def min_def prefix_def)
        (metis append_take_drop_id)+
    with IH(2) sent s Inr show ?thesis by (simp add: replies_def map_filter_simps)
  qed
qed (simp add: replies_def map_filter_simps)

section \<open>A shell that does not start\<close>

text \<open>
  A shell request whose command is blank, or whose shell cannot be started, gets no answer:
  the handler ends with an error, nothing is written to the connection, and the client sees
  it close.
\<close>
theorem shell_failure_unanswered:
  assumes "shell_command_line command args (shell_path st) = Inl err \<or>
    (\<forall>spec limit. \<exists>e. spawn_piped P spec limit = Inl e)"
  shows "\<exists>err'. handle_request L P rid (Shell command args False trm rows cols) st w = (Inl err', w)"
  using assms
proof
  assume "shell_command_line command args (shell_path st) = Inl err"
  then show ?thesis
    by (simp add: handle_request_def handle_shell_def handle_pipe_shell_def spawn_pipe_shell_def bindE_def)
next
  assume fails: "\<forall>spec limit. \<exists>e. spawn_piped P spec limit = Inl e"
  show ?thesis
  proof (cases "shell_command_line command args (shell_path st)")
    case (Inl e)
    then show ?thesis
      by (simp add: handle_request_def handle_shell_def handle_pipe_shell_def spawn_pipe_shell_def bindE_def)
  next
    case (Inr c)
    obtain d p a where c: "c = (d, p, a)" by (metis prod.exhaust)
    from fails obtain e where "spawn_piped P
        \<lparr>c_program = p, c_args = a, c_current_dir = None, c_env = [(''HOME'', home_path st)],
         c_stdin_piped = True, c_kill_on_drop = False\<rparr> None = Inl e"
      by blast
    with Inr c show ?thesis
      by (simp add: handle_request_def handle_shell_def handle_pipe_shell_def spawn_pipe_shell_def bindE_def
          ctx_def map_errE_def)
  qed
qed

section \<open>Concrete runs\<close>



definition discovery_libs :: libs where
  "discovery_libs = sample_libs\<lparr>
     probe_to_vec := (\<lambda>m. case m of Probe n \<Rightarrow> if n < 256 then Inr [word_of_nat n] else Inl ''''),
     probe_from_slice := (\<lambda>bs. case bs of b # _ \<Rightarrow> Inr (Probe (unat b)) | [] \<Rightarrow> Inl ''''),
     announce_to_vec := (\<lambda>m. if m = discovery_answer sample_state 5 then Inr [5] else Inl ''''),
     announce_from_slice := (\<lambda>bs. Inr (discovery_answer sample_state 5))\<rparr>"

theorem discovery_answers_probes_witness:
  "replies discovery_libs sample_state [(''p'', Inr [1, 2]), (''q'', Inl 5)] =
     [(''q'', Inr (discovery_answer sample_state 5))]"
proof -
  have "json_roundtrip (probe_to_vec discovery_libs) (probe_from_slice discovery_libs)"
    by (auto simp: json_roundtrip_def discovery_libs_def unat_word_of_nat_u8 split: discovery_request.splits if_splits)
  moreover have "json_roundtrip (announce_to_vec discovery_libs) (announce_from_slice discovery_libs)"
    by (auto simp: json_roundtrip_def discovery_libs_def split: if_splits)
  ultimately have "snd (handle_discovery discovery_libs sample_state
        (map (arrives discovery_libs) [(''p'', Inr [1, 2]), (''q'', Inl 5)])) = None \<and>
      replies discovery_libs sample_state [(''p'', Inr [1, 2]), (''q'', Inl 5)] =
      map (\<lambda>(peer, nonce). (peer, Inr (discovery_answer sample_state nonce)))
        (List.map_filter probe_of [(''p'', Inr [1, 2]), (''q'', Inl 5)])"
    by (rule discovery_answers_probes)
      (auto simp: discovery_libs_def encode_discovery_message_def MAX_DISCOVERY_PAYLOAD_LEN_def
        dest: prefix_length_le)
  then show ?thesis by (simp add: map_filter_simps)
qed

theorem shell_failure_unanswered_witness:
  "\<exists>err. handle_request sample_libs sample_procs 9 (Shell (Some []) [] False None None None) sample_state sample_world
     = (Inl err, sample_world)"
  by (rule shell_failure_unanswered [where err = "anyhow_msg ''shell command must not be empty''"])
    (use blank_Nil in \<open>simp add: shell_command_line_def blank_def\<close>)

end
