(* ===== verification/Daemon_Batch_Facts.thy ===== *)
theory Daemon_Batch_Facts
  imports Daemon_Transfer_Facts
begin

text \<open>
  A batch push of one file on the daemon's side, when nothing goes wrong: the file is created or
  replaced with the bytes of the stream, and both responses are sent.
\<close>

definition existing_dir :: "world \<Rightarrow> string \<Rightarrow> bool" where
  "existing_dir w p \<longleftrightarrow>
     (\<exists>q q'. resolve w True p = Inr q \<and> dir_at w q \<and> resolve_new w p = Inr q' \<and> look w q' \<noteq> None)"

lemma existing_dir_io [simp]:
  "existing_dir (w\<lparr>outp := x\<rparr>) p = existing_dir w p" "existing_dir (w\<lparr>inp := x\<rparr>) p = existing_dir w p"
  by (simp_all add: existing_dir_def dir_at_def resolve_new_def resolve_parts_def)

lemma calm_existing_dir:
  assumes "sched w = []" "existing_dir w p"
  shows "create_dir_all p w = (Inr (), w)"
proof (cases "components p = []")
  case True
  then show ?thesis by (subst create_dir_all.simps) simp
next
  case False
  from assms obtain q q' nd where p: "resolve w True p = Inr q" "look w q = Some nd" "i_type nd = FtDir"
    "resolve_new w p = Inr q'" "look w q' \<noteq> None"
    by (auto simp: existing_dir_def dir_at_iff)
  have "sys_create_dir p w = (Inl eexist, w)"
    using assms(1) p by (auto simp: sys_create_dir_def link_new_def)
  moreover have "path_is_dir p w = (Inr True, w)"
    using calm_stat [OF assms(1) p(1,2)] p(3) by (simp add: path_is_dir_def metadata_of_def)
  ultimately show ?thesis
    using False by (subst create_dir_all.simps) (simp add: bindE_def tryE_def errno_kinds)
qed

lemma calm_receive_file_entry:
  assumes calm: "sched w = []" and wr: "writable_at w p q"
    and parent: "\<And>d. parent_path p = Some d \<Longrightarrow> d \<noteq> [] \<Longrightarrow> existing_dir w d"
    and path: "resolve_transfer_entry_path roots entry = Inr p"
    and entry: "te_kind entry = TFile" "te_size entry = length (concat cs)" and cs: "small_chunks cs"
    and inp: "inp w = chunk_frames rid cs @ rest"
  shows "\<exists>nd. receive_entry rid roots entry n w =
      (Inr (n + length (concat cs)), (set_node q nd w)\<lparr>inp := rest\<rparr>) \<and>
    i_type nd = FtFile \<and> i_data nd = concat cs \<and>
    (te_mode entry \<noteq> 0 \<longrightarrow> i_mode nd = normalize_mode (te_mode entry))"
proof -
  let ?mode = "normalize_mode (te_mode entry)"
  from calm_truncates [OF calm wr, of ?mode] obtain nd0 where
    op: "sys_open_truncate p ?mode w = (Inr q, set_node q nd0 w)"
    and nd0: "i_type nd0 = FtFile" "i_data nd0 = []" by blast
  from appended_set_node [OF nd0(1), of q "concat cs" w] nd0(2) obtain nd1 where
    nd1: "appended q (concat cs) (set_node q nd0 w) = set_node q nd1 w"
    "i_type nd1 = FtFile" "i_data nd1 = concat cs" by auto
  have ok: "chunks_ok cs" "\<forall>c \<in> set cs. c \<noteq> []"
    using cs by (auto simp: small_chunks_def chunks_ok_def list_all_iff DEFAULT_STREAM_CHUNK_SIZE_def
        MAX_PAYLOAD_LEN_def)
  let ?w1 = "(set_node q nd1 w)\<lparr>inp := rest\<rparr>"
  have recv: "batch_receive_file rid p q (length (concat cs)) n (set_node q nd0 w) = (Inr (n + length (concat cs)), ?w1)"
    using calm_batch_receive_file [of "set_node q nd0 w" cs _ rid rest p q n] calm ok inp nd1(1) by simp
  define nd2 where "nd2 = (if te_mode entry \<noteq> 0 then nd1\<lparr>i_mode := ?mode\<rparr> else nd1)"
  have perm: "(if te_mode entry \<noteq> 0 then ctx m (sys_set_permissions p ?mode) else retE ()) ?w1 =
      (Inr (), (set_node q nd2 w)\<lparr>inp := rest\<rparr>)" for m
    using calm_chmods [of ?w1 p q nd1 ?mode] writable_stays [OF wr nd1(2)] calm
    by (simp add: nd2_def look_set_node)
  have dirs: "(case parent_path p of None \<Rightarrow> retE ()
      | Some d \<Rightarrow> if d \<noteq> [] then ctx (m d) (create_dir_all d) else retE ()) w = (Inr (), w)" for m
    using calm_existing_dir [OF calm parent] by (cases "parent_path p") auto
  have "receive_entry rid roots entry n w = (Inr (n + length (concat cs)), (set_node q nd2 w)\<lparr>inp := rest\<rparr>)"
    using path entry op recv calm_flush [of ?w1 q] calm perm dirs
    by (simp add: receive_entry_def bindE_Inr thenE_Inr del: length_concat)
  with nd1 show ?thesis by (intro exI [of _ nd2]) (simp add: nd2_def)
qed

lemma calm_push_batch_file:
  assumes calm: "sched w = []" and roots: "resolve_batch_destination_roots dest [root] w = (Inr [p], w)"
    and wr: "writable_at w p q"
    and parent: "\<And>d. parent_path p = Some d \<Longrightarrow> d \<noteq> [] \<Longrightarrow> existing_dir w d"
    and entry: "te_root_index entry = 0" "te_relative_path entry = []" "te_kind entry = TFile"
      "te_size entry = length (concat cs)"
    and cs: "small_chunks cs" and inp: "inp w = chunk_frames rid cs @ stream_bytes rid File True [] @ rest"
    and small: "sendable L PushBatchReady" "sendable L (PushBatchComplete 1 (length (concat cs)))"
  shows "\<exists>v nd. handle_push_batch L rid dest [root] [entry] w = (Inr (), v) \<and>
    look v q = Some nd \<and> i_type nd = FtFile \<and> i_data nd = concat cs \<and>
    (te_mode entry \<noteq> 0 \<longrightarrow> i_mode nd = normalize_mode (te_mode entry)) \<and>
    (\<forall>k. k \<noteq> q \<longrightarrow> look v k = look w k) \<and> inp v = rest \<and>
    outp v = outp w @ response_bytes L rid PushBatchReady
      @ response_bytes L rid (PushBatchComplete 1 (length (concat cs)))"
proof -
  let ?w1 = "w\<lparr>outp := outp w @ response_bytes L rid PushBatchReady\<rparr>"
  let ?eof = "stream_bytes rid File True []"
  have ready: "send_response L rid PushBatchReady w = (Inr (), ?w1)"
    by (rule calm_send_response [OF calm small(1)])
  have path: "resolve_transfer_entry_path [p] entry = Inr p"
    using entry by (simp add: resolve_transfer_entry_path_def join_transfer_relative_path_def)
  have wr1: "writable_at ?w1 p q" using wr by (simp add: writable_at_def dir_at_def)
  have par1: "existing_dir ?w1 d" if "parent_path p = Some d" "d \<noteq> []" for d
    using parent [OF that] by simp
  obtain nd where recv: "receive_entry rid [p] entry 0 ?w1 =
      (Inr (length (concat cs)), (set_node q nd ?w1)\<lparr>inp := ?eof @ rest\<rparr>)"
    and nd: "i_type nd = FtFile" "i_data nd = concat cs"
      "te_mode entry \<noteq> 0 \<longrightarrow> i_mode nd = normalize_mode (te_mode entry)"
    using calm_receive_file_entry [OF _ wr1 par1 path entry(3,4) cs, of rid "?eof @ rest" 0] calm inp by auto
  let ?w2 = "(set_node q nd ?w1)\<lparr>inp := ?eof @ rest\<rparr>" and ?w3 = "(set_node q nd ?w1)\<lparr>inp := rest\<rparr>"
  have eof: "expect_file_stream_eof rid ''push'' ?w2 = (Inr (), ?w3)"
    using calm_read_chunk [of ?w2 rid True "[]" rest] calm by (simp add: expect_file_stream_eof_def bindE_Inr)
  have fin: "send_response L rid (PushBatchComplete 1 (length (concat cs))) ?w3 =
      (Inr (), ?w3\<lparr>outp := outp ?w3 @ response_bytes L rid (PushBatchComplete 1 (length (concat cs)))\<rparr>)"
    by (rule calm_send_response) (use calm small(2) in simp_all)
  have "handle_push_batch L rid dest [root] [entry] w =
      (Inr (), ?w3\<lparr>outp := outp ?w3 @ response_bytes L rid (PushBatchComplete 1 (length (concat cs)))\<rparr>)"
    using roots ready recv eof fin
    by (simp add: handle_push_batch_def bindE_Inr thenE_Inr del: length_concat)
  with nd show ?thesis by (auto simp: look_set_node)
qed

end
