(* ===== verification/Cli_Registry.thy ===== *)
theory Cli_Registry
  imports Daemon_Transfer
begin

text \<open>
  The client's registry of targets (\<open>crates/rsdb-cli/src/main.rs\<close>): addresses and their normal
  forms, the file \<open>targets.json\<close>, and the commands \<open>connect\<close>, \<open>disconnect\<close> and \<open>devices\<close>. The
  world is the client's own host. What the network says (the discovery reply and the answer to
  a ping) is an argument of a command, as a function of the address asked; \<open>serde_json\<close> on the
  registry is a parameter, \<open>debug\<close> is \<open>{:?}\<close> of a response, and the rows of \<open>devices\<close> are returned before they are padded for printing.
\<close>

section \<open>Addresses\<close>

text \<open>
  An IP address is its canonical text; \<open>parse_ip\<close> and \<open>parse_socket\<close> are \<open>str::parse\<close> for
  \<open>IpAddr\<close> and \<open>SocketAddr\<close>.
\<close>

record stored_target =
  t_name :: string
  t_addr :: string

record registry =
  targets :: "stored_target list"
  current_target :: "string option"

record cli_libs =
  parse_ip :: "string \<Rightarrow> string option"
  parse_socket :: "string \<Rightarrow> (string \<times> u16) option"
  registry_to_string :: "registry \<Rightarrow> string + string"
  registry_from_str :: "string \<Rightarrow> string + registry"

definition DEFAULT_RSDB_PORT :: u16 where
  "DEFAULT_RSDB_PORT = 27101"

text \<open>\<open>SocketAddr\<close>'s \<open>to_string\<close>: an IPv6 address is bracketed.\<close>

definition show_socket :: "string \<Rightarrow> u16 \<Rightarrow> string" where
  "show_socket ip port =
     (if CHR '':'' \<in> set ip then ''['' @ ip @ '']'' else ip) @ '':'' @ show_nat (unat port)"

definition has_port_suffix :: "string \<Rightarrow> bool" where
  "has_port_suffix s =
     (case rsplit_once (CHR '':'') s of
        None \<Rightarrow> False
      | Some (host, port) \<Rightarrow> host \<noteq> [] \<and> parse_unsigned 10 65536 port \<noteq> None)"

definition normalize_connect_addr :: "cli_libs \<Rightarrow> string \<Rightarrow> string" where
  "normalize_connect_addr C s =
     (case parse_socket C s of
        Some (ip, port) \<Rightarrow> show_socket ip port
      | None \<Rightarrow>
          (case parse_ip C s of
             Some ip \<Rightarrow> show_socket ip DEFAULT_RSDB_PORT
           | None \<Rightarrow>
               if has_port_suffix s then s
               else s @ '':'' @ show_nat (unat DEFAULT_RSDB_PORT)))"

definition normalize_target_addr :: "cli_libs \<Rightarrow> string \<Rightarrow> anyhow + string" where
  "normalize_target_addr C s =
     (case parse_socket C s of
        Some (ip, port) \<Rightarrow> Inr (show_socket ip port)
      | None \<Rightarrow>
          (case parse_ip C s of
             Some ip \<Rightarrow> Inr (show_socket ip DEFAULT_RSDB_PORT)
           | None \<Rightarrow>
               if has_port_suffix s then Inr s
               else Inl (anyhow_msg ''target must be an address like <ip> or <ip>:<port>'')))"

definition display_socket_addr :: "string \<Rightarrow> u16 \<Rightarrow> string" where
  "display_socket_addr ip port = (if port = DEFAULT_RSDB_PORT then ip else show_socket ip port)"

definition display_addr :: "cli_libs \<Rightarrow> string \<Rightarrow> string" where
  "display_addr C addr =
     (case parse_socket C addr of Some (ip, port) \<Rightarrow> display_socket_addr ip port | None \<Rightarrow> addr)"

text \<open>Each character that is not an ASCII letter or digit becomes one dash.\<close>

definition is_alnum :: "char \<Rightarrow> bool" where
  "is_alnum c \<longleftrightarrow>
     (let n = (of_char c :: nat) in
        0x61 \<le> n \<and> n \<le> 0x7A \<or> 0x41 \<le> n \<and> n \<le> 0x5A \<or> 0x30 \<le> n \<and> n \<le> 0x39)"

definition utf8_continues :: "char \<Rightarrow> bool" where
  "utf8_continues c \<longleftrightarrow> 0x80 \<le> (of_char c :: nat) \<and> (of_char c :: nat) < 0xC0"

definition default_name :: "string \<Rightarrow> string" where
  "default_name addr =
     map (\<lambda>c. if is_alnum c then c else CHR ''-'') (filter (\<lambda>c. \<not> utf8_continues c) addr)"

definition is_legacy_auto_name :: "string \<Rightarrow> string \<Rightarrow> bool" where
  "is_legacy_auto_name name addr \<longleftrightarrow> name = default_name addr"

definition protocol_warning_label :: "u16 \<Rightarrow> string" where
  "protocol_warning_label v =
     ''protocol mismatch (host='' @ show_nat (unat PROTOCOL_VERSION) @ '' daemon=''
     @ show_nat (unat v) @ '')''"

definition protocol_warning_text :: "u16 \<Rightarrow> string option" where
  "protocol_warning_text v = (if v \<noteq> PROTOCOL_VERSION then Some (protocol_warning_label v) else None)"

section \<open>The registry\<close>

fun position :: "('a \<Rightarrow> bool) \<Rightarrow> 'a list \<Rightarrow> nat option" where
  "position P [] = None"
| "position P (x # xs) = (if P x then Some 0 else map_option Suc (position P xs))"

definition remove_at :: "nat \<Rightarrow> 'a list \<Rightarrow> 'a list" where
  "remove_at i xs = take i xs @ drop (Suc i) xs"

definition primary_target_index :: "registry \<Rightarrow> nat option" where
  "primary_target_index r =
     (let fallback = (if targets r = [] then None else Some (length (targets r) - 1)) in
      case current_target r of
        None \<Rightarrow> fallback
      | Some current \<Rightarrow>
          (case position (\<lambda>t. t_addr t = current) (targets r) of
             Some i \<Rightarrow> Some i
           | None \<Rightarrow>
               (case position (\<lambda>t. t_name t = current) (targets r) of
                  Some i \<Rightarrow> Some i
                | None \<Rightarrow> fallback)))"

definition primary_target :: "registry \<Rightarrow> stored_target option" where
  "primary_target r = map_option (\<lambda>i. targets r ! i) (primary_target_index r)"

definition find_target_index_by_addr :: "cli_libs \<Rightarrow> registry \<Rightarrow> string \<Rightarrow> anyhow + nat option" where
  "find_target_index_by_addr C r selector =
     (case normalize_target_addr C selector of
        Inl e \<Rightarrow> Inl e
      | Inr normalized \<Rightarrow> Inr (position (\<lambda>t. t_addr t = normalized) (targets r)))"

definition dedup_push :: "stored_target \<Rightarrow> stored_target list \<Rightarrow> stored_target list" where
  "dedup_push target deduped =
     (case position (\<lambda>entry. t_addr entry = t_addr target) deduped of
        Some i \<Rightarrow> remove_at i deduped
      | None \<Rightarrow> deduped) @ [target]"

definition last_addr :: "stored_target list \<Rightarrow> string option" where
  "last_addr ts = (if ts = [] then None else Some (t_addr (last ts)))"

definition normalize_registry :: "registry \<Rightarrow> registry" where
  "normalize_registry r =
     (let current_addr = map_option t_addr (primary_target r);
          deduped = fold dedup_push (targets r) []
      in \<lparr>targets = deduped,
          current_target =
            (case current_addr of
               Some a \<Rightarrow> if list_ex (\<lambda>t. t_addr t = a) deduped then Some a else last_addr deduped
             | None \<Rightarrow> last_addr deduped)\<rparr>)"

definition default_registry :: registry where
  "default_registry = \<lparr>targets = [], current_target = None\<rparr>"

type_synonym environ = "string \<Rightarrow> string option"

definition config_dir :: "environ \<Rightarrow> anyhow + string" where
  "config_dir E =
     (case E ''XDG_CONFIG_HOME'' of
        Some path \<Rightarrow> Inr (path_join path ''rsdb'')
      | None \<Rightarrow>
          (case E ''HOME'' of
             None \<Rightarrow> Inl (anyhow_msg ''HOME is not set'')
           | Some home \<Rightarrow> Inr (path_join (path_join home ''.config'') ''rsdb'')))"

definition registry_path :: "environ \<Rightarrow> anyhow + string" where
  "registry_path E =
     (case config_dir E of Inl e \<Rightarrow> Inl e | Inr dir \<Rightarrow> Inr (path_join dir ''targets.json''))"

text \<open>\<open>std::fs::write\<close>.\<close>

definition fs_write_file :: "string \<Rightarrow> bytes \<Rightarrow> unit io" where
  "fs_write_file path bs = bindE (sys_open_truncate path 0x1B6) (\<lambda>q. file_write_all q bs)"

definition write_registry :: "cli_libs \<Rightarrow> string \<Rightarrow> registry \<Rightarrow> unit app" where
  "write_registry C path r =
     (case parent_path path of
        None \<Rightarrow> failE (anyhow_msg (''registry path has no parent: '' @ display path))
      | Some parent \<Rightarrow>
          thenE (ctx (''failed to create config dir '' @ display parent) (create_dir_all parent))
            (case registry_to_string C r of
               Inl e \<Rightarrow> failE (anyhow_msg e)
             | Inr contents \<Rightarrow>
                 ctx (''failed to write registry file '' @ display path)
                   (fs_write_file path (as_bytes contents))))"

definition load_registry :: "cli_libs \<Rightarrow> environ \<Rightarrow> registry app" where
  "load_registry C E =
     bindE (liftE (registry_path E)) (\<lambda>path.
     bindE (path_exists path) (\<lambda>ex.
     if \<not> ex then retE default_registry
     else
       bindE (ctx (''failed to read registry file '' @ display path) (read_to_string path)) (\<lambda>contents.
       case registry_from_str C contents of
         Inl e \<Rightarrow> failE (context_msg (''invalid '' @ display path) (anyhow_msg e))
       | Inr r \<Rightarrow>
           let normalized = normalize_registry r
           in thenE (if normalized \<noteq> r then write_registry C path normalized else retE ())
                (retE normalized))))"

definition save_registry :: "cli_libs \<Rightarrow> environ \<Rightarrow> registry \<Rightarrow> unit app" where
  "save_registry C E r =
     bindE (liftE (registry_path E)) (\<lambda>path. write_registry C path (normalize_registry r))"

definition resolve_target :: "cli_libs \<Rightarrow> environ \<Rightarrow> string option \<Rightarrow> string app" where
  "resolve_target C E input =
     (case input of
        Some s \<Rightarrow> liftE (normalize_target_addr C s)
      | None \<Rightarrow>
          bindE (load_registry C E) (\<lambda>r.
          case primary_target r of
            Some t \<Rightarrow> retE (t_addr t)
          | None \<Rightarrow> failE (anyhow_msg ''no saved targets; use `rsdb connect <addr>` first'')))"

section \<open>Commands\<close>

record discovered_target =
  dt_server_id :: string
  dt_device_name :: string
  dt_ip :: string
  dt_port :: u16
  dt_platform :: string
  dt_protocol_version :: u16
  dt_features :: "string list"

text \<open>The name a newly connected target gets.\<close>

definition connect_name ::
  "string option \<Rightarrow> registry \<Rightarrow> discovered_target option \<Rightarrow> string \<Rightarrow> string" where
  "connect_name requested r discovered addr =
     (case requested of
        Some name \<Rightarrow> name
      | None \<Rightarrow>
          (case find (\<lambda>t. t_addr t = addr) (targets r) of
             Some t \<Rightarrow>
               if \<not> is_legacy_auto_name (t_name t) addr then t_name t
               else (case discovered of
                       Some d \<Rightarrow> if trim (dt_device_name d) \<noteq> [] then dt_device_name d else default_name addr
                     | None \<Rightarrow> default_name addr)
           | None \<Rightarrow>
               (case discovered of
                  Some d \<Rightarrow> if trim (dt_device_name d) \<noteq> [] then dt_device_name d else default_name addr
                | None \<Rightarrow> default_name addr)))"

definition connect_update ::
  "string option \<Rightarrow> discovered_target option \<Rightarrow> string \<Rightarrow> registry \<Rightarrow> registry" where
  "connect_update requested discovered addr r =
     r\<lparr>targets := filter (\<lambda>t. t_addr t \<noteq> addr) (targets r)
          @ [\<lparr>t_name = connect_name requested r discovered addr, t_addr = addr\<rparr>],
       current_target := Some addr\<rparr>"

text \<open>The result is what is printed: the warning on a protocol mismatch, and the line of success.\<close>

definition connect_command ::
  "cli_libs \<Rightarrow> environ \<Rightarrow> (string \<Rightarrow> discovered_target option) \<Rightarrow>
   (string \<Rightarrow> anyhow + control_response) \<Rightarrow> (control_response \<Rightarrow> string) \<Rightarrow> string \<Rightarrow>
   string option \<Rightarrow> (string option \<times> string) app" where
  "connect_command C E discover ping debug input requested =
     (let addr = normalize_connect_addr C input in
      bindE (liftE (ping addr)) (\<lambda>response.
      case response of
        Pong _ version \<Rightarrow>
          bindE (load_registry C E) (\<lambda>r.
          thenE (save_registry C E (connect_update requested (discover addr) addr r))
            (retE (map_option (\<lambda>label. ''warning: '' @ label
                     @ ''; commands may fail until rsdb and rsdbd are updated together'')
                     (protocol_warning_text version),
                   ''connected '' @ connect_name requested r (discover addr) addr @ '' -> ''
                     @ display_addr C addr)))
      | other \<Rightarrow> failE (anyhow_msg (''unexpected response from daemon: '' @ debug other))))"

definition disconnect_update :: "nat \<Rightarrow> registry \<Rightarrow> registry" where
  "disconnect_update i r =
     (let target = targets r ! i;
          rest = remove_at i (targets r)
      in \<lparr>targets = rest,
          current_target =
            (if rest = [] then None
             else if current_target r = Some (t_addr target) \<or> current_target r = Some (t_name target)
             then last_addr rest
             else current_target r)\<rparr>)"

definition disconnect_command :: "cli_libs \<Rightarrow> environ \<Rightarrow> string option \<Rightarrow> string app" where
  "disconnect_command C E name =
     bindE (load_registry C E) (\<lambda>r.
     bindE (liftE (case name of
                     Some selector \<Rightarrow> find_target_index_by_addr C r selector
                   | None \<Rightarrow> Inr (primary_target_index r))) (\<lambda>index.
     case index of
       None \<Rightarrow> failE (anyhow_msg ''no saved targets; use `rsdb connect <addr>` first'')
     | Some i \<Rightarrow>
         thenE (save_registry C E (disconnect_update i r))
           (retE (''disconnected '' @ t_name (targets r ! i)))))"

record device_status_row =
  ds_display_name :: string
  ds_addr :: string
  ds_status :: string
  ds_warning :: string

text \<open>\<open>probe_saved_target\<close>: the new name if there is one, and the row to show.\<close>

definition probe_saved_target ::
  "cli_libs \<Rightarrow> (string \<Rightarrow> discovered_target option) \<Rightarrow> (string \<Rightarrow> anyhow + control_response) \<Rightarrow>
   (control_response \<Rightarrow> string) \<Rightarrow> stored_target \<Rightarrow> string option \<times> device_status_row" where
  "probe_saved_target C discover ping debug target =
     (case discover (t_addr target) of
        Some d \<Rightarrow>
          (if is_legacy_auto_name (t_name target) (t_addr target) \<and> dt_device_name d \<noteq> t_name target
           then Some (dt_device_name d) else None,
           \<lparr>ds_display_name = dt_device_name d, ds_addr = display_addr C (t_addr target),
            ds_status = ''online'',
            ds_warning = (case protocol_warning_text (dt_protocol_version d) of Some m \<Rightarrow> m | None \<Rightarrow> [])\<rparr>)
      | None \<Rightarrow>
          (None,
           \<lparr>ds_display_name = t_name target, ds_addr = display_addr C (t_addr target),
            ds_status =
              (case ping (t_addr target) of
                 Inr (Pong _ _) \<Rightarrow> ''online''
               | Inr other \<Rightarrow> ''unexpected ('' @ debug other @ '')''
               | Inl err \<Rightarrow> ''offline ('' @ anyhow_display err @ '')''),
            ds_warning = []\<rparr>))"

text \<open>The rows: the probed current target if there is one, and the other targets as saved.\<close>

definition devices_command ::
  "cli_libs \<Rightarrow> environ \<Rightarrow> (string \<Rightarrow> discovered_target option) \<Rightarrow>
   (string \<Rightarrow> anyhow + control_response) \<Rightarrow> (control_response \<Rightarrow> string) \<Rightarrow>
   (device_status_row option \<times> (string \<times> string) list) app" where
  "devices_command C E discover ping debug =
     bindE (load_registry C E) (\<lambda>r.
     if targets r = [] then retE (None, [])
     else
       let current_addr = map_option t_addr (primary_target r) in
       case position (\<lambda>t. current_addr = Some (t_addr t)) (targets r) of
         None \<Rightarrow> retE (None, map (\<lambda>t. (display_addr C (t_addr t), t_name t)) (targets r))
       | Some i \<Rightarrow>
           (case probe_saved_target C discover ping debug (targets r ! i) of (updated_name, row) \<Rightarrow>
              let r' = (case updated_name of
                          Some name \<Rightarrow> r\<lparr>targets := (targets r)[i := (targets r ! i)\<lparr>t_name := name\<rparr>]\<rparr>
                        | None \<Rightarrow> r)
              in thenE (if updated_name \<noteq> None then save_registry C E r' else retE ())
                   (retE (Some row,
                      map (\<lambda>t. (display_addr C (t_addr t), t_name t))
                        (filter (\<lambda>t. current_addr \<noteq> Some (t_addr t)) (targets r'))))))"

end
