(* ===== verification/Cli_Registry_Facts.thy ===== *)
theory Cli_Registry_Facts
  imports Cli_Registry Daemon_Transfer_Facts Samples
begin

text \<open>
  What the registry of targets guarantees: its normal form, that what a command saves is what
  the next command loads, that \<open>connect\<close> and \<open>disconnect\<close> do to it what they say, and that the
  addresses it keeps are in a form that the other commands accept.
\<close>

section \<open>Normal form\<close>

definition registry_ok :: "registry \<Rightarrow> bool" where
  "registry_ok r \<longleftrightarrow>
     distinct (map t_addr (targets r)) \<and>
     (case current_target r of
        None \<Rightarrow> targets r = []
      | Some a \<Rightarrow> a \<in> t_addr ` set (targets r))"

lemma position_None: "position P xs = None \<longleftrightarrow> (\<forall>x \<in> set xs. \<not> P x)"
  by (induction xs) auto

lemma position_Some:
  "position P xs = Some i \<Longrightarrow> i < length xs \<and> P (xs ! i)"
  by (induction xs arbitrary: i) (auto split: if_splits)

lemma remove_at_filter:
  assumes "distinct (map f xs)" "position (\<lambda>e. f e = a) xs = Some i"
  shows "remove_at i xs = filter (\<lambda>e. f e \<noteq> a) xs"
  using assms
proof (induction xs arbitrary: i)
  case (Cons x xs)
  show ?case
  proof (cases "f x = a")
    case True
    with Cons.prems(1) have "\<forall>e \<in> set xs. f e \<noteq> a" by (metis distinct.simps(2) image_eqI list.map(2) list.set_map)
    with True Cons.prems show ?thesis by (simp add: remove_at_def)
  next
    case False
    with Cons show ?thesis by (auto simp: remove_at_def)
  qed
qed simp

lemma dedup_push_filter:
  "distinct (map t_addr ts) \<Longrightarrow> dedup_push t ts = filter (\<lambda>e. t_addr e \<noteq> t_addr t) ts @ [t]"
  by (auto simp: dedup_push_def remove_at_filter position_None filter_id_conv split: option.split)

lemma fold_dedup:
  "distinct (map t_addr acc) \<Longrightarrow>
     distinct (map t_addr (fold dedup_push ts acc)) \<and>
     t_addr ` set (fold dedup_push ts acc) = t_addr ` set acc \<union> t_addr ` set ts \<and>
     (ts \<noteq> [] \<longrightarrow> last (fold dedup_push ts acc) = last ts)"
proof (induction ts arbitrary: acc)
  case (Cons t ts)
  have d: "distinct (map t_addr (dedup_push t acc))"
    using Cons.prems by (auto simp: dedup_push_filter distinct_map_filter)
  have s: "t_addr ` set (dedup_push t acc) = insert (t_addr t) (t_addr ` set acc)"
    using Cons.prems by (auto simp: dedup_push_filter)
  have l: "last (dedup_push t acc) = t" by (simp add: dedup_push_def)
  from Cons.IH [OF d] s l show ?case by (cases ts) auto
qed simp

lemma fold_dedup_distinct:
  "distinct (map t_addr (acc @ ts)) \<Longrightarrow> fold dedup_push ts acc = acc @ ts"
proof (induction ts arbitrary: acc)
  case (Cons t ts)
  have "t_addr t \<notin> t_addr ` set acc" "distinct (map t_addr acc)" using Cons.prems by auto
  moreover from this have "\<forall>e \<in> set acc. t_addr e \<noteq> t_addr t" by (metis image_eqI)
  ultimately have "dedup_push t acc = acc @ [t]" by (simp add: dedup_push_filter filter_id_conv)
  with Cons show ?case by simp
qed simp

lemma primary_in:
  assumes "primary_target r = Some t"
  shows "t \<in> set (targets r)"
proof -
  from assms obtain i where i: "primary_target_index r = Some i" "t = targets r ! i"
    by (auto simp: primary_target_def)
  have "i < length (targets r)"
    using i(1) by (auto simp: primary_target_index_def Let_def split: option.splits if_splits dest: position_Some)
  with i show ?thesis by simp
qed

lemma primary_None: "primary_target r = None \<longleftrightarrow> targets r = []"
  by (auto simp: primary_target_def primary_target_index_def Let_def split: option.splits)

lemma primary_ok:
  assumes "registry_ok r"
  shows "map_option t_addr (primary_target r) = current_target r"
proof (cases "current_target r")
  case None
  with assms show ?thesis
    by (simp add: registry_ok_def primary_target_def primary_target_index_def)
next
  case (Some a)
  with assms have "position (\<lambda>t. t_addr t = a) (targets r) \<noteq> None"
    by (auto simp: registry_ok_def position_None)
  then obtain i where "position (\<lambda>t. t_addr t = a) (targets r) = Some i" by blast
  with Some position_Some [OF this] show ?thesis
    by (simp add: primary_target_def primary_target_index_def)
qed

lemma normalize_current:
  "current_target (normalize_registry r) = map_option t_addr (primary_target r)"
proof (cases "primary_target r")
  case None
  then have "targets r = []" by (simp add: primary_None)
  with None show ?thesis by (simp add: normalize_registry_def Let_def last_addr_def)
next
  case (Some t)
  have "t_addr t \<in> t_addr ` set (fold dedup_push (targets r) [])"
    using primary_in [OF Some] fold_dedup [of "[]" "targets r"] by simp
  then have "list_ex (\<lambda>x. t_addr x = t_addr t) (fold dedup_push (targets r) [])"
    by (auto simp: list_ex_iff)
  with Some show ?thesis by (simp add: normalize_registry_def Let_def)
qed

lemma normalize_ok: "registry_ok (normalize_registry r)"
proof -
  have t: "targets (normalize_registry r) = fold dedup_push (targets r) []"
    by (simp add: normalize_registry_def Let_def)
  show ?thesis
  proof (cases "primary_target r")
    case None
    then have "targets r = []" by (simp add: primary_None)
    with None show ?thesis using t normalize_current [of r] by (simp add: registry_ok_def)
  next
    case (Some p)
    with t normalize_current [of r] fold_dedup [of "[]" "targets r"] primary_in [OF Some] show ?thesis
      by (auto simp: registry_ok_def)
  qed
qed

lemma normalize_id:
  assumes "registry_ok r"
  shows "normalize_registry r = r"
proof -
  have "targets (normalize_registry r) = targets r"
    using assms fold_dedup_distinct [of "[]" "targets r"]
    by (simp add: normalize_registry_def Let_def registry_ok_def)
  moreover have "current_target (normalize_registry r) = current_target r"
    using primary_ok [OF assms] by (simp add: normalize_current)
  ultimately show ?thesis by simp
qed


section \<open>What is saved is what is loaded\<close>

text \<open>What the code relies on of \<open>serde_json\<close>: it prints UTF-8 and reads back what it printed.\<close>

definition registry_json :: "cli_libs \<Rightarrow> bool" where
  "registry_json C \<longleftrightarrow>
     (\<forall>r s. registry_to_string C r = Inr s \<longrightarrow> registry_from_str C s = Inr r \<and> is_utf8 s)"

definition regular_at :: "world \<Rightarrow> string \<Rightarrow> bytes \<Rightarrow> bool" where
  "regular_at w path bs \<longleftrightarrow>
     (\<exists>q nd. resolve w True path = Inr q \<and> look w q = Some nd \<and> i_type nd = FtFile \<and> i_data nd = bs)"

lemma calm_write_file:
  assumes calm: "sched w = []" and run: "fs_write_file path bs w = (Inr u, v)"
    and reg: "regular_at v path bs'"
  shows "regular_at v path bs"
proof -
  from run obtain q w1 where op: "sys_open_truncate path 0x1B6 w = (Inr q, w1)"
    and wr: "file_write_all q bs w1 = (Inr u, v)"
    by (auto simp: fs_write_file_def bindE_eq_Inr_iff)
  have q: "resolve w True path = Inr q"
    using op calm by (auto simp: sys_open_truncate_def split: sum.splits option.splits prod.splits file_type.splits)
  from op calm q consider
      (set) nd0 where "w1 = set_node q nd0 w" "i_type nd0 = FtFile" "i_data nd0 = []"
        "look w q = None \<or> (\<exists>old. look w q = Some old \<and> plain_node old)"
    | (kept) nd where "look w q = Some nd" "i_type nd \<noteq> FtFile" "w1 = w"
    by (cases "look w q")
      (auto simp: sys_open_truncate_def link_new_def new_inode_def plain_node_def
        split: if_splits file_type.splits)
  then show ?thesis
  proof cases
    case (set nd0)
    have "v = file_append q bs w1"
      using wr calm set(1) by (simp add: file_write_all_def)
    then obtain nd1 where nd1: "v = set_node q nd1 w" "i_type nd1 = FtFile" "i_data nd1 = bs"
      using set by (auto simp: file_append_def look_set_node)
    have "walk_stable (look w) (look (set_node q nd1 w))"
      using nd1 set(4) by (intro stable_set_plain) (auto simp: plain_node_def)
    from resolve_stable(1) [OF this _ q] nd1 show ?thesis
      by (auto simp: regular_at_def look_set_node)
  next
    case (kept nd)
    with wr calm have "v = w" by (simp add: file_write_all_def file_append_def)
    with reg q kept show ?thesis by (auto simp: regular_at_def)
  qed
qed

lemma calm_read_to_string:
  assumes "sched w = []" "regular_at w path (as_bytes s)" "is_utf8 s"
  shows "read_to_string path w = (Inr s, w)"
proof -
  from assms(2) obtain q nd where q: "resolve w True path = Inr q" "look w q = Some nd"
    "i_type nd = FtFile" "i_data nd = as_bytes s"
    by (auto simp: regular_at_def)
  with calm_open_read [OF assms(1) q(1,2)] calm_hash_loop [OF assms(1), of "(nd, as_bytes s)" "[]"] assms(3)
  show ?thesis by (simp add: read_to_string_def bindE_Inr is_utf8_def)
qed

lemma calm_exists: "sched w = [] \<Longrightarrow> regular_at w path bs \<Longrightarrow> path_exists path w = (Inr True, w)"
  by (auto simp: path_exists_def regular_at_def bindE_def tryE_def calm_stat)

lemma calm_load:
  assumes calm: "sched w = []" and path: "registry_path E = Inr path"
    and at: "regular_at w path (as_bytes s)" "is_utf8 s" and s: "registry_from_str C s = Inr r"
    and ok: "registry_ok r"
  shows "load_registry C E w = (Inr r, w)"
  using calm_exists [OF calm at(1)] calm_read_to_string [OF calm at] path s normalize_id [OF ok]
  by (simp add: load_registry_def bindE_def thenE_def ctx_def map_errE_def)

lemma calm_save_then_load:
  assumes C: "registry_json C" and calm: "sched w = []" and path: "registry_path E = Inr path"
    and run: "save_registry C E r w = (Inr u, v)" and reg: "regular_at v path bs'"
  shows "sched v = []" "load_registry C E v = (Inr (normalize_registry r), v)"
proof -
  from run path obtain parent a w1 s where dir: "create_dir_all parent w = (Inr a, w1)"
    and s: "registry_to_string C (normalize_registry r) = Inr s"
    and wr: "fs_write_file path (as_bytes s) w1 = (Inr u, v)"
    by (auto simp: save_registry_def write_registry_def bindE_eq_Inr_iff thenE_eq_Inr_iff
        split: option.splits sum.splits)
  have w1: "sched w1 = []"
    using keepsD [OF calm_create_dir_all dir] calm by (simp add: stays_calm_def)
  have "keeps stays_calm (fs_write_file path (as_bytes s))"
    unfolding fs_write_file_def by (intro calm_eff.keeps_bind calm_open_truncate calm_file_write)
  from keepsD [OF this wr] w1 show v: "sched v = []" by (simp add: stays_calm_def)
  have at: "regular_at v path (as_bytes s)"
    by (rule calm_write_file [OF w1 wr reg])
  from C s have "registry_from_str C s = Inr (normalize_registry r)" "is_utf8 s"
    by (auto simp: registry_json_def)
  with calm_load [OF v path at] show "load_registry C E v = (Inr (normalize_registry r), v)"
    by (simp add: normalize_ok)
qed

lemma calm_read_string: "keeps stays_calm (read_to_string path)"
  unfolding read_to_string_def
  by (intro calm_eff.keeps_bind calm_eff.keeps_ret calm_eff.keeps_fail keeps_if keeps_only_sched(1)
      keeps_only_open_read keeps_hash_loop)

lemma calm_write_registry: "keeps stays_calm (write_registry C path r)"
  unfolding write_registry_def fs_write_file_def
  by (intro keeps_case_option keeps_case_sum calm_eff.keeps_fail calm_eff.keeps_then calm_eff.keeps_bind keeps_app
      calm_create_dir_all calm_open_truncate calm_file_write)

lemma calm_load_registry: "keeps stays_calm (load_registry C E)"
  unfolding load_registry_def Let_def
  by (intro calm_eff.keeps_bind calm_eff.keeps_then calm_eff.keeps_lift calm_eff.keeps_ret calm_eff.keeps_fail
      keeps_if keeps_case_sum keeps_app calm_read_string calm_write_registry keeps_only_sched(1) only_path_exists)

lemma load_registry_ok:
  assumes "load_registry C E w = (Inr r, v)"
  shows "registry_ok r"
proof -
  from assms obtain path ex w1 where go: "(if \<not> ex then retE default_registry
      else bindE (ctx (''failed to read registry file '' @ display path) (read_to_string path)) (\<lambda>contents.
        case registry_from_str C contents of
          Inl e \<Rightarrow> failE (context_msg (''invalid '' @ display path) (anyhow_msg e))
        | Inr r \<Rightarrow>
            let normalized = normalize_registry r
            in thenE (if normalized \<noteq> r then write_registry C path normalized else retE ())
                 (retE normalized))) w1 = (Inr r, v)"
    by (auto simp: load_registry_def elim!: bindE_InrE)
  show ?thesis
  proof (cases ex)
    case False
    with go show ?thesis by (auto simp: default_registry_def registry_ok_def)
  next
    case True
    with go obtain contents w2 where "(case registry_from_str C contents of
          Inl e \<Rightarrow> failE (context_msg (''invalid '' @ display path) (anyhow_msg e))
        | Inr r \<Rightarrow>
            let normalized = normalize_registry r
            in thenE (if normalized \<noteq> r then write_registry C path normalized else retE ())
                 (retE normalized)) w2 = (Inr r, v)"
      by (auto elim!: bindE_InrE simp del: failE_run retE_run)
    then show ?thesis
      by (cases "registry_from_str C contents") (auto simp: Let_def normalize_ok elim!: thenE_InrE)
  qed
qed

text \<open>
  C30: after a successful \<open>connect\<close>, every later command without an explicit target uses the
  address just connected, in its normal form; the registry then holds that address once, with
  the name that \<open>connect\<close> printed, and every other target as it was, in its old order.
\<close>
theorem connect_then_resolve:
  assumes C: "registry_json C" and calm: "sched w = []" and path: "registry_path E = Inr path"
    and before: "load_registry C E w = (Inr r, w0)"
    and run: "connect_command C E discover ping debug input requested w = (Inr out, v)"
    and reg: "regular_at v path bs'"
  shows "resolve_target C E None v = (Inr (normalize_connect_addr C input), v) \<and>
    (\<exists>r'. load_registry C E v = (Inr r', v) \<and>
       targets r' = filter (\<lambda>t. t_addr t \<noteq> normalize_connect_addr C input) (targets r)
         @ [\<lparr>t_name = connect_name requested r (discover (normalize_connect_addr C input))
              (normalize_connect_addr C input), t_addr = normalize_connect_addr C input\<rparr>])"
proof -
  let ?a = "normalize_connect_addr C input"
  let ?r = "connect_update requested (discover ?a) ?a r"
  from run obtain response where "ping ?a = Inr response"
    by (auto simp: connect_command_def Let_def bindE_eq_Inr_iff)
  with run before obtain u where save: "save_registry C E ?r w0 = (Inr u, v)"
    by (cases response) (auto simp: connect_command_def Let_def bindE_eq_Inr_iff thenE_eq_Inr_iff)
  have "keeps stays_calm (load_registry C E)"
    by (rule calm_load_registry)
  from keepsD [OF this before] calm have w0: "sched w0 = []" by (simp add: stays_calm_def)
  have "registry_ok r"
    using load_registry_ok [OF before] .
  then have d: "distinct (map t_addr (targets ?r))"
    by (auto simp: connect_update_def registry_ok_def distinct_map_filter)
  then have ok: "registry_ok ?r"
    by (simp add: registry_ok_def connect_update_def)
  from calm_save_then_load [OF C w0 path save reg] normalize_id [OF ok] have
    ld: "load_registry C E v = (Inr ?r, v)" by simp
  have "map_option t_addr (primary_target ?r) = Some ?a"
    using primary_ok [OF ok] by (simp add: connect_update_def)
  with ld show ?thesis
    by (auto simp: resolve_target_def bindE_def connect_update_def)
qed

lemma position_distinct:
  "distinct (map f xs) \<Longrightarrow> i < length xs \<Longrightarrow> position (\<lambda>e. f e = f (xs ! i)) xs = Some i"
proof (induction xs arbitrary: i)
  case (Cons x xs)
  show ?case
  proof (cases i)
    case (Suc j)
    with Cons.prems have "f x \<noteq> f (xs ! j)" by (metis distinct.simps(2) image_eqI length_Cons list.map(2)
      list.set_map not_less_eq nth_mem)
    with Suc Cons show ?thesis by simp
  qed simp
qed simp

text \<open>
  A successful \<open>disconnect\<close> removes one target, the one whose normal-form address was named,
  or the primary one when none was named; the other targets stay as they were, and the
  registry that the next command loads has them and is in normal form.
\<close>
theorem disconnect_removes_one:
  assumes C: "registry_json C" and calm: "sched w = []" and path: "registry_path E = Inr path"
    and before: "load_registry C E w = (Inr r, w0)"
    and run: "disconnect_command C E name w = (Inr out, v)"
    and reg: "regular_at v path bs'"
  shows "\<exists>t r'. t \<in> set (targets r) \<and> out = ''disconnected '' @ t_name t \<and>
    (case name of
       None \<Rightarrow> primary_target r = Some t
     | Some selector \<Rightarrow> normalize_target_addr C selector = Inr (t_addr t)) \<and>
    load_registry C E v = (Inr r', v) \<and> registry_ok r' \<and>
    targets r' = filter (\<lambda>x. t_addr x \<noteq> t_addr t) (targets r)"
proof -
  have ok: "registry_ok r" by (rule load_registry_ok [OF before])
  from keepsD [OF calm_load_registry before] calm have w0: "sched w0 = []" by (simp add: stays_calm_def)
  let ?which = "case name of Some selector \<Rightarrow> find_target_index_by_addr C r selector
    | None \<Rightarrow> Inr (primary_target_index r)"
  from run before obtain i u where which: "?which = Inr (Some i)"
    and save: "save_registry C E (disconnect_update i r) w0 = (Inr u, v)"
    and out: "out = ''disconnected '' @ t_name (targets r ! i)"
    by (auto simp: disconnect_command_def bindE_eq_Inr_iff thenE_eq_Inr_iff split: option.splits)
  let ?t = "targets r ! i"
  have sel: "case name of None \<Rightarrow> primary_target r = Some ?t
     | Some selector \<Rightarrow> normalize_target_addr C selector = Inr (t_addr ?t)"
    using which position_Some
    by (fastforce simp: find_target_index_by_addr_def primary_target_def split: option.splits sum.splits)
  have i: "i < length (targets r)"
    using which position_Some
    by (auto simp: find_target_index_by_addr_def primary_target_index_def Let_def
        split: option.splits sum.splits if_splits)
  have rest: "targets (disconnect_update i r) = filter (\<lambda>x. t_addr x \<noteq> t_addr ?t) (targets r)"
    using remove_at_filter [OF _ position_distinct [OF _ i], of t_addr] ok
    by (simp add: disconnect_update_def Let_def registry_ok_def)
  then have "distinct (map t_addr (targets (disconnect_update i r)))"
    using ok by (simp add: registry_ok_def distinct_map_filter)
  then have "targets (normalize_registry (disconnect_update i r)) = targets (disconnect_update i r)"
    using fold_dedup_distinct [of "[]" "targets (disconnect_update i r)"]
    by (simp add: normalize_registry_def Let_def)
  with calm_save_then_load [OF C w0 path save reg] rest i out sel normalize_ok show ?thesis
    by (intro exI [of _ ?t] exI [of _ "normalize_registry (disconnect_update i r)"]) simp
qed


section \<open>Concrete runs\<close>

definition five :: stored_target where
  "five = \<lparr>t_name = ''10-0-0-5-27101'', t_addr = ''10.0.0.5:27101''\<rparr>"

definition five_registry :: registry where
  "five_registry = \<lparr>targets = [five], current_target = Some ''10.0.0.5:27101''\<rparr>"

definition sample_cli :: cli_libs where
  "sample_cli =
     \<lparr>parse_ip = (\<lambda>s. if s = ''10.0.0.5'' then Some s else None),
      parse_socket = (\<lambda>s. if s = ''10.0.0.5:27101'' then Some (''10.0.0.5'', 27101) else None),
      registry_to_string =
        (\<lambda>r. if r = five_registry then Inr ''5'' else if r = default_registry then Inr ''0'' else Inl ''x''),
      registry_from_str = (\<lambda>s. if s = ''5'' then Inr five_registry else Inr default_registry)\<rparr>"

definition sample_env :: environ where
  "sample_env name = (if name = ''XDG_CONFIG_HOME'' then Some ''/tmp'' else None)"

lemma sample_registry_json: "registry_json sample_cli"
proof -
  have "is_utf8 ''5''" "is_utf8 ''0''" by code_simp+
  then show ?thesis
    by (auto simp: registry_json_def sample_cli_def five_registry_def default_registry_def split: if_splits)
qed

lemma sample_registry_path: "registry_path sample_env = Inr ''/tmp/rsdb/targets.json''"
  by code_simp

definition connected_world :: world where
  "connected_world = snd (connect_command sample_cli sample_env (\<lambda>_. None) (\<lambda>_. Inr (Pong [] 2)) (\<lambda>_. [])
     ''10.0.0.5'' None sample_world)"

lemma connected_run:
  "fst (load_registry sample_cli sample_env sample_world) = Inr default_registry"
  "\<exists>out. fst (connect_command sample_cli sample_env (\<lambda>_. None) (\<lambda>_. Inr (Pong [] 2)) (\<lambda>_. [])
     ''10.0.0.5'' None sample_world) = Inr out"
  "resolve connected_world True ''/tmp/rsdb/targets.json'' = Inr [''tmp'', ''rsdb'', ''targets.json'']"
  "map_option i_type (look connected_world [''tmp'', ''rsdb'', ''targets.json'']) = Some FtFile"
proof -
  show "fst (load_registry sample_cli sample_env sample_world) = Inr default_registry" by code_simp
  show "\<exists>out. fst (connect_command sample_cli sample_env (\<lambda>_. None) (\<lambda>_. Inr (Pong [] 2)) (\<lambda>_. [])
     ''10.0.0.5'' None sample_world) = Inr out"
    by (rule exI [of _ "(None, ''connected 10-0-0-5-27101 -> 10.0.0.5'')"]) code_simp
  show "resolve connected_world True ''/tmp/rsdb/targets.json'' = Inr [''tmp'', ''rsdb'', ''targets.json'']"
    by code_simp
  show "map_option i_type (look connected_world [''tmp'', ''rsdb'', ''targets.json'']) = Some FtFile"
    by code_simp
qed

lemma connected_regular: "\<exists>bs. regular_at connected_world ''/tmp/rsdb/targets.json'' bs"
  using connected_run(3,4) by (auto simp: regular_at_def)

lemma sample_calm: "sched sample_world = []"
  by (simp add: sample_world_def world_of_def)

theorem connect_then_resolve_witness:
  "resolve_target sample_cli sample_env None connected_world = (Inr ''10.0.0.5:27101'', connected_world)"
proof -
  obtain w0 where before: "load_registry sample_cli sample_env sample_world = (Inr default_registry, w0)"
    using connected_run(1) by (metis prod.collapse)
  obtain out where run: "connect_command sample_cli sample_env (\<lambda>_. None) (\<lambda>_. Inr (Pong [] 2)) (\<lambda>_. [])
     ''10.0.0.5'' None sample_world = (Inr out, connected_world)"
    unfolding connected_world_def using connected_run(2) by (metis prod.collapse)
  obtain bs where reg: "regular_at connected_world ''/tmp/rsdb/targets.json'' bs"
    using connected_regular by blast
  have "normalize_connect_addr sample_cli ''10.0.0.5'' = ''10.0.0.5:27101''" by code_simp
  with connect_then_resolve [OF sample_registry_json sample_calm sample_registry_path before run reg]
  show ?thesis by simp
qed

end
