(* ===== verification/Ordered_Map.thy ===== *)
theory Ordered_Map
  imports Paths
begin

text \<open>
  \<open>std::collections::BTreeMap\<close>, which the client uses for what it discovers and for the state of
  a transferred tree: the interface its callers rely on as a locale, what follows from it for a
  map filled by a loop of insertions, and its model as an association list ordered by key.
  Strings are ordered by their bytes, as in Rust.
\<close>

locale ordered_map =
  fixes empty_map :: 'm
    and insert_map :: "'k :: linorder \<Rightarrow> 'v \<Rightarrow> 'm \<Rightarrow> 'm"
    and get_map :: "'m \<Rightarrow> 'k \<Rightarrow> 'v option"
    and iter_map :: "'m \<Rightarrow> ('k \<times> 'v) list"
    and map_ok :: "'m \<Rightarrow> bool"
  assumes ok_empty: "map_ok empty_map"
    and ok_insert: "map_ok m \<Longrightarrow> map_ok (insert_map k v m)"
    and get_empty: "get_map empty_map k = None"
    and get_insert: "map_ok m \<Longrightarrow> get_map (insert_map k v m) = (get_map m)(k \<mapsto> v)"
    and iter_sorted: "map_ok m \<Longrightarrow> sorted_wrt (<) (map fst (iter_map m))"
    and iter_get: "map_ok m \<Longrightarrow> (k, v) \<in> set (iter_map m) \<longleftrightarrow> get_map m k = Some v"
begin

definition insert_all :: "('k \<times> 'v) list \<Rightarrow> 'm \<Rightarrow> 'm" where
  "insert_all kvs m = fold (\<lambda>(k, v). insert_map k v) kvs m"

lemma insert_all_Cons: "insert_all ((k, v) # kvs) m = insert_all kvs (insert_map k v m)"
  by (simp add: insert_all_def)

lemma insert_all_get:
  "map_ok m \<Longrightarrow> map_ok (insert_all kvs m) \<and> get_map (insert_all kvs m) = get_map m ++ map_of (rev kvs)"
proof (induction kvs arbitrary: m)
  case (Cons kv kvs)
  obtain k v where kv: "kv = (k, v)" by force
  have "get_map m ++ map_of (rev (kv # kvs)) = get_map (insert_map k v m) ++ map_of (rev kvs)"
    using kv by (simp only: get_insert [OF Cons.prems]) simp
  with Cons.IH [OF ok_insert [OF Cons.prems, of k v]] kv show ?case
    by (simp only: insert_all_Cons)
qed (simp add: insert_all_def)

lemma iter_keys: "map_ok m \<Longrightarrow> set (map fst (iter_map m)) = dom (get_map m)"
  using iter_get by (auto simp: dom_def image_iff) (metis fst_conv)

lemma iter_distinct: "map_ok m \<Longrightarrow> distinct (map fst (iter_map m))"
  using iter_sorted by (simp add: strict_sorted_iff)

text \<open>The order of iteration is determined by what the map holds, not by how it was filled.\<close>

lemma iter_unique:
  assumes "map_ok m" "map_ok m'" "get_map m = get_map m'"
  shows "iter_map m = iter_map m'"
proof (rule map_sorted_distinct_set_unique [of fst])
  show "inj_on fst (set (iter_map m) \<union> set (iter_map m'))"
    using assms by (auto simp: inj_on_def iter_get)
  show "set (iter_map m) = set (iter_map m')" using assms by (auto simp: iter_get)
qed (use assms iter_sorted in \<open>auto simp: strict_sorted_iff\<close>)

end

fun btree_insert :: "'k :: linorder \<Rightarrow> 'v \<Rightarrow> ('k \<times> 'v) list \<Rightarrow> ('k \<times> 'v) list" where
  "btree_insert k v [] = [(k, v)]"
| "btree_insert k v ((k', v') # kvs) =
     (if k < k' then (k, v) # (k', v') # kvs
      else if k = k' then (k, v) # kvs
      else (k', v') # btree_insert k v kvs)"

abbreviation btree_ok :: "('k :: linorder \<times> 'v) list \<Rightarrow> bool" where
  "btree_ok m \<equiv> sorted_wrt (<) (map fst m)"

lemma btree_insert_keys: "fst ` set (btree_insert k v m) = insert k (fst ` set m)"
  by (induction k v m rule: btree_insert.induct) (simp_all add: insert_commute)

lemma btree_insert_ok: "btree_ok m \<Longrightarrow> btree_ok (btree_insert k v m)"
proof (induction m)
  case (Cons kv m)
  obtain k' v' where kv: "kv = (k', v')" by force
  have "\<forall>x \<in> fst ` set (btree_insert k v m). \<not> k < k' \<longrightarrow> k \<noteq> k' \<longrightarrow> k' < x"
    using Cons.prems kv by (auto simp: btree_insert_keys)
  with Cons kv show ?case by auto
qed simp

lemma btree_insert_get: "btree_ok m \<Longrightarrow> map_of (btree_insert k v m) = (map_of m)(k \<mapsto> v)"
  by (induction m) (auto simp: fun_eq_iff)

interpretation btree: ordered_map "[]" btree_insert map_of id btree_ok
proof unfold_locales
  fix m :: "('k :: linorder \<times> 'v) list" and k v
  assume "btree_ok m"
  then have "distinct (map fst m)" by (simp add: strict_sorted_iff)
  then show "(k, v) \<in> set (id m) \<longleftrightarrow> map_of m k = Some v" by simp
qed (simp_all add: btree_insert_ok btree_insert_get)

end
