(* ===== verification/Cli_Discovery.thy ===== *)
theory Cli_Discovery
  imports Cli_Registry Daemon Ordered_Map
begin

text \<open>
  Discovery, as the client does it (\<open>crates/rsdb-cli/src/main.rs\<close>): a probe to one address that
  waits for the answer with its nonce, and the command that probes one or two addresses at once
  and merges what the probing tasks find. The network is a record of what its calls answer. A
  socket gives the datagrams that arrive before the deadline, in order, each with the address of
  its sender, or an error; the end of the list is the deadline.
\<close>

type_synonym socket_addr = "string \<times> u16"

type_synonym arrivals = "(io_error + bytes \<times> string) list"

record udp_net =
  lookup_host :: "string \<Rightarrow> io_error + socket_addr list"
  udp_bind :: "string \<Rightarrow> io_error option"
  udp_set_broadcast :: "io_error option"
  udp_send_to :: "bytes \<Rightarrow> socket_addr \<Rightarrow> io_error option"
  udp_arrivals :: "socket_addr \<Rightarrow> bytes \<Rightarrow> arrivals"

text \<open>The clock is in nanoseconds since the epoch; \<open>as u64\<close> keeps the low 64 bits.\<close>

definition discovery_nonce :: "int \<Rightarrow> nat" where
  "discovery_nonce now = (if now < 0 then 0 else nat now mod 2 ^ 64)"

definition is_ipv6 :: "string \<Rightarrow> bool" where
  "is_ipv6 ip \<longleftrightarrow> CHR '':'' \<in> set ip"

definition discovery_bind_addr :: "string \<Rightarrow> string" where
  "discovery_bind_addr ip = (if is_ipv6 ip then ''[::]:0'' else ''0.0.0.0:0'')"

text \<open>\<open>result.with_context(|| m)?\<close> for a call that returns nothing.\<close>

definition check :: "string \<Rightarrow> io_error option \<Rightarrow> anyhow + unit" where
  "check m r = (case r of None \<Rightarrow> Inr () | Some e \<Rightarrow> Inl (io_context m e))"

definition and_then :: "'e + 'a \<Rightarrow> ('a \<Rightarrow> 'e + 'b) \<Rightarrow> 'e + 'b" where
  "and_then r f = (case r of Inl e \<Rightarrow> Inl e | Inr a \<Rightarrow> f a)"

text \<open>Sending a probe: bind, allow broadcasts if asked to, encode and send. The result is the datagram.\<close>

definition send_probe :: "libs \<Rightarrow> udp_net \<Rightarrow> bool \<Rightarrow> socket_addr \<Rightarrow> nat \<Rightarrow> anyhow + bytes" where
  "send_probe L N broadcast destination nonce =
     (let bind_addr = discovery_bind_addr (fst destination) in
      and_then (check (''failed to bind discovery socket on '' @ bind_addr) (udp_bind N bind_addr)) (\<lambda>_.
      and_then (if broadcast then check ''failed to enable UDP broadcast'' (udp_set_broadcast N) else Inr ()) (\<lambda>_.
      case encode_discovery_message (probe_to_vec L) (Probe nonce) of
        Inl e \<Rightarrow> Inl (context_msg ''failed to encode discovery probe'' (anyhow_protocol e))
      | Inr payload \<Rightarrow>
          and_then (check (''failed to send discovery probe to '' @ show_socket (fst destination) (snd destination))
                      (udp_send_to N payload destination)) (\<lambda>_.
          Inr payload))))"

definition target_of :: "discovery_response \<Rightarrow> string \<Rightarrow> discovered_target" where
  "target_of response peer_ip =
     \<lparr>dt_server_id = dr_server_id response, dt_device_name = dr_device_name response,
      dt_ip = peer_ip, dt_port = dr_tcp_port response, dt_platform = dr_platform response,
      dt_protocol_version = dr_protocol_version response, dt_features = dr_features response\<rparr>"

text \<open>What a received datagram announces to the probe with this nonce, if it does.\<close>

definition announcement :: "libs \<Rightarrow> nat \<Rightarrow> bytes \<Rightarrow> string \<Rightarrow> discovered_target option" where
  "announcement L nonce datagram peer_ip =
     (case decode_discovery_message (announce_from_slice L) (take DISCOVERY_BUFFER_LEN datagram) of
        Inl _ \<Rightarrow> None
      | Inr response \<Rightarrow> if dr_nonce response \<noteq> nonce then None else Some (target_of response peer_ip))"

section \<open>One address\<close>

primrec await_announcement :: "libs \<Rightarrow> nat \<Rightarrow> arrivals \<Rightarrow> anyhow + discovered_target option" where
  "await_announcement L nonce [] = Inr None"
| "await_announcement L nonce (received # later) =
     (case received of
        Inl e \<Rightarrow> Inl (io_context ''failed to receive discovery response'' e)
      | Inr (datagram, peer_ip) \<Rightarrow>
          (case announcement L nonce datagram peer_ip of
             None \<Rightarrow> await_announcement L nonce later
           | Some target \<Rightarrow> Inr (Some target)))"

definition discover_target_at ::
  "libs \<Rightarrow> udp_net \<Rightarrow> int \<Rightarrow> string \<Rightarrow> anyhow + discovered_target option" where
  "discover_target_at L N now addr =
     (case lookup_host N addr of
        Inl e \<Rightarrow> Inl (io_context (''failed to resolve discovery target '' @ addr) e)
      | Inr [] \<Rightarrow> Inl (anyhow_msg (''no socket addresses resolved for '' @ addr))
      | Inr (destination # _) \<Rightarrow>
          and_then (send_probe L N False destination (discovery_nonce now)) (\<lambda>payload.
          await_announcement L (discovery_nonce now) (udp_arrivals N destination payload)))"

section \<open>Several addresses\<close>

definition target_addr :: "discovered_target \<Rightarrow> string" where
  "target_addr t = show_socket (dt_ip t) (dt_port t)"

text \<open>What a probing task and the merge take for the same target.\<close>

definition once_key :: "discovered_target \<Rightarrow> string" where
  "once_key t = dt_server_id t @ ''@'' @ target_addr t"

definition merge_key :: "discovered_target \<Rightarrow> string" where
  "merge_key t = dt_device_name t @ ''@'' @ target_addr t"

text \<open>The loop of \<open>discover_targets_once\<close>: the targets sent to the channel, and how it ended.\<close>

primrec collect_announcements ::
  "libs \<Rightarrow> nat \<Rightarrow> arrivals \<Rightarrow> (string \<times> unit) list \<Rightarrow> discovered_target list \<times> (anyhow + unit)" where
  "collect_announcements L nonce [] discovered = ([], Inr ())"
| "collect_announcements L nonce (received # later) discovered =
     (case received of
        Inl e \<Rightarrow> ([], Inl (io_context ''failed to receive discovery response'' e))
      | Inr (datagram, peer_ip) \<Rightarrow>
          (case announcement L nonce datagram peer_ip of
             None \<Rightarrow> collect_announcements L nonce later discovered
           | Some target \<Rightarrow>
               let key = once_key target;
                   (sent, end) = collect_announcements L nonce later (btree_insert key () discovered)
               in (if map_of discovered key = None then target # sent else sent, end)))"

definition discover_targets_once ::
  "libs \<Rightarrow> udp_net \<Rightarrow> int \<Rightarrow> socket_addr \<Rightarrow> discovered_target list \<times> (anyhow + unit)" where
  "discover_targets_once L N now destination =
     (case send_probe L N (\<not> is_ipv6 (fst destination)) destination (discovery_nonce now) of
        Inl e \<Rightarrow> ([], Inl e)
      | Inr payload \<Rightarrow>
          collect_announcements L (discovery_nonce now) (udp_arrivals N destination payload) [])"

text \<open>
  What the loop that merges the tasks sees: a target from the channel, or a task that has
  ended. That the channel is closed while tasks are still to be joined only makes it loop
  again; it ends when the channel is closed and every task joined, the end of the list.
\<close>

datatype merge_event = Received discovered_target | Joined "anyhow + unit"

text \<open>The targets reported to the callback, in order, and the targets returned.\<close>

primrec merge_targets ::
  "merge_event list \<Rightarrow> (string \<times> discovered_target) list \<Rightarrow>
   discovered_target list \<times> (anyhow + discovered_target list)" where
  "merge_targets [] discovered = ([], Inr (map snd discovered))"
| "merge_targets (event # events) discovered =
     (case event of
        Received target \<Rightarrow>
          let key = merge_key target;
              (reported, result) = merge_targets events (btree_insert key target discovered)
          in (if map_of discovered key = None then target # reported else reported, result)
      | Joined (Inl e) \<Rightarrow> ([], Inl e)
      | Joined (Inr _) \<Rightarrow> merge_targets events discovered)"

definition discovery_probe_addresses :: "cli_libs \<Rightarrow> string \<Rightarrow> anyhow + string list" where
  "discovery_probe_addresses C probe_addr =
     (case parse_ip C probe_addr of
        None \<Rightarrow> Inl (context_msg (''invalid probe address: '' @ probe_addr)
          (anyhow_msg ''invalid IP address syntax''))
      | Some ip \<Rightarrow> Inr (ip # (if ip = ''255.255.255.255'' then [''127.0.0.1''] else [])))"

definition discovery_destinations :: "cli_libs \<Rightarrow> string \<Rightarrow> anyhow + socket_addr list" where
  "discovery_destinations C probe_addr =
     and_then (discovery_probe_addresses C probe_addr)
       (\<lambda>ips. Inr (map (\<lambda>ip. (ip, DEFAULT_RSDB_PORT)) ips))"

text \<open>
  \<open>discover_targets_with_callback\<close>: \<open>schedule\<close> is the order in which the merging loop sees what the
  tasks sent and their ends; each task reads the clock itself.
\<close>

definition discover_targets_with_callback ::
  "libs \<Rightarrow> cli_libs \<Rightarrow> udp_net \<Rightarrow> (socket_addr \<Rightarrow> int) \<Rightarrow>
   ((discovered_target list \<times> (anyhow + unit)) list \<Rightarrow> merge_event list) \<Rightarrow> string \<Rightarrow>
   discovered_target list \<times> (anyhow + discovered_target list)" where
  "discover_targets_with_callback L C N now schedule probe_addr =
     (case discovery_destinations C probe_addr of
        Inl e \<Rightarrow> ([], Inl e)
      | Inr destinations \<Rightarrow>
          merge_targets (schedule (map (\<lambda>d. discover_targets_once L N (now d) d) destinations)) [])"

text \<open>\<open>{:<n}\<close> pads with spaces to a width counted in characters.\<close>

definition pad_right :: "nat \<Rightarrow> string \<Rightarrow> string" where
  "pad_right n s = s @ replicate (n - length (filter (\<lambda>c. \<not> utf8_continues c) s)) (CHR '' '')"

definition discover_row :: "discovered_target \<Rightarrow> string" where
  "discover_row t =
     pad_right 16 (dt_device_name t) @ ''   '' @ pad_right 21 (display_socket_addr (dt_ip t) (dt_port t))
     @ ''   '' @ dt_platform t
     @ (case protocol_warning_text (dt_protocol_version t) of
          None \<Rightarrow> []
        | Some warning \<Rightarrow> ''   '' @ warning)"

text \<open>The lines printed, and how the command ends.\<close>

definition discover_command ::
  "libs \<Rightarrow> cli_libs \<Rightarrow> udp_net \<Rightarrow> (socket_addr \<Rightarrow> int) \<Rightarrow>
   ((discovered_target list \<times> (anyhow + unit)) list \<Rightarrow> merge_event list) \<Rightarrow> string \<Rightarrow>
   string list \<times> (anyhow + unit)" where
  "discover_command L C N now schedule probe_addr =
     (let (reported, result) = discover_targets_with_callback L C N now schedule probe_addr;
          rows = (if reported = [] then []
                  else (pad_right 16 ''NAME'' @ ''   '' @ pad_right 21 ''ADDRESS'' @ ''   PLATFORM'')
                    # map discover_row reported)
      in case result of
           Inl e \<Rightarrow> (rows, Inl e)
         | Inr _ \<Rightarrow> (if reported = [] then [''no devices discovered''] else rows, Inr ()))"

end
