(* ===== verification/Cli_Discovery_Facts.thy ===== *)
theory Cli_Discovery_Facts
  imports Cli_Discovery Cli_Registry_Facts Daemon_Facts "HOL-Library.Multiset"
begin

text \<open>
  What discovery guarantees: a client finds the daemon that answers its probe, and the command
  that probes several addresses at once finds exactly the addresses that answer, whatever
  the order in which its tasks report.
\<close>

section \<open>One client and one daemon\<close>

lemma discovery_reply:
  "(peer, reply) \<in> set (fst (handle_discovery L st received)) \<Longrightarrow>
     \<exists>datagram s nonce. Inr (datagram, peer, s) \<in> set received \<and>
       decode_discovery_message (probe_from_slice L) (take DISCOVERY_BUFFER_LEN datagram) = Inr (Probe nonce) \<and>
       encode_discovery_message (announce_to_vec L) (discovery_answer st nonce) = Inr reply"
proof (induction L st received rule: handle_discovery.induct)
  case (3 L st datagram p s received)
  then show ?case
    by (auto split: sum.splits option.splits prod.splits discovery_request.splits) blast+
qed simp_all

lemma await_skips:
  "\<forall>r \<in> set junk. \<exists>d ip. r = Inr (d, ip) \<and> announcement L nonce d ip = None \<Longrightarrow>
     await_announcement L nonce (junk @ rest) = await_announcement L nonce rest"
  by (induction junk) auto

lemma send_probe_payload:
  "send_probe L N b d nonce = Inr payload \<Longrightarrow> encode_discovery_message (probe_to_vec L) (Probe nonce) = Inr payload"
  by (auto simp: send_probe_def and_then_def Let_def split: sum.splits)

text \<open>
  Discovery finds the daemon. When a probe reaches a daemon's discovery loop, among
  whatever else it receives, and one of its answers to this client reaches the client before
  the deadline, then \<open>discover_target_at\<close> returns that daemon's own description at the address the
  answer came from, whatever datagrams without this probe's nonce arrive before it.
\<close>
theorem discover_finds_daemon:
  assumes probe: "json_roundtrip (probe_to_vec L) (probe_from_slice L)"
    and announce: "json_roundtrip (announce_to_vec L) (announce_from_slice L)"
    and host: "lookup_host N addr = Inr (dest # others)"
    and sent: "send_probe L N False dest (discovery_nonce now) = Inr payload"
    and mine: "\<And>d s. Inr (d, client, s) \<in> set received \<Longrightarrow> d = payload"
    and reply: "(client, reply) \<in> set (fst (handle_discovery L st received))"
    and arrivals: "udp_arrivals N dest payload = before @ Inr (reply, ip) # later"
    and before: "\<forall>r \<in> set before. \<exists>d p. r = Inr (d, p) \<and> announcement L (discovery_nonce now) d p = None"
  shows "discover_target_at L N now addr =
    Inr (Some \<lparr>dt_server_id = server_id st, dt_device_name = device_name st, dt_ip = ip,
      dt_port = tcp_port st, dt_platform = platform st, dt_protocol_version = PROTOCOL_VERSION,
      dt_features = cap_features capabilities\<rparr>)"
proof -
  let ?n = "discovery_nonce now"
  from discovery_reply [OF reply] mine obtain n where
    got: "decode_discovery_message (probe_from_slice L) (take DISCOVERY_BUFFER_LEN payload) = Inr (Probe n)"
    and ans: "encode_discovery_message (announce_to_vec L) (discovery_answer st n) = Inr reply"
    by blast
  from discovery_decodes [OF probe send_probe_payload [OF sent]] got have "n = ?n"
    by (simp add: DISCOVERY_BUFFER_LEN_def)
  with discovery_decodes [OF announce ans] have
    "announcement L ?n reply ip = Some (target_of (discovery_answer st ?n) ip)"
    by (simp add: announcement_def DISCOVERY_BUFFER_LEN_def discovery_answer_def)
  with host sent arrivals await_skips [OF before] show ?thesis
    by (simp add: discover_target_at_def and_then_def target_of_def discovery_answer_def)
qed

section \<open>The merge of several probes\<close>

lemma key_suffix:
  "c \<notin> set a \<Longrightarrow> c \<notin> set b \<Longrightarrow> x @ [c] @ a = y @ [c] @ b \<Longrightarrow> a = b"
proof (induction x arbitrary: y)
  case Nil
  then show ?case by (cases y) (auto simp: Cons_eq_append_conv)
next
  case (Cons z x)
  then show ?case by (cases y) auto
qed

definition announcements :: "libs \<Rightarrow> nat \<Rightarrow> arrivals \<Rightarrow> discovered_target list" where
  "announcements L nonce arr =
     List.map_filter (\<lambda>r. case r of Inl _ \<Rightarrow> None | Inr (d, ip) \<Rightarrow> announcement L nonce d ip) arr"

lemma announcements_simps [simp]:
  "announcements L nonce [] = []"
  "announcements L nonce (Inr (d, ip) # arr) =
     (case announcement L nonce d ip of None \<Rightarrow> announcements L nonce arr
      | Some t \<Rightarrow> t # announcements L nonce arr)"
  by (auto simp: announcements_def map_filter_simps split: option.splits)

lemma collect_ok:
  assumes "collect_announcements L nonce arr seen = (sent, Inr ())" "btree_ok seen"
  shows "set sent \<subseteq> set (announcements L nonce arr) \<and>
    once_key ` set sent \<union> fst ` set seen = once_key ` set (announcements L nonce arr) \<union> fst ` set seen"
  using assms
proof (induction arr arbitrary: seen sent)
  case (Cons r arr)
  from Cons.prems(1) obtain d ip where r: "r = Inr (d, ip)" by (cases r) auto
  show ?case
  proof (cases "announcement L nonce d ip")
    case None
    with r Cons show ?thesis by simp
  next
    case (Some t)
    obtain rest where rest: "collect_announcements L nonce arr (btree_insert (once_key t) () seen) = (rest, Inr ())"
      and sent: "sent = (if map_of seen (once_key t) = None then t # rest else rest)"
      using Cons.prems(1) r Some by (auto simp: Let_def split: prod.splits if_splits)
    have IH: "set rest \<subseteq> set (announcements L nonce arr)"
      "once_key ` set rest \<union> insert (once_key t) (fst ` set seen) =
       once_key ` set (announcements L nonce arr) \<union> insert (once_key t) (fst ` set seen)"
      using Cons.IH [OF rest btree_insert_ok [OF Cons.prems(2)]] by (simp_all add: btree_insert_keys)
    have "map_of seen (once_key t) \<noteq> None \<Longrightarrow> once_key t \<in> fst ` set seen"
      by (metis map_of_eq_None_iff)
    then have "map_of seen (once_key t) \<noteq> None \<Longrightarrow> insert (once_key t) (fst ` set seen) = fst ` set seen"
      by (simp add: insert_absorb)
    with IH sent r Some show ?thesis by (cases "map_of seen (once_key t)") auto
  qed
qed simp

fun received_of :: "merge_event list \<Rightarrow> discovered_target list" where
  "received_of [] = []"
| "received_of (Received t # es) = t # received_of es"
| "received_of (Joined r # es) = received_of es"

fun joined_of :: "merge_event list \<Rightarrow> (anyhow + unit) list" where
  "joined_of [] = []"
| "joined_of (Received t # es) = joined_of es"
| "joined_of (Joined r # es) = r # joined_of es"

lemma merge_ok:
  assumes "set (joined_of es) \<subseteq> {Inr ()}" "btree_ok m"
  shows "\<exists>reported. merge_targets es m =
      (reported, Inr (map snd (btree.insert_all (map (\<lambda>t. (merge_key t, t)) (received_of es)) m))) \<and>
    distinct (map merge_key reported) \<and>
    merge_key ` set reported = merge_key ` set (received_of es) - fst ` set m"
  using assms
proof (induction es arbitrary: m rule: received_of.induct)
  case (2 t es)
  have ok: "btree_ok (btree_insert (merge_key t) t m)" by (rule btree_insert_ok [OF "2.prems"(2)])
  have "set (joined_of es) \<subseteq> {Inr ()}" using "2.prems"(1) by simp
  from "2.IH" [OF this ok] obtain reported where IH:
    "merge_targets es (btree_insert (merge_key t) t m) = (reported, Inr (map snd (btree.insert_all
       (map (\<lambda>t. (merge_key t, t)) (received_of es)) (btree_insert (merge_key t) t m))))"
    "distinct (map merge_key reported)"
    "merge_key ` set reported = merge_key ` set (received_of es) - insert (merge_key t) (fst ` set m)"
    by (auto simp: btree_insert_keys)
  have new: "map_of m (merge_key t) = None \<longleftrightarrow> merge_key t \<notin> fst ` set m" by (rule map_of_eq_None_iff)
  show ?case
  proof (cases "map_of m (merge_key t)")
    case None
    with new IH show ?thesis
      by (intro exI [of _ "t # reported"]) (auto simp: Let_def btree.insert_all_Cons)
  next
    case (Some t')
    with new have "insert (merge_key t) (fst ` set m) = fst ` set m" by (simp add: insert_absorb)
    with Some IH show ?thesis
      by (intro exI [of _ reported]) (auto simp: Let_def btree.insert_all_Cons)
  qed
next
  case (3 r es)
  then show ?case by (auto split: sum.splits)
qed (simp add: btree.insert_all_def)

lemma show_nat_digits: "CHR ''@'' \<notin> set (show_nat n)"
proof (induction n rule: show_nat.induct)
  case (1 n)
  have "CHR ''@'' \<noteq> digit_char m" if "m < 10" for m
  proof -
    have "(of_char (digit_char m) :: nat) = 48 + m" using that by (simp add: digit_char_def)
    moreover have "(of_char (CHR ''@'') :: nat) = 64" by simp
    ultimately show ?thesis using that by fastforce
  qed
  then show ?case using 1 by (simp add: show_nat.simps [of n])
qed

lemma target_addr_plain: "CHR ''@'' \<notin> set (dt_ip t) \<Longrightarrow> CHR ''@'' \<notin> set (target_addr t)"
  by (auto simp: show_nat_digits target_addr_def show_socket_def)

lemma same_addr:
  assumes "CHR ''@'' \<notin> set (dt_ip s)" "CHR ''@'' \<notin> set (dt_ip t)"
  shows "once_key s = once_key t \<Longrightarrow> target_addr s = target_addr t"
    and "merge_key s = merge_key t \<Longrightarrow> target_addr s = target_addr t"
  using key_suffix [OF assms [THEN target_addr_plain]]
  by (auto simp: once_key_def merge_key_def)

text \<open>Equal keys on one side are matched by equal addresses on the other.\<close>

lemma image_of_keys:
  assumes "\<And>s t. s \<in> A \<Longrightarrow> t \<in> B \<Longrightarrow> key s = key t \<Longrightarrow> f s = f t" and "key ` A = key ` B"
  shows "f ` A = f ` B"
proof (intro set_eqI iffI)
  fix x assume "x \<in> f ` A"
  then obtain s where s: "s \<in> A" "x = f s" by blast
  with assms(2) obtain t where "t \<in> B" "key s = key t" by (metis imageE image_eqI)
  with assms(1) s show "x \<in> f ` B" by (metis image_eqI)
next
  fix x assume "x \<in> f ` B"
  then obtain t where t: "t \<in> B" "x = f t" by blast
  with assms(2) obtain s where "s \<in> A" "key s = key t" by (metis imageE image_eqI)
  with assms(1) t show "x \<in> f ` A" by (metis image_eqI)
qed

definition fair_merge :: "(discovered_target list \<times> (anyhow + unit)) list \<Rightarrow> merge_event list \<Rightarrow> bool" where
  "fair_merge tasks es \<longleftrightarrow>
     mset (received_of es) = mset (concat (map fst tasks)) \<and> mset (joined_of es) = mset (map snd tasks)"

definition plain_senders :: "arrivals \<Rightarrow> bool" where
  "plain_senders arr \<longleftrightarrow> (\<forall>d ip. Inr (d, ip) \<in> set arr \<longrightarrow> CHR ''@'' \<notin> set ip)"

lemma announcement_ip: "announcement L nonce d ip = Some t \<Longrightarrow> dt_ip t = ip"
  by (auto simp: announcement_def target_of_def split: sum.splits if_splits)

lemma announcements_sender:
  assumes "t \<in> set (announcements L nonce arr)"
  shows "\<exists>d. Inr (d, dt_ip t) \<in> set arr"
proof -
  from assms obtain r where "r \<in> set arr"
    "(case r of Inl _ \<Rightarrow> None | Inr (d, ip) \<Rightarrow> announcement L nonce d ip) = Some t"
    by (auto simp: announcements_def List.map_filter_def)
  then show ?thesis using announcement_ip by (auto split: sum.splits prod.splits)
qed

definition probed :: "libs \<Rightarrow> udp_net \<Rightarrow> (socket_addr \<Rightarrow> int) \<Rightarrow> socket_addr \<Rightarrow> discovered_target list" where
  "probed L N now d =
     announcements L (discovery_nonce (now d)) (udp_arrivals N d (probe_datagram L (discovery_nonce (now d))))"

lemma once_ok:
  assumes "discover_targets_once L N now d = (sent, Inr ())"
  shows "set sent \<subseteq> set (probed L N (\<lambda>_. now) d) \<and>
    once_key ` set sent = once_key ` set (probed L N (\<lambda>_. now) d)"
proof -
  obtain b payload where sent: "send_probe L N b d (discovery_nonce now) = Inr payload"
    and run: "collect_announcements L (discovery_nonce now) (udp_arrivals N d payload) [] = (sent, Inr ())"
    using assms by (auto simp: discover_targets_once_def split: sum.splits)
  have "payload = probe_datagram L (discovery_nonce now)"
    using send_probe_payload [OF sent] by (simp add: probe_datagram_def)
  with collect_ok [OF run] show ?thesis by (simp add: probed_def)
qed

text \<open>The map of some targets by their keys.\<close>

lemma keyed_targets:
  fixes ts :: "discovered_target list"
  defines "m \<equiv> btree.insert_all (map (\<lambda>t. (merge_key t, t)) ts) []"
  shows "sorted_wrt (<) (map merge_key (map snd m))" "merge_key ` set (map snd m) = merge_key ` set ts"
    "set (map snd m) \<subseteq> set ts"
proof -
  have ok: "btree_ok m" and get: "map_of m = map_of (rev (map (\<lambda>t. (merge_key t, t)) ts))"
    using btree.insert_all_get [of "[]" "map (\<lambda>t. (merge_key t, t)) ts"] by (auto simp: m_def)
  have kv: "(k, t) \<in> set m \<Longrightarrow> k = merge_key t \<and> t \<in> set ts" for k t
    using btree.iter_get [OF ok] get map_of_SomeD by fastforce
  then have keys: "map merge_key (map snd m) = map fst m" by auto
  show "sorted_wrt (<) (map merge_key (map snd m))" unfolding keys by (rule ok)
  have "merge_key ` set (map snd m) = set (map fst m)" by (metis keys list.set_map)
  also have "\<dots> = dom (map_of m)" using btree.iter_keys [OF ok] by simp
  also have "\<dots> = merge_key ` set ts"
    by (simp only: get) (simp add: dom_map_of_conv_image_fst image_image)
  finally show "merge_key ` set (map snd m) = merge_key ` set ts" .
  show "set (map snd m) \<subseteq> set ts" using kv by auto
qed

text \<open>
  C31: the discovery command finds exactly the addresses that announced themselves. When no task
  fails, and however the tasks' findings are interleaved, the targets returned are ordered
  by name and address with no repetition, each of them is reported once to the callback, and
  their addresses are exactly those of the datagrams that answer one of the probes.
\<close>
theorem discover_complete:
  assumes dests: "discovery_destinations C probe_addr = Inr dests"
    and ok: "\<And>d. d \<in> set dests \<Longrightarrow> snd (discover_targets_once L N (now d) d) = Inr ()"
    and senders: "\<And>d payload. d \<in> set dests \<Longrightarrow> plain_senders (udp_arrivals N d payload)"
    and fair: "fair_merge (map (\<lambda>d. discover_targets_once L N (now d) d) dests)
      (schedule (map (\<lambda>d. discover_targets_once L N (now d) d) dests))"
  shows "\<exists>reported result.
    discover_targets_with_callback L C N now schedule probe_addr = (reported, Inr result) \<and>
    sorted_wrt (<) (map merge_key result) \<and>
    distinct (map merge_key reported) \<and> merge_key ` set reported = merge_key ` set result \<and>
    target_addr ` set result = (\<Union>d \<in> set dests. target_addr ` set (probed L N now d))"
proof -
  let ?tasks = "map (\<lambda>d. discover_targets_once L N (now d) d) dests"
  let ?rcv = "received_of (schedule ?tasks)"
  let ?m = "btree.insert_all (map (\<lambda>t. (merge_key t, t)) ?rcv) []"
  have joined: "set (joined_of (schedule ?tasks)) \<subseteq> {Inr ()}"
    using fair ok mset_eq_setD [of "joined_of (schedule ?tasks)" "map snd ?tasks"]
    by (auto simp: fair_merge_def)
  from merge_ok [OF joined, of "[]"] obtain reported where
    run: "merge_targets (schedule ?tasks) [] = (reported, Inr (map snd ?m))"
    and rep: "distinct (map merge_key reported)" "merge_key ` set reported = merge_key ` set ?rcv"
    by auto
  note m = keyed_targets [of ?rcv]
  have rcv: "set ?rcv = (\<Union>d \<in> set dests. set (fst (discover_targets_once L N (now d) d)))"
    using fair mset_eq_setD [of ?rcv "concat (map fst ?tasks)"] by (simp add: fair_merge_def)
  have plain: "CHR ''@'' \<notin> set (dt_ip t)" if "d \<in> set dests" "t \<in> set (probed L N now d)" for d t
    using announcements_sender senders [OF that(1)] that(2) by (fastforce simp: probed_def plain_senders_def)
  have once: "set (fst (discover_targets_once L N (now d) d)) \<subseteq> set (probed L N now d)"
    "target_addr ` set (fst (discover_targets_once L N (now d) d)) = target_addr ` set (probed L N now d)"
    if d: "d \<in> set dests" for d
  proof -
    have run: "discover_targets_once L N (now d) d = (fst (discover_targets_once L N (now d) d), Inr ())"
      using ok [OF d] by (metis prod.collapse)
    have p: "probed L N (\<lambda>_. now d) d = probed L N now d" by (simp add: probed_def)
    show sub: "set (fst (discover_targets_once L N (now d) d)) \<subseteq> set (probed L N now d)"
      using once_ok [OF run] p by simp
    show "target_addr ` set (fst (discover_targets_once L N (now d) d)) = target_addr ` set (probed L N now d)"
    proof (rule image_of_keys [of _ _ once_key])
      show "once_key ` set (fst (discover_targets_once L N (now d) d)) = once_key ` set (probed L N now d)"
        using once_ok [OF run] p by simp
    qed (use sub plain [OF d] same_addr(1) in blast)
  qed
  have all_plain: "CHR ''@'' \<notin> set (dt_ip t)" if "t \<in> set ?rcv" for t
    using that rcv once(1) plain by blast
  have "target_addr ` set (map snd ?m) = target_addr ` set ?rcv"
    by (rule image_of_keys [OF _ m(2)]) (use m(3) same_addr(2) all_plain in blast)
  also have "\<dots> = (\<Union>d \<in> set dests. target_addr ` set (probed L N now d))"
    using once(2) by (simp add: rcv image_UN)
  finally have addrs: "target_addr ` set (map snd ?m) =
    (\<Union>d \<in> set dests. target_addr ` set (probed L N now d))" .
  have run': "discover_targets_with_callback L C N now schedule probe_addr = (reported, Inr (map snd ?m))"
    using run by (simp only: discover_targets_with_callback_def dests sum.case)
  show ?thesis
    by (intro exI conjI, rule run', rule m(1), rule rep(1), rule trans [OF rep(2) m(2) [symmetric]], rule addrs)
qed

section \<open>Concrete runs\<close>

text \<open>A daemon on this network answers a probe for nonce 5 with its announcement.\<close>

definition daemon_reply :: bytes where
  "daemon_reply = DISCOVERY_MAGIC @ [5]"

definition sample_net :: udp_net where
  "sample_net =
     \<lparr>lookup_host = (\<lambda>_. Inr [(''10.0.0.5'', 27101)]), udp_bind = (\<lambda>_. None), udp_set_broadcast = None,
      udp_send_to = (\<lambda>_ _. None),
      udp_arrivals = (\<lambda>_ _. [Inr ([1], ''10.0.0.9''), Inr (daemon_reply, ''10.0.0.5'')])\<rparr>"

lemma discovery_libs_json:
  "json_roundtrip (probe_to_vec discovery_libs) (probe_from_slice discovery_libs)"
  "json_roundtrip (announce_to_vec discovery_libs) (announce_from_slice discovery_libs)"
  by (auto simp: json_roundtrip_def discovery_libs_def unat_word_of_nat_u8
      split: discovery_request.splits if_splits)

lemma sample_probe:
  "send_probe discovery_libs sample_net b d (discovery_nonce 5) = Inr (DISCOVERY_MAGIC @ [5])"
  by (simp add: send_probe_def sample_net_def discovery_libs_def discovery_nonce_def check_def and_then_def
      encode_discovery_message_def MAX_DISCOVERY_PAYLOAD_LEN_def)

lemma sample_announcements:
  "announcement discovery_libs 5 [1] ip = None"
  "announcement discovery_libs 5 daemon_reply ip = Some (target_of (discovery_answer sample_state 5) ip)"
  by (simp_all add: announcement_def daemon_reply_def discovery_libs_def decode_discovery_message_def
      DISCOVERY_BUFFER_LEN_def MAX_DISCOVERY_PAYLOAD_LEN_def discovery_answer_def slice_def DISCOVERY_MAGIC_def)

theorem discover_finds_daemon_witness:
  "discover_target_at discovery_libs sample_net 5 ''h:1'' =
     Inr (Some \<lparr>dt_server_id = ''rsdbd'', dt_device_name = ''dev'', dt_ip = ''10.0.0.5'', dt_port = 27101,
       dt_platform = ''Linux'', dt_protocol_version = PROTOCOL_VERSION,
       dt_features = cap_features capabilities\<rparr>)"
proof -
  let ?received = "[Inr ([7], ''q'', None), Inr (DISCOVERY_MAGIC @ [5], ''c'', None)]"
  have n: "discovery_nonce 5 = 5" by (simp add: discovery_nonce_def)
  have reply: "(''c'', daemon_reply) \<in> set (fst (handle_discovery discovery_libs sample_state ?received))"
    by (simp add: discovery_libs_def decode_discovery_message_def encode_discovery_message_def daemon_reply_def
        DISCOVERY_BUFFER_LEN_def MAX_DISCOVERY_PAYLOAD_LEN_def slice_def DISCOVERY_MAGIC_def)
  have "lookup_host sample_net ''h:1'' = Inr [(''10.0.0.5'', 27101)]" by (simp add: sample_net_def)
  from discover_finds_daemon [OF discovery_libs_json this sample_probe _ reply,
      where before = "[Inr ([1], ''10.0.0.9'')]" and ip = "''10.0.0.5''" and later = "[]"]
  show ?thesis by (simp add: sample_net_def sample_state_def sample_announcements n)
qed

text \<open>Both tasks of a broadcast, merged one after the other.\<close>

definition sequentially :: "(discovered_target list \<times> (anyhow + unit)) list \<Rightarrow> merge_event list" where
  "sequentially tasks = concat (map (\<lambda>(sent, end). map Received sent @ [Joined end]) tasks)"

definition broadcast_cli :: cli_libs where
  "broadcast_cli = sample_cli\<lparr>parse_ip := Some\<rparr>"

theorem discover_complete_witness:
  "\<exists>reported result.
     discover_targets_with_callback discovery_libs broadcast_cli sample_net (\<lambda>_. 5) sequentially ''255.255.255.255''
       = (reported, Inr result) \<and>
     target_addr ` set result = {''10.0.0.5:27101''}"
proof -
  let ?dests = "[(''255.255.255.255'', 27101), (''127.0.0.1'', 27101)] :: socket_addr list"
  let ?found = "target_of (discovery_answer sample_state 5) ''10.0.0.5''"
  have n: "discovery_nonce 5 = 5" by (simp add: discovery_nonce_def)
  have arr: "udp_arrivals sample_net d p = [Inr ([1], ''10.0.0.9''), Inr (daemon_reply, ''10.0.0.5'')]" for d p
    by (simp add: sample_net_def)
  have d: "discovery_destinations broadcast_cli ''255.255.255.255'' = Inr ?dests"
    by (simp add: discovery_destinations_def discovery_probe_addresses_def broadcast_cli_def and_then_def
        DEFAULT_RSDB_PORT_def)
  have once: "discover_targets_once discovery_libs sample_net 5 d = ([?found], Inr ())" for d
    by (simp add: discover_targets_once_def sample_probe [unfolded n] arr n sample_announcements)
  have probed: "probed discovery_libs sample_net (\<lambda>_. 5) d = [?found]" for d
    by (simp add: probed_def arr n sample_announcements)
  have addr: "target_addr ?found = ''10.0.0.5:27101''" by code_simp
  show ?thesis
    using discover_complete [OF d, of discovery_libs sample_net "\<lambda>_. 5" sequentially]
    by (auto simp: once probed addr arr fair_merge_def sequentially_def plain_senders_def)
qed

end
