(* ===== verification/Cli_Request.thy ===== *)
theory Cli_Request
  imports Cli_Registry
begin

text \<open>
  One request of the client and its answer (\<open>crates/rsdb-cli/src/main.rs\<close>): opening the connection,
  \<open>request\<close> and \<open>read_response\<close>, the requests for files that editing uses, and the commands \<open>ping\<close>
  and \<open>capability\<close>. The world is the client's host; its input is what the daemon sends on the one
  connection of the command. How connecting ends is an argument, and \<open>debug\<close> is \<open>{:?}\<close> of a response.
\<close>

definition REQUEST_ID :: u32 where
  "REQUEST_ID = 1"

datatype connecting = Connected | NodelayFailed io_error | ConnectFailed io_error | ConnectTimedOut

definition open_tcp_connection :: "connecting \<Rightarrow> string \<Rightarrow> anyhow + unit" where
  "open_tcp_connection outcome addr =
     (case outcome of
        ConnectTimedOut \<Rightarrow> Inl (context_msg ''connection timed out'' [CElapsed])
      | ConnectFailed e \<Rightarrow> Inl (io_context (''failed to connect to '' @ addr) e)
      | NodelayFailed e \<Rightarrow> Inl (io_context ''failed to set TCP_NODELAY'' e)
      | Connected \<Rightarrow> Inr ())"

definition send_request :: "libs \<Rightarrow> string \<Rightarrow> control_request \<Rightarrow> unit app" where
  "send_request L context_name req =
     map_errE (protocol_context context_name)
       (write_json_frame (request_to_vec L) conn_write_all Request REQUEST_ID req)"

definition read_response :: "libs \<Rightarrow> control_response app" where
  "read_response L =
     bindE (map_errE (protocol_context ''failed to read response'') (read_frame conn_read_exact)) (\<lambda>frame.
     map_errE (protocol_context ''failed to decode response'')
       (liftE (decode_json (response_from_slice L) frame Response)))"

definition request :: "libs \<Rightarrow> connecting \<Rightarrow> string \<Rightarrow> control_request \<Rightarrow> control_response app" where
  "request L outcome addr req =
     thenE (liftE (open_tcp_connection outcome addr))
    (thenE (send_request L ''failed to send request'' req) (read_response L))"

definition probe_ping :: "libs \<Rightarrow> connecting \<Rightarrow> string \<Rightarrow> control_response app" where
  "probe_ping L outcome addr =
     thenE (liftE (open_tcp_connection outcome addr))
    (thenE (send_request L ''failed to send ping'' Ping) (read_response L))"

section \<open>Requests for files\<close>

text \<open>Any other answer: the daemon's error, or a response that does not belong to the request.\<close>

definition unexpected :: "(control_response \<Rightarrow> string) \<Rightarrow> control_response \<Rightarrow> anyhow" where
  "unexpected debug response =
     (case response of
        ErrorResponse code message \<Rightarrow> [CRemote code message]
      | other \<Rightarrow> anyhow_msg (''unexpected response from daemon: '' @ debug other))"

definition remote_fs_stat ::
  "libs \<Rightarrow> (control_response \<Rightarrow> string) \<Rightarrow> connecting \<Rightarrow> string \<Rightarrow> string \<Rightarrow> hash_algorithm option \<Rightarrow>
   agent_fs_stat app" where
  "remote_fs_stat L debug outcome addr path hash =
     bindE (request L outcome addr (FsStat path hash)) (\<lambda>response.
     case response of RFsStat stat \<Rightarrow> retE stat | other \<Rightarrow> failE (unexpected debug other))"

definition remote_fs_read ::
  "libs \<Rightarrow> (control_response \<Rightarrow> string) \<Rightarrow> connecting \<Rightarrow> string \<Rightarrow> string \<Rightarrow> content_encoding \<Rightarrow>
   nat option \<Rightarrow> agent_fs_read_result app" where
  "remote_fs_read L debug outcome addr path encoding max_bytes =
     bindE (request L outcome addr (FsRead path encoding max_bytes)) (\<lambda>response.
     case response of FsReadResult result \<Rightarrow> retE result | other \<Rightarrow> failE (unexpected debug other))"

definition remote_fs_write ::
  "libs \<Rightarrow> (control_response \<Rightarrow> string) \<Rightarrow> connecting \<Rightarrow> string \<Rightarrow> string \<Rightarrow> string \<Rightarrow> content_encoding \<Rightarrow>
   u32 option \<Rightarrow> bool \<Rightarrow> string option \<Rightarrow> agent_fs_write_result app" where
  "remote_fs_write L debug outcome addr path content encoding mode atomic if_sha256 =
     bindE (request L outcome addr
              (FsWrite path content encoding mode False atomic False if_sha256)) (\<lambda>response.
     case response of FsWriteResult result \<Rightarrow> retE result | other \<Rightarrow> failE (unexpected debug other))"

definition remote_fs_list_completion ::
  "libs \<Rightarrow> (control_response \<Rightarrow> string) \<Rightarrow> connecting \<Rightarrow> string \<Rightarrow> string \<Rightarrow> agent_fs_list_entry list app" where
  "remote_fs_list_completion L debug outcome addr path =
     bindE (request L outcome addr (FsList path False None True None)) (\<lambda>response.
     case response of
       RFsList entries \<Rightarrow> retE entries
     | ErrorResponse code message \<Rightarrow>
         if code = FsNotFound \<or> code = EcNotFound then retE [] else failE [CRemote code message]
     | other \<Rightarrow> failE (unexpected debug other))"

section \<open>Path completion\<close>

definition trim_trailing_slash_preserving_root :: "string \<Rightarrow> string" where
  "trim_trailing_slash_preserving_root value =
     (let trimmed = rev (dropWhile (\<lambda>c. c = CHR ''/'') (rev value))
      in if trimmed = [] then ''/'' else trimmed)"

definition split_remote_completion_input :: "string \<Rightarrow> string \<times> string" where
  "split_remote_completion_input partial =
     (if partial = [] then (''.'', [])
      else if partial = ''/'' then (''/'', [])
      else if ends_with partial ''/'' then (trim_trailing_slash_preserving_root partial, [])
      else
        case rsplit_once (CHR ''/'') partial of
          Some (parent, pre) \<Rightarrow> (if parent = [] then ''/'' else parent, pre)
        | None \<Rightarrow> (''.'', partial))"

definition join_remote_completion_candidate :: "string \<Rightarrow> string \<Rightarrow> string" where
  "join_remote_completion_candidate parent name =
     (if parent = ''.'' then name else if parent = ''/'' then ''/'' @ name else parent @ ''/'' @ name)"

definition completion_candidate :: "string \<Rightarrow> string \<Rightarrow> agent_fs_list_entry \<Rightarrow> string option" where
  "completion_candidate parent pre entry =
     (case file_name (le_path entry) of
        None \<Rightarrow> None
      | Some name \<Rightarrow>
          if is_utf8 name \<and> starts_with name pre
          then Some (join_remote_completion_candidate parent name
                 @ (if le_kind entry = FkDirectory then ''/'' else []))
          else None)"

definition complete_remote_edit_path ::
  "libs \<Rightarrow> (control_response \<Rightarrow> string) \<Rightarrow> connecting \<Rightarrow> string \<Rightarrow> string \<Rightarrow> string list app" where
  "complete_remote_edit_path L debug outcome addr partial =
     (case split_remote_completion_input partial of (parent, pre) \<Rightarrow>
        bindE (remote_fs_list_completion L debug outcome addr parent) (\<lambda>entries.
        retE (remdups_adj (sort (List.map_filter (completion_candidate parent pre) entries)))))"

definition complete_edit_path_command ::
  "libs \<Rightarrow> cli_libs \<Rightarrow> environ \<Rightarrow> (control_response \<Rightarrow> string) \<Rightarrow> connecting \<Rightarrow> string option \<Rightarrow> string \<Rightarrow>
   string list app" where
  "complete_edit_path_command L C E debug outcome target partial =
     bindE (resolve_target C E target) (\<lambda>addr. complete_remote_edit_path L debug outcome addr partial)"

section \<open>Commands\<close>

text \<open>The result is the line printed, and the warning.\<close>

definition ping_command ::
  "libs \<Rightarrow> cli_libs \<Rightarrow> environ \<Rightarrow> (control_response \<Rightarrow> string) \<Rightarrow> connecting \<Rightarrow> string option \<Rightarrow>
   (string \<times> string option) app" where
  "ping_command L C E debug outcome target =
     bindE (resolve_target C E target) (\<lambda>addr.
     bindE (request L outcome addr Ping) (\<lambda>response.
     case response of
       Pong _ version \<Rightarrow>
         retE (''pong'' @ [CHR 0x09] @ display_addr C addr @ [CHR 0x09] @ ''protocol='' @ show_nat (unat version),
               map_option (\<lambda>warning. ''warning: '' @ warning
                 @ ''; commands may fail until rsdb and rsdbd are updated together'')
                 (protocol_warning_text version))
     | other \<Rightarrow> failE (anyhow_msg (''unexpected response: '' @ debug other))))"

text \<open>The result is what \<open>print_capability\<close> prints as JSON: the address, the server and its capabilities.\<close>

definition capability_command ::
  "libs \<Rightarrow> cli_libs \<Rightarrow> environ \<Rightarrow> (control_response \<Rightarrow> string) \<Rightarrow> connecting \<Rightarrow> string option \<Rightarrow>
   (string \<times> string \<times> capability_set) app" where
  "capability_command L C E debug outcome target =
     bindE (resolve_target C E target) (\<lambda>addr.
     bindE (request L outcome addr GetCapabilities) (\<lambda>response.
     case response of
       Capabilities server capability \<Rightarrow> retE (addr, server, capability)
     | other \<Rightarrow> failE (anyhow_msg (''unexpected response: '' @ debug other))))"

end
