(* ===== verification/Cli_Transfer.thy ===== *)
theory Cli_Transfer
  imports Cli_Request Ordered_Map
begin

text \<open>
  File transfer on the client's side (\<open>crates/rsdb-cli/src/main.rs\<close>): the manifest of local
  sources, the batch push and the batch pull over one connection, and the comparison of a
  transferred tree with what was to be transferred. The world is the client's host. Here a
  transfer has no progress display (\<open>progress\<close> is \<open>None\<close>); \<open>Cli_Progress_Transfer\<close> has the functions with
  one and shows that they do the same. As on the daemon's side, the receiving loop ends because every frame takes a header off the input, and the recursion over a
  directory tree takes fuel, at most the height of the file system.
\<close>

definition local_file_mode :: "fs_metadata \<Rightarrow> u32" where
  "local_file_mode md = md_mode md AND 0xFFF"

definition cli_normalize_mode :: "u32 \<Rightarrow> u32" where
  "cli_normalize_mode mode = (let m = mode AND 0xFFF in if m = 0 then 0x1A4 else m)"

section \<open>Local manifests\<close>

record local_batch_file =
  lf_root_index :: u32
  lf_path :: string
  lf_size :: nat

record local_batch_manifest =
  lm_sources :: "string list"
  lm_roots :: "transfer_root list"
  lm_entries :: "transfer_entry list"
  lm_files :: "local_batch_file list"
  lm_total_bytes :: nat

type_synonym local_lists = "transfer_entry list \<times> local_batch_file list \<times> nat"

fun transfer_entry_kind_debug :: "transfer_entry_kind \<Rightarrow> string" where
  "transfer_entry_kind_debug TFile = ''File''"
| "transfer_entry_kind_debug TDirectory = ''Directory''"

fun cli_unique_root_names_from ::
  "(string \<times> transfer_entry_kind) list \<Rightarrow> transfer_root list \<Rightarrow> anyhow + unit" where
  "cli_unique_root_names_from seen [] = Inr ()"
| "cli_unique_root_names_from seen (root # roots) =
     (case map_of seen (tr_source_name root) of
        Some previous \<Rightarrow>
          Inl (anyhow_msg (''duplicate transfer root name `'' @ tr_source_name root
            @ ''` is not supported ('' @ transfer_entry_kind_debug previous @ '' and ''
            @ transfer_entry_kind_debug (tr_kind root) @ '')''))
      | None \<Rightarrow> cli_unique_root_names_from (btree_insert (tr_source_name root) (tr_kind root) seen) roots)"

definition cli_ensure_unique_root_names :: "transfer_root list \<Rightarrow> anyhow + unit" where
  "cli_ensure_unique_root_names roots = cli_unique_root_names_from [] roots"

definition cli_transfer_source_name :: "string \<Rightarrow> string app" where
  "cli_transfer_source_name path =
     (case file_name path of
        Some name \<Rightarrow> retE (display name)
      | None \<Rightarrow>
          bindE (ctx (''failed to canonicalize '' @ display path) (sys_canonicalize path)) (\<lambda>canonical.
          case file_name canonical of
            Some name \<Rightarrow> retE (display name)
          | None \<Rightarrow> failE (anyhow_msg (''path has no usable file name: '' @ display path))))"

fun collect_local_matches :: "string \<Rightarrow> (io_error + string) list \<Rightarrow> anyhow + string list" where
  "collect_local_matches spec [] = Inr []"
| "collect_local_matches spec (entry # rest) =
     (case entry of
        Inl e \<Rightarrow> Inl (io_context (''failed to resolve local match for '' @ spec) e)
      | Inr p \<Rightarrow> (case collect_local_matches spec rest of Inl e \<Rightarrow> Inl e | Inr ps \<Rightarrow> Inr (p # ps)))"

definition expand_local_source :: "libs \<Rightarrow> string \<Rightarrow> string list app" where
  "expand_local_source L spec =
     bindE (if cli_has_glob_pattern spec then bindE (path_exists spec) (\<lambda>b. retE (\<not> b)) else retE False)
       (\<lambda>expand.
     if expand then
       bindE (getE (\<lambda>w. glob_with L (nodes w) spec)) (\<lambda>found.
       case found of
         Inl err \<Rightarrow> failE (context_msg (''invalid local glob pattern: '' @ spec) (anyhow_msg err))
       | Inr results \<Rightarrow>
           bindE (liftE (collect_local_matches spec results)) (\<lambda>paths.
           if paths = [] then failE (anyhow_msg (''local pattern matched no paths: '' @ spec))
           else retE (sort_key components paths)))
     else
       bindE (path_exists spec) (\<lambda>present.
       if \<not> present then failE (anyhow_msg (''local path does not exist: '' @ display spec))
       else retE [spec]))"

primrec expand_local_sources :: "libs \<Rightarrow> string list \<Rightarrow> string list \<Rightarrow> string list app" where
  "expand_local_sources L [] sources = retE sources"
| "expand_local_sources L (spec # specs) sources =
     bindE (expand_local_source L spec) (\<lambda>found. expand_local_sources L specs (sources @ found))"

text \<open>The loop over the children of a directory; \<open>descend\<close> is the recursive call.\<close>

primrec append_local_children ::
  "(string \<Rightarrow> string \<Rightarrow> fs_metadata \<Rightarrow> local_lists \<Rightarrow> local_lists app) \<Rightarrow> string \<Rightarrow> string list \<Rightarrow>
   local_lists \<Rightarrow> local_lists app" where
  "append_local_children descend relative_path [] acc = retE acc"
| "append_local_children descend relative_path (child # rest) acc =
     (case file_name child of
        None \<Rightarrow> failE (anyhow_msg (''path has no file name: '' @ display child))
      | Some child_name \<Rightarrow>
          let child_relative = (if relative_path = [] then child_name
                                else path_join relative_path child_name)
          in bindE (ctx (''failed to stat local path '' @ display child) (symlink_metadata child))
               (\<lambda>child_metadata.
             bindE (descend child child_relative child_metadata acc) (\<lambda>acc'.
             append_local_children descend relative_path rest acc')))"

primrec append_local_manifest_entry ::
  "nat \<Rightarrow> u32 \<Rightarrow> string \<Rightarrow> string \<Rightarrow> fs_metadata \<Rightarrow> local_lists \<Rightarrow> local_lists app" where
  "append_local_manifest_entry 0 root_index path relative_path md acc = failE out_of_fuel"
| "append_local_manifest_entry (Suc n) root_index path relative_path md acc =
     (case acc of (entries, files, total_bytes) \<Rightarrow>
      if md_type md = FtSymlink then
        failE (anyhow_msg (''symbolic links are not supported in batch push: '' @ display path))
      else if md_type md = FtDir then
        bindE (liftE (cli_path_to_transfer_string relative_path)) (\<lambda>relative.
        let entry = \<lparr>te_root_index = root_index, te_relative_path = relative, te_kind = TDirectory,
                     te_mode = local_file_mode md, te_size = 0\<rparr>
        in bindE (ctx (''failed to read local directory '' @ display path) (sys_read_dir path)) (\<lambda>names.
           append_local_children (append_local_manifest_entry n root_index) relative_path
             (sort_key components (map (path_join path) names)) (entries @ [entry], files, total_bytes)))
      else if md_type md \<noteq> FtFile then
        failE (anyhow_msg (''unsupported local path type: '' @ display path))
      else
        bindE (liftE (cli_path_to_transfer_string relative_path)) (\<lambda>relative.
        retE (entries @ [\<lparr>te_root_index = root_index, te_relative_path = relative, te_kind = TFile,
                          te_mode = local_file_mode md, te_size = md_len md\<rparr>],
              files @ [\<lparr>lf_root_index = root_index, lf_path = path, lf_size = md_len md\<rparr>],
              total_bytes + md_len md)))"

definition add_local_source :: "string \<Rightarrow> transfer_root list \<Rightarrow> local_lists \<Rightarrow>
   (transfer_root list \<times> local_lists) app" where
  "add_local_source source roots acc =
     bindE (ctx (''failed to stat local path '' @ display source) (symlink_metadata source)) (\<lambda>md.
     if md_type md = FtSymlink then
       failE (anyhow_msg (''symbolic links are not supported in batch push: '' @ display source))
     else if md_type md \<noteq> FtDir \<and> md_type md \<noteq> FtFile then
       failE (anyhow_msg (''unsupported local path type: '' @ display source))
     else
       bindE (cli_transfer_source_name source) (\<lambda>source_name.
       let kind = (if md_type md = FtDir then TDirectory else TFile);
           root_index = word_of_nat (length roots);
           root = \<lparr>tr_source_name = source_name, tr_kind = kind, tr_mode = local_file_mode md\<rparr>
       in bindE (getE fs_height) (\<lambda>fuel.
          bindE (append_local_manifest_entry fuel root_index source [] md acc) (\<lambda>acc'.
          retE (roots @ [root], acc')))))"

primrec add_local_sources :: "string list \<Rightarrow> transfer_root list \<Rightarrow> local_lists \<Rightarrow>
   (transfer_root list \<times> local_lists) app" where
  "add_local_sources [] roots acc = retE (roots, acc)"
| "add_local_sources (source # sources) roots acc =
     bindE (add_local_source source roots acc) (\<lambda>(roots', acc'). add_local_sources sources roots' acc')"

definition build_local_batch_manifest :: "libs \<Rightarrow> string list \<Rightarrow> local_batch_manifest app" where
  "build_local_batch_manifest L source_specs =
     bindE (expand_local_sources L source_specs []) (\<lambda>sources.
     bindE (add_local_sources sources [] ([], [], 0)) (\<lambda>(roots, entries, files, total_bytes).
     thenE (liftE (cli_ensure_unique_root_names roots))
           (retE \<lparr>lm_sources = sources, lm_roots = roots, lm_entries = entries, lm_files = files,
                  lm_total_bytes = total_bytes\<rparr>)))"

text \<open>The part of a manifest under some of its roots, which are numbered anew.\<close>

fun select_roots :: "local_batch_manifest \<Rightarrow> u32 list \<Rightarrow> u32 \<Rightarrow>
   (u32 \<times> u32) list \<times> string list \<times> transfer_root list \<Rightarrow>
   anyhow + (u32 \<times> u32) list \<times> string list \<times> transfer_root list" where
  "select_roots manifest [] new_index acc = Inr acc"
| "select_roots manifest (root_index # rest) new_index (remapped, sources, roots) =
     (if unat root_index < length (lm_sources manifest) \<and> unat root_index < length (lm_roots manifest)
      then select_roots manifest rest (new_index + 1)
             (btree_insert root_index new_index remapped,
              sources @ [lm_sources manifest ! unat root_index],
              roots @ [lm_roots manifest ! unat root_index])
      else Inl (anyhow_msg (''invalid local batch manifest root index '' @ show_nat (unat root_index))))"

definition filter_local_batch_manifest ::
  "local_batch_manifest \<Rightarrow> u32 list \<Rightarrow> anyhow + local_batch_manifest" where
  "filter_local_batch_manifest manifest root_indexes =
     (case select_roots manifest root_indexes 0 ([], [], []) of
        Inl e \<Rightarrow> Inl e
      | Inr (remapped, sources, roots) \<Rightarrow>
          let entries = List.map_filter (\<lambda>entry.
                map_option (\<lambda>i. entry\<lparr>te_root_index := i\<rparr>) (map_of remapped (te_root_index entry)))
                (lm_entries manifest);
              files = List.map_filter (\<lambda>file.
                map_option (\<lambda>i. file\<lparr>lf_root_index := i\<rparr>) (map_of remapped (lf_root_index file)))
                (lm_files manifest)
          in Inr \<lparr>lm_sources = sources, lm_roots = roots, lm_entries = entries, lm_files = files,
                  lm_total_bytes = sum_list (map lf_size files)\<rparr>)"

section \<open>Push\<close>

definition cli_stream_frame :: "libs \<Rightarrow> bytes \<Rightarrow> unit app" where
  "cli_stream_frame L payload =
     map_errE (protocol_context ''failed to stream file data'')
       (write_stream_frame (buf_write_all L BUFFER_CAPACITY) REQUEST_ID File False payload)"

function stream_local_chunks :: "libs \<Rightarrow> inode \<times> bytes \<Rightarrow> nat \<Rightarrow> nat app" where
  "stream_local_chunks L file file_bytes =
     bindE (plain (sys_read file DEFAULT_STREAM_CHUNK_SIZE)) (\<lambda>(chunk, file').
     if chunk = [] then retE file_bytes
     else thenE (cli_stream_frame L chunk) (stream_local_chunks L file' (file_bytes + length chunk)))"
  by pat_completeness auto
termination
  by (relation "measure (\<lambda>(_, h, _). length (snd h))") (auto dest: sys_read_shrinks)

declare stream_local_chunks.simps [simp del]

definition stream_local_file :: "libs \<Rightarrow> local_batch_file \<Rightarrow> nat \<Rightarrow> nat app" where
  "stream_local_file L file_entry total_bytes =
     bindE (ctx (''failed to open local file '' @ display (lf_path file_entry))
              (sys_open_read (lf_path file_entry))) (\<lambda>file.
     bindE (stream_local_chunks L file 0) (\<lambda>file_bytes.
     if file_bytes \<noteq> lf_size file_entry then
       failE (anyhow_msg (''local file changed during push: expected '' @ show_nat (lf_size file_entry)
         @ '' bytes, read '' @ show_nat file_bytes @ '' from '' @ display (lf_path file_entry)))
     else retE (total_bytes + file_bytes)))"

primrec stream_local_files :: "libs \<Rightarrow> local_batch_file list \<Rightarrow> nat \<Rightarrow> nat app" where
  "stream_local_files L [] total_bytes = retE total_bytes"
| "stream_local_files L (file_entry # rest) total_bytes =
     bindE (stream_local_file L file_entry total_bytes) (\<lambda>total. stream_local_files L rest total)"

definition stream_local_batch_files :: "libs \<Rightarrow> local_batch_file list \<Rightarrow> nat app" where
  "stream_local_batch_files L files =
     with_bufwriter
       (bindE (stream_local_files L files 0) (\<lambda>total_bytes.
        thenE (ctx ''failed to flush push stream'' buf_flush) (retE total_bytes)))"

record push_summary =
  ps_entries_written :: nat
  ps_bytes_written :: nat
  ps_skipped :: bool
  ps_verification :: "string option"
  ps_verified :: bool

definition execute_push_manifest ::
  "libs \<Rightarrow> (control_response \<Rightarrow> string) \<Rightarrow> connecting \<Rightarrow> string \<Rightarrow> local_batch_manifest \<Rightarrow> string \<Rightarrow>
   push_summary app" where
  "execute_push_manifest L debug outcome addr manifest remote_path =
     thenE (liftE (open_tcp_connection outcome addr))
    (thenE (send_request L ''failed to send push request''
              (PushBatch remote_path (lm_roots manifest) (lm_entries manifest)))
    (bindE (read_response L) (\<lambda>ready.
     if ready \<noteq> PushBatchReady then failE (unexpected debug ready)
     else
       bindE (stream_local_batch_files L (lm_files manifest)) (\<lambda>bytes_sent.
       if bytes_sent \<noteq> lm_total_bytes manifest then
         failE (anyhow_msg (''push size mismatch before completion: expected ''
           @ show_nat (lm_total_bytes manifest) @ '' bytes, streamed '' @ show_nat bytes_sent))
       else
         thenE (map_errE (protocol_context ''failed to finish push stream'')
                  (write_stream_frame conn_write_all REQUEST_ID File True []))
        (bindE (read_response L) (\<lambda>response.
         case response of
           PushBatchComplete entries_written bytes_written \<Rightarrow>
             if bytes_written \<noteq> bytes_sent then
               failE (anyhow_msg (''push size mismatch: daemon wrote '' @ show_nat bytes_written
                 @ '' bytes, sent '' @ show_nat bytes_sent))
             else retE \<lparr>ps_entries_written = entries_written, ps_bytes_written = bytes_written,
                         ps_skipped = False, ps_verification = None, ps_verified = False\<rparr>
         | other \<Rightarrow> failE (unexpected debug other)))))))"

definition execute_push ::
  "libs \<Rightarrow> (control_response \<Rightarrow> string) \<Rightarrow> connecting \<Rightarrow> string \<Rightarrow> string list \<Rightarrow> string \<Rightarrow>
   push_summary app" where
  "execute_push L debug outcome addr source_specs remote_path =
     bindE (build_local_batch_manifest L source_specs) (\<lambda>manifest.
     execute_push_manifest L debug outcome addr manifest remote_path)"

section \<open>Pull\<close>

definition cli_read_file_stream_chunk_into :: "string \<Rightarrow> (stream_frame_header \<times> bytes) app" where
  "cli_read_file_stream_chunk_into context_name =
     bindE (map_errE (protocol_context (''failed to read '' @ context_name @ '' frame''))
              (read_stream_frame_into conn_read_exact)) (\<lambda>(chunk, payload).
     if s_request_id chunk \<noteq> REQUEST_ID then
       failE (anyhow_msg (''request id mismatch: expected '' @ show_nat (unat REQUEST_ID)
         @ '', got '' @ show_nat (unat (s_request_id chunk))))
     else if s_channel chunk \<noteq> File then
       failE (anyhow_msg (''unexpected stream channel during '' @ context_name @ '': ''
         @ stream_channel_debug (s_channel chunk)))
     else retE (chunk, payload))"

lemma cli_read_chunk_iff:
  "cli_read_file_stream_chunk_into name w = (Inr (chunk, payload), v) \<longleftrightarrow>
     read_file_stream_chunk_into REQUEST_ID name w = (Inr (chunk, payload), v)"
  by (auto simp: cli_read_file_stream_chunk_into_def read_file_stream_chunk_into_def bindE_eq_Inr_iff
      split: if_splits)

definition cli_expect_file_stream_eof :: "string \<Rightarrow> unit app" where
  "cli_expect_file_stream_eof context_name =
     bindE (cli_read_file_stream_chunk_into context_name) (\<lambda>(chunk, payload).
     if \<not> s_eof chunk \<or> payload \<noteq> [] then
       failE (anyhow_msg (''expected end of '' @ context_name @ '' file stream''))
     else retE ())"

definition create_local_output_file :: "string \<Rightarrow> u32 \<Rightarrow> loc app" where
  "create_local_output_file path mode =
     thenE (case parent_path path of
              Some parent \<Rightarrow>
                if parent \<noteq> [] then
                  ctx (''failed to create local directory '' @ display parent) (create_dir_all parent)
                else retE ()
            | None \<Rightarrow> retE ())
       (ctx (''failed to open local output '' @ display path)
          (sys_open_truncate path (cli_normalize_mode mode)))"

definition resolve_local_batch_roots :: "string \<Rightarrow> string \<Rightarrow> transfer_root list \<Rightarrow> string list app" where
  "resolve_local_batch_roots destination destination_arg roots =
     (if roots = [] then failE (anyhow_msg ''transfer manifest did not include any roots'')
      else
        thenE (liftE (cli_ensure_unique_root_names roots))
       (bindE (bindE (tryE (metadata destination)) (\<lambda>r.
                 case r of
                   Inr md \<Rightarrow> retE (Some md)
                 | Inl err \<Rightarrow>
                     if io_kind err = NotFound then retE None
                     else failE (io_context (''failed to stat local destination '' @ display destination)
                            err))) (\<lambda>md.
        if length roots = 1 then
          let treat_as_directory =
                (case md of None \<Rightarrow> False | Some m \<Rightarrow> md_type m = FtDir) \<or> ends_with destination_arg ''/''
          in retE [if treat_as_directory then path_join destination (tr_source_name (hd roots))
                   else destination]
        else if (case md of None \<Rightarrow> False | Some m \<Rightarrow> md_type m \<noteq> FtDir) then
          failE (anyhow_msg (''local destination is not a directory: '' @ display destination))
        else retE (map (\<lambda>root. path_join destination (tr_source_name root)) roots))))"

definition local_write_chunk :: "string \<Rightarrow> loc \<Rightarrow> bytes \<Rightarrow> unit app" where
  "local_write_chunk output_path file payload =
     (if payload \<noteq> [] then ctx (''failed to write '' @ display output_path) (file_write_all file payload)
      else retE ())"

lemma local_write_chunk_inp: "local_write_chunk p q bs w = (r, v) \<Longrightarrow> inp v = inp w"
  by (auto simp: local_write_chunk_def ctx_def map_errE_def split: if_splits prod.splits sum.splits
      dest: file_write_inp)

function local_receive_file :: "string \<Rightarrow> loc \<Rightarrow> nat \<Rightarrow> nat \<Rightarrow> world \<Rightarrow> (anyhow + nat) \<times> world" where
  "local_receive_file output_path file remaining bytes_received w =
     (if remaining = 0 then (Inr bytes_received, w)
      else
        case cli_read_file_stream_chunk_into ''pull'' w of
          (Inl e, w1) \<Rightarrow> (Inl e, w1)
        | (Inr (chunk, payload), w1) \<Rightarrow>
            if s_eof chunk then
              (Inl (anyhow_msg (''unexpected end of pull stream while writing '' @ display output_path)), w1)
            else if remaining < length payload then
              (Inl (anyhow_msg (''pull stream overflow while writing '' @ display output_path)), w1)
            else
              (case local_write_chunk output_path file payload w1 of
                 (Inl e, w2) \<Rightarrow> (Inl e, w2)
               | (Inr _, w2) \<Rightarrow>
                   local_receive_file output_path file (remaining - length payload)
                     (bytes_received + length payload) w2))"
  by pat_completeness auto
termination
  by (relation "measure (\<lambda>(_, _, _, _, w). length (inp w))")
    (auto dest!: cli_read_chunk_iff [THEN iffD1, THEN read_chunk_ok(1), OF sym]
        local_write_chunk_inp [OF sym] simp: HEADER_LEN_def)

declare local_receive_file.simps [simp del]

definition receive_local_entry :: "string list \<Rightarrow> transfer_entry \<Rightarrow> nat \<Rightarrow> nat app" where
  "receive_local_entry root_paths entry bytes_received =
     bindE (liftE (cli_resolve_transfer_entry_path root_paths entry)) (\<lambda>output_path.
     case te_kind entry of
       TDirectory \<Rightarrow>
         thenE (ctx (''failed to create local directory '' @ display output_path)
                  (create_dir_all output_path))
        (thenE (if te_mode entry \<noteq> 0 then
                  ctx (''failed to set permissions on '' @ display output_path)
                    (sys_set_permissions output_path (te_mode entry AND 0xFFF))
                else retE ())
               (retE bytes_received))
     | TFile \<Rightarrow>
         bindE (create_local_output_file output_path (te_mode entry)) (\<lambda>file.
         bindE (local_receive_file output_path file (te_size entry) bytes_received)
           (\<lambda>bytes_received'.
         thenE (plain (file_flush file))
        (thenE (if te_mode entry \<noteq> 0 then
                  ctx (''failed to set permissions on '' @ display output_path)
                    (sys_set_permissions output_path (te_mode entry AND 0xFFF))
                else retE ())
               (retE bytes_received')))))"

primrec receive_local_entries ::
  "string list \<Rightarrow> transfer_entry list \<Rightarrow> nat \<Rightarrow> nat \<Rightarrow> (nat \<times> nat) app" where
  "receive_local_entries root_paths [] entries_received bytes_received =
     retE (entries_received, bytes_received)"
| "receive_local_entries root_paths (entry # entries) entries_received bytes_received =
     bindE (receive_local_entry root_paths entry bytes_received) (\<lambda>bytes_received'.
     receive_local_entries root_paths entries (entries_received + 1) bytes_received')"

definition receive_local_batch ::
  "string \<Rightarrow> string \<Rightarrow> transfer_root list \<Rightarrow> transfer_entry list \<Rightarrow> (nat \<times> nat) app" where
  "receive_local_batch destination destination_arg roots entries =
     bindE (resolve_local_batch_roots destination destination_arg roots) (\<lambda>root_paths.
     bindE (receive_local_entries root_paths entries 0 0) (\<lambda>received.
     thenE (cli_expect_file_stream_eof ''pull'') (retE received)))"

record pull_summary =
  pl_entries_received :: nat
  pl_bytes_received :: nat
  pl_total_bytes :: nat
  pl_verification :: "string option"
  pl_verified :: bool
  pl_roots :: "transfer_root list"
  pl_entries :: "transfer_entry list"

definition execute_pull ::
  "libs \<Rightarrow> (control_response \<Rightarrow> string) \<Rightarrow> connecting \<Rightarrow> string \<Rightarrow> string list \<Rightarrow> string \<Rightarrow>
   pull_summary app" where
  "execute_pull L debug outcome addr remote_sources local_destination =
     thenE (liftE (open_tcp_connection outcome addr))
    (thenE (send_request L ''failed to send pull request'' (PullBatch remote_sources))
    (bindE (read_response L) (\<lambda>first.
     case first of
       PullBatchMetadata roots entries total_bytes \<Rightarrow>
         bindE (receive_local_batch local_destination local_destination roots entries)
           (\<lambda>(entries_received, bytes_received).
         bindE (read_response L) (\<lambda>response.
         case response of
           PullBatchComplete entries_sent bytes_sent \<Rightarrow>
             if entries_sent \<noteq> entries_received then
               failE (anyhow_msg (''pull entry mismatch: daemon sent '' @ show_nat entries_sent
                 @ '' entries, received '' @ show_nat entries_received))
             else if bytes_sent \<noteq> bytes_received then
               failE (anyhow_msg (''pull size mismatch: daemon sent '' @ show_nat bytes_sent
                 @ '' bytes, received '' @ show_nat bytes_received))
             else retE \<lparr>pl_entries_received = entries_received, pl_bytes_received = bytes_received,
                         pl_total_bytes = total_bytes, pl_verification = None, pl_verified = False,
                         pl_roots = roots, pl_entries = entries\<rparr>
         | other \<Rightarrow> failE (unexpected debug other)))
     | other \<Rightarrow> failE (unexpected debug other))))"

section \<open>Comparing a transferred tree\<close>

record transfer_path_state =
  ts_kind :: fs_entry_kind
  ts_size :: "nat option"
  ts_sha256 :: "string option"

type_synonym transfer_states = "(string \<times> transfer_path_state) list"

definition local_fs_entry_kind :: "fs_metadata \<Rightarrow> fs_entry_kind" where
  "local_fs_entry_kind md =
     (if md_type md = FtFile then FkFile
      else if md_type md = FtDir then FkDirectory
      else if md_type md = FtSymlink then FkSymlink
      else FkOther)"

definition sha256_local_path :: "libs \<Rightarrow> string \<Rightarrow> string app" where
  "sha256_local_path L path =
     bindE (ctx (''failed to open '' @ display path @ '' for hashing'') (sys_open_read path)) (\<lambda>file.
     bindE (plain (hash_loop file [])) (\<lambda>fed.
     retE (hex_digest (sha256_digest L fed))))"

primrec local_state_children ::
  "(string \<Rightarrow> fs_metadata \<Rightarrow> transfer_states \<Rightarrow> transfer_states app) \<Rightarrow> string list \<Rightarrow>
   transfer_states \<Rightarrow> transfer_states app" where
  "local_state_children descend [] state = retE state"
| "local_state_children descend (child # rest) state =
     bindE (ctx (''failed to stat local path '' @ display child) (symlink_metadata child)) (\<lambda>md.
     bindE (descend child md state) (\<lambda>state'. local_state_children descend rest state'))"

primrec collect_local_transfer_state_recursive ::
  "nat \<Rightarrow> libs \<Rightarrow> bool \<Rightarrow> string \<Rightarrow> string \<Rightarrow> fs_metadata \<Rightarrow> transfer_states \<Rightarrow> transfer_states app" where
  "collect_local_transfer_state_recursive 0 L include_hash root path md state = failE out_of_fuel"
| "collect_local_transfer_state_recursive (Suc n) L include_hash root path md state =
     bindE (liftE (relative_transfer_path root path)) (\<lambda>relative.
     bindE (if include_hash \<and> md_type md = FtFile
            then bindE (sha256_local_path L path) (\<lambda>h. retE (Some h)) else retE None) (\<lambda>sha256.
     let state' = btree_insert relative
           \<lparr>ts_kind = local_fs_entry_kind md,
            ts_size = (if md_type md = FtFile then Some (md_len md) else None),
            ts_sha256 = sha256\<rparr> state
     in if md_type md = FtDir then
          bindE (ctx (''failed to read local directory '' @ display path) (sys_read_dir path)) (\<lambda>names.
          local_state_children (collect_local_transfer_state_recursive n L include_hash root)
            (sort_key components (map (path_join path) names)) state')
        else retE state'))"

definition collect_local_transfer_state :: "libs \<Rightarrow> bool \<Rightarrow> string \<Rightarrow> transfer_states app" where
  "collect_local_transfer_state L include_hash root =
     bindE (ctx (''failed to stat local path '' @ display root) (symlink_metadata root)) (\<lambda>md.
     bindE (getE fs_height) (\<lambda>fuel.
     collect_local_transfer_state_recursive fuel L include_hash root root md []))"

definition transfer_state_matches :: "transfer_path_state \<Rightarrow> transfer_path_state \<Rightarrow> bool" where
  "transfer_state_matches expected actual \<longleftrightarrow>
     ts_kind expected = ts_kind actual \<and> ts_size expected = ts_size actual \<and>
     (case (ts_sha256 expected, ts_sha256 actual) of
        (Some e, Some a) \<Rightarrow> e = a
      | (Some _, None) \<Rightarrow> False
      | _ \<Rightarrow> True)"

definition transfer_states_match :: "transfer_states \<Rightarrow> transfer_states \<Rightarrow> bool" where
  "transfer_states_match expected actual \<longleftrightarrow>
     list_all (\<lambda>(path, expected_state).
       case map_of actual path of
         None \<Rightarrow> False
       | Some actual_state \<Rightarrow> transfer_state_matches expected_state actual_state) expected"

fun transfer_entry_kind_to_fs_kind :: "transfer_entry_kind \<Rightarrow> fs_entry_kind" where
  "transfer_entry_kind_to_fs_kind TFile = FkFile"
| "transfer_entry_kind_to_fs_kind TDirectory = FkDirectory"

definition expected_transfer_state_for_root :: "transfer_entry list \<Rightarrow> u32 \<Rightarrow> transfer_states" where
  "expected_transfer_state_for_root entries root_index =
     fold (\<lambda>entry state.
         btree_insert (te_relative_path entry)
           \<lparr>ts_kind = transfer_entry_kind_to_fs_kind (te_kind entry),
            ts_size = (if te_kind entry = TFile then Some (te_size entry) else None),
            ts_sha256 = None\<rparr> state)
       (filter (\<lambda>entry. te_root_index entry = root_index) entries) []"

primrec verify_local_roots ::
  "libs \<Rightarrow> transfer_entry list \<Rightarrow> u32 \<Rightarrow> string list \<Rightarrow> unit app" where
  "verify_local_roots L entries index [] = retE ()"
| "verify_local_roots L entries index (local_root # rest) =
     bindE (collect_local_transfer_state L False local_root) (\<lambda>actual.
     if \<not> transfer_states_match (expected_transfer_state_for_root entries index) actual then
       failE (anyhow_msg (''local destination does not match pulled manifest: '' @ display local_root))
     else verify_local_roots L entries (index + 1) rest)"

definition verify_local_pull_against_manifest ::
  "libs \<Rightarrow> string \<Rightarrow> string \<Rightarrow> transfer_root list \<Rightarrow> transfer_entry list \<Rightarrow> unit app" where
  "verify_local_pull_against_manifest L destination destination_arg roots entries =
     bindE (resolve_local_batch_roots destination destination_arg roots) (\<lambda>local_root_paths.
     verify_local_roots L entries 0 local_root_paths)"

end
