(* ===== verification/Cli_Request_Facts.thy ===== *)
theory Cli_Request_Facts
  imports Cli_Request Daemon_Facts
begin

text \<open>One request on a connection on which nothing goes wrong, from the client's side.\<close>

definition request_fits :: "libs \<Rightarrow> control_request \<Rightarrow> bool" where
  "request_fits L req \<longleftrightarrow>
     (case request_to_vec L req of Inl _ \<Rightarrow> False | Inr p \<Rightarrow> length p \<le> MAX_PAYLOAD_LEN)"

definition request_bytes :: "libs \<Rightarrow> control_request \<Rightarrow> bytes" where
  "request_bytes L req =
     (case request_to_vec L req of Inl _ \<Rightarrow> [] | Inr p \<Rightarrow> frame_bytes Request 0 REQUEST_ID p)"

lemma request_fitsE:
  assumes "request_fits L req"
  obtains p where "request_to_vec L req = Inr p" "length p \<le> MAX_PAYLOAD_LEN"
    "request_bytes L req = frame_bytes Request 0 REQUEST_ID p"
  using assms by (auto simp: request_fits_def request_bytes_def split: sum.splits)

lemma calm_send_request:
  assumes calm: "sched w = []" and fits: "request_fits L req"
  shows "send_request L m req w = (Inr (), w\<lparr>outp := outp w @ request_bytes L req\<rparr>)"
  using fits
proof (rule request_fitsE)
  fix p
  assume "request_to_vec L req = Inr p" "length p \<le> MAX_PAYLOAD_LEN"
    "request_bytes L req = frame_bytes Request 0 REQUEST_ID p"
  with calm show ?thesis
    by (simp add: send_request_def write_json_frame_def write_frame_def Let_def frame_bytes_def
        map_errE_def thenE_def bindE_def conn_write_all_def)
qed

lemma calm_read_response:
  assumes calm: "sched w = []" and json: "json_roundtrip (response_to_vec L) (response_from_slice L)"
    and r: "sendable L r" and inp: "inp w = response_bytes L rid r @ rest"
  shows "read_response L w = (Inr r, w\<lparr>inp := rest\<rparr>)"
proof -
  from r obtain p where p: "response_to_vec L r = Inr p" "length p \<le> MAX_PAYLOAD_LEN"
    by (auto simp: sendable_def split: sum.splits)
  then have "inp w = frame_bytes Response 0 rid p @ rest" using inp by (simp add: response_bytes_def)
  from calm_read_frame [OF calm this p(2)] json p(1) show ?thesis
    by (simp add: read_response_def bindE_def map_errE_def decode_json_def decode_json_payload_def
        json_roundtrip_def)
qed

lemma read_response_closed:
  assumes "sched w = []" "inp w = []"
  shows "\<exists>e. read_response L w = (Inl e, w)"
  using assms
  by (simp add: read_response_def read_frame_def read_frame_into_def bindE_def map_errE_def conn_read_exact_def
      HEADER_LEN_def)

lemma calm_request:
  assumes calm: "sched w = []" and fits: "request_fits L req"
  shows "request L Connected addr req w = read_response L (w\<lparr>outp := outp w @ request_bytes L req\<rparr>)"
  using calm_send_request [OF calm fits]
  by (simp add: request_def open_tcp_connection_def thenE_def bindE_def)

end
