(* ===== verification/Cli_Transfer_Facts.thy ===== *)
theory Cli_Transfer_Facts
  imports Cli_Transfer Cli_Request_Facts Daemon_Transfer_Facts
begin

text \<open>
  What the client sends when nothing goes wrong in its system: the frames of a file, of a batch
  of files, and the whole exchange of a push of one file.
\<close>

section \<open>Streaming files\<close>

lemma calm_buf_write:
  assumes L: "bufwriter_spec L" and calm: "sched w = []"
  shows "\<exists>out keep. buf_write_all L cap bs w = (Inr (), w\<lparr>outp := out, wbuf := keep\<rparr>) \<and>
    out @ keep = outp w @ wbuf w @ bs"
proof -
  obtain x k where put: "bufwriter_put L cap (wbuf w) bs = (x, k)" by force
  with L have "x @ k = wbuf w @ bs" by (metis bufwriter_spec_def fst_conv snd_conv)
  with calm put show ?thesis
    by (intro exI [of _ "outp w @ x"] exI [of _ k])
      (auto simp: buf_write_all_def thenE_def bindE_def conn_write_all_def)
qed

lemma calm_cli_stream_frame:
  assumes L: "bufwriter_spec L" and calm: "sched w = []" and len: "length p \<le> MAX_PAYLOAD_LEN"
  shows "\<exists>out keep. cli_stream_frame L p w = (Inr (), w\<lparr>outp := out, wbuf := keep\<rparr>) \<and>
    out @ keep = outp w @ wbuf w @ stream_bytes REQUEST_ID File False p"
proof -
  let ?h = "\<lparr>h_version = PROTOCOL_VERSION, h_kind = Stream, h_flags = stream_channel_code File,
    h_request_id = REQUEST_ID, h_payload_len = word_of_nat (length p)\<rparr>"
  obtain o1 k1 where 1: "buf_write_all L BUFFER_CAPACITY (header_encode ?h) w = (Inr (), w\<lparr>outp := o1, wbuf := k1\<rparr>)"
    "o1 @ k1 = outp w @ wbuf w @ header_encode ?h"
    using calm_buf_write [OF L calm] by blast
  obtain o2 k2 where 2: "buf_write_all L BUFFER_CAPACITY p (w\<lparr>outp := o1, wbuf := k1\<rparr>)
      = (Inr (), w\<lparr>outp := o2, wbuf := k2\<rparr>)" "o2 @ k2 = o1 @ k1 @ p"
    using calm_buf_write [OF L, of "w\<lparr>outp := o1, wbuf := k1\<rparr>" BUFFER_CAPACITY p] calm by auto
  have "cli_stream_frame L p w = (Inr (), w\<lparr>outp := o2, wbuf := k2\<rparr>)"
    using 1(1) 2(1) len
    by (simp add: cli_stream_frame_def write_stream_frame_def Let_def map_errE_def thenE_def bindE_def)
  moreover have "o2 @ k2 = outp w @ wbuf w @ stream_bytes REQUEST_ID File False p"
    using 1(2) 2(2) by (simp add: stream_bytes_def frame_bytes_def stream_flags_def)
  ultimately show ?thesis by blast
qed

lemma calm_stream_chunks:
  assumes L: "bufwriter_spec L"
  shows "sched w = [] \<Longrightarrow> i_type nd \<noteq> FtDir \<Longrightarrow>
    \<exists>out keep cs. stream_local_chunks L (nd, bs) n w = (Inr (n + length bs), w\<lparr>outp := out, wbuf := keep\<rparr>) \<and>
      small_chunks cs \<and> concat cs = bs \<and> out @ keep = outp w @ wbuf w @ chunk_frames REQUEST_ID cs"
proof (induction "length bs" arbitrary: bs n w rule: less_induct)
  case less
  let ?c = "take DEFAULT_STREAM_CHUNK_SIZE bs" and ?r = "drop DEFAULT_STREAM_CHUNK_SIZE bs"
  have step: "stream_local_chunks L (nd, bs) n w =
      (if ?c = [] then retE n
       else thenE (cli_stream_frame L ?c) (stream_local_chunks L (nd, ?r) (n + length ?c))) w"
    using less.prems by (subst stream_local_chunks.simps) (simp add: bindE_Inr)
  show ?case
  proof (cases "bs = []")
    case True
    with step show ?thesis
      by (intro exI [of _ "outp w"] exI [of _ "wbuf w"] exI [of _ "[]"])
        (simp add: small_chunks_def chunk_frames_def)
  next
    case False
    then have c: "?c \<noteq> []" "length ?c \<le> MAX_PAYLOAD_LEN" "length ?r < length bs"
      by (auto simp: DEFAULT_STREAM_CHUNK_SIZE_def MAX_PAYLOAD_LEN_def)
    obtain o1 k1 where 1: "cli_stream_frame L ?c w = (Inr (), w\<lparr>outp := o1, wbuf := k1\<rparr>)"
      "o1 @ k1 = outp w @ wbuf w @ stream_bytes REQUEST_ID File False ?c"
      using calm_cli_stream_frame [OF L less.prems(1) c(2)] by blast
    have len: "n + length ?c + length ?r = n + length bs"
      by (metis append_take_drop_id length_append add.assoc)
    obtain out keep cs where 2: "stream_local_chunks L (nd, ?r) (n + length ?c) (w\<lparr>outp := o1, wbuf := k1\<rparr>)
        = (Inr (n + length bs), w\<lparr>outp := out, wbuf := keep\<rparr>)"
      "small_chunks cs" "concat cs = ?r" "out @ keep = o1 @ k1 @ chunk_frames REQUEST_ID cs"
      using less.hyps [OF c(3), of "w\<lparr>outp := o1, wbuf := k1\<rparr>" "n + length ?c"] less.prems
      unfolding len by auto
    have "stream_local_chunks L (nd, bs) n w = (Inr (n + length bs), w\<lparr>outp := out, wbuf := keep\<rparr>)"
      using step c(1) 1(1) 2(1) by (simp add: thenE_Inr)
    moreover have "small_chunks (?c # cs)" "concat (?c # cs) = bs"
      using 2 c(1) by (simp_all add: small_chunks_def)
    moreover have "out @ keep = outp w @ wbuf w @ chunk_frames REQUEST_ID (?c # cs)"
      using 1(2) 2(4) by (simp add: chunk_frames_def)
    ultimately show ?thesis by blast
  qed
qed

text \<open>A local file of a manifest that is on the disk as the manifest says.\<close>

definition on_disk :: "world \<Rightarrow> local_batch_file \<Rightarrow> bytes \<Rightarrow> bool" where
  "on_disk w f bs \<longleftrightarrow> lf_size f = length bs \<and>
     (\<exists>q nd. resolve w True (lf_path f) = Inr q \<and> look w q = Some nd \<and> i_type nd = FtFile \<and> i_data nd = bs)"

lemma on_disk_io [simp]: "on_disk (w\<lparr>outp := x, wbuf := y\<rparr>) f bs = on_disk w f bs"
  by (simp add: on_disk_def resolve_def resolve_parts_def)

lemma calm_stream_file:
  assumes L: "bufwriter_spec L" and calm: "sched w = []" and f: "on_disk w f bs"
  shows "\<exists>out keep cs. stream_local_file L f n w = (Inr (n + length bs), w\<lparr>outp := out, wbuf := keep\<rparr>) \<and>
    small_chunks cs \<and> concat cs = bs \<and> out @ keep = outp w @ wbuf w @ chunk_frames REQUEST_ID cs"
proof -
  from f obtain q nd where q: "resolve w True (lf_path f) = Inr q" "look w q = Some nd" "i_type nd = FtFile"
    "i_data nd = bs" and size: "lf_size f = length bs" by (auto simp: on_disk_def)
  have op: "sys_open_read (lf_path f) w = (Inr (nd, bs), w)"
    using calm_open_read [OF calm q(1,2)] q(4) by simp
  obtain out keep cs where "stream_local_chunks L (nd, bs) 0 w = (Inr (length bs), w\<lparr>outp := out, wbuf := keep\<rparr>)"
    "small_chunks cs" "concat cs = bs" "out @ keep = outp w @ wbuf w @ chunk_frames REQUEST_ID cs"
    using calm_stream_chunks [OF L calm, of nd bs 0] q(3) by auto
  with op size show ?thesis
    by (intro exI [of _ out] exI [of _ keep] exI [of _ cs]) (simp add: stream_local_file_def bindE_Inr)
qed

lemma calm_stream_files:
  assumes L: "bufwriter_spec L"
  shows "sched w = [] \<Longrightarrow> list_all2 (on_disk w) fs bss \<Longrightarrow>
    \<exists>out keep css. stream_local_files L fs n w = (Inr (n + length (concat bss)), w\<lparr>outp := out, wbuf := keep\<rparr>) \<and>
      list_all2 (\<lambda>cs bs. small_chunks cs \<and> concat cs = bs) css bss \<and>
      out @ keep = outp w @ wbuf w @ concat (map (chunk_frames REQUEST_ID) css)"
proof (induction fs arbitrary: bss n w)
  case Nil
  then show ?case by (intro exI [of _ "outp w"] exI [of _ "wbuf w"] exI [of _ "[]"]) simp
next
  case (Cons f fs)
  then obtain bs bss' where bss: "bss = bs # bss'" "on_disk w f bs" "list_all2 (on_disk w) fs bss'"
    by (auto simp: list_all2_Cons1)
  obtain o1 k1 cs where 1: "stream_local_file L f n w = (Inr (n + length bs), w\<lparr>outp := o1, wbuf := k1\<rparr>)"
    "small_chunks cs" "concat cs = bs" "o1 @ k1 = outp w @ wbuf w @ chunk_frames REQUEST_ID cs"
    using calm_stream_file [OF L Cons.prems(1) bss(2)] by blast
  obtain out keep css where 2: "stream_local_files L fs (n + length bs) (w\<lparr>outp := o1, wbuf := k1\<rparr>) =
      (Inr (n + length bs + length (concat bss')), w\<lparr>outp := out, wbuf := keep\<rparr>)"
    "list_all2 (\<lambda>cs bs. small_chunks cs \<and> concat cs = bs) css bss'"
    "out @ keep = o1 @ k1 @ concat (map (chunk_frames REQUEST_ID) css)"
    using Cons.IH [of "w\<lparr>outp := o1, wbuf := k1\<rparr>" bss' "n + length bs"] Cons.prems(1) bss(3) by auto
  have "stream_local_files L (f # fs) n w = (Inr (n + length (concat bss)), w\<lparr>outp := out, wbuf := keep\<rparr>)"
    using 1(1) 2(1) bss(1) by (simp add: bindE_Inr add.assoc)
  moreover have "out @ keep = outp w @ wbuf w @ concat (map (chunk_frames REQUEST_ID) (cs # css))"
    using 1(4) 2(3) by simp
  ultimately show ?case
    using 1(2,3) 2(2) bss(1)
    by (intro exI [of _ out] exI [of _ keep] exI [of _ "cs # css"]) simp
qed

lemma calm_stream_batch:
  assumes L: "bufwriter_spec L" and calm: "sched w = []" and fs: "list_all2 (on_disk w) fs bss"
  shows "\<exists>css. stream_local_batch_files L fs w = (Inr (length (concat bss)),
      w\<lparr>outp := outp w @ concat (map (chunk_frames REQUEST_ID) css), wbuf := []\<rparr>) \<and>
    list_all2 (\<lambda>cs bs. small_chunks cs \<and> concat cs = bs) css bss"
proof -
  have "list_all2 (on_disk (w\<lparr>wbuf := []\<rparr>)) fs bss"
    using fs on_disk_io [where w = w and x = "outp w"] by (simp add: list_all2_conv_all_nth)
  then obtain out keep css where run: "stream_local_files L fs 0 (w\<lparr>wbuf := []\<rparr>) =
      (Inr (length (concat bss)), w\<lparr>outp := out, wbuf := keep\<rparr>)"
    and css: "list_all2 (\<lambda>cs bs. small_chunks cs \<and> concat cs = bs) css bss"
    and out: "out @ keep = outp w @ concat (map (chunk_frames REQUEST_ID) css)"
    using calm_stream_files [OF L, of "w\<lparr>wbuf := []\<rparr>" fs bss 0] calm by auto
  have "buf_flush (w\<lparr>outp := out, wbuf := keep\<rparr>) = (Inr (), w\<lparr>outp := out @ keep, wbuf := []\<rparr>)"
    using calm by (simp add: buf_flush_def thenE_def bindE_def conn_write_all_def)
  with run have "stream_local_batch_files L fs w = (Inr (length (concat bss)), w\<lparr>outp := out @ keep, wbuf := []\<rparr>)"
    by (simp add: stream_local_batch_files_def with_bufwriter_Inr bindE_Inr thenE_Inr)
  with css out show ?thesis by auto
qed

section \<open>The push of one file\<close>

text \<open>A literal path of a regular file, not behind a symbolic link.\<close>

definition regular_source :: "world \<Rightarrow> string \<Rightarrow> string \<Rightarrow> inode \<Rightarrow> bool" where
  "regular_source w p name nd \<longleftrightarrow>
     \<not> cli_has_glob_pattern p \<and> file_name p = Some name \<and> i_type nd = FtFile \<and>
     (\<exists>q. resolve w True p = Inr q \<and> resolve w False p = Inr q \<and> look w q = Some nd)"

definition source_root :: "string \<Rightarrow> inode \<Rightarrow> transfer_root" where
  "source_root name nd = \<lparr>tr_source_name = display name, tr_kind = TFile, tr_mode = i_mode nd AND 0xFFF\<rparr>"

definition source_entry :: "inode \<Rightarrow> transfer_entry" where
  "source_entry nd =
     \<lparr>te_root_index = 0, te_relative_path = [], te_kind = TFile, te_mode = i_mode nd AND 0xFFF,
      te_size = length (i_data nd)\<rparr>"

lemma calm_local_manifest:
  assumes calm: "sched w = []" and src: "regular_source w p name nd"
  shows "build_local_batch_manifest L [p] w =
    (Inr \<lparr>lm_sources = [p], lm_roots = [source_root name nd], lm_entries = [source_entry nd],
      lm_files = [\<lparr>lf_root_index = 0, lf_path = p, lf_size = length (i_data nd)\<rparr>],
      lm_total_bytes = length (i_data nd)\<rparr>, w)"
proof -
  from src obtain q where q: "resolve w True p = Inr q" "resolve w False p = Inr q" "look w q = Some nd"
    and p: "\<not> cli_has_glob_pattern p" "file_name p = Some name" "i_type nd = FtFile"
    by (auto simp: regular_source_def)
  have expand: "expand_local_sources L [p] [] w = (Inr [p], w)"
    using calm_stat [OF calm q(1,3)] p(1)
    by (simp add: expand_local_source_def path_exists_def bindE_def tryE_def)
  have "add_local_source p [] ([], [], 0) w = (Inr ([source_root name nd], [source_entry nd],
      [\<lparr>lf_root_index = 0, lf_path = p, lf_size = length (i_data nd)\<rparr>], length (i_data nd)), w)"
    using calm_stat [OF calm q(2,3)] p
    by (simp add: add_local_source_def bindE_def ctx_def map_errE_def cli_transfer_source_name_def metadata_of_def fs_height_def
        cli_path_to_transfer_string_def source_root_def source_entry_def local_file_mode_def)
  with expand show ?thesis
    by (simp add: build_local_batch_manifest_def bindE_Inr thenE_Inr cli_ensure_unique_root_names_def)
qed

lemma calm_eof_frame:
  "sched w = [] \<Longrightarrow> map_errE f (write_stream_frame conn_write_all rid File True []) w =
     (Inr (), w\<lparr>outp := outp w @ stream_bytes rid File True []\<rparr>)"
  by (simp add: write_stream_frame_def Let_def map_errE_def thenE_def bindE_def conn_write_all_def
      stream_bytes_def frame_bytes_def stream_flags_def)

lemma calm_execute_push:
  assumes L: "bufwriter_spec L" and json: "json_roundtrip (response_to_vec L) (response_from_slice L)"
    and calm: "sched w = []" and src: "regular_source w p name nd"
    and fits: "request_fits L (PushBatch dest [source_root name nd] [source_entry nd])"
    and small: "sendable L PushBatchReady" "sendable L (PushBatchComplete k (length (i_data nd)))"
    and inp: "inp w = response_bytes L rid PushBatchReady
      @ response_bytes L rid (PushBatchComplete k (length (i_data nd))) @ rest"
  shows "\<exists>cs. small_chunks cs \<and> concat cs = i_data nd \<and>
    execute_push L debug Connected addr [p] dest w =
      (Inr \<lparr>ps_entries_written = k, ps_bytes_written = length (i_data nd), ps_skipped = False,
         ps_verification = None, ps_verified = False\<rparr>,
       w\<lparr>inp := rest, wbuf := [],
         outp := outp w @ request_bytes L (PushBatch dest [source_root name nd] [source_entry nd])
           @ chunk_frames REQUEST_ID cs @ stream_bytes REQUEST_ID File True []\<rparr>)"
proof -
  let ?req = "PushBatch dest [source_root name nd] [source_entry nd]"
  let ?f = "\<lparr>lf_root_index = 0, lf_path = p, lf_size = length (i_data nd)\<rparr>"
  let ?done = "PushBatchComplete k (length (i_data nd))"
  let ?w1 = "w\<lparr>outp := outp w @ request_bytes L ?req\<rparr>"
  let ?w2 = "?w1\<lparr>inp := response_bytes L rid ?done @ rest\<rparr>"
  have ready: "read_response L ?w1 = (Inr PushBatchReady, ?w2)"
    using calm_read_response [OF _ json small(1), of ?w1] calm inp by simp
  have "on_disk w ?f (i_data nd)" using src by (auto simp: on_disk_def regular_source_def)
  then have "list_all2 (on_disk ?w2) [?f] [i_data nd]" by (simp add: on_disk_def)
  from calm_stream_batch [OF L _ this] calm obtain css where
    str: "stream_local_batch_files L [?f] ?w2 = (Inr (length (i_data nd)),
      ?w2\<lparr>outp := outp ?w2 @ concat (map (chunk_frames REQUEST_ID) css), wbuf := []\<rparr>)"
    and css: "list_all2 (\<lambda>cs bs. small_chunks cs \<and> concat cs = bs) css [i_data nd]" by auto
  from css obtain cs where cs: "css = [cs]" "small_chunks cs" "concat cs = i_data nd"
    by (auto simp: list_all2_Cons2)
  let ?w3 = "w\<lparr>outp := outp w @ request_bytes L ?req @ chunk_frames REQUEST_ID cs, wbuf := [],
      inp := response_bytes L rid ?done @ rest\<rparr>"
  have str': "stream_local_batch_files L [?f] ?w2 = (Inr (length (i_data nd)), ?w3)"
    using str by (simp add: cs(1))
  let ?w4 = "?w3\<lparr>outp := outp ?w3 @ stream_bytes REQUEST_ID File True []\<rparr>"
  have fin: "read_response L ?w4 = (Inr ?done, ?w4\<lparr>inp := rest\<rparr>)"
    using calm_read_response [OF _ json small(2), of ?w4] calm by simp
  have eof: "map_errE g (write_stream_frame conn_write_all REQUEST_ID File True []) ?w3 = (Inr (), ?w4)" for g
    using calm_eof_frame [of ?w3 g REQUEST_ID] calm by simp
  have "execute_push L debug Connected addr [p] dest w =
    (Inr \<lparr>ps_entries_written = k, ps_bytes_written = length (i_data nd), ps_skipped = False,
         ps_verification = None, ps_verified = False\<rparr>, ?w4\<lparr>inp := rest\<rparr>)"
    using calm_local_manifest [OF calm src, of L] calm_send_request [OF calm fits] ready str' eof fin
    by (simp add: execute_push_def execute_push_manifest_def open_tcp_connection_def bindE_Inr thenE_Inr)
  with cs show ?thesis by (intro exI [of _ cs]) simp
qed

section \<open>Verifying a pull\<close>

lemma calm_local_root:
  assumes "sched w = []" "resolve w True dest = Inr q" "\<not> ends_with dest ''/''"
  shows "look w q = None \<Longrightarrow> resolve_local_batch_roots dest dest [root] w = (Inr [dest], w)"
    and "dir_at w q \<Longrightarrow>
      resolve_local_batch_roots dest dest [root] w = (Inr [path_join dest (tr_source_name root)], w)"
  using assms
  by (auto simp: resolve_local_batch_roots_def cli_ensure_unique_root_names_def thenE_def bindE_def tryE_def
      sys_stat_def errno_kinds dir_at_iff metadata_of_def)

text \<open>
  C28: verifying a pull of one directory looks in the wrong place when the pull created its
  destination. Before the pull the destination does not exist, and the directory's content is put
  at the destination itself; for the verification the roots are resolved again, the destination
  now is a directory, and the source's name is looked for inside it. Unless the pulled directory
  happens to have an entry of that name, the verification fails although everything was pulled.
\<close>
theorem pull_verify_new_directory:
  assumes dest: "\<not> ends_with dest ''/''" "tr_kind root = TDirectory"
    and before: "sched w0 = []" "resolve w0 True dest = Inr q0" "look w0 q0 = None"
    and pulled: "receive_local_batch dest dest [root] entries w0 = (Inr counts, w)"
    and after: "sched w = []" "resolve w True dest = Inr q" "dir_at w q"
      "resolve w False (path_join dest (tr_source_name root)) = Inr k" "look w k = None"
  shows "fst (resolve_local_batch_roots dest dest [root] w0) = Inr [dest] \<and>
    (\<exists>e. verify_local_pull_against_manifest L dest dest [root] entries w = (Inl e, w))"
proof
  show "fst (resolve_local_batch_roots dest dest [root] w0) = Inr [dest]"
    using calm_local_root(1) [OF before(1,2) dest(1) before(3)] by simp
  have "sys_stat False (path_join dest (tr_source_name root)) w = (Inl enoent, w)"
    using after(1,4,5) by (simp add: sys_stat_def)
  then show "\<exists>e. verify_local_pull_against_manifest L dest dest [root] entries w = (Inl e, w)"
    using calm_local_root(2) [OF after(1,2) dest(1) after(3)]
    by (simp add: verify_local_pull_against_manifest_def collect_local_transfer_state_def bindE_def
        ctx_def map_errE_def)
qed

definition pulled_root :: transfer_root where
  "pulled_root = \<lparr>tr_source_name = ''src'', tr_kind = TDirectory, tr_mode = 0x1ED\<rparr>"

definition pulled_entries :: "transfer_entry list" where
  "pulled_entries = [\<lparr>te_root_index = 0, te_relative_path = [], te_kind = TDirectory, te_mode = 0x1ED, te_size = 0\<rparr>]"

definition before_pull :: world where
  "before_pull = world_of [] (stream_bytes REQUEST_ID File True [])"

definition after_pull :: world where
  "after_pull = before_pull\<lparr>inp := [], nodes := nodes before_pull @
     [([''tmp'', ''out''], \<lparr>i_type = FtDir, i_data = [], i_mode = 0x1ED, i_mtime = 5\<rparr>)]\<rparr>"

lemma pulled_paths:
  "resolve before_pull True ''/tmp/out'' = Inr [''tmp'', ''out'']" "resolve after_pull True ''/tmp/out'' = Inr [''tmp'', ''out'']"
  "resolve after_pull False (path_join ''/tmp/out'' (tr_source_name pulled_root)) = Inr [''tmp'', ''out'', ''src'']"
  "cli_resolve_transfer_entry_path [''/tmp/out''] (hd pulled_entries) = Inr ''/tmp/out''"
  "components ''/tmp/out'' \<noteq> []" "resolve_new before_pull ''/tmp/out'' = Inr [''tmp'', ''out'']"
  "ends_with ''/tmp/out'' ''/'' = False"
  by code_simp+

lemma pulled_state:
  "look before_pull [''tmp'', ''out''] = None" "sched before_pull = []" "sched after_pull = []"
  "dir_at after_pull [''tmp'', ''out'']" "look after_pull [''tmp'', ''out'', ''src''] = None"
  "tr_kind pulled_root = TDirectory" "tr_source_name pulled_root = ''src''" "dir_at before_pull [''tmp'']"
  by (simp_all add: before_pull_def after_pull_def world_of_def look_def dir_at_def pulled_root_def dir_node_def)

lemma pulled_dir: "create_dir_all ''/tmp/out'' before_pull = (Inr (), after_pull\<lparr>inp := inp before_pull\<rparr>)"
proof -
  have "new_inode FtDir 0x1FF before_pull = \<lparr>i_type = FtDir, i_data = [], i_mode = 0x1ED, i_mtime = 5\<rparr>"
    by code_simp
  moreover have "AList.update [''tmp'', ''out''] nd (nodes before_pull) = nodes before_pull @ [([''tmp'', ''out''], nd)]" for nd
    by (simp add: before_pull_def world_of_def)
  ultimately show ?thesis
    using pulled_paths(5,6) pulled_state
    by (subst create_dir_all.simps)
      (simp add: sys_create_dir_def link_new_def set_node_def after_pull_def bindE_def tryE_def)
qed

lemma pulled_run:
  "receive_local_batch ''/tmp/out'' ''/tmp/out'' [pulled_root] pulled_entries before_pull = (Inr (1, 0), after_pull)"
proof -
  let ?w = "after_pull\<lparr>inp := inp before_pull\<rparr>"
  have roots: "resolve_local_batch_roots ''/tmp/out'' ''/tmp/out'' [pulled_root] before_pull = (Inr [''/tmp/out''], before_pull)"
    using calm_local_root(1) [OF pulled_state(2) pulled_paths(1) _ pulled_state(1)] pulled_paths(7) by simp
  have "sys_set_permissions ''/tmp/out'' 0x1ED ?w = (Inr (), ?w)" by code_simp
  then have entries: "receive_local_entries [''/tmp/out''] pulled_entries 0 0 before_pull = (Inr (1, 0), ?w)"
    using pulled_paths(4) pulled_dir
    by (simp add: pulled_entries_def receive_local_entry_def bindE_def thenE_def ctx_def map_errE_def)
  have "inp ?w = stream_bytes REQUEST_ID File True [] @ []" "sched ?w = []"
    using pulled_state(3) by (simp_all add: before_pull_def world_of_def)
  from calm_read_chunk [OF this(2,1)] have
    "read_file_stream_chunk_into REQUEST_ID ''pull'' ?w =
      (Inr (\<lparr>s_request_id = REQUEST_ID, s_channel = File, s_eof = True\<rparr>, []), ?w\<lparr>inp := []\<rparr>)"
    by simp
  moreover have "?w\<lparr>inp := []\<rparr> = after_pull" by (simp add: after_pull_def)
  ultimately have "cli_expect_file_stream_eof ''pull'' ?w = (Inr (), after_pull)"
    by (simp add: cli_expect_file_stream_eof_def bindE_def cli_read_chunk_iff [THEN iffD2])
  with roots entries show ?thesis by (simp add: receive_local_batch_def bindE_def thenE_def)
qed

theorem pull_verify_new_directory_witness:
  "\<exists>e. verify_local_pull_against_manifest sample_libs ''/tmp/out'' ''/tmp/out'' [pulled_root] pulled_entries after_pull
     = (Inl e, after_pull)"
  using pull_verify_new_directory [OF _ pulled_state(6,2) pulled_paths(1) pulled_state(1) pulled_run pulled_state(3)
      pulled_paths(2) pulled_state(4) pulled_paths(3) pulled_state(5)] pulled_paths(7)
  by simp

end
