(* ===== verification/Transfer_Peers.thy ===== *)
theory Transfer_Peers
  imports Cli_Transfer_Facts Daemon_Batch_Facts
begin

text \<open>
  The client and the daemon each have their own code to send the files of a batch and to receive
  its entries. Both do the same, up to the wording of errors, on every host state and under every
  schedule of faults; so what is known of one side holds for the other, and a pull reaches the
  client as a push reaches the daemon.
\<close>

section \<open>Actions that differ in their errors only\<close>

definition quiet :: "('s, 'e, 'a) act \<Rightarrow> 's \<Rightarrow> 'a option \<times> 's" where
  "quiet m s = (case m s of (Inl _, t) \<Rightarrow> (None, t) | (Inr a, t) \<Rightarrow> (Some a, t))"

named_theorems quiet_intros \<open>actions with the same outcome up to the error\<close>

lemma quiet_eq_Some [simp]: "quiet m s = (Some a, t) \<longleftrightarrow> m s = (Inr a, t)"
  by (auto simp: quiet_def split: prod.splits sum.splits)

lemma quiet_eqD: "quiet m = quiet n \<Longrightarrow> m s = (Inr a, t) \<longleftrightarrow> n s = (Inr a, t)"
  by (metis quiet_eq_Some)

lemma quiet_state: "quiet m = quiet n \<Longrightarrow> snd (m s) = snd (n s)"
  by (drule fun_cong [of _ _ s]) (auto simp: quiet_def split: prod.splits sum.splits)

lemma quiet_fail [quiet_intros]: "quiet (failE e) = quiet (failE f)"
  by (rule ext) (simp add: quiet_def)

lemma quiet_lift [quiet_intros]:
  assumes "\<And>a. r = Inr a \<longleftrightarrow> q = Inr a"
  shows "quiet (liftE r) = quiet (liftE q)"
  using assms [of "projr r"] assms [of "projr q"] by (cases r; cases q) (auto simp: quiet_def fun_eq_iff)

lemma quiet_bind_run:
  "quiet (bindE m f) s = (case quiet m s of (None, t) \<Rightarrow> (None, t) | (Some a, t) \<Rightarrow> quiet (f a) t)"
  by (auto simp: quiet_def bindE_def split: prod.splits sum.splits)

lemma quiet_bind [quiet_intros]:
  "quiet m = quiet n \<Longrightarrow> (\<And>a. quiet (f a) = quiet (g a)) \<Longrightarrow> quiet (bindE m f) = quiet (bindE n g)"
  by (rule ext) (simp add: quiet_bind_run split: option.split prod.split)

lemma quiet_then [quiet_intros]:
  "quiet m = quiet n \<Longrightarrow> quiet a = quiet b \<Longrightarrow> quiet (thenE m a) = quiet (thenE n b)"
  unfolding thenE_def by (rule quiet_bind)

lemma quiet_map_err [quiet_intros]: "quiet m = quiet n \<Longrightarrow> quiet (map_errE g m) = quiet (map_errE h n)"
  by (rule ext, drule_tac x = x in fun_cong) (auto simp: quiet_def map_errE_def split: prod.splits sum.splits)

lemma quiet_calls [quiet_intros]:
  "quiet (ctx a m) = quiet (ctx b m)" "quiet (ctx a m) = quiet (plain m)" "quiet (plain m) = quiet (ctx a m)"
  "quiet (map_errE f n) = quiet (proto n)"
  unfolding ctx_def plain_def proto_def by (rule quiet_map_err, rule refl)+

lemma quiet_if [quiet_intros]:
  "(b \<Longrightarrow> quiet m = quiet m') \<Longrightarrow> (\<not> b \<Longrightarrow> quiet n = quiet n') \<Longrightarrow>
     quiet (if b then m else n) = quiet (if b then m' else n')"
  by simp

section \<open>The two senders and the two receivers\<close>

lemma quiet_read_chunk:
  "quiet (cli_read_file_stream_chunk_into a) = quiet (read_file_stream_chunk_into REQUEST_ID b)"
  unfolding cli_read_file_stream_chunk_into_def read_file_stream_chunk_into_def
  by (intro quiet_bind quiet_map_err refl) (auto intro!: quiet_intros)

lemma quiet_write_chunk: "quiet (local_write_chunk p q bs) = quiet (write_chunk q bs)"
  unfolding local_write_chunk_def write_chunk_def by (intro quiet_intros refl)

lemma quiet_receive_file:
  "quiet (local_receive_file p q m n) w = quiet (batch_receive_file REQUEST_ID p q m n) w"
proof (induction p q m n w rule: local_receive_file.induct)
  case (1 p q m n w)
  show ?case
  proof (cases "m = 0")
    case True
    then show ?thesis
      by (simp add: quiet_def local_receive_file.simps [of p q 0 n w] batch_receive_file.simps [of REQUEST_ID p q 0 n w])
  next
    case False
    note rd = fun_cong [OF quiet_read_chunk, of "''pull''" w "''push''"]
    show ?thesis
    proof (cases "cli_read_file_stream_chunk_into ''pull'' w")
      case (Pair r w1)
      show ?thesis
      proof (cases r)
        case (Inl e)
        with Pair rd obtain e' where "read_file_stream_chunk_into REQUEST_ID ''push'' w = (Inl e', w1)"
          by (auto simp: quiet_def split: prod.splits sum.splits)
        with False Pair Inl show ?thesis
          by (simp add: quiet_def local_receive_file.simps [of p q m n w] batch_receive_file.simps [of REQUEST_ID p q m n w])
      next
        case (Inr b)
        obtain chunk payload where b: "b = (chunk, payload)" by force
        with Pair Inr rd have rd': "read_file_stream_chunk_into REQUEST_ID ''push'' w = (Inr (chunk, payload), w1)"
          by (metis quiet_eq_Some)
        have ih: "quiet (local_receive_file p q (m - length payload) (n + length payload)) w2 =
            quiet (batch_receive_file REQUEST_ID p q (m - length payload) (n + length payload)) w2"
          if "\<not> s_eof chunk" "\<not> m < length payload" "local_write_chunk p q payload w1 = (Inr u, w2)" for u w2
          using "1.IH" [OF False Pair [symmetric] Inr b [symmetric] that(1,2) that(3) [symmetric] refl] .
        note wr = fun_cong [OF quiet_write_chunk, of p q payload w1]
        show ?thesis
        proof (cases "\<not> s_eof chunk \<and> \<not> m < length payload")
          case True
          with False Pair Inr b rd' wr ih show ?thesis
            by (cases "local_write_chunk p q payload w1"; cases "write_chunk q payload w1")
              (auto simp: quiet_def local_receive_file.simps [of p q m n w]
                batch_receive_file.simps [of REQUEST_ID p q m n w] split: sum.splits)
        next
          case stop: False
          with False Pair Inr b rd' show ?thesis
            by (auto simp: quiet_def local_receive_file.simps [of p q m n w]
                batch_receive_file.simps [of REQUEST_ID p q m n w])
        qed
      qed
    qed
  qed
qed

lemma receive_file_peers:
  "local_receive_file p q m n w = (Inr k, v) \<longleftrightarrow> batch_receive_file REQUEST_ID p q m n w = (Inr k, v)"
  using quiet_receive_file [of p q m n w] by (metis quiet_eq_Some)

text \<open>
  What the two receivers do with one entry. A mode that has only bits above the permissions is the
  one difference: for a file the daemon then sets 0644, the client no permissions at all; no sender
  makes such a mode.
\<close>

definition plain_mode :: "transfer_entry \<Rightarrow> bool" where
  "plain_mode entry \<longleftrightarrow> te_mode entry = 0 \<or> te_mode entry AND 0xFFF \<noteq> 0"

lemma quiet_receive_entry:
  assumes "te_kind entry = TDirectory \<or> plain_mode entry"
  shows "quiet (receive_local_entry roots entry n) = quiet (receive_entry REQUEST_ID roots entry n)"
proof -
  have mode: "te_kind entry = TFile \<Longrightarrow> te_mode entry \<noteq> 0 \<Longrightarrow> te_mode entry AND 0xFFF = normalize_mode (te_mode entry)"
    using assms by (auto simp: plain_mode_def normalize_mode_def Let_def)
  have mode': "cli_normalize_mode = normalize_mode"
    by (rule ext) (simp add: cli_normalize_mode_def normalize_mode_def)
  have files: "quiet (local_receive_file p q m k) = quiet (batch_receive_file REQUEST_ID p q m k)" for p q m k
    by (rule ext) (rule quiet_receive_file)
  have assoc: "bindE (thenE a b) f = thenE a (bindE b f)" for a :: "unit app" and b :: "loc app" and f :: "loc \<Rightarrow> nat app"
    by (rule ext) (auto simp: thenE_def bindE_def split: prod.splits sum.splits)
  show ?thesis
  proof (cases "te_kind entry")
    case TDirectory
    then show ?thesis
      unfolding receive_local_entry_def receive_entry_def
      by (auto simp: cli_resolve_transfer_entry_path_eq intro!: quiet_bind quiet_then quiet_if quiet_calls)
  next
    case TFile
    then show ?thesis
      unfolding receive_local_entry_def receive_entry_def create_local_output_file_def assoc mode'
      by (auto simp: cli_resolve_transfer_entry_path_eq mode split: option.split
          intro!: quiet_bind quiet_then quiet_if quiet_calls files)
  qed
qed

lemma quiet_receive_entries:
  "\<forall>entry \<in> set entries. te_kind entry = TDirectory \<or> plain_mode entry \<Longrightarrow>
    quiet (receive_local_entries roots entries k n) = quiet (receive_entries REQUEST_ID roots entries k n)"
  by (induction entries arbitrary: k n) (auto intro!: quiet_bind quiet_receive_entry)

lemma quiet_stream_frame: "quiet (cli_stream_frame L p) = quiet (buf_stream_frame L REQUEST_ID False p)"
  unfolding cli_stream_frame_def buf_stream_frame_def by (rule quiet_calls)

lemma quiet_send_chunks:
  "quiet (stream_local_chunks L h n) w = quiet (send_file_chunks L REQUEST_ID h n) w"
proof (induction L h n arbitrary: w rule: stream_local_chunks.induct)
  case (1 L h n)
  show ?case
    unfolding stream_local_chunks.simps [of L h n] send_file_chunks.simps [of L REQUEST_ID h n]
    by (auto simp: quiet_bind_run thenE_def quiet_stream_frame split: option.split prod.split intro!: "1.IH")
qed

definition as_source :: "local_batch_file \<Rightarrow> batch_file_source" where
  "as_source f = \<lparr>bf_path = lf_path f, bf_size = lf_size f\<rparr>"

lemma quiet_send_files:
  "quiet (stream_local_files L files n) = quiet (send_batch_files L REQUEST_ID (map as_source files) n)"
proof (induction files arbitrary: n)
  case (Cons f files)
  have "quiet (stream_local_chunks L h k) = quiet (send_file_chunks L REQUEST_ID h k)" for h k
    by (rule ext) (rule quiet_send_chunks)
  then have "quiet (stream_local_file L f n) = quiet (send_batch_file L REQUEST_ID (as_source f) n)"
    unfolding stream_local_file_def send_batch_file_def
    by (auto simp: as_source_def intro!: quiet_bind quiet_if quiet_calls quiet_fail)
  with Cons show ?case by (auto intro!: quiet_bind)
qed simp

lemma quiet_with_bufwriter: "quiet m = quiet n \<Longrightarrow> quiet (with_bufwriter m) = quiet (with_bufwriter n)"
proof (rule ext)
  fix w
  assume "quiet m = quiet n"
  from fun_cong [OF this, of "w\<lparr>wbuf := []\<rparr>"] show "quiet (with_bufwriter m) w = quiet (with_bufwriter n) w"
    by (auto simp: quiet_def with_bufwriter_def buf_new_def buf_drop_def thenE_def bindE_def tryE_def
        split: prod.splits sum.splits)
qed

lemma quiet_send_batch:
  "quiet (stream_local_batch_files L files) = quiet (stream_batch_files L REQUEST_ID (map as_source files))"
  unfolding stream_local_batch_files_def stream_batch_files_def
  by (intro quiet_with_bufwriter quiet_bind quiet_then quiet_send_files) (auto simp: plain_def ctx_def intro!: quiet_map_err)


section \<open>A pull of one file\<close>

lemma calm_batch_manifest:
  assumes calm: "sched w = []" and src: "regular_source w p name nd"
  shows "build_batch_manifest_from_sources L [p] w =
    (Inr \<lparr>bm_roots = [source_root name nd], bm_entries = [source_entry nd],
      bm_files = [\<lparr>bf_path = p, bf_size = length (i_data nd)\<rparr>], bm_total_bytes = length (i_data nd)\<rparr>, w)"
proof -
  from src obtain q where q: "resolve w True p = Inr q" "resolve w False p = Inr q" "look w q = Some nd"
    and p: "\<not> has_glob_pattern p" "file_name p = Some name" "i_type nd = FtFile"
    by (auto simp: regular_source_def cli_has_glob_pattern_def has_glob_pattern_def)
  have expand: "expand_remote_sources L [p] [] w = (Inr [p], w)"
    using calm_stat [OF calm q(1,3)] p(1)
    by (simp add: expand_remote_source_def bindE_def thenE_def ctx_def map_errE_def)
  have "add_sources [p] [] ([], [], 0) w = (Inr ([source_root name nd], [source_entry nd],
      [\<lparr>bf_path = p, bf_size = length (i_data nd)\<rparr>], length (i_data nd)), w)"
    using calm_stat [OF calm q(2,3)] p
    by (simp add: add_source_def bindE_def ctx_def map_errE_def transfer_source_name_def metadata_of_def fs_height_def
        path_to_transfer_string_def source_root_def source_entry_def file_mode_def)
  with expand show ?thesis
    by (simp add: build_batch_manifest_from_sources_def bindE_Inr thenE_Inr ensure_unique_root_names_def)
qed

lemma calm_handle_pull_batch:
  assumes L: "bufwriter_spec L" and calm: "sched w = []" and src: "regular_source w p name nd"
    and small: "sendable L (PullBatchMetadata [source_root name nd] [source_entry nd] (length (i_data nd)))"
      "sendable L (PullBatchComplete 1 (length (i_data nd)))"
  shows "\<exists>cs. small_chunks cs \<and> concat cs = i_data nd \<and>
    handle_pull_batch L REQUEST_ID [p] w = (Inr (), w\<lparr>wbuf := [], outp := outp w
      @ response_bytes L REQUEST_ID (PullBatchMetadata [source_root name nd] [source_entry nd] (length (i_data nd)))
      @ chunk_frames REQUEST_ID cs @ stream_bytes REQUEST_ID File True []
      @ response_bytes L REQUEST_ID (PullBatchComplete 1 (length (i_data nd)))\<rparr>)"
proof -
  let ?meta = "PullBatchMetadata [source_root name nd] [source_entry nd] (length (i_data nd))"
  let ?done = "PullBatchComplete 1 (length (i_data nd))"
  let ?f = "\<lparr>lf_root_index = 0, lf_path = p, lf_size = length (i_data nd)\<rparr>"
  let ?w1 = "w\<lparr>outp := outp w @ response_bytes L REQUEST_ID ?meta\<rparr>"
  have meta: "send_response L REQUEST_ID ?meta w = (Inr (), ?w1)"
    by (rule calm_send_response [OF calm small(1)])
  have "on_disk ?w1 ?f (i_data nd)" using src by (auto simp: on_disk_def regular_source_def)
  then have "list_all2 (on_disk ?w1) [?f] [i_data nd]" by simp
  from calm_stream_batch [OF L _ this] calm obtain css where
    str: "stream_local_batch_files L [?f] ?w1 = (Inr (length (i_data nd)),
      ?w1\<lparr>outp := outp ?w1 @ concat (map (chunk_frames REQUEST_ID) css), wbuf := []\<rparr>)"
    and css: "list_all2 (\<lambda>cs bs. small_chunks cs \<and> concat cs = bs) css [i_data nd]" by auto
  from css obtain cs where cs: "css = [cs]" "small_chunks cs" "concat cs = i_data nd"
    by (auto simp: list_all2_Cons2)
  let ?w2 = "w\<lparr>wbuf := [], outp := outp w @ response_bytes L REQUEST_ID ?meta @ chunk_frames REQUEST_ID cs\<rparr>"
  have "stream_local_batch_files L [?f] ?w1 = (Inr (length (i_data nd)), ?w2)"
    using str by (simp add: cs(1))
  then have send: "stream_batch_files L REQUEST_ID [\<lparr>bf_path = p, bf_size = length (i_data nd)\<rparr>] ?w1 =
      (Inr (length (i_data nd)), ?w2)"
    unfolding quiet_eqD [OF quiet_send_batch] by (simp add: as_source_def)
  let ?w3 = "?w2\<lparr>outp := outp ?w2 @ stream_bytes REQUEST_ID File True []\<rparr>"
  have eof: "proto (write_stream_frame conn_write_all REQUEST_ID File True []) ?w2 = (Inr (), ?w3)"
    unfolding proto_def by (rule calm_eof_frame) (use calm in simp)
  have fin: "send_response L REQUEST_ID ?done ?w3 = (Inr (), ?w3\<lparr>outp := outp ?w3 @ response_bytes L REQUEST_ID ?done\<rparr>)"
    by (rule calm_send_response) (use calm small(2) in simp_all)
  show ?thesis
    using calm_batch_manifest [OF calm src, of L] meta send eof fin cs
    by (intro exI [of _ cs]) (simp add: handle_pull_batch_def bindE_Inr thenE_Inr)
qed

text \<open>Where a pull of one source puts it: at the destination, or inside it where that is a directory.\<close>

definition pull_target :: "world \<Rightarrow> string \<Rightarrow> string \<Rightarrow> string \<Rightarrow> bool" where
  "pull_target w dest name p \<longleftrightarrow>
     (\<exists>q. resolve w True dest = Inr q \<and> p = (if dir_at w q then path_join dest name else dest)) \<and>
     \<not> ends_with dest ''/''"

lemma calm_pull_target:
  assumes calm: "sched w = []" and tgt: "pull_target w dest (tr_source_name root) p"
  shows "resolve_local_batch_roots dest dest [root] w = (Inr [p], w)"
proof -
  from tgt obtain q where q: "resolve w True dest = Inr q" "\<not> ends_with dest ''/''"
    and p: "p = (if dir_at w q then path_join dest (tr_source_name root) else dest)"
    by (auto simp: pull_target_def)
  show ?thesis
  proof (cases "look w q")
    case None
    then show ?thesis
      using calm_local_root(1) [OF calm q(1,2)] p by (simp add: dir_at_iff)
  next
    case (Some nd)
    then show ?thesis
      using calm_stat [OF calm q(1) Some] q(2) p
      by (simp add: resolve_local_batch_roots_def cli_ensure_unique_root_names_def thenE_def bindE_def tryE_def
          dir_at_iff metadata_of_def)
  qed
qed

lemma pull_target_io [simp]: "pull_target (w\<lparr>inp := i, outp := x\<rparr>) dest name p = pull_target w dest name p"
  by (simp add: pull_target_def dir_at_def)

lemma plain_source_entry: "plain_mode (source_entry nd)"
  by (simp add: plain_mode_def source_entry_def ac_simps)

lemma calm_receive_local_batch:
  assumes calm: "sched w = []" and tgt: "pull_target w dest (tr_source_name root) p" and wr: "writable_at w p q"
    and parent: "\<And>x. parent_path p = Some x \<Longrightarrow> x \<noteq> [] \<Longrightarrow> existing_dir w x"
    and cs: "small_chunks cs" "concat cs = i_data nd"
    and inp: "inp w = chunk_frames REQUEST_ID cs @ stream_bytes REQUEST_ID File True [] @ rest"
  shows "\<exists>nd'. receive_local_batch dest dest [root] [source_entry nd] w =
      (Inr (1, length (i_data nd)), (set_node q nd' w)\<lparr>inp := rest\<rparr>) \<and>
    i_type nd' = FtFile \<and> i_data nd' = i_data nd \<and>
    (i_mode nd AND 0xFFF \<noteq> 0 \<longrightarrow> i_mode nd' = i_mode nd AND 0xFFF)"
proof -
  let ?entry = "source_entry nd" and ?eof = "stream_bytes REQUEST_ID File True []"
  have path: "resolve_transfer_entry_path [p] ?entry = Inr p"
    by (simp add: resolve_transfer_entry_path_def join_transfer_relative_path_def source_entry_def)
  obtain nd' where recv: "receive_entry REQUEST_ID [p] ?entry 0 w =
      (Inr (length (i_data nd)), (set_node q nd' w)\<lparr>inp := ?eof @ rest\<rparr>)"
    and nd': "i_type nd' = FtFile" "i_data nd' = i_data nd"
      "te_mode ?entry \<noteq> 0 \<longrightarrow> i_mode nd' = normalize_mode (te_mode ?entry)"
    using calm_receive_file_entry [OF calm wr parent path, of cs REQUEST_ID "?eof @ rest" 0] cs inp
    by (auto simp: source_entry_def)
  let ?w1 = "(set_node q nd' w)\<lparr>inp := ?eof @ rest\<rparr>"
  have "receive_local_entry [p] ?entry 0 w = (Inr (length (i_data nd)), ?w1)"
    using recv quiet_eqD [OF quiet_receive_entry] plain_source_entry by blast
  moreover have "cli_expect_file_stream_eof ''pull'' ?w1 = (Inr (), (set_node q nd' w)\<lparr>inp := rest\<rparr>)"
    using calm_read_chunk [of ?w1 REQUEST_ID True "[]" rest "''pull''"] calm
    by (simp add: cli_expect_file_stream_eof_def bindE_def cli_read_chunk_iff [THEN iffD2])
  ultimately have "receive_local_batch dest dest [root] [?entry] w =
      (Inr (1, length (i_data nd)), (set_node q nd' w)\<lparr>inp := rest\<rparr>)"
    using calm_pull_target [OF calm tgt] by (simp add: receive_local_batch_def bindE_Inr thenE_Inr)
  with nd' show ?thesis
    by (intro exI [of _ nd']) (auto simp: source_entry_def normalize_mode_def Let_def ac_simps)
qed

lemma calm_execute_pull:
  assumes json: "json_roundtrip (response_to_vec L) (response_from_slice L)"
    and calm: "sched w = []" and fits: "request_fits L (PullBatch [p])"
    and small: "sendable L (PullBatchMetadata [root] [source_entry nd] (length (i_data nd)))"
      "sendable L (PullBatchComplete 1 (length (i_data nd)))"
    and tgt: "pull_target w dest (tr_source_name root) dp" and wr: "writable_at w dp q"
    and parent: "\<And>x. parent_path dp = Some x \<Longrightarrow> x \<noteq> [] \<Longrightarrow> existing_dir w x"
    and cs: "small_chunks cs" "concat cs = i_data nd"
    and inp: "inp w = response_bytes L rid (PullBatchMetadata [root] [source_entry nd] (length (i_data nd)))
      @ chunk_frames REQUEST_ID cs @ stream_bytes REQUEST_ID File True []
      @ response_bytes L rid (PullBatchComplete 1 (length (i_data nd)))"
  shows "\<exists>nd'. execute_pull L debug Connected addr [p] dest w =
      (Inr \<lparr>pl_entries_received = 1, pl_bytes_received = length (i_data nd), pl_total_bytes = length (i_data nd),
         pl_verification = None, pl_verified = False, pl_roots = [root], pl_entries = [source_entry nd]\<rparr>,
       (set_node q nd' w)\<lparr>inp := [], outp := outp w @ request_bytes L (PullBatch [p])\<rparr>) \<and>
    i_type nd' = FtFile \<and> i_data nd' = i_data nd \<and>
    (i_mode nd AND 0xFFF \<noteq> 0 \<longrightarrow> i_mode nd' = i_mode nd AND 0xFFF)"
proof -
  let ?meta = "PullBatchMetadata [root] [source_entry nd] (length (i_data nd))"
  let ?done = "PullBatchComplete 1 (length (i_data nd))"
  let ?w1 = "w\<lparr>outp := outp w @ request_bytes L (PullBatch [p])\<rparr>"
  let ?i = "chunk_frames REQUEST_ID cs @ stream_bytes REQUEST_ID File True [] @ response_bytes L rid ?done"
  let ?w2 = "w\<lparr>inp := ?i, outp := outp w @ request_bytes L (PullBatch [p])\<rparr>"
  have meta: "read_response L ?w1 = (Inr ?meta, ?w2)"
    using calm_read_response [OF _ json small(1), of ?w1 rid ?i] calm inp by simp
  have w2: "sched ?w2 = []" "pull_target ?w2 dest (tr_source_name root) dp" "writable_at ?w2 dp q" "inp ?w2 = ?i"
    using calm tgt wr by (simp_all add: writable_at_def dir_at_def)
  have par2: "existing_dir ?w2 x" if "parent_path dp = Some x" "x \<noteq> []" for x
    using parent [OF that] by simp
  obtain nd' where recv: "receive_local_batch dest dest [root] [source_entry nd] ?w2 =
      (Inr (1, length (i_data nd)), (set_node q nd' ?w2)\<lparr>inp := response_bytes L rid ?done\<rparr>)"
    and nd': "i_type nd' = FtFile" "i_data nd' = i_data nd"
      "i_mode nd AND 0xFFF \<noteq> 0 \<longrightarrow> i_mode nd' = i_mode nd AND 0xFFF"
    using calm_receive_local_batch [OF w2(1-3) par2 cs w2(4)] by auto
  let ?w3 = "(set_node q nd' ?w2)\<lparr>inp := response_bytes L rid ?done\<rparr>"
  have fin: "read_response L ?w3 = (Inr ?done, ?w3\<lparr>inp := []\<rparr>)"
    using calm_read_response [OF _ json small(2), of ?w3 rid "[]"] calm by simp
  have "execute_pull L debug Connected addr [p] dest w =
      (Inr \<lparr>pl_entries_received = 1, pl_bytes_received = length (i_data nd), pl_total_bytes = length (i_data nd),
         pl_verification = None, pl_verified = False, pl_roots = [root], pl_entries = [source_entry nd]\<rparr>,
       ?w3\<lparr>inp := []\<rparr>)"
    using calm_send_request [OF calm fits] meta recv fin
    by (simp add: execute_pull_def open_tcp_connection_def bindE_Inr thenE_Inr)
  with nd' show ?thesis by (intro exI [of _ nd']) simp
qed


end
