(* ===== verification/Rust_F64.thy ===== *)
theory Rust_F64
  imports Complex_Main "HOL-Library.Log_Nat" Rust_Str
begin

text \<open>
  Rust's \<open>f64\<close> for the values the client formats: non-negative, finite and far from the ends of
  the exponent range, so that a value is a rational number and an operation is the exact one,
  rounded to 53 significant bits, ties to even. \<open>Duration\<close> with its conversion to seconds, and the
  text \<open>{:.1}\<close> of a value, which rounds the exact binary value to one decimal, ties to even.
\<close>

section \<open>Rounding\<close>

text \<open>The exponent of the leading bit of a positive number.\<close>

definition log2_floor :: "rat \<Rightarrow> int" where
  "log2_floor x =
     (case quotient_of x of (p, q) \<Rightarrow>
        let k = bitlen p - bitlen q in if 2 powi k * of_int q \<le> (of_int p :: rat) then k else k - 1)"

definition round_half_even :: "rat \<Rightarrow> int" where
  "round_half_even x =
     (let below = \<lfloor>x\<rfloor>; rest = x - of_int below
      in if rest < 1 / 2 \<or> (rest = 1 / 2 \<and> even below) then below else below + 1)"

definition f64_round :: "rat \<Rightarrow> rat" where
  "f64_round x =
     (if x \<le> 0 then 0
      else let e = log2_floor x - 52 in of_int (round_half_even (x / 2 powi e)) * 2 powi e)"

definition f64_of_nat :: "nat \<Rightarrow> rat" where
  "f64_of_nat n = f64_round (of_nat n)"

definition f64_add :: "rat \<Rightarrow> rat \<Rightarrow> rat" where
  "f64_add x y = f64_round (x + y)"

definition f64_mul :: "rat \<Rightarrow> rat \<Rightarrow> rat" where
  "f64_mul x y = f64_round (x * y)"

definition f64_div :: "rat \<Rightarrow> rat \<Rightarrow> rat" where
  "f64_div x y = f64_round (x / y)"

definition f64_rem :: "rat \<Rightarrow> rat \<Rightarrow> rat" where
  "f64_rem x y = f64_round (x - y * of_int \<lfloor>x / y\<rfloor>)"

text \<open>\<open>value as u64\<close>, for values below \<open>2 ^ 64\<close>.\<close>

definition f64_to_nat :: "rat \<Rightarrow> nat" where
  "f64_to_nat x = nat \<lfloor>x\<rfloor>"

text \<open>\<open>{:.1}\<close>.\<close>

definition tenths :: "rat \<Rightarrow> nat" where
  "tenths x = nat (round_half_even (10 * x))"

definition show_tenths :: "nat \<Rightarrow> string" where
  "show_tenths n = show_nat (n div 10) @ ''.'' @ show_nat (n mod 10)"

definition fixed_1 :: "rat \<Rightarrow> string" where
  "fixed_1 x = show_tenths (tenths x)"

section \<open>Facts\<close>

lemma powi_pos [simp]: "(0 :: rat) < 2 powi k"
  by (simp add: zero_less_power_int)

lemma powi_add: "(2 :: rat) powi (j + k) = 2 powi j * 2 powi k"
  by (simp add: power_int_add)

lemma powi_less: "j < k \<Longrightarrow> (2 :: rat) powi j < 2 powi k"
  by (rule power_int_strict_increasing) simp_all

lemma powi_less_iff: "(2 :: rat) powi j < 2 powi k \<longleftrightarrow> j < k"
  using powi_less [of j k] powi_less [of k j] by (cases j k rule: linorder_cases) auto

lemma powi_le_iff: "(2 :: rat) powi j \<le> 2 powi k \<longleftrightarrow> j \<le> k"
  using powi_less_iff [of k j] by auto

lemma powi_le_powi: "j \<le> k \<Longrightarrow> (2 :: rat) powi j \<le> 2 powi k"
  by (simp add: powi_le_iff)

lemma log2_floor_bounds:
  assumes "0 < x"
  shows "2 powi (log2_floor x) \<le> x" "x < 2 powi (log2_floor x + 1)"
proof -
  obtain p q where pq: "quotient_of x = (p, q)" by fastforce
  have q: "0 < q" and x: "x = of_int p / of_int q"
    using quotient_of_denom_pos [OF pq] quotient_of_div [OF pq] by simp_all
  with assms have p: "0 < p" by (simp add: zero_less_divide_iff)
  have bounds: "(2 :: rat) powi (bitlen n - 1) \<le> of_int n" "(of_int n :: rat) < 2 powi bitlen n" if "0 < n" for n
  proof -
    from that have b: "0 < bitlen n" using bitlen_nonneg bitlen_eq_zero_iff by (metis order_le_less not_less)
    have "2 ^ nat (bitlen n - 1) \<le> n" "n < 2 ^ nat (bitlen n)" using bitlen_bounds [OF that] by auto
    then have "(2 :: rat) ^ nat (bitlen n - 1) \<le> of_int n" "(of_int n :: rat) < 2 ^ nat (bitlen n)"
      by (metis of_int_le_iff of_int_numeral of_int_power, metis of_int_less_iff of_int_numeral of_int_power)
    with b show "(2 :: rat) powi (bitlen n - 1) \<le> of_int n" "(of_int n :: rat) < 2 powi bitlen n"
      by (simp_all add: power_int_def)
  qed
  let ?k = "bitlen p - bitlen q"
  have "x < 2 powi bitlen p / 2 powi (bitlen q - 1)"
    unfolding x by (rule frac_less) (use bounds [OF p] bounds [OF q] p q in auto)
  also have "\<dots> = 2 powi (?k + 1)" by (simp add: power_int_diff [symmetric] algebra_simps)
  finally have upper: "x < 2 powi (?k + 1)" .
  have "2 powi (bitlen p - 1) / 2 powi bitlen q \<le> x"
    unfolding x by (rule frac_le) (use bounds [OF p] bounds [OF q] p q in auto)
  then have lower: "2 powi (?k - 1) \<le> x" by (simp add: power_int_diff [symmetric] algebra_simps)
  have "log2_floor x = (if 2 powi ?k \<le> x then ?k else ?k - 1)"
    using q by (simp add: log2_floor_def pq [unfolded x] Let_def pos_le_divide_eq x)
  with upper lower show "2 powi (log2_floor x) \<le> x" "x < 2 powi (log2_floor x + 1)"
    by auto
qed

lemma log2_floor_unique: "2 powi k \<le> x \<Longrightarrow> x < 2 powi (k + 1) \<Longrightarrow> log2_floor x = k"
  using log2_floor_bounds [of x] powi_less_iff [of k "log2_floor x + 1"] powi_less_iff [of "log2_floor x" "k + 1"]
    powi_pos [of k]
  by (smt (verit) dual_order.strict_trans1 dual_order.strict_trans2)

lemma round_half_even_near: "\<bar>of_int (round_half_even x) - x\<bar> \<le> 1 / 2"
  using floor_correct [of x] by (auto simp: round_half_even_def Let_def abs_le_iff algebra_simps)

lemma round_half_even_int [simp]: "round_half_even (of_int n) = n"
  by (simp add: round_half_even_def)

lemma round_half_even_mono:
  assumes "x \<le> y"
  shows "round_half_even x \<le> round_half_even y"
proof (cases "\<lfloor>x\<rfloor> = \<lfloor>y\<rfloor>")
  case True
  with assms show ?thesis by (auto simp: round_half_even_def Let_def)
next
  case False
  with assms floor_mono [OF assms] have "\<lfloor>x\<rfloor> + 1 \<le> \<lfloor>y\<rfloor>" by linarith
  then show ?thesis by (auto simp: round_half_even_def Let_def)
qed

lemma round_half_even_ge: "of_int n \<le> x \<Longrightarrow> n \<le> round_half_even x"
  using round_half_even_mono [of "of_int n" x] by simp

lemma round_half_even_le: "x \<le> of_int n \<Longrightarrow> round_half_even x \<le> n"
  using round_half_even_mono [of x "of_int n"] by simp

text \<open>The values of the type: at most 53 significant bits.\<close>

definition is_f64 :: "rat \<Rightarrow> bool" where
  "is_f64 x \<longleftrightarrow> (\<exists>m e. x = of_nat m * 2 powi e \<and> m \<le> 2 ^ 53)"

lemma scaled_bounds:
  assumes "0 < x" and e: "e = log2_floor x - 52"
  shows "2 ^ 52 \<le> x / 2 powi e" "x / 2 powi e < 2 ^ 53"
proof -
  have "(2 :: rat) powi (e + 52) = 2 ^ 52 * 2 powi e" "(2 :: rat) powi (e + 53) = 2 ^ 53 * 2 powi e"
    by (simp_all add: power_int_add)
  moreover have "2 powi (e + 52) \<le> x" "x < 2 powi (e + 53)"
    using log2_floor_bounds [OF assms(1)] by (simp_all add: e add.commute)
  ultimately show "2 ^ 52 \<le> x / 2 powi e" "x / 2 powi e < 2 ^ 53"
    by (simp_all add: pos_le_divide_eq pos_divide_less_eq)
qed

lemma f64_round_nonneg [simp]: "0 \<le> f64_round x"
proof (cases "x \<le> 0")
  case False
  then have "0 \<le> x / 2 powi (log2_floor x - 52)" by simp
  then have "0 \<le> round_half_even (x / 2 powi (log2_floor x - 52))" by (intro round_half_even_ge) simp
  then show ?thesis by (simp add: f64_round_def Let_def)
qed (simp add: f64_round_def)

lemma f64_round_bounds:
  assumes "0 < x" and e: "e = log2_floor x - 52"
  shows "2 ^ 52 * 2 powi e \<le> f64_round x" "f64_round x \<le> 2 ^ 53 * 2 powi e"
proof -
  note scaled = scaled_bounds [OF assms]
  have "2 ^ 52 \<le> round_half_even (x / 2 powi e)" "round_half_even (x / 2 powi e) \<le> 2 ^ 53"
    using scaled by (auto intro!: round_half_even_ge round_half_even_le)
  then have "(2 ^ 52 :: rat) \<le> of_int (round_half_even (x / 2 powi e))"
    "of_int (round_half_even (x / 2 powi e)) \<le> (2 ^ 53 :: rat)"
    by (metis of_int_le_iff of_int_numeral of_int_power)+
  with assms show "2 ^ 52 * 2 powi e \<le> f64_round x" "f64_round x \<le> 2 ^ 53 * 2 powi e"
    by (simp_all add: f64_round_def Let_def)
qed

lemma f64_round_is_f64 [simp]: "is_f64 (f64_round x)"
proof (cases "x \<le> 0")
  case True
  then show ?thesis by (simp add: f64_round_def is_f64_def exI [of _ 0])
next
  case False
  let ?e = "log2_floor x - 52" and ?m = "round_half_even (x / 2 powi (log2_floor x - 52))"
  from False scaled_bounds [of x ?e] have "0 \<le> ?m" "?m \<le> 2 ^ 53"
    by (auto intro!: round_half_even_ge round_half_even_le)
  then have "f64_round x = of_nat (nat ?m) * 2 powi ?e" "nat ?m \<le> 2 ^ 53"
    using False by (auto simp: f64_round_def Let_def)
  then show ?thesis unfolding is_f64_def by blast
qed

lemma f64_round_id: "is_f64 x \<Longrightarrow> f64_round x = x"
proof (cases "x \<le> 0")
  case True
  assume "is_f64 x"
  then have "0 \<le> x" by (auto simp: is_f64_def)
  with True show ?thesis by (simp add: f64_round_def)
next
  case False
  assume "is_f64 x"
  then obtain m e where x: "x = of_nat m * 2 powi e" and m: "m \<le> 2 ^ 53" by (auto simp: is_f64_def)
  let ?e = "log2_floor x - 52"
  have step: "f64_round x = x" if "?e \<le> k" "x = of_nat n * 2 powi k" for n k
  proof -
    have "x / 2 powi ?e = of_nat n * 2 powi (k - ?e)"
      by (simp add: that(2) power_int_diff)
    also have "\<dots> = of_int (int (n * 2 ^ nat (k - ?e)))" using that(1) by (simp add: power_int_def)
    finally have "round_half_even (x / 2 powi ?e) = int (n * 2 ^ nat (k - ?e))"
      "x / 2 powi ?e = of_int (int (n * 2 ^ nat (k - ?e)))"
      by (metis round_half_even_int)+
    then have "of_int (round_half_even (x / 2 powi ?e)) = x / 2 powi ?e" by metis
    with False show ?thesis by (simp add: f64_round_def Let_def)
  qed
  show ?thesis
  proof (cases "m = 2 ^ 53")
    case True
    then have x': "x = of_nat 1 * 2 powi (e + 53)" by (simp add: x power_int_add)
    then have "log2_floor x = e + 53" by (intro log2_floor_unique) (simp_all add: powi_less_iff)
    then show ?thesis by (intro step [OF _ x']) simp
  next
    case False
    with m have "(of_nat m :: rat) < of_nat (2 ^ 53)" by (simp only: of_nat_less_iff)
    then have "x < 2 ^ 53 * 2 powi e" by (simp add: x)
    then have "x < 2 powi (e + 53)" by (simp add: power_int_add)
    moreover have "2 powi (log2_floor x) \<le> x" using \<open>\<not> x \<le> 0\<close> by (simp add: log2_floor_bounds)
    ultimately have "log2_floor x < e + 53" by (metis order_le_less_trans powi_less_iff)
    then show ?thesis by (intro step [OF _ x]) simp
  qed
qed

lemma f64_round_mono:
  assumes "x \<le> y"
  shows "f64_round x \<le> f64_round y"
proof (cases "x \<le> 0")
  case True
  then have "f64_round x = 0" by (simp add: f64_round_def)
  then show ?thesis by simp
next
  case False
  let ?d = "log2_floor x - 52" and ?e = "log2_floor y - 52"
  from False assms have pos: "0 < x" "0 < y" by auto
  have "(2 :: rat) powi log2_floor x < 2 powi (log2_floor y + 1)"
    using log2_floor_bounds(1) [OF pos(1)] assms log2_floor_bounds(2) [OF pos(2)] by linarith
  then have le: "?d \<le> ?e" by (simp add: powi_less_iff)
  show ?thesis
  proof (cases "?d = ?e")
    case True
    have "round_half_even (x / 2 powi ?d) \<le> round_half_even (y / 2 powi ?d)"
      using assms by (intro round_half_even_mono divide_right_mono) simp_all
    with True pos show ?thesis by (simp add: f64_round_def Let_def)
  next
    case False
    with le have "?d + 53 \<le> ?e + 52" by simp
    then have "(2 :: rat) powi (?d + 53) \<le> 2 powi (?e + 52)" by (rule powi_le_powi)
    then have "2 ^ 53 * 2 powi ?d \<le> (2 :: rat) ^ 52 * 2 powi ?e" unfolding powi_add by simp
    with f64_round_bounds(2) [OF pos(1) HOL.refl] f64_round_bounds(1) [OF pos(2) HOL.refl] show ?thesis by linarith
  qed
qed

lemma f64_round_near:
  assumes "0 \<le> x"
  shows "\<bar>f64_round x - x\<bar> \<le> x / 2 ^ 53"
proof (cases "x = 0")
  case False
  let ?e = "log2_floor x - 52" and ?p = "2 powi (log2_floor x - 52) :: rat"
  from False assms have pos: "0 < x" by simp
  have "f64_round x - x = (of_int (round_half_even (x / ?p)) - x / ?p) * ?p"
    using pos by (simp add: f64_round_def Let_def left_diff_distrib)
  then have "\<bar>f64_round x - x\<bar> = \<bar>of_int (round_half_even (x / ?p)) - x / ?p\<bar> * ?p"
    by (simp add: abs_mult)
  also have "\<dots> \<le> 1 / 2 * ?p" by (intro mult_right_mono round_half_even_near) simp
  also have "\<dots> \<le> x / 2 ^ 53"
    using scaled_bounds(1) [OF pos HOL.refl] by (simp add: pos_le_divide_eq)
  finally show ?thesis .
qed (simp add: f64_round_def)

lemma is_f64_scale: "is_f64 x \<Longrightarrow> is_f64 (x * 2 powi k)"
  unfolding is_f64_def by (metis (no_types, lifting) mult.assoc power_int_add zero_neq_numeral)

lemma is_f64_nat: "n \<le> 2 ^ 53 \<Longrightarrow> is_f64 (of_nat n)"
  unfolding is_f64_def by (metis mult.right_neutral power_int_0_right)

lemma f64_of_nat_exact: "n \<le> 2 ^ 53 \<Longrightarrow> f64_of_nat n = of_nat n"
  by (simp add: f64_of_nat_def f64_round_id is_f64_nat)

lemma f64_div_1024: "is_f64 x \<Longrightarrow> f64_div x 1024 = x / 1024"
proof -
  assume "is_f64 x"
  then have "is_f64 (x * 2 powi (- 10))" by (rule is_f64_scale)
  moreover have "(2 :: rat) powi (- 10) = 1 / 1024" by (simp add: power_int_def power_one_over)
  ultimately have "is_f64 (x / 1024)" by simp
  then show ?thesis unfolding f64_div_def by (rule f64_round_id)
qed

lemma tenths_near:
  assumes "0 \<le> x"
  shows "\<bar>of_nat (tenths x) / 10 - x\<bar> \<le> 1 / 20"
proof -
  have "0 \<le> round_half_even (10 * x)" using assms by (intro round_half_even_ge) simp
  then have "of_nat (tenths x) = (of_int (round_half_even (10 * x)) :: rat)" by (simp add: tenths_def)
  with round_half_even_near [of "10 * x"] show ?thesis unfolding abs_le_iff by simp
qed

lemma tenths_le: "x \<le> of_nat n \<Longrightarrow> tenths x \<le> 10 * n"
  using round_half_even_le [of "10 * x" "10 * int n"] by (simp add: tenths_def)

lemma tenths_ge: "of_nat n \<le> x \<Longrightarrow> 10 * n \<le> tenths x"
  using round_half_even_ge [of "10 * int n" "10 * x"] by (simp add: tenths_def)

end
