(* ===== verification/Cli_Progress.thy ===== *)
theory Cli_Progress
  imports Rust_F64
begin

text \<open>
  The numbers and times a transfer of the client prints, and its progress display
  (\<open>crates/rsdb-cli/src/main.rs\<close>): durations, rates and byte counts as text, and the line that
  \<open>TransferProgress\<close> draws on the standard error. An \<open>Instant\<close> is a number of nanoseconds of the
  monotonic clock; a byte count is below \<open>2 ^ 64\<close>. A write to the standard error either writes
  everything, or fails after some of the bytes: what a write does is an argument.
\<close>

section \<open>Durations, rates and byte counts\<close>

text \<open>\<open>std::time::Duration\<close>: \<open>du_nanos\<close> is below a second.\<close>

record duration =
  du_secs :: nat
  du_nanos :: nat

definition duration_of_nanos :: "nat \<Rightarrow> duration" where
  "duration_of_nanos n = \<lparr>du_secs = n div 1000000000, du_nanos = n mod 1000000000\<rparr>"

definition as_millis :: "duration \<Rightarrow> nat" where
  "as_millis d = du_secs d * 1000 + du_nanos d div 1000000"

definition as_secs_f64 :: "duration \<Rightarrow> rat" where
  "as_secs_f64 d = f64_add (f64_of_nat (du_secs d)) (f64_div (f64_of_nat (du_nanos d)) (f64_of_nat 1000000000))"

text \<open>The milliseconds since \<open>started\<close>, no more than a \<open>u64\<close> holds.\<close>

definition elapsed_ms :: "duration \<Rightarrow> nat" where
  "elapsed_ms elapsed = min (as_millis elapsed) (2 ^ 64 - 1)"

definition format_transfer_duration :: "duration \<Rightarrow> string" where
  "format_transfer_duration d =
     (if du_secs d = 0 then show_nat (as_millis d) @ ''ms''
      else if du_secs d < 60 then fixed_1 (as_secs_f64 d) @ ''s''
      else if du_secs d < 3600 then
        let minutes = du_secs d div 60; seconds = f64_rem (as_secs_f64 d) 60
        in show_nat minutes @ ''m '' @ fixed_1 seconds @ ''s''
      else
        let hours = du_secs d div 3600; minutes = du_secs d mod 3600 div 60;
            seconds = f64_rem (as_secs_f64 d) 60
        in show_nat hours @ ''h '' @ show_nat minutes @ ''m '' @ fixed_1 seconds @ ''s'')"

definition UNITS :: "string list" where
  "UNITS = [''B'', ''KiB'', ''MiB'', ''GiB'', ''TiB'']"

function scale_units :: "rat \<Rightarrow> nat \<Rightarrow> rat \<times> nat" where
  "scale_units value unit_index =
     (if 1024 \<le> value \<and> unit_index + 1 < length UNITS
      then scale_units (f64_div value 1024) (unit_index + 1) else (value, unit_index))"
  by pat_completeness auto
termination
  by (relation "measure (\<lambda>(_, i). length UNITS - i)") auto

declare scale_units.simps [simp del]

definition format_byte_units :: "rat \<Rightarrow> string" where
  "format_byte_units value =
     (case scale_units value 0 of (value, unit_index) \<Rightarrow>
        if unit_index = 0 then show_nat (f64_to_nat value) @ '' '' @ UNITS ! unit_index
        else fixed_1 value @ '' '' @ UNITS ! unit_index)"

definition format_byte_count :: "nat \<Rightarrow> string" where
  "format_byte_count bs = format_byte_units (f64_of_nat bs)"

definition format_transfer_rate :: "nat \<Rightarrow> duration \<Rightarrow> string" where
  "format_transfer_rate bs elapsed =
     (if du_secs elapsed = 0 \<and> du_nanos elapsed = 0 then ''0 B''
      else format_byte_units (f64_div (f64_of_nat bs) (as_secs_f64 elapsed)))"

section \<open>The progress line\<close>

datatype transfer_progress_kind = TpPush | TpPull

fun progress_label :: "transfer_progress_kind \<Rightarrow> string" where
  "progress_label TpPush = ''pushing''"
| "progress_label TpPull = ''pulling''"

record transfer_progress =
  tp_kind :: transfer_progress_kind
  tp_total_bytes :: nat
  tp_bytes_done :: nat
  tp_started :: nat
  tp_last_draw :: "nat option"
  tp_enabled :: bool
  tp_dirty_line :: bool

text \<open>\<open>TransferProgress::new\<close> at an instant, on a standard error that is a terminal or not.\<close>

definition new_progress :: "transfer_progress_kind \<Rightarrow> nat \<Rightarrow> bool \<Rightarrow> transfer_progress" where
  "new_progress kind now is_terminal =
     \<lparr>tp_kind = kind, tp_total_bytes = 0, tp_bytes_done = 0, tp_started = now, tp_last_draw = None,
      tp_enabled = is_terminal, tp_dirty_line = False\<rparr>"

definition set_total_bytes :: "nat \<Rightarrow> transfer_progress \<Rightarrow> transfer_progress" where
  "set_total_bytes total_bytes p = p\<lparr>tp_total_bytes := total_bytes\<rparr>"

text \<open>Carriage return and the control sequence that erases the line.\<close>

definition clear_line :: string where
  "clear_line = [CHR 0x0D, CHR 0x1B] @ ''[2K''"

definition pad_left :: "nat \<Rightarrow> string \<Rightarrow> string" where
  "pad_left n s = replicate (n - length s) (CHR '' '') @ s"

definition progress_percent :: "nat \<Rightarrow> nat \<Rightarrow> rat" where
  "progress_percent displayed_done total_bytes =
     f64_mul (f64_div (f64_of_nat displayed_done) (f64_of_nat total_bytes)) 100"

definition progress_line :: "transfer_progress \<Rightarrow> duration \<Rightarrow> string" where
  "progress_line p elapsed =
     (let displayed_done = min (tp_bytes_done p) (tp_total_bytes p);
          percent = progress_percent displayed_done (tp_total_bytes p)
      in progress_label (tp_kind p) @ '' '' @ pad_left 5 (fixed_1 percent) @ ''%  ''
         @ format_byte_count displayed_done @ '' / '' @ format_byte_count (tp_total_bytes p) @ ''  ''
         @ format_transfer_rate displayed_done elapsed @ ''/s  '' @ format_transfer_duration elapsed)"

text \<open>What a write to the standard error does: it writes everything, or fails after some bytes.\<close>

datatype stderr_write = Written | FailsAfter nat

fun written_of :: "stderr_write \<Rightarrow> string \<Rightarrow> string" where
  "written_of Written text = text"
| "written_of (FailsAfter n) text = take n text"

text \<open>
  \<open>now\<close> is the clock read for the distance to the last drawing, \<open>later\<close> the one read for the
  elapsed time. The result is what reached the standard error.
\<close>

definition draw_progress :: "nat \<Rightarrow> nat \<Rightarrow> stderr_write \<Rightarrow> transfer_progress \<Rightarrow> transfer_progress \<times> string" where
  "draw_progress now later stderr p =
     (if \<not> tp_enabled p \<or> tp_total_bytes p = 0 then (p, [])
      else if (case tp_last_draw p of Some last_draw \<Rightarrow> now - last_draw < 200 * 1000000 | None \<Rightarrow> False) then (p, [])
      else
        let line = progress_line p (duration_of_nanos (later - tp_started p));
            out = written_of stderr (clear_line @ line)
        in if stderr \<noteq> Written then (p\<lparr>tp_enabled := False, tp_dirty_line := False\<rparr>, out)
           else (p\<lparr>tp_last_draw := Some now, tp_dirty_line := True\<rparr>, out))"

definition advance_progress ::
  "nat \<Rightarrow> nat \<Rightarrow> nat \<Rightarrow> stderr_write \<Rightarrow> transfer_progress \<Rightarrow> transfer_progress \<times> string" where
  "advance_progress delta now later stderr p =
     draw_progress now later stderr (p\<lparr>tp_bytes_done := min (2 ^ 64 - 1) (tp_bytes_done p + delta)\<rparr>)"

definition finish_progress :: "stderr_write \<Rightarrow> transfer_progress \<Rightarrow> transfer_progress \<times> string" where
  "finish_progress stderr p =
     (if \<not> tp_enabled p \<or> \<not> tp_dirty_line p then (p, [])
      else if stderr \<noteq> Written then (p\<lparr>tp_enabled := False\<rparr>, written_of stderr clear_line)
      else (p\<lparr>tp_dirty_line := False\<rparr>, clear_line))"

text \<open>
  The calls a transfer makes between \<open>new\<close> and \<open>finish\<close>: the total once the manifest is known,
  then an advance for every chunk. A run collects what each call put on the standard error.
\<close>

datatype progress_event =
    SetTotal nat
  | Advance nat nat nat stderr_write
      \<comment> \<open>bytes, the two clock reads, the write\<close>

fun progress_step :: "progress_event \<Rightarrow> transfer_progress \<Rightarrow> transfer_progress \<times> string" where
  "progress_step (SetTotal n) p = (set_total_bytes n p, [])"
| "progress_step (Advance delta now later stderr) p = advance_progress delta now later stderr p"

primrec progress_run :: "progress_event list \<Rightarrow> transfer_progress \<Rightarrow> transfer_progress \<times> string list" where
  "progress_run [] p = (p, [])"
| "progress_run (e # es) p =
     (case progress_step e p of (q, out) \<Rightarrow>
        case progress_run es q of (r, outs) \<Rightarrow> (r, out # outs))"

end
