(* ===== verification/Cli_Progress_Facts.thy ===== *)
theory Cli_Progress_Facts
  imports Cli_Progress
begin

text \<open>
  The numbers a transfer prints are right up to the last printed digit, the percentage stays
  between 0 and 100, and the progress line is drawn at most five times a second, is erased at the
  end, and is never written again after a failed write.
\<close>

section \<open>Byte counts\<close>

lemma scale_units_run:
  assumes "scale_units v i = (u, j)" "is_f64 v" "0 \<le> v" "i < length UNITS"
  shows "i \<le> j \<and> j < length UNITS \<and> v = u * 1024 ^ (j - i) \<and> 0 \<le> u \<and> (j + 1 < length UNITS \<longrightarrow> u < 1024) \<and>
    (i < j \<longrightarrow> 1 \<le> u)"
  using assms
proof (induction v i arbitrary: u j rule: scale_units.induct)
  case (1 v i)
  show ?case
  proof (cases "1024 \<le> v \<and> i + 1 < length UNITS")
    case True
    have run: "scale_units (v / 1024) (i + 1) = (u, j)"
      using "1.prems"(1) True f64_div_1024 [OF "1.prems"(2)] scale_units.simps [of v i] by simp
    have v: "f64_div v 1024 = v / 1024" using "1.prems"(2) by (rule f64_div_1024)
    then have f: "is_f64 (v / 1024)" unfolding f64_div_def by (metis f64_round_is_f64)
    have ih: "i + 1 \<le> j \<and> j < length UNITS \<and> v / 1024 = u * 1024 ^ (j - (i + 1)) \<and> 0 \<le> u \<and>
      (j + 1 < length UNITS \<longrightarrow> u < 1024) \<and> (i + 1 < j \<longrightarrow> 1 \<le> u)"
      using "1.IH" [OF True, of u j] run v f True "1.prems"(3) by simp
    then have "v = u * 1024 ^ Suc (j - (i + 1))" by simp
    moreover have "Suc (j - (i + 1)) = j - i" using ih by linarith
    moreover have "1 \<le> u" if "j = i + 1" using ih that True by simp
    ultimately show ?thesis using ih by (metis Suc_eq_plus1 Suc_le_lessD le_neq_implies_less less_or_eq_imp_le)
  next
    case False
    then have "u = v" "j = i" using "1.prems"(1) scale_units.simps [of v i] by auto
    with False "1.prems"(3,4) show ?thesis by auto
  qed
qed

lemma units_length: "length UNITS = 5"
  by (simp add: UNITS_def)

text \<open>
  C39: the text of a byte count is the count in the largest binary unit of which there is at least
  one. Below 1024 it is the exact number of bytes; above, the number before the unit is at least
  1.0, at most 1024.0 unless the unit is the last one, and within half a tenth of a unit of the
  count, up to the rounding of the count to a floating-point number.
\<close>
theorem byte_count_text:
  "\<exists>i m. i < 5 \<and> format_byte_count n = (if i = 0 then show_nat m else show_tenths m) @ '' '' @ UNITS ! i \<and>
     (i = 0 \<longleftrightarrow> n < 1024) \<and> (i = 0 \<longrightarrow> m = n) \<and> (i \<noteq> 0 \<longrightarrow> 10 \<le> m) \<and> (i < 4 \<longrightarrow> m \<le> 10240) \<and>
     (i \<noteq> 0 \<longrightarrow> \<bar>of_nat m / 10 * 1024 ^ i - (of_nat n :: rat)\<bar> \<le> 1024 ^ i / 20 + of_nat n / 2 ^ 53)"
proof -
  let ?v = "f64_of_nat n"
  obtain u i where run: "scale_units ?v 0 = (u, i)" by fastforce
  have v: "is_f64 ?v" "0 \<le> ?v" by (simp_all add: f64_of_nat_def)
  have spec: "i < 5 \<and> ?v = u * 1024 ^ i \<and> 0 \<le> u \<and> (i + 1 < 5 \<longrightarrow> u < 1024) \<and> (0 < i \<longrightarrow> 1 \<le> u)"
    using scale_units_run [OF run v] by (simp add: units_length)
  have kilo: "1024 \<le> ?v" if "\<not> n < 1024"
    using that f64_round_mono [of 1024 "of_nat n"] f64_round_id [OF is_f64_nat [of 1024]]
    by (simp add: f64_of_nat_def)
  show ?thesis
  proof (cases "i = 0")
    case True
    then have u: "u = ?v" "u < 1024" using spec by auto
    with kilo have n: "n < 1024" by (meson not_less)
    then have "u = of_nat n" unfolding u(1) by (intro f64_of_nat_exact) simp
    with True n show ?thesis
      by - (rule exI [of _ 0], rule exI [of _ n],
        simp add: format_byte_count_def format_byte_units_def run [simplified True] f64_to_nat_def)
  next
    case False
    have big: "\<not> n < 1024"
    proof
      assume n: "n < 1024"
      then have "?v < 1024" by (simp add: f64_of_nat_exact)
      with run False show False by (simp add: scale_units.simps)
    qed
    let ?m = "tenths u"
    have u: "1 \<le> u" "?v = u * 1024 ^ i" using spec False by auto
    have m: "10 \<le> ?m" using tenths_ge [of 1 u] u by simp
    have top: "?m \<le> 10240" if "i < 4" using tenths_le [of u 1024] spec that by simp
    have "\<bar>of_nat ?m / 10 - u\<bar> \<le> 1 / 20" using u by (intro tenths_near) simp
    then have "\<bar>of_nat ?m / 10 - u\<bar> * 1024 ^ i \<le> 1 / 20 * 1024 ^ i" by (intro mult_right_mono) simp_all
    then have "\<bar>of_nat ?m / 10 * 1024 ^ i - ?v\<bar> \<le> 1024 ^ i / 20"
      unfolding u(2) by (metis (no_types, lifting) abs_mult_pos left_diff_distrib mult.left_neutral
        times_divide_eq_left zero_le_numeral zero_le_power)
    moreover have "\<bar>?v - of_nat n\<bar> \<le> of_nat n / 2 ^ 53"
      unfolding f64_of_nat_def by (rule f64_round_near) simp
    ultimately have "\<bar>of_nat ?m / 10 * 1024 ^ i - (of_nat n :: rat)\<bar> \<le> 1024 ^ i / 20 + of_nat n / 2 ^ 53"
      by linarith
    moreover have "format_byte_count n = show_tenths ?m @ '' '' @ UNITS ! i"
      using False by (simp add: format_byte_count_def format_byte_units_def run fixed_1_def)
    ultimately show ?thesis
      using False big m top spec by - (rule exI [of _ i], rule exI [of _ ?m], simp)
  qed
qed

section \<open>Durations\<close>

lemma as_secs_near:
  assumes "du_nanos d < 1000000000" "du_secs d < 2 ^ 22"
  shows "of_nat (du_secs d) \<le> as_secs_f64 d"
    "\<bar>as_secs_f64 d - (of_nat (du_secs d) + of_nat (du_nanos d) / 1000000000)\<bar> \<le> 1 / 2000000000"
    "as_secs_f64 d < of_nat (du_secs d) + 1"
proof -
  let ?s = "of_nat (du_secs d) :: rat" and ?n = "of_nat (du_nanos d) / 1000000000 :: rat"
  let ?x = "f64_round ?n"
  have n: "0 \<le> ?n" "?n \<le> 999999999 / 1000000000" using assms(1) by simp_all
  have s: "0 \<le> ?s" "?s \<le> 2 ^ 22 - 1"
  proof -
    have "du_secs d \<le> 2 ^ 22 - 1" using assms(2) by simp
    then have "(of_nat (du_secs d) :: rat) \<le> of_nat (2 ^ 22 - 1)" by (simp only: of_nat_le_iff)
    then show "?s \<le> 2 ^ 22 - 1" by simp
  qed simp
  have exact: "f64_of_nat (du_secs d) = ?s" "f64_of_nat (du_nanos d) = of_nat (du_nanos d)"
    "f64_of_nat 1000000000 = 1000000000"
    using assms by (simp_all add: f64_of_nat_exact)
  then have y: "as_secs_f64 d = f64_round (?s + ?x)" by (simp add: as_secs_f64_def f64_add_def f64_div_def)
  have x: "\<bar>?x - ?n\<bar> \<le> 1 / 2 ^ 53" using f64_round_near [OF n(1)] n(2) by simp
  have sx: "\<bar>as_secs_f64 d - (?s + ?x)\<bar> \<le> (?s + ?x) / 2 ^ 53"
    unfolding y by (rule f64_round_near) simp
  also have "\<dots> \<le> 2 ^ 22 / 2 ^ 53"
  proof (rule divide_right_mono)
    have "?x \<le> 1" using x n(2) unfolding abs_le_iff by simp
    with s(2) show "?s + ?x \<le> 2 ^ 22" by linarith
  qed simp
  finally have "\<bar>as_secs_f64 d - (?s + ?x)\<bar> \<le> 2 ^ 22 / 2 ^ 53" .
  moreover have "\<bar>as_secs_f64 d - (?s + ?n)\<bar> \<le> \<bar>as_secs_f64 d - (?s + ?x)\<bar> + \<bar>?x - ?n\<bar>" by linarith
  moreover have "2 ^ 22 / 2 ^ 53 + 1 / 2 ^ 53 \<le> (1 / 2000000000 :: rat)" by simp
  ultimately show near: "\<bar>as_secs_f64 d - (?s + ?n)\<bar> \<le> 1 / 2000000000"
    using x by linarith
  show "?s \<le> as_secs_f64 d"
    unfolding y using f64_round_mono [of ?s "?s + ?x"] exact(1) by (simp add: f64_of_nat_def)
  show "as_secs_f64 d < ?s + 1" using near n(2) by linarith
qed

lemma rem_60_near:
  assumes "of_nat s \<le> y" "y < of_nat s + 1" "s < 2 ^ 22"
  shows "0 \<le> f64_rem y 60" "f64_rem y 60 \<le> 60" "\<bar>f64_rem y 60 - (y - 60 * of_nat (s div 60))\<bar> \<le> 1 / 4000000000"
proof -
  have "\<lfloor>y / 60\<rfloor> = int (s div 60)"
  proof (rule floor_unique)
    have "60 * (s div 60) \<le> s" "s + 1 \<le> 60 * (s div 60 + 1)" by presburger+
    then have "of_nat (60 * (s div 60)) \<le> (of_nat s :: rat)" "(of_nat (s + 1) :: rat) \<le> of_nat (60 * (s div 60 + 1))"
      by (simp_all only: of_nat_le_iff)
    with assms(1,2) show "of_int (int (s div 60)) \<le> y / 60" "y / 60 < of_int (int (s div 60)) + 1"
      by (simp_all add: algebra_simps)
  qed
  then have rem: "f64_rem y 60 = f64_round (y - 60 * of_nat (s div 60))" by (simp add: f64_rem_def)
  let ?z = "y - 60 * of_nat (s div 60)"
  have "s mod 60 \<le> 59" by (simp add: Suc_leI less_Suc_eq_le [symmetric])
  moreover have "s = 60 * (s div 60) + s mod 60" by simp
  ultimately have "60 * (s div 60) \<le> s" "s \<le> 60 * (s div 60) + 59" by linarith+
  then have "of_nat (60 * (s div 60)) \<le> (of_nat s :: rat)" "(of_nat s :: rat) \<le> of_nat (60 * (s div 60) + 59)"
    by (simp_all only: of_nat_le_iff)
  with assms have z: "0 \<le> ?z" "?z \<le> 60" by simp_all
  show "0 \<le> f64_rem y 60" by (simp add: rem)
  show "f64_rem y 60 \<le> 60"
    using f64_round_mono [OF z(2)] f64_round_id [OF is_f64_nat [of 60]] by (simp add: rem)
  have "\<bar>f64_rem y 60 - ?z\<bar> \<le> ?z / 2 ^ 53" unfolding rem by (rule f64_round_near) (rule z)
  with z show "\<bar>f64_rem y 60 - ?z\<bar> \<le> 1 / 4000000000" by simp
qed

text \<open>
  C38: the text of a duration is right to half a tenth of a second. Below a second it is the number
  of whole milliseconds; above, whole hours and minutes as far as there are any, and then the
  seconds with one decimal, at most 60.0. It can be 60.0: seconds just below a full minute are
  rounded up, and not carried into the minutes.
\<close>
theorem duration_text:
  assumes "du_nanos d < 1000000000" "du_secs d < 2 ^ 22"
  shows "\<exists>t \<le> 600. format_transfer_duration d =
      (if du_secs d = 0 then show_nat (du_nanos d div 1000000) @ ''ms''
       else (if du_secs d < 60 then []
             else if du_secs d < 3600 then show_nat (du_secs d div 60) @ ''m ''
             else show_nat (du_secs d div 3600) @ ''h '' @ show_nat (du_secs d mod 3600 div 60) @ ''m '')
            @ show_tenths t @ ''s'') \<and>
    \<bar>60 * of_nat (du_secs d div 60) + of_nat t / 10
      - (of_nat (du_secs d) + of_nat (du_nanos d) / 1000000000 :: rat)\<bar> \<le> 1 / 20 + 1 / 1000000000"
proof -
  note y = as_secs_near [OF assms]
  note r = rem_60_near [OF y(1,3) assms(2)]
  let ?y = "as_secs_f64 d" and ?k = "of_nat (du_secs d div 60) :: rat"
  let ?exact = "of_nat (du_secs d) + of_nat (du_nanos d) / 1000000000 :: rat"
  show ?thesis
  proof (cases "du_secs d < 60")
    case True
    then have k: "du_secs d div 60 = 0" by simp
    from True have "du_secs d + 1 \<le> 60" by simp
    then have "(of_nat (du_secs d + 1) :: rat) \<le> of_nat 60" by (simp only: of_nat_le_iff)
    with y(3) have t: "tenths ?y \<le> 600" using tenths_le [of ?y 60] by simp
    have "\<bar>of_nat (tenths ?y) / 10 - ?y\<bar> \<le> 1 / 20"
      using y(1) by (intro tenths_near) (meson of_nat_0_le_iff order_trans)
    with y(2) have "\<bar>60 * ?k + of_nat (tenths ?y) / 10 - ?exact\<bar> \<le> 1 / 20 + 1 / 1000000000"
      unfolding k by linarith
    with t True show ?thesis
      by (intro exI [of _ "tenths ?y"]) (auto simp: format_transfer_duration_def as_millis_def fixed_1_def)
  next
    case False
    let ?t = "tenths (f64_rem ?y 60)"
    have t: "?t \<le> 600" using tenths_le [of "f64_rem ?y 60" 60] r(2) by simp
    have "\<bar>of_nat ?t / 10 - f64_rem ?y 60\<bar> \<le> 1 / 20" using r(1) by (rule tenths_near)
    with y(2) r(3) have "\<bar>60 * ?k + of_nat ?t / 10 - ?exact\<bar> \<le> 1 / 20 + 1 / 1000000000" by linarith
    with t False show ?thesis
      by (intro exI [of _ ?t]) (auto simp: format_transfer_duration_def fixed_1_def Let_def)
  qed
qed

lemma rounded_minute:
  "format_transfer_duration \<lparr>du_secs = 119, du_nanos = 960000000\<rparr> = ''1m 60.0s''"
proof -
  have "as_secs_f64 \<lparr>du_secs = 119, du_nanos = 960000000\<rparr> = f64_add 119 (f64_div 960000000 1000000000)"
    by (simp add: as_secs_f64_def f64_of_nat_exact)
  moreover have one: "show_nat (Suc 0) = ''1''" by code_simp
  moreover have "fixed_1 (f64_rem (f64_add 119 (f64_div 960000000 1000000000)) 60) = ''60.0''" by code_simp
  ultimately show ?thesis by (simp add: format_transfer_duration_def)
qed

theorem duration_text_witness:
  "format_transfer_duration \<lparr>du_secs = 119, du_nanos = 960000000\<rparr> = ''1m 60.0s'' \<and>
   (\<exists>t \<le> 600. format_transfer_duration \<lparr>du_secs = 119, du_nanos = 960000000\<rparr> = show_nat 1 @ ''m '' @ show_tenths t @ ''s'')"
proof
  show "format_transfer_duration \<lparr>du_secs = 119, du_nanos = 960000000\<rparr> = ''1m 60.0s''" by (rule rounded_minute)
  show "\<exists>t \<le> 600. format_transfer_duration \<lparr>du_secs = 119, du_nanos = 960000000\<rparr> = show_nat 1 @ ''m '' @ show_tenths t @ ''s''"
    using duration_text [of "\<lparr>du_secs = 119, du_nanos = 960000000\<rparr>"] by auto
qed

section \<open>The percentage\<close>

lemma length_show_nat: "n < 10 ^ Suc k \<Longrightarrow> length (show_nat n) \<le> Suc k"
proof (induction k arbitrary: n)
  case 0
  then show ?case by (subst show_nat.simps) simp
next
  case (Suc k)
  from Suc.prems have "n div 10 < 10 ^ Suc k" by (simp add: less_mult_imp_div_less mult.commute)
  from Suc.IH [OF this] show ?case by (subst show_nat.simps) simp
qed

lemma length_show_tenths:
  assumes "n \<le> 1000"
  shows "length (show_tenths n) \<le> 5"
proof -
  from assms have "n div 10 < 10 ^ Suc 2" by simp
  then have "length (show_nat (n div 10)) \<le> Suc 2" by (rule length_show_nat)
  moreover have "length (show_nat (n mod 10)) \<le> Suc 0" by (rule length_show_nat) simp
  ultimately show ?thesis by (simp add: show_tenths_def)
qed

lemma percent_bounds:
  assumes "done_bytes \<le> total_bytes"
  shows "0 \<le> progress_percent done_bytes total_bytes" "progress_percent done_bytes total_bytes \<le> 100"
proof -
  let ?d = "f64_of_nat done_bytes" and ?t = "f64_of_nat total_bytes"
  have "?d \<le> ?t" using assms unfolding f64_of_nat_def by (intro f64_round_mono) simp
  moreover have "0 \<le> ?d" by (simp add: f64_of_nat_def)
  ultimately have "?d / ?t \<le> 1" by (simp add: divide_le_eq)
  then have "f64_div ?d ?t \<le> 1"
    unfolding f64_div_def using f64_round_mono f64_round_id [OF is_f64_nat [of 1]] by fastforce
  then have "f64_div ?d ?t * 100 \<le> 100" by simp
  then show "progress_percent done_bytes total_bytes \<le> 100"
    unfolding progress_percent_def f64_mul_def
    using f64_round_mono f64_round_id [OF is_f64_nat [of 100]] by fastforce
  show "0 \<le> progress_percent done_bytes total_bytes" by (simp add: progress_percent_def f64_mul_def)
qed

text \<open>
  The percentage of the progress line never exceeds 100.0 and always takes five columns,
  whatever was transferred and however much more than announced.
\<close>
theorem percent_column:
  "\<exists>t \<le> 1000. \<exists>column rest.
     progress_line p elapsed = progress_label (tp_kind p) @ '' '' @ column @ ''%  '' @ rest \<and>
     column = pad_left 5 (show_tenths t) \<and> length column = 5"
proof -
  let ?shown = "min (tp_bytes_done p) (tp_total_bytes p)"
  let ?t = "tenths (progress_percent ?shown (tp_total_bytes p))"
  have t: "?t \<le> 1000"
    using tenths_le [of _ 100] percent_bounds(2) [of ?shown "tp_total_bytes p"] by simp
  have "length (pad_left 5 (show_tenths ?t)) = 5"
    using length_show_tenths [OF t] by (simp add: pad_left_def)
  with t show ?thesis
    by (intro exI [of _ ?t]) (simp add: progress_line_def Let_def fixed_1_def)
qed

section \<open>The display\<close>

fun event_write :: "progress_event \<Rightarrow> stderr_write" where
  "event_write (SetTotal n) = Written"
| "event_write (Advance delta now later stderr) = stderr"

lemma advance_cases:
  obtains (nothing) "advance_progress delta now later stderr p = (p\<lparr>tp_bytes_done := min (2 ^ 64 - 1) (tp_bytes_done p + delta)\<rparr>, [])"
  | (drawn) q line where "advance_progress delta now later stderr p = (q, clear_line @ line)" "stderr = Written"
      "tp_enabled p" "tp_enabled q" "tp_dirty_line q" "tp_last_draw q = Some now"
      "\<And>last_draw. tp_last_draw p = Some last_draw \<Longrightarrow> last_draw + 200000000 \<le> now"
  | (failed) q out where "advance_progress delta now later stderr p = (q, out)" "stderr \<noteq> Written"
      "tp_enabled p" "\<not> tp_enabled q" "\<not> tp_dirty_line q"
      "\<And>last_draw. tp_last_draw p = Some last_draw \<Longrightarrow> last_draw + 200000000 \<le> now"
proof (cases "\<not> tp_enabled p \<or> tp_total_bytes p = 0 \<or>
    (case tp_last_draw p of Some last_draw \<Rightarrow> now - last_draw < 200 * 1000000 | None \<Rightarrow> False)")
  case True
  show thesis by (rule nothing) (use True in \<open>auto simp: advance_progress_def draw_progress_def\<close>)
next
  case False
  then have apart: "last_draw + 200000000 \<le> now" if "tp_last_draw p = Some last_draw" for last_draw
    using that by simp linarith
  show thesis
  proof (cases "stderr = Written")
    case True
    show thesis
      by (rule drawn [OF _ True _ _ _ _ apart])
        (use False True in \<open>auto simp: advance_progress_def draw_progress_def Let_def\<close>)
  next
    case failing: False
    show thesis
      by (rule failed [OF _ failing _ _ _ apart])
        (use False failing in \<open>auto simp: advance_progress_def draw_progress_def Let_def\<close>)
  qed
qed

lemma disabled_run: "\<not> tp_enabled p \<Longrightarrow> progress_run es p = (q, outs) \<Longrightarrow> concat outs = [] \<and> \<not> tp_enabled q"
proof (induction es arbitrary: p outs)
  case (Cons e es)
  obtain p1 out where step: "progress_step e p = (p1, out)" by fastforce
  with Cons.prems(1) have "out = []" "\<not> tp_enabled p1"
    by (cases e; auto simp: set_total_bytes_def advance_progress_def draw_progress_def)+
  with Cons step show ?case by (auto split: prod.splits)
qed simp

lemma written_run:
  assumes "progress_run es p = (q, outs)" "\<forall>e \<in> set es. event_write e = Written"
    "\<not> tp_dirty_line p \<Longrightarrow> shown = [] \<or> (\<exists>x. shown = x @ clear_line)" "tp_dirty_line p \<Longrightarrow> tp_enabled p"
  shows "(\<not> tp_dirty_line q \<longrightarrow> shown @ concat outs = [] \<or> (\<exists>x. shown @ concat outs = x @ clear_line)) \<and>
    (tp_dirty_line q \<longrightarrow> tp_enabled q)"
  using assms
proof (induction es arbitrary: p outs shown)
  case (Cons e es)
  obtain p1 out where step: "progress_step e p = (p1, out)" by fastforce
  with Cons.prems(1) obtain rest where rest: "progress_run es p1 = (q, rest)" "outs = out # rest"
    by (auto split: prod.splits)
  have "(\<not> tp_dirty_line p1 \<longrightarrow> shown @ out = [] \<or> (\<exists>x. shown @ out = x @ clear_line)) \<and> (tp_dirty_line p1 \<longrightarrow> tp_enabled p1)"
  proof (cases e)
    case (SetTotal n)
    with step Cons.prems(3,4) show ?thesis by (auto simp: set_total_bytes_def)
  next
    case (Advance delta now later stderr)
    then show ?thesis
      using step Cons.prems(2-4) by (cases rule: advance_cases [of delta now later stderr p]) auto
  qed
  with Cons.IH [OF rest(1), of "shown @ out"] Cons.prems(2) rest(2) show ?case by simp
qed simp

text \<open>
  C40: the progress display leaves the terminal as it should. Where the standard error is not a
  terminal nothing is ever written. If no write fails, what is on the standard error at the end,
  after any number of advances and totals, is nothing or ends with the sequence that erases the
  line. And after a write that failed nothing more is written, neither by later advances nor at
  the end.
\<close>
theorem progress_leaves_no_line:
  assumes run: "progress_run es (new_progress kind started is_terminal) = (p, outs)"
    and fin: "finish_progress stderr p = (q, last_out)"
  shows "(\<not> is_terminal \<longrightarrow> concat outs @ last_out = []) \<and>
    (stderr = Written \<and> (\<forall>e \<in> set es. event_write e = Written) \<longrightarrow>
       concat outs @ last_out = [] \<or> (\<exists>x. concat outs @ last_out = x @ clear_line)) \<and>
    (snd (advance_progress delta now later Written p) \<noteq> [] \<and>
     progress_run es' (fst (advance_progress delta now later (FailsAfter n) p)) = (p', outs') \<longrightarrow>
       concat outs' @ snd (finish_progress stderr p') = [])"
proof (intro conjI impI)
  show "concat outs @ last_out = []" if "\<not> is_terminal"
    using disabled_run [OF _ run] fin that by (auto simp: new_progress_def finish_progress_def)
next
  assume w: "stderr = Written \<and> (\<forall>e \<in> set es. event_write e = Written)"
  have "(\<not> tp_dirty_line p \<longrightarrow> [] @ concat outs = [] \<or> (\<exists>x. [] @ concat outs = x @ clear_line)) \<and>
    (tp_dirty_line p \<longrightarrow> tp_enabled p)"
    by (rule written_run [OF run]) (use w in \<open>auto simp: new_progress_def\<close>)
  with fin w show "concat outs @ last_out = [] \<or> (\<exists>x. concat outs @ last_out = x @ clear_line)"
    by (auto simp: finish_progress_def split: if_splits)
next
  assume failed: "snd (advance_progress delta now later Written p) \<noteq> [] \<and>
     progress_run es' (fst (advance_progress delta now later (FailsAfter n) p)) = (p', outs')"
  then have "\<not> tp_enabled (fst (advance_progress delta now later (FailsAfter n) p))"
    by (auto simp: advance_progress_def draw_progress_def Let_def split: if_splits)
  then have "concat outs' = [] \<and> \<not> tp_enabled p'"
    using failed disabled_run by blast
  then show "concat outs' @ snd (finish_progress stderr p') = []"
    by (simp add: finish_progress_def)
qed

definition drawn_times :: "progress_event list \<Rightarrow> string list \<Rightarrow> nat list" where
  "drawn_times es outs =
     concat (map (\<lambda>(e, out). case e of Advance delta now later stderr \<Rightarrow> if out \<noteq> [] then [now] else []
       | SetTotal n \<Rightarrow> []) (zip es outs))"

lemma drawn_times_run:
  assumes "progress_run es p = (q, outs)"
  shows "sorted_wrt (\<lambda>a b. a + 200000000 \<le> b) (drawn_times es outs) \<and>
    (\<forall>last_draw. tp_last_draw p = Some last_draw \<longrightarrow> (\<forall>t \<in> set (drawn_times es outs). last_draw + 200000000 \<le> t))"
  using assms
proof (induction es arbitrary: p outs)
  case (Cons e es)
  obtain p1 out where step: "progress_step e p = (p1, out)" by fastforce
  with Cons.prems obtain rest where rest: "progress_run es p1 = (q, rest)" "outs = out # rest"
    by (auto split: prod.splits)
  note ih = Cons.IH [OF rest(1)]
  show ?case
  proof (cases e)
    case (SetTotal n)
    with step ih rest(2) show ?thesis by (auto simp: drawn_times_def set_total_bytes_def)
  next
    case (Advance delta now later stderr)
    show ?thesis
    proof (cases rule: advance_cases [of delta now later stderr p])
      case nothing
      with Advance step ih rest(2) show ?thesis by (auto simp: drawn_times_def)
    next
      case (drawn q' line)
      with Advance step have p1: "tp_last_draw p1 = Some now" "out \<noteq> []" by (auto simp: clear_line_def)
      with Advance rest(2) have "drawn_times (e # es) outs = now # drawn_times es rest" by (simp add: drawn_times_def)
      with ih p1 drawn(7) show ?thesis by fastforce
    next
      case (failed q' out')
      with Advance step have "\<not> tp_enabled p1" by simp
      then have "\<forall>o' \<in> set rest. o' = []" using disabled_run [OF _ rest(1)] by simp
      then have "drawn_times es rest = []"
        by (fastforce simp: drawn_times_def dest: set_zip_rightD split: progress_event.split)
      then have "drawn_times (e # es) outs = (if out \<noteq> [] then [now] else [])"
        using Advance rest(2) by (simp add: drawn_times_def)
      with failed(6) show ?thesis by simp
    qed
  qed
qed (simp add: drawn_times_def)

text \<open>
  The progress line is written at most five times a second: two advances of a transfer that put
  anything on the standard error are at least 200 milliseconds apart, whatever the clock reads.
\<close>
theorem progress_draws_apart:
  assumes "progress_run es (new_progress kind started is_terminal) = (p, outs)"
  shows "sorted_wrt (\<lambda>a b. a + 200 * 1000000 \<le> b) (drawn_times es outs)"
  using drawn_times_run [OF assms] by simp

definition sample_progress :: "progress_event list" where
  "sample_progress = [SetTotal 4, Advance 1 0 0 Written, Advance 1 100000000 100000000 Written,
     Advance 2 200000000 200000000 Written]"

lemma sample_progress_run:
  "drawn_times sample_progress (snd (progress_run sample_progress (new_progress TpPush 0 True))) = [0, 200000000]"
  by (simp add: sample_progress_def drawn_times_def new_progress_def set_total_bytes_def advance_progress_def
      draw_progress_def Let_def clear_line_def)

theorem progress_draws_apart_witness:
  "sorted_wrt (\<lambda>a b. a + 200 * 1000000 \<le> b) [0, 200000000 :: nat]"
  using progress_draws_apart [of sample_progress TpPush 0 True
      "fst (progress_run sample_progress (new_progress TpPush 0 True))"
      "snd (progress_run sample_progress (new_progress TpPush 0 True))"]
  unfolding sample_progress_run by (simp only: prod.collapse)

theorem progress_leaves_no_line_witness:
  "let p = fst (progress_run [SetTotal 4] (new_progress TpPush 0 True));
       q = fst (advance_progress 1 0 0 (FailsAfter 3) p)
   in snd (advance_progress 1 0 0 (FailsAfter 3) p) = take 3 clear_line \<and>
      concat (snd (progress_run sample_progress q)) = []"
proof -
  let ?p = "(new_progress TpPush 0 True)\<lparr>tp_total_bytes := 4\<rparr>"
  let ?q = "fst (advance_progress 1 0 0 (FailsAfter 3) ?p)"
  have run: "progress_run [SetTotal 4] (new_progress TpPush 0 True) = (?p, [[]])"
    by (simp add: set_total_bytes_def)
  have fin: "finish_progress Written ?p = (?p, [])" by (simp add: finish_progress_def new_progress_def)
  have "snd (advance_progress 1 0 0 Written ?p) \<noteq> []" "snd (advance_progress 1 0 0 (FailsAfter 3) ?p) = take 3 clear_line"
    by (simp_all add: advance_progress_def draw_progress_def new_progress_def Let_def clear_line_def)
  with progress_leaves_no_line [OF run fin, of 1 0 0 sample_progress 3 "fst (progress_run sample_progress ?q)"
      "snd (progress_run sample_progress ?q)"]
  show ?thesis unfolding run fst_conv Let_def by simp
qed

end
