(* ===== verification/Cli_Progress_Transfer.thy ===== *)
theory Cli_Progress_Transfer
  imports Cli_Transfer Cli_Progress
begin

text \<open>
  Transfers with a progress display (\<open>crates/rsdb-cli/src/main.rs\<close>: the functions of a push and of a
  pull with their optional \<open>progress\<close>). The state is the client's host beside the display: the
  progress, if there is one, what the clock reads and the standard error does at each advance, and
  what was written there. The theories \<open>Cli_Transfer\<close> and later have the same functions without a
  display; here it is proved that the display does not change what they do.
\<close>

section \<open>The display beside the host\<close>

record progress_display =
  pd_progress :: "transfer_progress option"
  pd_script :: "nat \<Rightarrow> nat \<times> nat \<times> stderr_write"
  pd_calls :: nat
  pd_out :: "string list"

type_synonym 'a shown = "(world \<times> progress_display, anyhow, 'a) act"

definition on_world :: "(world, 'e, 'a) act \<Rightarrow> (world \<times> progress_display, 'e, 'a) act" where
  "on_world m s = (case m (fst s) of (r, w) \<Rightarrow> (r, (w, snd s)))"

text \<open>\<open>if let Some(progress) = progress.as_deref_mut() { progress.set_total_bytes(..) }\<close>, and \<open>advance\<close>.\<close>

definition show_total :: "nat \<Rightarrow> unit shown" where
  "show_total total_bytes = modifyE (\<lambda>(w, d). (w, d\<lparr>pd_progress := map_option (set_total_bytes total_bytes) (pd_progress d)\<rparr>))"

definition show_advance :: "nat \<Rightarrow> unit shown" where
  "show_advance delta = modifyE (\<lambda>(w, d).
     case pd_progress d of
       None \<Rightarrow> (w, d)
     | Some p \<Rightarrow>
         (case pd_script d (pd_calls d) of (now, later, stderr) \<Rightarrow>
            case advance_progress delta now later stderr p of (p', out) \<Rightarrow>
              (w, d\<lparr>pd_progress := Some p', pd_calls := pd_calls d + 1, pd_out := pd_out d @ [out]\<rparr>)))"

lemma on_world_read_shrinks:
  assumes "on_world (plain (sys_read h n)) t = (Inr (a, h'), s)" "a \<noteq> []"
  shows "length (snd h') < length (snd h)"
proof -
  obtain r w where "sys_read h n (fst t) = (r, w)" by (metis prod.exhaust)
  with assms show ?thesis
    by (auto simp: on_world_def plain_def map_errE_def split: sum.splits dest: sys_read_shrinks)
qed

section \<open>Push\<close>

function stream_local_chunks_shown :: "libs \<Rightarrow> inode \<times> bytes \<Rightarrow> nat \<Rightarrow> nat shown" where
  "stream_local_chunks_shown L file file_bytes =
     bindE (on_world (plain (sys_read file DEFAULT_STREAM_CHUNK_SIZE))) (\<lambda>(chunk, file').
     if chunk = [] then retE file_bytes
     else thenE (on_world (cli_stream_frame L chunk))
         (thenE (show_advance (length chunk))
            (stream_local_chunks_shown L file' (file_bytes + length chunk))))"
  by pat_completeness auto
termination
  by (relation "measure (\<lambda>(_, h, _). length (snd h))")
    (simp, metis (no_types, lifting) case_prod_conv in_measure on_world_read_shrinks)

declare stream_local_chunks_shown.simps [simp del]

definition stream_local_file_shown :: "libs \<Rightarrow> local_batch_file \<Rightarrow> nat \<Rightarrow> nat shown" where
  "stream_local_file_shown L file_entry total_bytes =
     bindE (on_world (ctx (''failed to open local file '' @ display (lf_path file_entry))
              (sys_open_read (lf_path file_entry)))) (\<lambda>file.
     bindE (stream_local_chunks_shown L file 0) (\<lambda>file_bytes.
     if file_bytes \<noteq> lf_size file_entry then
       failE (anyhow_msg (''local file changed during push: expected '' @ show_nat (lf_size file_entry)
         @ '' bytes, read '' @ show_nat file_bytes @ '' from '' @ display (lf_path file_entry)))
     else retE (total_bytes + file_bytes)))"

primrec stream_local_files_shown :: "libs \<Rightarrow> local_batch_file list \<Rightarrow> nat \<Rightarrow> nat shown" where
  "stream_local_files_shown L [] total_bytes = retE total_bytes"
| "stream_local_files_shown L (file_entry # rest) total_bytes =
     bindE (stream_local_file_shown L file_entry total_bytes) (\<lambda>total. stream_local_files_shown L rest total)"

definition stream_local_batch_files_shown :: "libs \<Rightarrow> local_batch_file list \<Rightarrow> nat shown" where
  "stream_local_batch_files_shown L files =
     thenE (on_world buf_new)
    (bindE (tryE (bindE (stream_local_files_shown L files 0) (\<lambda>total_bytes.
        thenE (on_world (ctx ''failed to flush push stream'' buf_flush)) (retE total_bytes)))) (\<lambda>r.
     thenE (on_world buf_drop) (liftE r)))"

definition execute_push_manifest_shown ::
  "libs \<Rightarrow> (control_response \<Rightarrow> string) \<Rightarrow> connecting \<Rightarrow> string \<Rightarrow> local_batch_manifest \<Rightarrow> string \<Rightarrow>
   push_summary shown" where
  "execute_push_manifest_shown L debug outcome addr manifest remote_path =
     thenE (liftE (open_tcp_connection outcome addr))
    (thenE (on_world (send_request L ''failed to send push request''
              (PushBatch remote_path (lm_roots manifest) (lm_entries manifest))))
    (bindE (on_world (read_response L)) (\<lambda>ready.
     if ready \<noteq> PushBatchReady then failE (unexpected debug ready)
     else
       bindE (stream_local_batch_files_shown L (lm_files manifest)) (\<lambda>bytes_sent.
       if bytes_sent \<noteq> lm_total_bytes manifest then
         failE (anyhow_msg (''push size mismatch before completion: expected ''
           @ show_nat (lm_total_bytes manifest) @ '' bytes, streamed '' @ show_nat bytes_sent))
       else
         thenE (on_world (map_errE (protocol_context ''failed to finish push stream'')
                  (write_stream_frame conn_write_all REQUEST_ID File True [])))
        (bindE (on_world (read_response L)) (\<lambda>response.
         case response of
           PushBatchComplete entries_written bytes_written \<Rightarrow>
             if bytes_written \<noteq> bytes_sent then
               failE (anyhow_msg (''push size mismatch: daemon wrote '' @ show_nat bytes_written
                 @ '' bytes, sent '' @ show_nat bytes_sent))
             else retE \<lparr>ps_entries_written = entries_written, ps_bytes_written = bytes_written,
                         ps_skipped = False, ps_verification = None, ps_verified = False\<rparr>
         | other \<Rightarrow> failE (unexpected debug other)))))))"

definition execute_push_with_progress ::
  "libs \<Rightarrow> (control_response \<Rightarrow> string) \<Rightarrow> connecting \<Rightarrow> string \<Rightarrow> string list \<Rightarrow> string \<Rightarrow>
   push_summary shown" where
  "execute_push_with_progress L debug outcome addr source_specs remote_path =
     bindE (on_world (build_local_batch_manifest L source_specs)) (\<lambda>manifest.
     thenE (show_total (lm_total_bytes manifest))
       (execute_push_manifest_shown L debug outcome addr manifest remote_path))"

section \<open>Pull\<close>

text \<open>An advance follows every chunk that is not empty.\<close>

function local_receive_file_shown ::
  "string \<Rightarrow> loc \<Rightarrow> nat \<Rightarrow> nat \<Rightarrow> world \<times> progress_display \<Rightarrow> (anyhow + nat) \<times> world \<times> progress_display" where
  "local_receive_file_shown output_path file remaining bytes_received s =
     (if remaining = 0 then (Inr bytes_received, s)
      else
        case cli_read_file_stream_chunk_into ''pull'' (fst s) of
          (Inl e, w1) \<Rightarrow> (Inl e, (w1, snd s))
        | (Inr (chunk, payload), w1) \<Rightarrow>
            if s_eof chunk then
              (Inl (anyhow_msg (''unexpected end of pull stream while writing '' @ display output_path)), (w1, snd s))
            else if remaining < length payload then
              (Inl (anyhow_msg (''pull stream overflow while writing '' @ display output_path)), (w1, snd s))
            else
              (case local_write_chunk output_path file payload w1 of
                 (Inl e, w2) \<Rightarrow> (Inl e, (w2, snd s))
               | (Inr _, w2) \<Rightarrow>
                   local_receive_file_shown output_path file (remaining - length payload)
                     (bytes_received + length payload)
                     (if payload \<noteq> [] then snd (show_advance (length payload) (w2, snd s)) else (w2, snd s))))"
  by pat_completeness auto
termination
proof (relation "measure (\<lambda>(_, _, _, _, s). length (inp (fst s)))")
  have same: "fst (snd (show_advance k (w, d))) = w" for k w d
    by (auto simp: show_advance_def split: option.split prod.split)
  show "((p, q, m - length payload, n + length payload,
      if payload \<noteq> [] then snd (show_advance (length payload) (w2, snd s)) else (w2, snd s)), p, q, m, n, s)
      \<in> measure (\<lambda>(_, _, _, _, s). length (inp (fst s)))"
    if "(x, w1) = cli_read_file_stream_chunk_into ''pull'' (fst s)" "x = Inr y" "(chunk, payload) = y"
      "(z, w2) = local_write_chunk p q payload w1" "z = Inr u"
    for p q m n s x w1 y chunk payload z w2 u
  proof -
    have "HEADER_LEN + length payload + length (inp w1) = length (inp (fst s))"
      using that(1-3) cli_read_chunk_iff [THEN iffD1, THEN read_chunk_ok(1)] by metis
    moreover have "inp w2 = inp w1" using local_write_chunk_inp that(4) by metis
    ultimately show ?thesis by (simp add: same HEADER_LEN_def)
  qed
qed simp

declare local_receive_file_shown.simps [simp del]

definition receive_local_entry_shown :: "string list \<Rightarrow> transfer_entry \<Rightarrow> nat \<Rightarrow> nat shown" where
  "receive_local_entry_shown root_paths entry bytes_received =
     bindE (liftE (cli_resolve_transfer_entry_path root_paths entry)) (\<lambda>output_path.
     case te_kind entry of
       TDirectory \<Rightarrow>
         thenE (on_world (ctx (''failed to create local directory '' @ display output_path)
                  (create_dir_all output_path)))
        (thenE (on_world (if te_mode entry \<noteq> 0 then
                  ctx (''failed to set permissions on '' @ display output_path)
                    (sys_set_permissions output_path (te_mode entry AND 0xFFF))
                else retE ()))
               (retE bytes_received))
     | TFile \<Rightarrow>
         bindE (on_world (create_local_output_file output_path (te_mode entry))) (\<lambda>file.
         bindE (local_receive_file_shown output_path file (te_size entry) bytes_received)
           (\<lambda>bytes_received'.
         thenE (on_world (plain (file_flush file)))
        (thenE (on_world (if te_mode entry \<noteq> 0 then
                  ctx (''failed to set permissions on '' @ display output_path)
                    (sys_set_permissions output_path (te_mode entry AND 0xFFF))
                else retE ()))
               (retE bytes_received')))))"

primrec receive_local_entries_shown ::
  "string list \<Rightarrow> transfer_entry list \<Rightarrow> nat \<Rightarrow> nat \<Rightarrow> (nat \<times> nat) shown" where
  "receive_local_entries_shown root_paths [] entries_received bytes_received =
     retE (entries_received, bytes_received)"
| "receive_local_entries_shown root_paths (entry # entries) entries_received bytes_received =
     bindE (receive_local_entry_shown root_paths entry bytes_received) (\<lambda>bytes_received'.
     receive_local_entries_shown root_paths entries (entries_received + 1) bytes_received')"

definition receive_local_batch_shown ::
  "string \<Rightarrow> string \<Rightarrow> transfer_root list \<Rightarrow> transfer_entry list \<Rightarrow> (nat \<times> nat) shown" where
  "receive_local_batch_shown destination destination_arg roots entries =
     bindE (on_world (resolve_local_batch_roots destination destination_arg roots)) (\<lambda>root_paths.
     bindE (receive_local_entries_shown root_paths entries 0 0) (\<lambda>received.
     thenE (on_world (cli_expect_file_stream_eof ''pull'')) (retE received)))"

definition execute_pull_with_progress ::
  "libs \<Rightarrow> (control_response \<Rightarrow> string) \<Rightarrow> connecting \<Rightarrow> string \<Rightarrow> string list \<Rightarrow> string \<Rightarrow>
   pull_summary shown" where
  "execute_pull_with_progress L debug outcome addr remote_sources local_destination =
     thenE (liftE (open_tcp_connection outcome addr))
    (thenE (on_world (send_request L ''failed to send pull request'' (PullBatch remote_sources)))
    (bindE (on_world (read_response L)) (\<lambda>first.
     case first of
       PullBatchMetadata roots entries total_bytes \<Rightarrow>
         thenE (show_total total_bytes)
        (bindE (receive_local_batch_shown local_destination local_destination roots entries)
           (\<lambda>(entries_received, bytes_received).
         bindE (on_world (read_response L)) (\<lambda>response.
         case response of
           PullBatchComplete entries_sent bytes_sent \<Rightarrow>
             if entries_sent \<noteq> entries_received then
               failE (anyhow_msg (''pull entry mismatch: daemon sent '' @ show_nat entries_sent
                 @ '' entries, received '' @ show_nat entries_received))
             else if bytes_sent \<noteq> bytes_received then
               failE (anyhow_msg (''pull size mismatch: daemon sent '' @ show_nat bytes_sent
                 @ '' bytes, received '' @ show_nat bytes_received))
             else retE \<lparr>pl_entries_received = entries_received, pl_bytes_received = bytes_received,
                         pl_total_bytes = total_bytes, pl_verification = None, pl_verified = False,
                         pl_roots = roots, pl_entries = entries\<rparr>
         | other \<Rightarrow> failE (unexpected debug other))))
     | other \<Rightarrow> failE (unexpected debug other))))"

section \<open>The display changes nothing\<close>

text \<open>\<open>m'\<close> with a display answers as \<open>m\<close> without one, and leaves the host as \<open>m\<close> leaves it.\<close>

definition shows_as :: "'a shown \<Rightarrow> 'a app \<Rightarrow> bool" where
  "shows_as m' m \<longleftrightarrow> (\<forall>s. map_prod id fst (m' s) = m (fst s))"

named_theorems shown

lemma shows_asD: "shows_as m' m \<Longrightarrow> m' s = (r, t) \<Longrightarrow> m (fst s) = (r, fst t)"
  unfolding shows_as_def by (metis fst_map_prod snd_map_prod fst_conv snd_conv id_apply prod.collapse)

lemma shows_as_on_world [shown]: "shows_as (on_world m) m"
  by (simp add: shows_as_def on_world_def split: prod.split)

lemma shows_as_ret [shown]: "shows_as (retE a) (retE a)"
  by (simp add: shows_as_def)

lemma shows_as_fail [shown]: "shows_as (failE e) (failE e)"
  by (simp add: shows_as_def failE_def)

lemma shows_as_lift [shown]: "shows_as (liftE r) (liftE r)"
  by (simp add: shows_as_def liftE_def)

lemma shows_as_bind_result:
  assumes "shows_as m' m" "\<And>a s t. m' s = (Inr a, t) \<Longrightarrow> shows_as (f' a) (f a)"
  shows "shows_as (bindE m' f') (bindE m f)"
  unfolding shows_as_def
proof
  fix s
  obtain r t where m': "m' s = (r, t)" by (rule prod.exhaust)
  have m: "m (fst s) = (r, fst t)" using shows_asD [OF assms(1) m'] .
  have "map_prod id fst (f' a t) = f a (fst t)" if "r = Inr a" for a
    using assms(2) m' that unfolding shows_as_def by blast
  then show "map_prod id fst (bindE m' f' s) = bindE m f (fst s)"
    by (cases r) (simp_all add: bindE_def m m')
qed

lemma shows_as_bind [shown]:
  "shows_as m' m \<Longrightarrow> (\<And>a. shows_as (f' a) (f a)) \<Longrightarrow> shows_as (bindE m' f') (bindE m f)"
  by (rule shows_as_bind_result)

lemma shows_as_then [shown]: "shows_as m' m \<Longrightarrow> shows_as n' n \<Longrightarrow> shows_as (thenE m' n') (thenE m n)"
  unfolding thenE_def by (rule shows_as_bind)

lemma shows_as_try [shown]: "shows_as m' m \<Longrightarrow> shows_as (tryE m') (tryE m)"
  unfolding shows_as_def tryE_def by (metis fst_map_prod snd_map_prod id_apply map_prod_simp)

lemma shows_as_if [shown]: "shows_as m' m \<Longrightarrow> shows_as n' n \<Longrightarrow> shows_as (if b then m' else n') (if b then m else n)"
  by simp

text \<open>The display's own steps have no counterpart.\<close>

lemma show_total_run: "\<exists>d. show_total k s = (Inr (), (fst s, d))"
  by (cases s) (simp add: show_total_def)

lemma show_advance_run: "\<exists>d. show_advance k s = (Inr (), (fst s, d))"
  by (cases s) (auto simp: show_advance_def split: option.split prod.split)

lemma shows_as_total [shown]: "shows_as m' m \<Longrightarrow> shows_as (thenE (show_total k) m') m"
  using show_total_run [of k] unfolding shows_as_def thenE_def bindE_def
  by (metis (no_types, lifting) case_prod_conv fst_conv sum.case(2))

lemma shows_as_advance [shown]: "shows_as m' m \<Longrightarrow> shows_as (thenE (show_advance k) m') m"
  using show_advance_run [of k] unfolding shows_as_def thenE_def bindE_def
  by (metis (no_types, lifting) case_prod_conv fst_conv sum.case(2))

lemma shows_as_chunks [shown]:
  "shows_as (stream_local_chunks_shown L f n) (stream_local_chunks L f n)"
proof (induction "length (snd f)" arbitrary: f n rule: less_induct)
  case less
  show ?case
  proof (subst stream_local_chunks_shown.simps, subst stream_local_chunks.simps,
      rule shows_as_bind_result [OF shows_as_on_world], unfold case_prod_beta)
    fix a s t
    assume read: "on_world (plain (sys_read f DEFAULT_STREAM_CHUNK_SIZE)) s = (Inr a, t)"
    let ?m' = "thenE (on_world (cli_stream_frame L (fst a))) (thenE (show_advance (length (fst a)))
           (stream_local_chunks_shown L (snd a) (n + length (fst a))))"
    let ?m = "thenE (cli_stream_frame L (fst a)) (stream_local_chunks L (snd a) (n + length (fst a)))"
    have "length (snd (snd a)) < length (snd f)" if "fst a \<noteq> []"
      using on_world_read_shrinks [of f _ s "fst a" "snd a"] read that by simp
    then have "shows_as ?m' ?m" if "fst a \<noteq> []"
      using that by (intro shown less)
    then show "shows_as (if fst a = [] then retE n else ?m') (if fst a = [] then retE n else ?m)"
      by (simp add: shown)
  qed
qed

lemma shows_as_file [shown]:
  "shows_as (stream_local_file_shown L file_entry n) (stream_local_file L file_entry n)"
  unfolding stream_local_file_shown_def stream_local_file_def by (intro shown)

lemma shows_as_files [shown]: "shows_as (stream_local_files_shown L files n) (stream_local_files L files n)"
  by (induction files arbitrary: n) (auto intro!: shown)

lemma shows_as_batch_files [shown]:
  "shows_as (stream_local_batch_files_shown L files) (stream_local_batch_files L files)"
  unfolding stream_local_batch_files_shown_def stream_local_batch_files_def with_bufwriter_def by (intro shown)

lemma shows_as_push_manifest [shown]:
  "shows_as (execute_push_manifest_shown L debug outcome addr manifest remote_path)
     (execute_push_manifest L debug outcome addr manifest remote_path)"
  unfolding execute_push_manifest_shown_def execute_push_manifest_def
  by (intro shown) (auto split: control_response.split intro!: shown)

lemma shows_as_push:
  "shows_as (execute_push_with_progress L debug outcome addr source_specs remote_path)
     (execute_push L debug outcome addr source_specs remote_path)"
  unfolding execute_push_with_progress_def execute_push_def by (intro shown)

lemma shows_as_receive_file [shown]:
  "shows_as (local_receive_file_shown path f remaining n) (local_receive_file path f remaining n)"
proof -
  have "map_prod id fst (local_receive_file_shown path f remaining n (w, d))
      = local_receive_file path f remaining n w" for w d
  proof (induction path f remaining n w arbitrary: d rule: local_receive_file.induct)
    case (1 path f remaining n w)
    obtain r w1 where read: "cli_read_file_stream_chunk_into ''pull'' w = (r, w1)" by (rule prod.exhaust)
    show ?case
    proof (cases "remaining = 0 \<or> (\<exists>e. r = Inl e)")
      case True
      then show ?thesis
        by (subst local_receive_file_shown.simps, subst local_receive_file.simps) (auto simp: read)
    next
      case False
      then obtain chunk payload where r: "r = Inr (chunk, payload)" by (cases r) auto
      obtain z w2 where written: "local_write_chunk path f payload w1 = (z, w2)" by (rule prod.exhaust)
      obtain d' where d': "show_advance (length payload) (w2, d) = (Inr (), (w2, d'))"
        using show_advance_run by fastforce
      show ?thesis
        using False 1 [OF _ read [symmetric] r refl _ _ written [symmetric]]
        by (subst local_receive_file_shown.simps, subst local_receive_file.simps)
          (auto simp: read r written d' id_def split: sum.split)
    qed
  qed
  then show ?thesis by (simp add: shows_as_def)
qed

lemma shows_as_receive_entry [shown]:
  "shows_as (receive_local_entry_shown root_paths entry n) (receive_local_entry root_paths entry n)"
  unfolding receive_local_entry_shown_def receive_local_entry_def
  by (cases "te_kind entry") (auto simp del: split_paired_All intro!: shown)

lemma shows_as_receive_entries [shown]:
  "shows_as (receive_local_entries_shown root_paths entries k n) (receive_local_entries root_paths entries k n)"
  by (induction entries arbitrary: k n) (auto intro!: shown)

lemma shows_as_receive_batch [shown]:
  "shows_as (receive_local_batch_shown dest arg roots entries) (receive_local_batch dest arg roots entries)"
  unfolding receive_local_batch_shown_def receive_local_batch_def by (intro shown)

lemma shows_as_pull:
  "shows_as (execute_pull_with_progress L debug outcome addr remote_sources local_destination)
     (execute_pull L debug outcome addr remote_sources local_destination)"
  unfolding execute_pull_with_progress_def execute_pull_def
  by (intro shown) (auto split: control_response.split prod.split intro!: shown)

section \<open>The display counts the transfer\<close>

definition counts :: "nat \<Rightarrow> nat \<Rightarrow> world \<times> progress_display \<Rightarrow> bool" where
  "counts total_bytes n s \<longleftrightarrow> (\<exists>p. pd_progress (snd s) = Some p \<and> tp_total_bytes p = total_bytes \<and>
     tp_bytes_done p = min (2 ^ 64 - 1) n)"

lemma draw_progress_counts [simp]:
  "tp_bytes_done (fst (draw_progress now later e p)) = tp_bytes_done p"
  "tp_total_bytes (fst (draw_progress now later e p)) = tp_total_bytes p"
  by (simp_all add: draw_progress_def Let_def)

lemma counts_on_world: "on_world m s = (r, t) \<Longrightarrow> counts k n t \<longleftrightarrow> counts k n s"
  by (auto simp: counts_def on_world_def split: prod.splits)

lemma counts_total:
  "show_total k s = (r, t) \<Longrightarrow> pd_progress (snd s) = Some p \<Longrightarrow> tp_bytes_done p = 0 \<Longrightarrow> counts k 0 t"
  by (cases s) (auto simp: show_total_def counts_def set_total_bytes_def)

lemma counts_advance:
  assumes "show_advance k s = (r, t)" "counts total_bytes n s"
  shows "counts total_bytes (n + k) t"
proof -
  obtain w d p where s: "s = (w, d)" "pd_progress d = Some p" "tp_total_bytes p = total_bytes"
    "tp_bytes_done p = min (2 ^ 64 - 1) n"
    using assms(2) by (cases s) (auto simp: counts_def)
  obtain now later e where script: "pd_script d (pd_calls d) = (now, later, e)" by (metis prod.exhaust)
  obtain p' out where p': "advance_progress k now later e p = (p', out)" by (rule prod.exhaust)
  have "p' = fst (advance_progress k now later e p)" by (simp add: p')
  then have "tp_bytes_done p' = min (2 ^ 64 - 1) (tp_bytes_done p + k)" "tp_total_bytes p' = tp_total_bytes p"
    by (simp_all add: advance_progress_def)
  then show ?thesis
    using assms(1) s by (auto simp: show_advance_def script p' counts_def)
qed

lemma counts_chunks:
  "stream_local_chunks_shown L f n s = (Inr m, t) \<Longrightarrow> counts k (b + n) s \<Longrightarrow> counts k (b + m) t"
proof (induction "length (snd f)" arbitrary: f n s rule: less_induct)
  case less
  obtain chunk f' u where read: "on_world (plain (sys_read f DEFAULT_STREAM_CHUNK_SIZE)) s = (Inr (chunk, f'), u)"
    using less.prems(1) by (subst (asm) stream_local_chunks_shown.simps) (auto elim!: bindE_InrE)
  note u = counts_on_world [OF read, of k "b + n"]
  show ?case
  proof (cases "chunk = []")
    case True
    then show ?thesis
      using less.prems u read by (subst (asm) stream_local_chunks_shown.simps) (auto simp: bindE_def)
  next
    case False
    then obtain v x where steps: "on_world (cli_stream_frame L chunk) u = (Inr (), v)"
      "show_advance (length chunk) v = (Inr (), x)"
      "stream_local_chunks_shown L f' (n + length chunk) x = (Inr m, t)"
      using less.prems(1) read
      by (subst (asm) stream_local_chunks_shown.simps) (auto simp: thenE_def bindE_def split: prod.splits sum.splits)
    have "counts k (b + (n + length chunk)) x"
      using less.prems(2) u counts_on_world [OF steps(1)] counts_advance [OF steps(2)] by (metis add.assoc)
    then show ?thesis
      using less.hyps [OF _ steps(3)] on_world_read_shrinks [OF read False] by blast
  qed
qed

text \<open>What holds when an action started where \<open>P\<close> holds answers \<open>Ok\<close>.\<close>

definition yields :: "('s \<Rightarrow> bool) \<Rightarrow> ('s, 'e, 'a) act \<Rightarrow> ('a \<Rightarrow> 's \<Rightarrow> bool) \<Rightarrow> bool" where
  "yields P m Q \<longleftrightarrow> (\<forall>s a t. P s \<longrightarrow> m s = (Inr a, t) \<longrightarrow> Q a t)"

named_theorems yielding

lemma yieldsD: "yields P m Q \<Longrightarrow> P s \<Longrightarrow> m s = (Inr a, t) \<Longrightarrow> Q a t"
  unfolding yields_def by blast

lemma yields_bind [yielding]: "yields P m Q \<Longrightarrow> (\<And>a. yields (Q a) (f a) R) \<Longrightarrow> yields P (bindE m f) R"
  unfolding yields_def by (metis bindE_InrE)

lemma yields_then [yielding]: "yields P m (\<lambda>_. Q) \<Longrightarrow> yields Q n R \<Longrightarrow> yields P (thenE m n) R"
  unfolding yields_def by (metis thenE_InrE)

lemma yields_fail [yielding]: "yields P (failE e) Q" "yields P (Pair (Inl e)) Q"
  by (simp_all add: yields_def failE_def)

lemma yields_if [yielding]:
  "(b \<Longrightarrow> yields P m Q) \<Longrightarrow> (\<not> b \<Longrightarrow> yields P n Q) \<Longrightarrow> yields P (if b then m else n) Q"
  by simp

lemma yields_lift [yielding]: "yields P (liftE r) (\<lambda>_. P)"
  by (simp add: yields_def liftE_def)

lemma yields_ret: "(\<And>s. P s \<Longrightarrow> Q a s) \<Longrightarrow> yields P (retE a) Q"
  by (simp add: yields_def)

lemma yields_try_lift:
  "yields P m Q \<Longrightarrow> (\<And>a. yields (Q a) n (\<lambda>_. Q a)) \<Longrightarrow> yields P (bindE (tryE m) (\<lambda>r. thenE n (liftE r))) Q"
  unfolding yields_def by (auto simp: tryE_def liftE_def elim!: bindE_InrE thenE_InrE) (metis prod.collapse)

lemma yields_on_world [yielding]: "yields (counts k n) (on_world m) (\<lambda>_. counts k n)"
  by (simp add: yields_def counts_on_world)

lemma yields_chunks: "yields (counts k b) (stream_local_chunks_shown L f 0) (\<lambda>m. counts k (b + m))"
  using counts_chunks [of L f 0 _ _ _ k b] by (simp add: yields_def)

lemma yields_file [yielding]: "yields (counts k b) (stream_local_file_shown L fe b) (counts k)"
  unfolding stream_local_file_shown_def
  by (rule yielding yields_chunks yields_ret | assumption)+

lemma yields_files [yielding]: "yields (counts k b) (stream_local_files_shown L files b) (counts k)"
  by (induction files arbitrary: b) (auto simp: yields_ret intro!: yielding)

lemma yields_batch_files [yielding]: "yields (counts k 0) (stream_local_batch_files_shown L files) (counts k)"
  unfolding stream_local_batch_files_shown_def
  by (rule yields_then yields_on_world yields_try_lift yields_bind yields_files yields_ret | assumption)+

lemma yields_push_manifest:
  "yields (counts (lm_total_bytes manifest) 0)
     (execute_push_manifest_shown L debug outcome addr manifest remote_path)
     (\<lambda>sm. counts (ps_bytes_written sm) (ps_bytes_written sm))"
  unfolding execute_push_manifest_shown_def
  by (rule yielding)+ (auto split: control_response.split intro!: yielding yields_ret)

text \<open>Before its total is known the display has counted nothing.\<close>

definition starting :: "world \<times> progress_display \<Rightarrow> bool" where
  "starting s \<longleftrightarrow> (\<exists>p. pd_progress (snd s) = Some p \<and> tp_bytes_done p = 0)"

lemma yields_starting [yielding]: "yields starting (on_world m) (\<lambda>_. starting)"
  by (auto simp: yields_def starting_def on_world_def split: prod.splits)

lemma yields_total [yielding]: "yields starting (show_total k) (\<lambda>_. counts k 0)"
  using counts_total by (auto simp: yields_def starting_def)

lemma yields_push:
  "yields starting (execute_push_with_progress L debug outcome addr source_specs remote_path)
     (\<lambda>sm. counts (ps_bytes_written sm) (ps_bytes_written sm))"
  unfolding execute_push_with_progress_def by (rule yielding yields_push_manifest)+

lemma counts_receive_file:
  "local_receive_file_shown path f remaining n (w, d) = (Inr m, t) \<Longrightarrow> counts k n (w, d) \<Longrightarrow> counts k m t"
proof (induction path f remaining n w arbitrary: d rule: local_receive_file.induct)
  case (1 path f remaining n w)
  show ?case
  proof (cases "remaining = 0")
    case True
    then show ?thesis using 1(2,3) by (subst (asm) local_receive_file_shown.simps) simp
  next
    case False
    then obtain chunk payload w1 w2 where steps:
      "cli_read_file_stream_chunk_into ''pull'' w = (Inr (chunk, payload), w1)" "\<not> s_eof chunk"
      "\<not> remaining < length payload" "local_write_chunk path f payload w1 = (Inr (), w2)"
      and rest: "local_receive_file_shown path f (remaining - length payload) (n + length payload)
        (if payload \<noteq> [] then snd (show_advance (length payload) (w2, d)) else (w2, d)) = (Inr m, t)"
      using 1(2) by (subst (asm) local_receive_file_shown.simps)
        (auto split: prod.splits sum.splits if_splits)
    obtain d' where d': "show_advance (length payload) (w2, d) = (Inr (), (w2, d'))"
      using show_advance_run by fastforce
    have "counts k n (w2, d)" using 1(3) by (simp add: counts_def)
    then have "counts k (n + length payload) (w2, if payload = [] then d else d')"
      using counts_advance [OF d'] by simp
    moreover have "local_receive_file_shown path f (remaining - length payload) (n + length payload)
        (w2, if payload = [] then d else d') = (Inr m, t)"
      using rest d' by (simp split: if_splits)
    ultimately show ?thesis
      using 1(1) [OF False steps(1) [symmetric] refl refl steps(2,3) steps(4) [symmetric] refl] by blast
  qed
qed

lemma yields_receive_file [yielding]:
  "yields (counts k n) (local_receive_file_shown path f remaining n) (counts k)"
  using counts_receive_file by (auto simp: yields_def)

lemma yields_receive_entry [yielding]:
  "yields (counts k n) (receive_local_entry_shown root_paths entry n) (counts k)"
  unfolding receive_local_entry_shown_def
  by (cases "te_kind entry") (auto intro!: yielding yields_ret)

lemma yields_receive_entries [yielding]:
  "yields (counts k n) (receive_local_entries_shown root_paths entries j n) (\<lambda>(_, m). counts k m)"
  by (induction entries arbitrary: j n) (auto intro!: yielding yields_ret)

lemma yields_receive_batch [yielding]:
  "yields (counts k 0) (receive_local_batch_shown dest arg roots entries) (\<lambda>(_, m). counts k m)"
  unfolding receive_local_batch_shown_def
  by (rule yields_bind yields_on_world yields_receive_entries)+ (auto intro!: yielding yields_ret)

lemma yields_pull:
  "yields starting (execute_pull_with_progress L debug outcome addr remote_sources local_destination)
     (\<lambda>sm. counts (pl_total_bytes sm) (pl_bytes_received sm))"
  unfolding execute_pull_with_progress_def
  by (rule yields_then yields_bind yields_lift yields_starting)+
    (auto split: control_response.split intro!: yielding yields_ret)

section \<open>Theorems\<close>

text \<open>
  C36: A push and a pull with a progress display do exactly what they do without one: the same
  answer, the same bytes on the connection, the same files and the same use of the system, whatever
  the clock reads and whether or not the standard error takes the line.
\<close>

theorem progress_transparent:
  "map_prod id fst (execute_push_with_progress L debug outcome addr source_specs remote_path s) =
     execute_push L debug outcome addr source_specs remote_path (fst s) \<and>
   map_prod id fst (execute_pull_with_progress L debug outcome addr remote_sources local_destination s) =
     execute_pull L debug outcome addr remote_sources local_destination (fst s)"
  using shows_as_push shows_as_pull unfolding shows_as_def by blast

end
