(* ===== verification/Cli_Shell.thy ===== *)
theory Cli_Shell
  imports Cli_Request Daemon_Exec
begin

text \<open>
  The shell session of the client (\<open>run_shell_session\<close> and \<open>shell_command\<close> in
  \<open>crates/rsdb-cli/src/main.rs\<close>): the task that reads frames and prints them, the pump that reads
  the terminal, and the select loop between the two. The pump's reads and the order in which the
  loop sees its two channels are arguments, as in \<open>Daemon_Exec\<close>. The reading task owns the reading
  half of the connection, so it is run as a whole before the loop; when the loop ends without the
  task's message, the task has come as far as the argument \<open>seen\<close> says. Only its first message
  counts, because the loop always returns on it.
\<close>

section \<open>The terminal\<close>

text \<open>
  \<open>is_terminal\<close> of both ends, \<open>terminal_size\<close> as columns and rows, what \<open>enable_raw_mode\<close> and the
  successive reads of the standard input return, and the value of \<open>TERM\<close>.
\<close>

record terminal =
  tt_is_terminal :: bool
  tt_size :: "io_error + u16 \<times> u16"
  tt_raw_mode :: "io_error + unit"
  tt_reads :: "(io_error + bytes) list"
  tt_term :: "string option"

datatype stdin_chunk = ScData bytes | ScEof | ScError string

fun start_stdin_pump :: "(io_error + bytes) list \<Rightarrow> stdin_chunk list" where
  "start_stdin_pump [] = []"
| "start_stdin_pump (Inr data # reads) =
     (if data = [] then [ScEof] else ScData data # start_stdin_pump reads)"
| "start_stdin_pump (Inl err # reads) = [ScError (io_message err)]"

definition enable_local_raw_mode :: "terminal \<Rightarrow> anyhow + bool" where
  "enable_local_raw_mode T =
     (if tt_is_terminal T then
        case tt_raw_mode T of
          Inl e \<Rightarrow> Inl (io_context ''failed to enable raw terminal mode'' e)
        | Inr _ \<Rightarrow> Inr True
      else Inr False)"

definition remote_term :: "terminal \<Rightarrow> string" where
  "remote_term T =
     (case tt_term T of
        Some value \<Rightarrow> if trim value \<noteq> [] then value else ''xterm-256color''
      | None \<Rightarrow> ''xterm-256color'')"

definition remote_terminal_size :: "terminal \<Rightarrow> anyhow + u16 option \<times> u16 option" where
  "remote_terminal_size T =
     (if tt_is_terminal T then
        case tt_size T of
          Inl e \<Rightarrow> Inl (io_context ''failed to read local terminal size'' e)
        | Inr (cols, rows) \<Rightarrow> Inr (Some rows, Some cols)
      else Inr (None, None))"

definition normalize_exit_status :: "i32 \<Rightarrow> i32" where
  "normalize_exit_status status = (if 0 \<le> status \<and> status \<le> 255 then status else 1)"

section \<open>The reading task\<close>

type_synonym shell_prints = "(stream_channel \<times> bytes) list"

text \<open>
  \<open>write_all\<close> and \<open>flush\<close> on the standard output or error: what was printed, and the error. The
  schedule may let it fail after part of the data.
\<close>

definition print_all :: "bytes \<Rightarrow> world \<Rightarrow> (bytes \<times> io_error option) \<times> world" where
  "print_all data w =
     (case sched w of
        Fail e n # ds \<Rightarrow> ((take n data, Some e), w\<lparr>sched := ds\<rparr>)
      | _ # ds \<Rightarrow> ((data, None), w\<lparr>sched := ds\<rparr>)
      | [] \<Rightarrow> ((data, None), w))"

lemma print_all_inp: "print_all data w = (r, v) \<Longrightarrow> inp v = inp w"
  by (auto simp: print_all_def split: list.splits decision.splits)

definition session_error :: "string \<Rightarrow> protocol_error" where
  "session_error msg = Io (custom_error OtherIo msg)"

text \<open>The frames printed and the message for the loop: the first frame of another kind, or an error.\<close>

function shell_reader :: "world \<Rightarrow> (shell_prints \<times> (protocol_error + frame)) \<times> world" where
  "shell_reader w =
     (case read_frame_into conn_read_exact w of
        (Inl e, w1) \<Rightarrow> (([], Inl e), w1)
      | (Inr (header, payload), w1) \<Rightarrow>
          if h_kind header = Stream then
            case decode_stream_frame_header header of
              Inl e \<Rightarrow> (([], Inl e), w1)
            | Inr stream \<Rightarrow>
                if s_request_id stream \<noteq> REQUEST_ID then
                  (([], Inl (session_error (''request id mismatch: expected ''
                     @ show_nat (unat REQUEST_ID) @ '', got '' @ show_nat (unat (s_request_id stream))))), w1)
                else if payload = [] then shell_reader w1
                else if s_channel stream = Stdout \<or> s_channel stream = Stderr then
                  (case print_all payload w1 of
                     ((shown, Some e), w2) \<Rightarrow> (([(s_channel stream, shown)], Inl (Io e)), w2)
                   | ((shown, None), w2) \<Rightarrow>
                       (case shell_reader w2 of
                          ((prints, message), w3) \<Rightarrow> (((s_channel stream, shown) # prints, message), w3)))
                else
                  (([], Inl (session_error (''unexpected stream channel during shell: ''
                     @ stream_channel_debug (s_channel stream)))), w1)
          else (([], Inr \<lparr>f_header = header, f_payload = payload\<rparr>), w1))"
  by pat_completeness auto
termination
  by (relation "measure (\<lambda>w. length (inp w))")
    (auto dest!: conn_r.read_frame_into_ok [OF sym] print_all_inp [OF sym] simp: HEADER_LEN_def)

declare shell_reader.simps [simp del]

section \<open>The select loop\<close>

datatype shell_event = StdinReady | FrameReady

text \<open>How the loop ends: on the reading task's message, on an error of its own, or not at all.\<close>

datatype shell_end = ShellAnswered "anyhow + i32" | ShellBroken anyhow | ShellWaiting

definition shell_message ::
  "libs \<Rightarrow> (control_response \<Rightarrow> string) \<Rightarrow> protocol_error + frame \<Rightarrow> anyhow + i32" where
  "shell_message L debug message =
     (case message of
        Inl err \<Rightarrow> Inl (anyhow_msg (''failed to read shell frame: '' @ protocol_error_display err))
      | Inr fr \<Rightarrow>
          if h_kind (f_header fr) = Response then
            case decode_json (response_from_slice L) fr Response of
              Inl err \<Rightarrow> Inl (protocol_context ''invalid response frame'' err)
            | Inr response \<Rightarrow>
                (case response of
                   ShellExit status \<Rightarrow> Inr status
                 | ErrorResponse code message \<Rightarrow>
                     Inl (anyhow_msg (''remote error '' @ error_code_debug code @ '': '' @ message))
                 | other \<Rightarrow> Inl (anyhow_msg (''unexpected response from daemon: '' @ debug other)))
          else
            Inl (anyhow_msg (''unexpected frame kind during shell: '' @ frame_kind_debug (h_kind (f_header fr)))))"

definition forward_stdin :: "libs \<Rightarrow> bool \<Rightarrow> bytes \<Rightarrow> string \<Rightarrow> string \<Rightarrow> unit app" where
  "forward_stdin L eof data write_context flush_context =
     thenE (map_errE (protocol_context write_context)
              (write_stream_frame (buf_write_all L DEFAULT_BUF_SIZE) REQUEST_ID Stdin eof data))
           (ctx flush_context buf_flush)"

primrec shell_loop ::
  "libs \<Rightarrow> (control_response \<Rightarrow> string) \<Rightarrow> protocol_error + frame \<Rightarrow> shell_event list \<Rightarrow>
   stdin_chunk list \<Rightarrow> bool \<Rightarrow> world \<Rightarrow> shell_end \<times> world" where
  "shell_loop L debug message [] chunks stdin_open w = (ShellWaiting, w)"
| "shell_loop L debug message (event # events) chunks stdin_open w =
     (case event of
        FrameReady \<Rightarrow> (ShellAnswered (shell_message L debug message), w)
      | StdinReady \<Rightarrow>
          if \<not> stdin_open then shell_loop L debug message events chunks stdin_open w
          else
            case chunks of
              [] \<Rightarrow> shell_loop L debug message events chunks stdin_open w
            | ScData data # rest \<Rightarrow>
                (case forward_stdin L False data ''failed to forward stdin''
                        ''failed to flush forwarded stdin'' w of
                   (Inl e, v) \<Rightarrow> (ShellBroken e, v)
                 | (Inr _, v) \<Rightarrow> shell_loop L debug message events rest stdin_open v)
            | ScEof # rest \<Rightarrow>
                (case forward_stdin L True [] ''failed to finish stdin stream''
                        ''failed to flush stdin eof'' w of
                   (Inl e, v) \<Rightarrow> (ShellBroken e, v)
                 | (Inr _, v) \<Rightarrow> shell_loop L debug message events [] False v)
            | ScError message' # rest \<Rightarrow>
                (ShellBroken (anyhow_msg (''failed to read local stdin: '' @ message')), w))"

text \<open>
  What a session comes to: what it printed, and the exit status or the error; \<open>None\<close> when it waits
  for ever. An error before the reading task is started is the error of the action.
\<close>

definition shell_result :: "nat \<Rightarrow> shell_prints \<Rightarrow> shell_end \<Rightarrow> (shell_prints \<times> (anyhow + i32)) option" where
  "shell_result seen prints end =
     (case end of
        ShellAnswered r \<Rightarrow> Some (prints, r)
      | ShellBroken e \<Rightarrow> Some (take seen prints, Inl e)
      | ShellWaiting \<Rightarrow> None)"

definition shell_started :: "(control_response \<Rightarrow> string) \<Rightarrow> control_response \<Rightarrow> anyhow + unit" where
  "shell_started debug response =
     (case response of
        ShellStarted _ \<Rightarrow> Inr ()
      | ErrorResponse code message \<Rightarrow>
          Inl (anyhow_msg (''remote error '' @ error_code_debug code @ '': '' @ message))
      | other \<Rightarrow> Inl (anyhow_msg (''unexpected response from daemon: '' @ debug other)))"

text \<open>After the start: \<open>prints\<close> and \<open>message\<close> are what the reading task comes to.\<close>

definition shell_session_loop ::
  "libs \<Rightarrow> (control_response \<Rightarrow> string) \<Rightarrow> terminal \<Rightarrow> shell_event list \<Rightarrow> nat \<Rightarrow> bool \<Rightarrow>
   shell_prints \<times> (protocol_error + frame) \<Rightarrow> (shell_prints \<times> (anyhow + i32)) option app" where
  "shell_session_loop L debug T events seen interactive reader =
     (case (if interactive then enable_local_raw_mode T else Inr False) of
        Inl e \<Rightarrow> retE (Some (take seen (fst reader), Inl e))
      | Inr _ \<Rightarrow>
          bindE (tryE (if interactive then retE ()
                       else forward_stdin L True [] ''failed to close remote stdin''
                              ''failed to flush remote stdin close'')) (\<lambda>closed.
          case closed of
            Inl e \<Rightarrow> retE (Some (take seen (fst reader), Inl e))
          | Inr _ \<Rightarrow>
              bindE (run_task (shell_loop L debug (snd reader) events
                       (if interactive then start_stdin_pump (tt_reads T) else []) interactive)) (\<lambda>end.
              retE (shell_result seen (fst reader) end))))"

definition run_shell_session ::
  "libs \<Rightarrow> (control_response \<Rightarrow> string) \<Rightarrow> connecting \<Rightarrow> terminal \<Rightarrow> shell_event list \<Rightarrow> nat \<Rightarrow> string \<Rightarrow>
   string option \<Rightarrow> string list \<Rightarrow> bool \<Rightarrow> (shell_prints \<times> (anyhow + i32)) option app" where
  "run_shell_session L debug outcome T events seen addr command args interactive =
     thenE (liftE (open_tcp_connection outcome addr))
    (bindE (liftE (if interactive then remote_terminal_size T else Inr (None, None))) (\<lambda>(rows, cols).
     thenE (send_request L ''failed to send shell request''
              (Shell command args interactive (if interactive then Some (remote_term T) else None) rows cols))
    (bindE (read_response L) (\<lambda>response.
     thenE (liftE (shell_started debug response))
    (bindE (run_task shell_reader) (\<lambda>reader.
     with_bufwriter (shell_session_loop L debug T events seen interactive reader)))))))"

text \<open>
  The exit status of the process: the session's, made one that the system can report; 0 when the
  command returns. An error is printed by \<open>main\<close>.
\<close>

definition shell_command ::
  "libs \<Rightarrow> cli_libs \<Rightarrow> environ \<Rightarrow> (control_response \<Rightarrow> string) \<Rightarrow> connecting \<Rightarrow> terminal \<Rightarrow>
   shell_event list \<Rightarrow> nat \<Rightarrow> string option \<Rightarrow> string list \<Rightarrow> (shell_prints \<times> (anyhow + i32)) option app" where
  "shell_command L C E debug outcome T events seen target command =
     bindE (resolve_target C E target) (\<lambda>addr.
     bindE (run_shell_session L debug outcome T events seen addr
              (case command of [] \<Rightarrow> None | program # args \<Rightarrow> Some program) (tl command) (command = []))
       (\<lambda>result. retE (map_option (\<lambda>(prints, status). (prints, map_sum id normalize_exit_status status)) result)))"

end
