(* ===== verification/Cli_Agent.thy ===== *)
theory Cli_Agent
  imports Cli_Transfer Cli_Discovery Daemon_Exec
begin

text \<open>
  The agent commands of the client (\<open>crates/rsdb-cli/src/main.rs\<close>), which answer in JSON: how
  errors become failures with stable codes, discovery, exec (buffered and streamed) and the
  structured file commands. A command's result is the list of the JSON lines it prints and its
  exit code; printing them is taken to succeed. The payloads are kept as the source's structures,
  and only the \<open>details\<close> of a failure as JSON, with the keys of an object in order. How connecting
  ends and the time a command took are arguments, \<open>debug\<close> is \<open>{:?}\<close> of a response.
\<close>

section \<open>Failures\<close>

datatype json =
    JNull | JBool bool | JInt int | JString string | JArray "json list"
  | JObject "(string \<times> json) list"

definition json_object :: "(string \<times> json) list \<Rightarrow> json" where
  "json_object kvs = JObject (fold (\<lambda>(k, v). btree_insert k v) kvs [])"

definition json_option :: "('a \<Rightarrow> json) \<Rightarrow> 'a option \<Rightarrow> json" where
  "json_option f x = (case x of None \<Rightarrow> JNull | Some a \<Rightarrow> f a)"

record agent_command_failure =
  af_code :: string
  af_message :: string
  af_target :: "string option"
  af_retryable :: bool
  af_details :: json
  af_exit_code :: i32

type_synonym 'a agent = "(world, agent_command_failure, 'a) act"

definition invalid_request_failure :: "string \<Rightarrow> string option \<Rightarrow> json \<Rightarrow> agent_command_failure" where
  "invalid_request_failure message target details =
     \<lparr>af_code = ''invalid.request'', af_message = message, af_target = target, af_retryable = False,
      af_details = details, af_exit_code = 1\<rparr>"

definition internal_agent_failure :: "anyhow \<Rightarrow> agent_command_failure" where
  "internal_agent_failure err =
     \<lparr>af_code = ''internal.error'', af_message = anyhow_display err, af_target = None,
      af_retryable = False, af_details = json_object [], af_exit_code = 1\<rparr>"

definition remote_code :: "string \<Rightarrow> error_code \<Rightarrow> string \<Rightarrow> string \<times> bool" where
  "remote_code command code message =
     (case code of
        InvalidRequest \<Rightarrow> (''invalid.request'', False)
      | CapabilityMissing \<Rightarrow> (''capability.missing'', False)
      | ExecFailed \<Rightarrow>
          if contains_str message ''timed out'' then (''exec.timeout'', True)
          else (''exec.start_failed'', False)
      | ExecStartFailed \<Rightarrow> (''exec.start_failed'', False)
      | ExecTimeout \<Rightarrow> (''exec.timeout'', True)
      | EcNotFound \<Rightarrow> (''fs.not_found'', False)
      | FsNotFound \<Rightarrow> (''fs.not_found'', False)
      | FsPermissionDenied \<Rightarrow> (''fs.permission_denied'', False)
      | FsPreconditionFailed \<Rightarrow> (''fs.precondition_failed'', False)
      | FsNoSpace \<Rightarrow> (''fs.no_space'', False)
      | TransferInterrupted \<Rightarrow> (''transfer.interrupted'', True)
      | TransferVerificationFailed \<Rightarrow> (''transfer.verification_failed'', False)
      | FileTransferFailed \<Rightarrow>
          if starts_with command ''transfer'' then (''transfer.failed'', False)
          else (''daemon.error'', False)
      | Internal \<Rightarrow> (''daemon.error'', False))"

definition map_remote_error ::
  "string \<Rightarrow> string \<Rightarrow> error_code \<Rightarrow> string \<Rightarrow> json \<Rightarrow> agent_command_failure" where
  "map_remote_error command target code message details =
     (case remote_code command code message of (mapped_code, retryable) \<Rightarrow>
        \<lparr>af_code = mapped_code, af_message = message, af_target = Some target, af_retryable = retryable,
         af_details = details, af_exit_code = 1\<rparr>)"

definition map_remote_exec_error :: "string \<Rightarrow> error_code \<Rightarrow> string \<Rightarrow> json \<Rightarrow> agent_command_failure" where
  "map_remote_exec_error target code message details = map_remote_error ''exec'' target code message details"

fun remote_control_error :: "anyhow \<Rightarrow> (error_code \<times> string) option" where
  "remote_control_error [] = None"
| "remote_control_error (CRemote code message # rest) = Some (code, message)"
| "remote_control_error (_ # rest) = remote_control_error rest"

definition error_has_io_kind :: "anyhow \<Rightarrow> io_kind \<Rightarrow> bool" where
  "error_has_io_kind err expected =
     list_ex (\<lambda>cause. case cause of CIo e \<Rightarrow> io_kind e = expected | _ \<Rightarrow> False) err"

definition error_has_elapsed :: "anyhow \<Rightarrow> bool" where
  "error_has_elapsed err = list_ex (\<lambda>cause. cause = CElapsed) err"

definition error_has_protocol_mismatch :: "anyhow \<Rightarrow> bool" where
  "error_has_protocol_mismatch err =
     list_ex (\<lambda>cause. case cause of CProtocol (UnsupportedVersion _) \<Rightarrow> True | _ \<Rightarrow> False) err"

definition transport_code :: "string \<Rightarrow> anyhow \<Rightarrow> string \<times> bool" where
  "transport_code command err =
     (if error_has_elapsed err then (''connection.timeout'', True)
      else if error_has_io_kind err ConnectionRefused then (''connection.refused'', True)
      else if error_has_protocol_mismatch err then (''connection.protocol_mismatch'', False)
      else if starts_with command ''transfer'' \<and> error_has_io_kind err NotFound then (''fs.not_found'', False)
      else if error_has_io_kind err PermissionDenied then (''fs.permission_denied'', False)
      else (''internal.error'', False))"

definition map_transport_error :: "string \<Rightarrow> string option \<Rightarrow> anyhow \<Rightarrow> agent_command_failure" where
  "map_transport_error command target err =
     (case remote_control_error err of
        Some (code, message) \<Rightarrow>
          map_remote_error command (case target of None \<Rightarrow> [] | Some t \<Rightarrow> t) code message (json_object [])
      | None \<Rightarrow>
          (case transport_code command err of (code, retryable) \<Rightarrow>
             \<lparr>af_code = code, af_message = anyhow_display err, af_target = target,
              af_retryable = retryable, af_details = json_object [], af_exit_code = 1\<rparr>))"

definition storage_full :: "anyhow \<Rightarrow> bool" where
  "storage_full err =
     list_ex (\<lambda>cause. case cause of
         CIo e \<Rightarrow> io_kind e = StorageFull \<or> io_raw_os_error e = Some 28
       | _ \<Rightarrow> False) err"

definition map_operation_error ::
  "string \<Rightarrow> string option \<Rightarrow> anyhow \<Rightarrow> json \<Rightarrow> agent_command_failure" where
  "map_operation_error command target err details =
     (case remote_control_error err of
        Some (code, message) \<Rightarrow>
          map_remote_error command (case target of None \<Rightarrow> [] | Some t \<Rightarrow> t) code message details
      | None \<Rightarrow>
          if error_has_io_kind err PermissionDenied then
            \<lparr>af_code = ''fs.permission_denied'', af_message = anyhow_display err, af_target = target,
             af_retryable = False, af_details = details, af_exit_code = 1\<rparr>
          else if storage_full err then
            \<lparr>af_code = ''fs.no_space'', af_message = anyhow_display err, af_target = target,
             af_retryable = False, af_details = details, af_exit_code = 1\<rparr>
          else (map_transport_error command target err)\<lparr>af_details := details\<rparr>)"

definition require_agent_target :: "cli_libs \<Rightarrow> string option \<Rightarrow> agent_command_failure + string" where
  "require_agent_target C target =
     (case target of
        Some value \<Rightarrow>
          (case normalize_target_addr C value of
             Inl e \<Rightarrow> Inl (internal_agent_failure e)
           | Inr t \<Rightarrow> Inr t)
      | None \<Rightarrow>
          Inl \<lparr>af_code = ''target.required'', af_message = ''agent command requires --target <addr>'',
               af_target = None, af_retryable = False, af_details = json_object [], af_exit_code = 1\<rparr>)"

definition agent_response_target :: "string option \<Rightarrow> string \<Rightarrow> string option" where
  "agent_response_target target_arg resolved_target =
     (if target_arg = None then Some resolved_target else None)"

definition agent_request ::
  "libs \<Rightarrow> connecting \<Rightarrow> string \<Rightarrow> string \<Rightarrow> control_request \<Rightarrow> json \<Rightarrow> control_response agent" where
  "agent_request L outcome command target request_value details =
     bindE (map_errE (map_transport_error command (Some target))
              (request L outcome target request_value)) (\<lambda>response.
     case response of
       ErrorResponse code message \<Rightarrow> failE (map_remote_error command target code message details)
     | other \<Rightarrow> retE other)"

section \<open>What is printed\<close>

record agent_discover_target =
  ad_target :: string
  ad_server_id :: string
  ad_device_name :: "string option"
  ad_platform :: "string option"
  ad_protocol_version :: u16
  ad_compatible :: bool
  ad_supported_operations :: "string list"

record agent_exec_data =
  ax_target :: "string option"
  ax_status :: i32
  ax_timed_out :: bool
  ax_stdout :: "string option"
  ax_stderr :: "string option"

datatype agent_data =
    DiscoverData "agent_discover_target list"
  | ExecData agent_exec_data
  | ExecChunkData "string option" string
  | ExecCompletionData "string option" i32 bool
      \<comment> \<open>target, status, timed out\<close>
  | TransferPushData "string option" bool "string option" bool bool
      \<comment> \<open>target, skipped, verification, verified, atomic\<close>
  | TransferPullData "string option" "string option" bool
      \<comment> \<open>target, verification, verified\<close>
  | FsStatData bool "fs_entry_kind option" "nat option" "string option"
      \<comment> \<open>exists, kind, size, sha256\<close>
  | FsReadData string nat bool
  | FsWriteData nat "string option" bool
  | FsListData "(string \<times> fs_entry_kind \<times> nat \<times> string option) list"
  | FsMkdirData bool
  | FsRmData bool
  | FsMoveData bool

text \<open>One line of output: an envelope with data, an envelope with an error, or an event.\<close>

datatype agent_line =
    Success agent_data
  | Failure agent_command_failure
  | AgentEvent string "agent_data option" "agent_command_failure option"

type_synonym agent_result = "agent_line list \<times> i32"

definition emit_agent_success :: "agent_data \<Rightarrow> agent_result" where
  "emit_agent_success data = ([Success data], 0)"

definition emit_agent_failure :: "agent_command_failure \<Rightarrow> agent_result" where
  "emit_agent_failure err = ([Failure err], af_exit_code err)"

text \<open>A command that has a target: what it prints when its body fails is the failure.\<close>

definition agent_finish :: "agent_result agent \<Rightarrow> (world, 'e, agent_result) act" where
  "agent_finish body =
     bindE (tryE body) (\<lambda>r. retE (case r of Inl err \<Rightarrow> emit_agent_failure err | Inr res \<Rightarrow> res))"

definition unexpected_response :: "(control_response \<Rightarrow> string) \<Rightarrow> control_response \<Rightarrow> agent_command_failure" where
  "unexpected_response debug other =
     internal_agent_failure (anyhow_msg (''unexpected response from daemon: '' @ debug other))"

section \<open>Discovery\<close>

definition has_feature :: "string list \<Rightarrow> string \<Rightarrow> bool" where
  "has_feature features expected = list_ex (\<lambda>feature. feature = expected) features"

definition supported_agent_operations :: "string list \<Rightarrow> bool \<Rightarrow> string list" where
  "supported_agent_operations features compatible =
     (if \<not> compatible then []
      else
        [''discover'']
        @ (if has_feature features ''agent.exec.v1'' \<or> has_feature features ''exec.direct''
           then [''exec'', ''exec.stream''] else [])
        @ (if has_feature features ''agent.fs.stat.v1'' then [''fs.stat''] else [])
        @ (if has_feature features ''agent.fs.list.v1'' then [''fs.list''] else [])
        @ (if has_feature features ''agent.fs.read.v1'' then [''fs.read''] else [])
        @ (if has_feature features ''agent.fs.write.v1'' then [''fs.write''] else [])
        @ (if has_feature features ''agent.fs.mkdir.v1'' then [''fs.mkdir''] else [])
        @ (if has_feature features ''agent.fs.rm.v1'' then [''fs.rm''] else [])
        @ (if has_feature features ''agent.fs.move.v1'' then [''fs.move''] else [])
        @ (if has_feature features ''agent.transfer.push.v1'' \<or> has_feature features ''fs.push.batch''
           then [''transfer.push''] else [])
        @ (if has_feature features ''agent.transfer.pull.v1'' \<or> has_feature features ''fs.pull.batch''
           then [''transfer.pull''] else []))"

definition agent_discover_target_of :: "discovered_target \<Rightarrow> agent_discover_target" where
  "agent_discover_target_of t =
     (let compatible = (dt_protocol_version t = PROTOCOL_VERSION)
      in \<lparr>ad_target = show_socket (dt_ip t) (dt_port t), ad_server_id = dt_server_id t,
          ad_device_name = Some (dt_device_name t), ad_platform = Some (dt_platform t),
          ad_protocol_version = dt_protocol_version t, ad_compatible = compatible,
          ad_supported_operations = supported_agent_operations (dt_features t) compatible\<rparr>)"

definition agent_discover_command ::
  "libs \<Rightarrow> cli_libs \<Rightarrow> udp_net \<Rightarrow> (socket_addr \<Rightarrow> int) \<Rightarrow>
   ((discovered_target list \<times> (anyhow + unit)) list \<Rightarrow> merge_event list) \<Rightarrow> string option \<Rightarrow> string \<Rightarrow>
   agent_result" where
  "agent_discover_command L C N now schedule target probe_addr =
     (if target \<noteq> None then
        emit_agent_failure (invalid_request_failure ''discover does not accept --target'' None
          (json_object [(''field'', JString ''target'')]))
      else
        case snd (discover_targets_with_callback L C N now schedule probe_addr) of
          Inl err \<Rightarrow> emit_agent_failure (map_transport_error ''discover'' None err)
        | Inr found \<Rightarrow> emit_agent_success (DiscoverData (map agent_discover_target_of found)))"

section \<open>File commands\<close>

definition parse_mode :: "string \<Rightarrow> agent_command_failure + u32" where
  "parse_mode value =
     (let trimmed = trim value;
          trimmed = (case strip_prefix_str trimmed ''0o'' of Some r \<Rightarrow> r | None \<Rightarrow> trimmed);
          trimmed = (case strip_prefix_str trimmed ''0'' of Some r \<Rightarrow> r | None \<Rightarrow> trimmed)
      in case parse_unsigned 8 (2 ^ 32) (if trimmed = [] then ''0'' else trimmed) of
           Some n \<Rightarrow> Inr (word_of_nat n)
         | None \<Rightarrow>
             Inl (invalid_request_failure
               (''invalid mode `'' @ value @ ''`; use an octal value like 755 or 0644'') None
               (json_object [(''field'', JString ''mode'')])))"

text \<open>\<open>std::fs::read\<close>, and the standard input as an argument.\<close>

definition fs_read_file :: "string \<Rightarrow> bytes io" where
  "fs_read_file path = bindE (sys_open_read path) (\<lambda>file. hash_loop file [])"

definition read_fs_write_input ::
  "io_error + bytes \<Rightarrow> string option \<Rightarrow> bool \<Rightarrow> bytes agent" where
  "read_fs_write_input standard_input input_file stdin =
     (case (input_file, stdin) of
        (Some _, True) \<Rightarrow>
          failE (invalid_request_failure ''use either --input-file or --stdin, not both'' None (json_object []))
      | (None, False) \<Rightarrow>
          failE (invalid_request_failure ''fs.write requires --input-file <path> or --stdin'' None (json_object []))
      | (Some path, False) \<Rightarrow>
          map_errE (\<lambda>err.
              \<lparr>af_code = ''fs.not_found'', af_message = io_message err, af_target = None,
               af_retryable = False, af_details = json_object [(''path'', JString path)], af_exit_code = 1\<rparr>)
            (fs_read_file path)
      | (None, True) \<Rightarrow>
          (case standard_input of
             Inl err \<Rightarrow> failE (internal_agent_failure (anyhow_io err))
           | Inr bs \<Rightarrow> retE bs))"

definition encode_local_content :: "libs \<Rightarrow> bytes \<Rightarrow> content_encoding \<Rightarrow> agent_command_failure + string" where
  "encode_local_content L bs encoding =
     (case encoding of
        Utf8 \<Rightarrow>
          if utf8_valid bs then Inr (from_bytes bs)
          else Inl (invalid_request_failure ''input is not valid UTF-8; use --encoding base64 instead'' None
                 (json_object []))
      | Base64 \<Rightarrow> Inr (base64_encode L bs))"

text \<open>What the seven file commands share: the request, and the data printed for the expected response.\<close>

definition agent_fs_call ::
  "libs \<Rightarrow> (control_response \<Rightarrow> string) \<Rightarrow> connecting \<Rightarrow> string \<Rightarrow> string \<Rightarrow> control_request \<Rightarrow> json \<Rightarrow>
   (control_response \<Rightarrow> agent_data option) \<Rightarrow> agent_result agent" where
  "agent_fs_call L debug outcome command target request_value details select =
     bindE (agent_request L outcome command target request_value details) (\<lambda>response.
     case select response of
       Some data \<Rightarrow> retE (emit_agent_success data)
     | None \<Rightarrow> failE (unexpected_response debug response))"

definition agent_fs_stat_command ::
  "libs \<Rightarrow> cli_libs \<Rightarrow> (control_response \<Rightarrow> string) \<Rightarrow> connecting \<Rightarrow> string option \<Rightarrow> string \<Rightarrow>
   hash_algorithm option \<Rightarrow> agent_result app" where
  "agent_fs_stat_command L C debug outcome target path hash = agent_finish
     (bindE (liftE (require_agent_target C target)) (\<lambda>target.
      agent_fs_call L debug outcome ''fs.stat'' target (FsStat path hash)
        (json_object [(''path'', JString path)])
        (\<lambda>r. case r of
           RFsStat st \<Rightarrow> Some (FsStatData (st_exists st) (st_kind st) (st_size st) (st_sha256 st))
         | _ \<Rightarrow> None)))"

definition agent_fs_list_command ::
  "libs \<Rightarrow> cli_libs \<Rightarrow> (control_response \<Rightarrow> string) \<Rightarrow> connecting \<Rightarrow> string option \<Rightarrow> string \<Rightarrow> bool \<Rightarrow>
   u32 option \<Rightarrow> bool \<Rightarrow> hash_algorithm option \<Rightarrow> agent_result app" where
  "agent_fs_list_command L C debug outcome target path recursive max_depth include_hidden hash = agent_finish
     (bindE (liftE (require_agent_target C target)) (\<lambda>target.
      agent_fs_call L debug outcome ''fs.list'' target (FsList path recursive max_depth include_hidden hash)
        (json_object [(''path'', JString path)])
        (\<lambda>r. case r of
           RFsList entries \<Rightarrow>
             Some (FsListData (map (\<lambda>e. (le_path e, le_kind e, le_size e, le_sha256 e)) entries))
         | _ \<Rightarrow> None)))"

definition agent_fs_read_command ::
  "libs \<Rightarrow> cli_libs \<Rightarrow> (control_response \<Rightarrow> string) \<Rightarrow> connecting \<Rightarrow> string option \<Rightarrow> string \<Rightarrow>
   content_encoding \<Rightarrow> nat option \<Rightarrow> agent_result app" where
  "agent_fs_read_command L C debug outcome target path encoding max_bytes = agent_finish
     (bindE (liftE (require_agent_target C target)) (\<lambda>target.
      agent_fs_call L debug outcome ''fs.read'' target (FsRead path encoding max_bytes)
        (json_object [(''path'', JString path)])
        (\<lambda>r. case r of
           FsReadResult result \<Rightarrow>
             Some (FsReadData (rr_content result) (rr_bytes result) (rr_truncated result))
         | _ \<Rightarrow> None)))"

definition parse_mode_option :: "string option \<Rightarrow> agent_command_failure + u32 option" where
  "parse_mode_option mode =
     (case mode of
        None \<Rightarrow> Inr None
      | Some m \<Rightarrow> (case parse_mode m of Inl e \<Rightarrow> Inl e | Inr v \<Rightarrow> Inr (Some v)))"

definition agent_fs_write_command ::
  "libs \<Rightarrow> cli_libs \<Rightarrow> (control_response \<Rightarrow> string) \<Rightarrow> connecting \<Rightarrow> io_error + bytes \<Rightarrow> string option \<Rightarrow>
   string \<Rightarrow> string option \<Rightarrow> bool \<Rightarrow> content_encoding \<Rightarrow> string option \<Rightarrow> bool \<Rightarrow> bool \<Rightarrow> bool \<Rightarrow>
   string option \<Rightarrow> agent_result app" where
  "agent_fs_write_command L C debug outcome standard_input target path input_file stdin encoding mode
       create_parent atomic if_missing if_sha256 = agent_finish
     (bindE (liftE (require_agent_target C target)) (\<lambda>target.
      bindE (liftE (parse_mode_option mode)) (\<lambda>mode.
      bindE (read_fs_write_input standard_input input_file stdin) (\<lambda>bs.
      bindE (liftE (encode_local_content L bs encoding)) (\<lambda>content.
      agent_fs_call L debug outcome ''fs.write'' target
        (FsWrite path content encoding mode create_parent atomic if_missing if_sha256)
        (json_object [(''path'', JString path)])
        (\<lambda>r. case r of
           FsWriteResult result \<Rightarrow>
             Some (FsWriteData (wr_bytes_written result) (wr_sha256 result) (wr_changed result))
         | _ \<Rightarrow> None))))))"

definition agent_fs_mkdir_command ::
  "libs \<Rightarrow> cli_libs \<Rightarrow> (control_response \<Rightarrow> string) \<Rightarrow> connecting \<Rightarrow> string option \<Rightarrow> string \<Rightarrow> bool \<Rightarrow>
   string option \<Rightarrow> agent_result app" where
  "agent_fs_mkdir_command L C debug outcome target path parents mode = agent_finish
     (bindE (liftE (require_agent_target C target)) (\<lambda>target.
      bindE (liftE (parse_mode_option mode)) (\<lambda>mode.
      agent_fs_call L debug outcome ''fs.mkdir'' target (FsMkdir path parents mode)
        (json_object [(''path'', JString path)])
        (\<lambda>r. case r of FsMkdirResult result \<Rightarrow> Some (FsMkdirData (mk_created result)) | _ \<Rightarrow> None))))"

definition agent_fs_rm_command ::
  "libs \<Rightarrow> cli_libs \<Rightarrow> (control_response \<Rightarrow> string) \<Rightarrow> connecting \<Rightarrow> string option \<Rightarrow> string \<Rightarrow> bool \<Rightarrow>
   bool \<Rightarrow> bool \<Rightarrow> agent_result app" where
  "agent_fs_rm_command L C debug outcome target path recursive force if_exists = agent_finish
     (bindE (liftE (require_agent_target C target)) (\<lambda>target.
      agent_fs_call L debug outcome ''fs.rm'' target (FsRm path recursive force if_exists)
        (json_object [(''path'', JString path)])
        (\<lambda>r. case r of FsRmResult result \<Rightarrow> Some (FsRmData (rm_removed result)) | _ \<Rightarrow> None)))"

definition agent_fs_move_command ::
  "libs \<Rightarrow> cli_libs \<Rightarrow> (control_response \<Rightarrow> string) \<Rightarrow> connecting \<Rightarrow> string option \<Rightarrow> string \<Rightarrow> string \<Rightarrow>
   bool \<Rightarrow> agent_result app" where
  "agent_fs_move_command L C debug outcome target source destination overwrite = agent_finish
     (bindE (liftE (require_agent_target C target)) (\<lambda>target.
      agent_fs_call L debug outcome ''fs.move'' target (FsMove source destination overwrite)
        (json_object [(''source'', JString source), (''destination'', JString destination)])
        (\<lambda>r. case r of FsMoveResult result \<Rightarrow> Some (FsMoveData (mv_overwritten result)) | _ \<Rightarrow> None)))"

section \<open>Exec\<close>

definition into_non_empty_string :: "string \<Rightarrow> string option" where
  "into_non_empty_string value = (if value = [] then None else Some value)"

definition exec_failure_details :: "i32 \<Rightarrow> bool \<Rightarrow> string option \<Rightarrow> string option \<Rightarrow> json" where
  "exec_failure_details status timed_out out err =
     json_object
       ([(''status'', JInt status)]
        @ (if timed_out then [(''timed_out'', JBool True)] else [])
        @ (case out of Some s \<Rightarrow> if s \<noteq> [] then [(''stdout'', JString s)] else [] | None \<Rightarrow> [])
        @ (case err of Some s \<Rightarrow> if s \<noteq> [] then [(''stderr'', JString s)] else [] | None \<Rightarrow> []))"

definition nonzero_failure :: "string \<Rightarrow> i32 \<Rightarrow> json \<Rightarrow> agent_command_failure" where
  "nonzero_failure target status details =
     \<lparr>af_code = ''exec.nonzero'', af_message = ''remote command exited with status '' @ show_int status,
      af_target = Some target, af_retryable = False, af_details = details, af_exit_code = status\<rparr>"

definition exec_nonzero_failure :: "string \<Rightarrow> agent_exec_data \<Rightarrow> agent_command_failure" where
  "exec_nonzero_failure target data =
     nonzero_failure target (ax_status data)
       (exec_failure_details (ax_status data) (ax_timed_out data) (ax_stdout data) (ax_stderr data))"

definition exec_nonzero_failure_from_completion :: "string \<Rightarrow> i32 \<Rightarrow> bool \<Rightarrow> agent_command_failure" where
  "exec_nonzero_failure_from_completion target status timed_out =
     nonzero_failure target status (exec_failure_details status timed_out None None)"

definition exec_error_details ::
  "string \<Rightarrow> string list \<Rightarrow> string option \<Rightarrow> nat option \<Rightarrow> nat \<Rightarrow> json" where
  "exec_error_details program args dir timeout_secs duration_ms =
     json_object
       [(''command'', JString program), (''args'', JArray (map JString args)),
        (''cwd'', json_option JString dir),
        (''timeout_secs'', json_option (\<lambda>n. JInt (int n)) timeout_secs),
        (''duration_ms'', JInt (int duration_ms))]"

definition run_agent_exec ::
  "libs \<Rightarrow> (control_response \<Rightarrow> string) \<Rightarrow> connecting \<Rightarrow> nat \<Rightarrow> string \<Rightarrow> string option \<Rightarrow> string \<Rightarrow>
   string list \<Rightarrow> string option \<Rightarrow> nat option \<Rightarrow> bool \<Rightarrow> agent_result agent" where
  "run_agent_exec L debug outcome duration_ms target response_target program args dir timeout_secs check_status =
     bindE (map_errE (map_transport_error ''exec'' (Some target))
              (request L outcome target (Exec program args dir timeout_secs False))) (\<lambda>response.
     case response of
       ExecResult status out err timed_out \<Rightarrow>
         let data = \<lparr>ax_target = response_target, ax_status = status, ax_timed_out = timed_out,
                     ax_stdout = into_non_empty_string out, ax_stderr = into_non_empty_string err\<rparr>
         in if check_status \<and> status \<noteq> 0 then failE (exec_nonzero_failure target data)
            else retE (emit_agent_success (ExecData data))
     | ErrorResponse code message \<Rightarrow>
         failE (map_remote_exec_error target code message
           (exec_error_details program args dir timeout_secs duration_ms))
     | other \<Rightarrow> failE (unexpected_response debug other))"

text \<open>
  One frame of a streamed exec: the lines to print, and the exit code when it ends the stream.
  A failure event is printed and the exit code is 1.
\<close>

definition exec_failed :: "agent_command_failure \<Rightarrow> agent_line list \<times> i32 option" where
  "exec_failed err = ([AgentEvent ''failed'' None (Some err)], Some 1)"

definition exec_chunk :: "string option \<Rightarrow> string \<Rightarrow> string \<Rightarrow> agent_line list" where
  "exec_chunk response_target event chunk =
     (if chunk = [] then [] else [AgentEvent event (Some (ExecChunkData response_target chunk)) None])"

definition exec_response_lines ::
  "(control_response \<Rightarrow> string) \<Rightarrow> string \<Rightarrow> string option \<Rightarrow> json \<Rightarrow> bool \<Rightarrow> control_response \<Rightarrow>
   agent_line list \<times> i32 option" where
  "exec_response_lines debug target response_target details check_status response =
     (case response of
        ExecResult status out err timed_out \<Rightarrow>
          let chunks = exec_chunk response_target ''stdout'' out @ exec_chunk response_target ''stderr'' err
          in if check_status \<and> status \<noteq> 0 then
               (chunks @ [AgentEvent ''failed'' None
                  (Some (exec_nonzero_failure_from_completion target status timed_out))], Some status)
             else
               (chunks @ [AgentEvent ''completed''
                  (Some (ExecCompletionData response_target status timed_out)) None], Some 0)
      | ErrorResponse code message \<Rightarrow> exec_failed (map_remote_exec_error target code message details)
      | other \<Rightarrow> exec_failed (unexpected_response debug other))"

definition exec_frame_lines ::
  "libs \<Rightarrow> (control_response \<Rightarrow> string) \<Rightarrow> string \<Rightarrow> string option \<Rightarrow> json \<Rightarrow> bool \<Rightarrow> frame_header \<Rightarrow> bytes \<Rightarrow>
   agent_line list \<times> i32 option" where
  "exec_frame_lines L debug target response_target details check_status header payload =
     (if h_kind header = Stream then
        case decode_stream_frame_header header of
          Inl err \<Rightarrow>
            exec_failed (internal_agent_failure (anyhow_msg (''invalid stream frame: '' @ protocol_error_display err)))
        | Inr chunk \<Rightarrow>
            if s_request_id chunk \<noteq> REQUEST_ID then
              exec_failed (internal_agent_failure (anyhow_msg (''request id mismatch: expected ''
                @ show_nat (unat REQUEST_ID) @ '', got '' @ show_nat (unat (s_request_id chunk)))))
            else
              (case s_channel chunk of
                 Stdout \<Rightarrow> (if payload = [] then []
                     else [AgentEvent ''stdout'' (Some (ExecChunkData response_target (lossy_string payload))) None], None)
               | Stderr \<Rightarrow> (if payload = [] then []
                     else [AgentEvent ''stderr'' (Some (ExecChunkData response_target (lossy_string payload))) None], None)
               | _ \<Rightarrow> ([], None))
      else if h_kind header = Response then
        case decode_json_payload (response_from_slice L) header payload Response of
          Inl err \<Rightarrow>
            exec_failed (internal_agent_failure (anyhow_msg (''invalid response frame: '' @ protocol_error_display err)))
        | Inr response \<Rightarrow> exec_response_lines debug target response_target details check_status response
      else
        exec_failed (internal_agent_failure (anyhow_msg (''unexpected frame kind during exec stream: ''
          @ frame_kind_debug (h_kind header)))))"

text \<open>The loop of \<open>run_agent_exec_stream\<close>. An error of a read is printed as text, so its cause is lost.\<close>

function exec_stream_loop ::
  "libs \<Rightarrow> (control_response \<Rightarrow> string) \<Rightarrow> string \<Rightarrow> string option \<Rightarrow> json \<Rightarrow> bool \<Rightarrow> world \<Rightarrow> agent_result \<times> world" where
  "exec_stream_loop L debug target response_target details check_status w =
     (case read_frame_into conn_read_exact w of
        (Inl err, w1) \<Rightarrow>
          (([AgentEvent ''failed'' None
              (Some (map_transport_error ''exec'' (Some target) (anyhow_msg (protocol_error_display err))))], 1), w1)
      | (Inr (header, payload), w1) \<Rightarrow>
          (case exec_frame_lines L debug target response_target details check_status header payload of
             (lines, Some code) \<Rightarrow> ((lines, code), w1)
           | (lines, None) \<Rightarrow>
               (case exec_stream_loop L debug target response_target details check_status w1 of
                  ((rest, code), w2) \<Rightarrow> ((lines @ rest, code), w2))))"
  by pat_completeness auto
termination
  by (relation "measure (\<lambda>(_, _, _, _, _, _, w). length (inp w))")
    (auto dest!: conn_r.read_frame_into_ok [OF sym] simp: HEADER_LEN_def)

declare exec_stream_loop.simps [simp del]

definition run_agent_exec_stream ::
  "libs \<Rightarrow> (control_response \<Rightarrow> string) \<Rightarrow> connecting \<Rightarrow> nat \<Rightarrow> string \<Rightarrow> string option \<Rightarrow> string \<Rightarrow>
   string list \<Rightarrow> string option \<Rightarrow> nat option \<Rightarrow> bool \<Rightarrow> agent_result agent" where
  "run_agent_exec_stream L debug outcome duration_ms target response_target program args dir timeout_secs
       check_status =
     thenE (map_errE (map_transport_error ''exec'' (Some target)) (liftE (open_tcp_connection outcome target)))
    (thenE (map_errE (\<lambda>err. internal_agent_failure
                (anyhow_msg (''failed to send exec request: '' @ protocol_error_display err)))
              (write_json_frame (request_to_vec L) conn_write_all Request REQUEST_ID
                 (Exec program args dir timeout_secs True)))
       (\<lambda>w. case exec_stream_loop L debug target response_target
                  (exec_error_details program args dir timeout_secs duration_ms) check_status w of
              (res, w') \<Rightarrow> (Inr res, w')))"

definition agent_exec_command ::
  "libs \<Rightarrow> cli_libs \<Rightarrow> (control_response \<Rightarrow> string) \<Rightarrow> connecting \<Rightarrow> nat \<Rightarrow> string option \<Rightarrow> bool \<Rightarrow> bool \<Rightarrow>
   string option \<Rightarrow> nat option \<Rightarrow> string list \<Rightarrow> agent_result app" where
  "agent_exec_command L C debug outcome duration_ms target stream check_status dir timeout_secs command =
     agent_finish
       (bindE (liftE (require_agent_target C target)) (\<lambda>resolved_target.
        case command of
          [] \<Rightarrow>
            failE (invalid_request_failure ''exec requires a command after `--`'' (Some resolved_target)
              (json_object [(''field'', JString ''command'')]))
        | program # args \<Rightarrow>
            (if stream then run_agent_exec_stream else run_agent_exec) L debug outcome duration_ms
              resolved_target (agent_response_target target resolved_target) program args dir timeout_secs
              check_status))"

end
