(* ===== verification/Cli_Agent_Facts.thy ===== *)
theory Cli_Agent_Facts
  imports Cli_Agent Cli_Request_Facts Daemon_Exec_Facts
begin

text \<open>
  What the client prints for a streamed command: a line for each chunk that the daemon relays,
  in order and by channel, and the line of the final response.
\<close>

lemma calm_read_frame_into:
  assumes "sched w = []" "inp w = frame_bytes k fl rid p @ rest" "length p \<le> MAX_PAYLOAD_LEN"
  shows "read_frame_into conn_read_exact w =
    (Inr (\<lparr>h_version = PROTOCOL_VERSION, h_kind = k, h_flags = fl, h_request_id = rid,
       h_payload_len = word_of_nat (length p)\<rparr>, p), w\<lparr>inp := rest\<rparr>)"
  using calm_read_frame [OF assms] by (auto simp: read_frame_def bindE_eq_Inr_iff)

text \<open>The line for a relayed frame: none for the empty frame that ends a channel.\<close>

definition chunk_line :: "string option \<Rightarrow> stream_channel \<times> bytes \<Rightarrow> agent_line list" where
  "chunk_line rt f =
     (if snd f = [] then []
      else [AgentEvent (if fst f = Stdout then ''stdout'' else ''stderr'')
              (Some (ExecChunkData rt (lossy_string (snd f)))) None])"

lemma exec_loop_frames:
  assumes json: "json_roundtrip (response_to_vec L) (response_from_slice L)" and a: "sendable L a"
    and fin: "exec_response_lines debug target rt details chk a = (ls, Some code)"
  shows "sched w = [] \<Longrightarrow> inp w = relay_bytes REQUEST_ID fs @ response_bytes L REQUEST_ID a \<Longrightarrow>
    set (map fst fs) \<subseteq> {Stdout, Stderr} \<Longrightarrow> \<forall>f \<in> set fs. length (snd f) \<le> MAX_PAYLOAD_LEN \<Longrightarrow>
    exec_stream_loop L debug target rt details chk w =
      ((concat (map (chunk_line rt) fs) @ ls, code), w\<lparr>inp := []\<rparr>)"
proof (induction fs arbitrary: w)
  case Nil
  from a obtain p where p: "response_to_vec L a = Inr p" "length p \<le> MAX_PAYLOAD_LEN"
    by (auto simp: sendable_def split: sum.splits)
  then have "inp w = frame_bytes Response 0 REQUEST_ID p @ []"
    using Nil.prems(2) by (simp add: relay_bytes_def response_bytes_def)
  from calm_read_frame_into [OF Nil.prems(1) this p(2)] json p(1) fin show ?case
    by (subst exec_stream_loop.simps)
      (simp add: exec_frame_lines_def decode_json_payload_def json_roundtrip_def)
next
  case (Cons f fs)
  obtain c d where f: "f = (c, d)" by force
  let ?rest = "relay_bytes REQUEST_ID fs @ response_bytes L REQUEST_ID a"
  have inp: "inp w = frame_bytes Stream (stream_flags c (d = [])) REQUEST_ID d @ ?rest"
    using Cons.prems(2) f by (simp add: relay_bytes_def stream_bytes_def)
  have len: "length d \<le> MAX_PAYLOAD_LEN" using Cons.prems(4) f by simp
  have IH: "exec_stream_loop L debug target rt details chk (w\<lparr>inp := ?rest\<rparr>) =
      ((concat (map (chunk_line rt) fs) @ ls, code), w\<lparr>inp := []\<rparr>)"
    using Cons.IH [of "w\<lparr>inp := ?rest\<rparr>"] Cons.prems by simp
  from calm_read_frame_into [OF Cons.prems(1) inp len] IH Cons.prems(3) f show ?case
    by (subst exec_stream_loop.simps)
      (auto simp: exec_frame_lines_def decode_stream_frame_header_flags chunk_line_def)
qed

text \<open>The chunks printed for one channel.\<close>

definition printed :: "string \<Rightarrow> agent_line list \<Rightarrow> string list" where
  "printed event lines = List.map_filter (\<lambda>line. case line of
       AgentEvent ev (Some (ExecChunkData _ chunk)) None \<Rightarrow> if ev = event then Some chunk else None
     | _ \<Rightarrow> None) lines"

lemma printed_append: "printed e (xs @ ys) = printed e xs @ printed e ys"
  by (simp add: printed_def List.map_filter_def)

lemma printed_chunk_line:
  "printed e (chunk_line rt f) =
     (if snd f \<noteq> [] \<and> e = (if fst f = Stdout then ''stdout'' else ''stderr'') then [lossy_string (snd f)] else [])"
  by (simp add: printed_def chunk_line_def map_filter_simps)

lemma printed_chunks:
  assumes "set (map fst fs) \<subseteq> {Stdout, Stderr}"
  shows "printed ''stdout'' (concat (map (chunk_line rt) fs)) =
      map lossy_string (filter (\<lambda>d. d \<noteq> []) (channel Stdout fs))"
    and "printed ''stderr'' (concat (map (chunk_line rt) fs)) =
      map lossy_string (filter (\<lambda>d. d \<noteq> []) (channel Stderr fs))"
proof -
  have nil: "printed e [] = []" for e by (simp add: printed_def map_filter_simps)
  show "printed ''stdout'' (concat (map (chunk_line rt) fs)) =
      map lossy_string (filter (\<lambda>d. d \<noteq> []) (channel Stdout fs))"
    using assms by (induction fs) (simp_all add: nil printed_append printed_chunk_line channel_def)
  show "printed ''stderr'' (concat (map (chunk_line rt) fs)) =
      map lossy_string (filter (\<lambda>d. d \<noteq> []) (channel Stderr fs))"
    using assms
  proof (induction fs)
    case (Cons f fs)
    then show ?case by (cases "fst f = Stdout") (simp_all add: printed_append printed_chunk_line channel_def)
  qed (simp add: nil channel_def)
qed

lemma exec_answer_line:
  "\<exists>line code. exec_response_lines debug target rt details chk (exec_answer T t) = ([line], Some code) \<and>
     printed e [line] = []"
  by (auto simp: exec_answer_def exec_response_lines_def timeout_response_def exec_failed_def exec_chunk_def
      printed_def map_filter_simps Let_def split: option.split)

lemma upto_end_subset: "set (upto_end ds) \<subseteq> set ds"
  by (induction ds) auto

section \<open>A stream always closes\<close>

fun chunk_event :: "agent_line \<Rightarrow> bool" where
  "chunk_event (AgentEvent event (Some (ExecChunkData _ _)) None) \<longleftrightarrow> event = ''stdout'' \<or> event = ''stderr''"
| "chunk_event _ \<longleftrightarrow> False"

text \<open>The line that closes a stream, and the exit code that goes with it.\<close>

fun closing_event :: "agent_line \<Rightarrow> i32 \<Rightarrow> bool" where
  "closing_event (AgentEvent event (Some (ExecCompletionData _ _ _)) None) code \<longleftrightarrow> event = ''completed'' \<and> code = 0"
| "closing_event (AgentEvent event None (Some err)) code \<longleftrightarrow>
     event = ''failed'' \<and> code = af_exit_code err \<and> code \<noteq> 0"
| "closing_event _ code \<longleftrightarrow> False"

definition closes :: "agent_line list \<Rightarrow> i32 \<Rightarrow> bool" where
  "closes lines code \<longleftrightarrow>
     lines \<noteq> [] \<and> closing_event (last lines) code \<and> (\<forall>line \<in> set (butlast lines). chunk_event line)"

lemma closes_single: "closes [line] code \<longleftrightarrow> closing_event line code"
  by (simp add: closes_def)

lemma closes_append: "closes ys code \<Longrightarrow> \<forall>x \<in> set xs. chunk_event x \<Longrightarrow> closes (xs @ ys) code"
  by (auto simp: closes_def butlast_append)

lemma mapped_exit_code [simp]:
  "af_exit_code (internal_agent_failure e) = 1" "af_exit_code (map_remote_error cmd t c m d) = 1"
  "af_exit_code (map_remote_exec_error t c m d) = 1" "af_exit_code (map_transport_error cmd tg e) = 1"
  by (auto simp: internal_agent_failure_def map_remote_error_def map_remote_exec_error_def map_transport_error_def
      split: prod.split option.split)

lemma exec_failed_closes: "af_exit_code err = 1 \<Longrightarrow> exec_failed err = (lines, Some code) \<Longrightarrow> closes lines code \<and> length lines = 1"
  by (auto simp: exec_failed_def closes_single)

lemma exec_chunk_events: "\<forall>line \<in> set (exec_chunk rt event chunk). event = ''stdout'' \<or> event = ''stderr'' \<longrightarrow> chunk_event line"
  "length (exec_chunk rt event chunk) \<le> 1"
  by (auto simp: exec_chunk_def)

lemma exec_response_closes:
  assumes "exec_response_lines debug target rt details chk r = (lines, res)"
  shows "\<exists>code. res = Some code \<and> closes lines code \<and> length lines \<le> 3"
proof (cases r)
  case (ExecResult status out err late)
  let ?chunks = "exec_chunk rt ''stdout'' out @ exec_chunk rt ''stderr'' err"
  let ?close = "if chk \<and> status \<noteq> 0
      then (AgentEvent ''failed'' None (Some (exec_nonzero_failure_from_completion target status late)), status)
      else (AgentEvent ''completed'' (Some (ExecCompletionData rt status late)) None, 0)"
  from assms ExecResult have "lines = ?chunks @ [fst ?close]" "res = Some (snd ?close)"
    by (auto simp: exec_response_lines_def Let_def split: if_splits)
  moreover have "closes [fst ?close] (snd ?close)"
    by (simp add: closes_single exec_nonzero_failure_from_completion_def nonzero_failure_def)
  moreover have "\<forall>x \<in> set ?chunks. chunk_event x" "length ?chunks \<le> 2"
    using exec_chunk_events(1) exec_chunk_events(2) [of rt "''stdout''" out] exec_chunk_events(2) [of rt "''stderr''" err]
    by fastforce+
  ultimately show ?thesis using closes_append [of "[fst ?close]" "snd ?close" ?chunks] by auto
qed (use assms in \<open>auto simp: exec_response_lines_def exec_failed_def closes_single unexpected_response_def\<close>)

lemma exec_frame_closes:
  assumes "exec_frame_lines L debug target rt details chk header payload = (lines, res)"
  shows "case res of
    None \<Rightarrow> (\<forall>x \<in> set lines. chunk_event x) \<and> length lines \<le> 1
  | Some code \<Rightarrow> closes lines code \<and> length lines \<le> 3"
  using assms
  by (auto simp: exec_frame_lines_def exec_failed_def closes_single dest!: exec_response_closes
      split: if_splits sum.splits stream_channel.splits)

lemma exec_loop_closes:
  assumes "exec_stream_loop L debug target rt details chk w = ((lines, code), w')"
  shows "closes lines code \<and> HEADER_LEN * length lines \<le> length (inp w) + 2 * HEADER_LEN"
  using assms
proof (induction L debug target rt details chk w arbitrary: lines code w' rule: exec_stream_loop.induct)
  case (1 L debug target rt details chk w)
  show ?case
  proof (cases "read_frame_into conn_read_exact w")
    case (Pair r w1)
    show ?thesis
    proof (cases r)
      case (Inl err)
      with Pair "1.prems" show ?thesis
        by (subst (asm) exec_stream_loop.simps) (auto simp: closes_single)
    next
      case (Inr hp)
      obtain header payload where hp: "hp = (header, payload)" by force
      note rd = Pair [unfolded Inr hp]
      obtain ls res where fr: "exec_frame_lines L debug target rt details chk header payload = (ls, res)" by force
      have len: "HEADER_LEN + length (inp w1) \<le> length (inp w)"
        using conn_r.read_frame_into_ok [OF rd] by auto
      show ?thesis
      proof (cases res)
        case (Some c)
        with rd fr "1.prems" have "lines = ls" "code = c"
          by (subst (asm) exec_stream_loop.simps, simp)+
        with exec_frame_closes [OF fr] Some len show ?thesis by (simp add: HEADER_LEN_def)
      next
        case None
        obtain rest c w2 where go: "exec_stream_loop L debug target rt details chk w1 = ((rest, c), w2)"
          by (metis prod_cases3 surj_pair)
        with rd fr None "1.prems" have "lines = ls @ rest" "code = c"
          by (subst (asm) exec_stream_loop.simps, simp)+
        moreover from "1.IH" [OF rd [symmetric] refl refl fr [unfolded None, symmetric] refl go]
        have "closes rest c" "HEADER_LEN * length rest \<le> length (inp w1) + 2 * HEADER_LEN" by simp_all
        ultimately show ?thesis
          using exec_frame_closes [OF fr] None len by (auto simp: closes_append HEADER_LEN_def)
      qed
    qed
  qed
qed


definition cut_stream :: world where
  "cut_stream = sample_world\<lparr>inp := relay_bytes REQUEST_ID [(Stdout, [104, 105])] @ [0x52]\<rparr>"

lemma cut_stream_run:
  "map_prod length (\<lambda>code. code) (fst (exec_stream_loop sample_libs (\<lambda>_. []) ''h:1'' None JNull True cut_stream))
     = (2, 1)"
  by code_simp


end
