(* ===== verification/Cli_Shell_Facts.thy ===== *)
theory Cli_Shell_Facts
  imports Cli_Shell Cli_Transfer_Facts Cli_Agent_Facts
begin

text \<open>
  A shell session on a connection on which nothing goes wrong: what the reading task prints, what
  the loop sends, and the session as a whole.
\<close>

section \<open>The reading task\<close>

lemma calm_print_all [simp]: "sched w = [] \<Longrightarrow> print_all data w = ((data, None), w)"
  by (simp add: print_all_def)

text \<open>
  One stream frame on \<open>Stdout\<close> or \<open>Stderr\<close>: printed unless it is empty, whether or not it ends
  its channel.
\<close>

lemma calm_reader_frame:
  assumes calm: "sched w = []" and inp: "inp w = stream_bytes REQUEST_ID c eof d @ rest"
    and c: "c = Stdout \<or> c = Stderr" and len: "length d \<le> MAX_PAYLOAD_LEN"
  shows "shell_reader w =
    (case shell_reader (w\<lparr>inp := rest\<rparr>) of
       ((prints, message), v) \<Rightarrow> ((if d = [] then prints else (c, d) # prints, message), v))"
proof -
  have "inp w = frame_bytes Stream (stream_flags c eof) REQUEST_ID d @ rest"
    using inp by (simp add: stream_bytes_def)
  from calm_read_frame_into [OF calm this len] c calm show ?thesis
    by (subst shell_reader.simps)
      (auto simp: decode_stream_frame_header_flags split: prod.splits)
qed

lemma calm_reader_end:
  assumes calm: "sched w = []" and json: "json_roundtrip (response_to_vec L) (response_from_slice L)"
    and r: "sendable L r" and inp: "inp w = response_bytes L REQUEST_ID r"
  obtains fr where "shell_reader w = (([], Inr fr), w\<lparr>inp := []\<rparr>)" "h_kind (f_header fr) = Response"
    "decode_json (response_from_slice L) fr Response = Inr r"
proof -
  from r obtain p where p: "response_to_vec L r = Inr p" "length p \<le> MAX_PAYLOAD_LEN"
    by (auto simp: sendable_def split: sum.splits)
  then have "inp w = frame_bytes Response 0 REQUEST_ID p @ []" using inp by (simp add: response_bytes_def)
  note rd = calm_read_frame_into [OF calm this p(2)]
  let ?h = "\<lparr>h_version = PROTOCOL_VERSION, h_kind = Response, h_flags = 0, h_request_id = REQUEST_ID,
    h_payload_len = word_of_nat (length p)\<rparr>"
  have "shell_reader w = (([], Inr \<lparr>f_header = ?h, f_payload = p\<rparr>), w\<lparr>inp := []\<rparr>)"
    by (subst shell_reader.simps) (simp add: rd)
  moreover have "decode_json (response_from_slice L) \<lparr>f_header = ?h, f_payload = p\<rparr> Response = Inr r"
    using json p(1) by (simp add: json_roundtrip_def decode_json_def decode_json_payload_def)
  ultimately show thesis by (intro that) simp_all
qed

lemma calm_shell_reader:
  assumes json: "json_roundtrip (response_to_vec L) (response_from_slice L)" and r: "sendable L r"
  shows "sched w = [] \<Longrightarrow>
    inp w = concat (map (\<lambda>(c, eof, d). stream_bytes REQUEST_ID c eof d) fs) @ response_bytes L REQUEST_ID r \<Longrightarrow>
    \<forall>(c, eof, d) \<in> set fs. (c = Stdout \<or> c = Stderr) \<and> length d \<le> MAX_PAYLOAD_LEN \<Longrightarrow>
    \<exists>fr. shell_reader w = ((filter (\<lambda>(c, d). d \<noteq> []) (map (\<lambda>(c, eof, d). (c, d)) fs), Inr fr), w\<lparr>inp := []\<rparr>) \<and>
      h_kind (f_header fr) = Response \<and> decode_json (response_from_slice L) fr Response = Inr r"
proof (induction fs arbitrary: w)
  case Nil
  then obtain fr where "shell_reader w = (([], Inr fr), w\<lparr>inp := []\<rparr>)" "h_kind (f_header fr) = Response"
    "decode_json (response_from_slice L) fr Response = Inr r"
    using calm_reader_end [OF _ json r, of w] by auto
  then show ?case by auto
next
  case (Cons f fs)
  obtain c eof d where f: "f = (c, eof, d)" by (metis prod_cases3)
  let ?rest = "concat (map (\<lambda>(c, eof, d). stream_bytes REQUEST_ID c eof d) fs) @ response_bytes L REQUEST_ID r"
  obtain fr where fr: "shell_reader (w\<lparr>inp := ?rest\<rparr>) =
      ((filter (\<lambda>(c, d). d \<noteq> []) (map (\<lambda>(c, eof, d). (c, d)) fs), Inr fr), w\<lparr>inp := []\<rparr>)"
    "h_kind (f_header fr) = Response" "decode_json (response_from_slice L) fr Response = Inr r"
    using Cons.IH [of "w\<lparr>inp := ?rest\<rparr>"] Cons.prems by auto
  have "inp w = stream_bytes REQUEST_ID c eof d @ ?rest" using Cons.prems(2) f by simp
  from calm_reader_frame [OF Cons.prems(1) this] Cons.prems(3) f fr show ?case by auto
qed

section \<open>The loop\<close>

lemma calm_forward_stdin:
  assumes L: "bufwriter_spec L" and calm: "sched w = []" "wbuf w = []" and len: "length d \<le> MAX_PAYLOAD_LEN"
  shows "forward_stdin L eof d m m' w = (Inr (), w\<lparr>outp := outp w @ stream_bytes REQUEST_ID Stdin eof d\<rparr>)"
proof -
  let ?h = "\<lparr>h_version = PROTOCOL_VERSION, h_kind = Stream, h_flags = stream_flags Stdin eof,
    h_request_id = REQUEST_ID, h_payload_len = word_of_nat (length d)\<rparr>"
  obtain o1 k1 where 1: "buf_write_all L DEFAULT_BUF_SIZE (header_encode ?h) w = (Inr (), w\<lparr>outp := o1, wbuf := k1\<rparr>)"
    "o1 @ k1 = outp w @ wbuf w @ header_encode ?h"
    using calm_buf_write [OF L calm(1)] by blast
  obtain o2 k2 where 2: "buf_write_all L DEFAULT_BUF_SIZE d (w\<lparr>outp := o1, wbuf := k1\<rparr>)
      = (Inr (), w\<lparr>outp := o2, wbuf := k2\<rparr>)" "o2 @ k2 = o1 @ k1 @ d"
    using calm_buf_write [OF L, of "w\<lparr>outp := o1, wbuf := k1\<rparr>" DEFAULT_BUF_SIZE d] calm by auto
  have "o2 @ k2 = outp w @ stream_bytes REQUEST_ID Stdin eof d"
    using 1(2) 2(2) calm by (simp add: stream_bytes_def frame_bytes_def)
  then show ?thesis
    using 1(1) 2(1) len calm
    by (cases w) (auto simp: forward_stdin_def write_stream_frame_def Let_def map_errE_def thenE_def bindE_def
        ctx_def buf_flush_def conn_write_all_def stream_flags_def modifyE_def getE_def)
qed

text \<open>While the terminal has data and the response has not come, the loop sends a frame for each chunk.\<close>

lemma calm_shell_loop:
  assumes L: "bufwriter_spec L"
  shows "sched w = [] \<Longrightarrow> wbuf w = [] \<Longrightarrow> chunks_ok cs \<Longrightarrow> [] \<notin> set cs \<Longrightarrow> length cs < n \<Longrightarrow>
    shell_loop L debug message (replicate n StdinReady @ FrameReady # later)
        (start_stdin_pump (map Inr cs @ [Inr []])) True w =
      (ShellAnswered (shell_message L debug message),
       w\<lparr>outp := outp w @ stdin_frames REQUEST_ID cs @ stream_bytes REQUEST_ID Stdin True []\<rparr>)"
proof (induction cs arbitrary: n w)
  case Nil
  have off: "shell_loop L debug message (replicate k StdinReady @ FrameReady # later) xs False v =
      (ShellAnswered (shell_message L debug message), v)" for k xs v
    by (induction k) simp_all
  from Nil obtain k where "n = Suc k" by (cases n) simp_all
  with Nil off calm_forward_stdin [OF L Nil(1,2), of "[]"] show ?case by (simp add: stdin_frames_def)
next
  case (Cons c cs)
  then obtain k where k: "n = Suc k" by (cases n) simp_all
  have fw: "forward_stdin L False c m m' w = (Inr (), w\<lparr>outp := outp w @ stream_bytes REQUEST_ID Stdin False c\<rparr>)" for m m'
    using calm_forward_stdin [OF L Cons.prems(1,2)] Cons.prems(3) by (simp add: chunks_ok_def)
  have "c \<noteq> []" using Cons.prems(4) by auto
  with Cons.IH [of "w\<lparr>outp := outp w @ stream_bytes REQUEST_ID Stdin False c\<rparr>" k] Cons.prems k show ?case
    by (simp add: fw stdin_frames_def chunks_ok_def)
qed

section \<open>The session\<close>

lemma lift_Inr [simp]: "thenE (liftE (Inr u)) m = m" "bindE (liftE (Inr x)) f = f x"
  by (auto simp: thenE_def bindE_def liftE_def fun_eq_iff)

definition frames_bytes :: "(stream_channel \<times> bool \<times> bytes) list \<Rightarrow> bytes" where
  "frames_bytes fs = concat (map (\<lambda>(c, eof, d). stream_bytes REQUEST_ID c eof d) fs)"

definition frames_ok :: "(stream_channel \<times> bool \<times> bytes) list \<Rightarrow> bool" where
  "frames_ok fs \<longleftrightarrow> (\<forall>(c, eof, d) \<in> set fs. (c = Stdout \<or> c = Stderr) \<and> length d \<le> MAX_PAYLOAD_LEN)"

definition shown :: "(stream_channel \<times> bool \<times> bytes) list \<Rightarrow> shell_prints" where
  "shown fs = filter (\<lambda>(c, d). d \<noteq> []) (map (\<lambda>(c, eof, d). (c, d)) fs)"

text \<open>What the daemon sends in a session that ends with a status.\<close>

definition session_bytes ::
  "libs \<Rightarrow> string \<Rightarrow> (stream_channel \<times> bool \<times> bytes) list \<Rightarrow> i32 \<Rightarrow> bytes" where
  "session_bytes L words fs status =
     response_bytes L REQUEST_ID (ShellStarted words) @ frames_bytes fs @ response_bytes L REQUEST_ID (ShellExit status)"

definition session_sendable :: "libs \<Rightarrow> string \<Rightarrow> i32 \<Rightarrow> bool" where
  "session_sendable L words status \<longleftrightarrow> sendable L (ShellStarted words) \<and> sendable L (ShellExit status)"

lemma calm_session:
  assumes json: "json_roundtrip (response_to_vec L) (response_from_slice L)"
    and calm: "sched c = []" and fresh: "outp c = []"
    and size: "(if tty then remote_terminal_size T else Inr (None, None)) = Inr (rows, cols)"
    and req: "req = Shell command args tty (if tty then Some (remote_term T) else None) rows cols" "request_fits L req"
    and send: "session_sendable L words status" and fs: "frames_ok fs"
    and inp: "inp c = session_bytes L words fs status"
  obtains fr where "shell_message L debug (Inr fr) = Inr status"
    "run_shell_session L debug Connected T events seen addr command args tty c =
       with_bufwriter (shell_session_loop L debug T events seen tty (shown fs, Inr fr))
         (c\<lparr>outp := request_bytes L req, inp := []\<rparr>)"
proof -
  let ?rest = "frames_bytes fs @ response_bytes L REQUEST_ID (ShellExit status)"
  let ?c = "c\<lparr>outp := request_bytes L req, inp := ?rest\<rparr>"
  have "read_response L (c\<lparr>outp := request_bytes L req\<rparr>) = (Inr (ShellStarted words), ?c)"
    using calm_read_response [OF _ json, of "c\<lparr>outp := request_bytes L req\<rparr>" "ShellStarted words" REQUEST_ID ?rest]
      calm inp send by (simp add: session_bytes_def session_sendable_def)
  then have opened: "thenE (send_request L m req)
      (bindE (read_response L) (\<lambda>response. thenE (liftE (shell_started debug response)) f)) c = f ?c" for m f
    using calm_send_request [OF calm req(2)] fresh by (simp add: thenE_def bindE_def shell_started_def)
  obtain fr where reader: "shell_reader ?c = ((shown fs, Inr fr), ?c\<lparr>inp := []\<rparr>)"
    and fr: "h_kind (f_header fr) = Response"
      "decode_json (response_from_slice L) fr Response = Inr (ShellExit status)"
    using calm_shell_reader [OF json, of "ShellExit status" ?c fs] calm send fs
    by (auto simp: session_sendable_def frames_ok_def frames_bytes_def shown_def)
  show thesis
  proof (rule that)
    show "shell_message L debug (Inr fr) = Inr status" using fr by (simp add: shell_message_def)
    show "run_shell_session L debug Connected T events seen addr command args tty c =
        with_bufwriter (shell_session_loop L debug T events seen tty (shown fs, Inr fr))
          (c\<lparr>outp := request_bytes L req, inp := []\<rparr>)"
      unfolding run_shell_session_def size
      using reader by (simp add: open_tcp_connection_def opened req(1) [symmetric])
        (simp add: bindE_def run_task_def)
  qed
qed

text \<open>A terminal whose reads are \<open>cs\<close> and then end.\<close>

definition types :: "terminal \<Rightarrow> u16 \<Rightarrow> u16 \<Rightarrow> bytes list \<Rightarrow> bool" where
  "types T rows cols cs \<longleftrightarrow>
     tt_is_terminal T \<and> tt_size T = Inr (cols, rows) \<and> tt_raw_mode T = Inr () \<and>
     tt_reads T = map Inr cs @ [Inr []] \<and> chunks_ok cs \<and> [] \<notin> set cs"

lemma calm_interactive_session:
  assumes L: "bufwriter_spec L" and json: "json_roundtrip (response_to_vec L) (response_from_slice L)"
    and calm: "sched c = []" and fresh: "outp c = []"
    and T: "types T rows cols cs" "length cs < n"
    and req: "req = Shell None [] True (Some (remote_term T)) (Some rows) (Some cols)" "request_fits L req"
    and daemon: "session_sendable L words status" "frames_ok fs" "inp c = session_bytes L words fs status"
  shows "\<exists>c'. run_shell_session L debug Connected T (replicate n StdinReady @ FrameReady # later) seen addr None [] True c =
      (Inr (Some (shown fs, Inr status)), c') \<and>
    outp c' = request_bytes L req @ stdin_frames REQUEST_ID cs @ stream_bytes REQUEST_ID Stdin True []"
proof -
  let ?events = "replicate n StdinReady @ FrameReady # later"
  have size: "(if True then remote_terminal_size T else Inr (None, None)) = Inr (Some rows, Some cols)"
    and r: "req = Shell None [] True (if True then Some (remote_term T) else None) (Some rows) (Some cols)"
    using T(1) req(1) by (simp_all add: types_def remote_terminal_size_def)
  obtain fr where fr: "shell_message L debug (Inr fr) = Inr status"
    "run_shell_session L debug Connected T ?events seen addr None [] True c =
       with_bufwriter (shell_session_loop L debug T ?events seen True (shown fs, Inr fr))
         (c\<lparr>outp := request_bytes L req, inp := []\<rparr>)"
    by (rule calm_session [OF json calm fresh size r req(2) daemon])
  let ?e = "c\<lparr>outp := request_bytes L req, inp := []\<rparr>\<lparr>wbuf := []\<rparr>"
  have "shell_loop L debug (Inr fr) ?events (start_stdin_pump (tt_reads T)) True ?e =
      (ShellAnswered (Inr status), ?e\<lparr>outp := outp ?e @ stdin_frames REQUEST_ID cs @ stream_bytes REQUEST_ID Stdin True []\<rparr>)"
    using calm_shell_loop [OF L, of ?e cs n debug "Inr fr" later] T calm fr(1) by (simp add: types_def)
  with fr(2) T(1) show ?thesis
    by (simp add: types_def bindE_def thenE_def run_task_def with_bufwriter_def shell_session_loop_def
        enable_local_raw_mode_def tryE_def shell_result_def buf_new_def buf_drop_def modifyE_def)
qed

lemma calm_command_session:
  assumes L: "bufwriter_spec L" and json: "json_roundtrip (response_to_vec L) (response_from_slice L)"
    and calm: "sched c = []" and fresh: "outp c = []"
    and req: "req = Shell command args False None None None" "request_fits L req"
    and daemon: "session_sendable L words status" "frames_ok fs" "inp c = session_bytes L words fs status"
  shows "\<exists>c'. run_shell_session L debug Connected T (replicate n StdinReady @ FrameReady # later) seen addr command args False c =
      (Inr (Some (shown fs, Inr status)), c') \<and>
    outp c' = request_bytes L req @ stream_bytes REQUEST_ID Stdin True []"
proof -
  let ?events = "replicate n StdinReady @ FrameReady # later"
  have size: "(if False then remote_terminal_size T else Inr (None, None)) = Inr (None, None)"
    and r: "req = Shell command args False (if False then Some (remote_term T) else None) None None"
    using req(1) by simp_all
  obtain fr where fr: "shell_message L debug (Inr fr) = Inr status"
    "run_shell_session L debug Connected T ?events seen addr command args False c =
       with_bufwriter (shell_session_loop L debug T ?events seen False (shown fs, Inr fr))
         (c\<lparr>outp := request_bytes L req, inp := []\<rparr>)"
    by (rule calm_session [OF json calm fresh size r req(2) daemon])
  let ?e = "c\<lparr>outp := request_bytes L req, inp := []\<rparr>\<lparr>wbuf := []\<rparr>"
  have fw: "forward_stdin L True [] m m' ?e = (Inr (), ?e\<lparr>outp := outp ?e @ stream_bytes REQUEST_ID Stdin True []\<rparr>)" for m m'
    using calm_forward_stdin [OF L, of ?e "[]" True m m'] calm by simp
  have off: "shell_loop L debug message (replicate k StdinReady @ FrameReady # later) xs False v =
      (ShellAnswered (shell_message L debug message), v)" for k xs v message
    by (induction k) simp_all
  from fr fw show ?thesis
    by (simp add: off bindE_def thenE_def run_task_def with_bufwriter_def shell_session_loop_def
        tryE_def shell_result_def buf_new_def buf_drop_def modifyE_def)
qed

end
