(* ===== verification/Shell_Sessions.thy ===== *)
theory Shell_Sessions
  imports Cli_Shell_Facts Daemon_Facts
begin

text \<open>
  A shell session of the client and the daemon's shell together, each reading what the other
  wrote: over a PTY for an interactive shell, over pipes for a command.
\<close>

section \<open>The daemon's side of a session\<close>

definition pty_session_frames :: "bytes list \<Rightarrow> (stream_channel \<times> bool \<times> bytes) list" where
  "pty_session_frames ds = map (\<lambda>d. (Stdout, False, d)) ds @ [(Stdout, True, [])]"

lemma pty_session_bytes: "pty_frames REQUEST_ID ds = frames_bytes (pty_session_frames ds)"
  by (simp add: pty_frames_def frames_bytes_def pty_session_frames_def comp_def)

lemma pty_session_shown: "[] \<notin> set ds \<Longrightarrow> shown (pty_session_frames ds) = map (Pair Stdout) ds"
  by (induction ds) (auto simp: shown_def pty_session_frames_def)

lemma pty_reads_nonempty: "pty_reads rs = Some ds \<Longrightarrow> [] \<notin> set ds"
  by (induction rs arbitrary: ds rule: pty_reads.induct) (auto split: if_splits)

lemma request_dispatched:
  assumes json: "json_roundtrip (request_to_vec L) (request_from_slice L)" and calm: "sched d = []"
    and fits: "request_fits L req" and inp: "inp d = request_bytes L req @ rest"
  shows "handle_connection L P st True d = handle_request L P REQUEST_ID req st (d\<lparr>inp := rest\<rparr>)"
  using fits
proof (rule request_fitsE)
  fix p
  assume "request_to_vec L req = Inr p" "length p \<le> MAX_PAYLOAD_LEN"
    "request_bytes L req = frame_bytes Request 0 REQUEST_ID p"
  with inp show ?thesis using connection_request [OF calm json, of req p REQUEST_ID rest] by simp
qed

lemma pty_connection:
  assumes L: "bufwriter_spec L" and json: "json_roundtrip (request_to_vec L) (request_from_slice L)"
    and calm: "sched d = []" and fresh: "outp d = []" and cs: "chunks_ok cs"
    and req: "req = Shell None [] True trm rows cols" "request_fits L req"
    and spawn: "\<And>w. sched w = [] \<Longrightarrow>
      spawn_pty_shell P None [] trm rows cols (shell_path st) (home_path st) w = (Inr (words, child), w)"
    and inp: "inp d = request_bytes L req @ stdin_frames REQUEST_ID cs @ stream_bytes REQUEST_ID Stdin True []"
    and run: "handle_connection L P st True d = (Inr (Some ()), d')"
  shows "\<exists>ds code. pty_reads (fst (child (concat cs))) = Some ds \<and>
    session_sendable L words (status_code code) \<and> frames_ok (pty_session_frames ds) \<and>
    outp d' = session_bytes L words (pty_session_frames ds) (status_code code)"
proof -
  let ?d = "d\<lparr>inp := stdin_frames REQUEST_ID cs @ stream_bytes REQUEST_ID Stdin True []\<rparr>"
  have pty: "handle_pty_shell L P REQUEST_ID None [] trm rows cols st ?d = (Inr (Some ()), d')"
    using request_dispatched [OF json calm req(2) inp, of P st] run
    by (simp add: req(1) handle_request_def handle_shell_def)
  from pty_shell_run [OF L spawn pty] calm fresh obtain w1 inputs err w2 fed w3 ds code where
    w1: "inp w1 = inp ?d" "sched w1 = []" and task: "pty_stdin_task REQUEST_ID [] w1 = ((inputs, err), w2)"
    and pump: "pty_input_pump inputs [] w2 = (fed, w3)" and ds: "pty_reads (fst (child fed)) = Some ds"
      "\<forall>d \<in> set ds. length d \<le> MAX_PAYLOAD_LEN"
    and send: "session_sendable L words (status_code code)"
    and out: "outp d' = session_bytes L words (pty_session_frames ds) (status_code code)"
    by (auto simp: session_sendable_def session_bytes_def pty_session_bytes)
  have "chunks_ok (cs @ [[]])" using cs by (simp add: chunks_ok_def)
  from shell_stdin_exact [OF w1(2) this, of REQUEST_ID "[]"] w1(1) task pump have "fed = concat cs" by auto
  with ds send out show ?thesis
    by (intro exI [of _ ds] exI [of _ code]) (auto simp: frames_ok_def pty_session_frames_def)
qed

definition pipe_session_frames :: "(stream_channel \<times> bytes) list \<Rightarrow> (stream_channel \<times> bool \<times> bytes) list" where
  "pipe_session_frames fs = map (\<lambda>(c, d). (c, d = [], d)) fs"

lemma pipe_session_bytes: "relay_bytes REQUEST_ID fs = frames_bytes (pipe_session_frames fs)"
  by (simp add: relay_bytes_def frames_bytes_def pipe_session_frames_def split_def comp_def)

lemma pipe_session_shown: "channel c (shown (pipe_session_frames fs)) = filter (\<lambda>d. d \<noteq> []) (channel c fs)"
  by (induction fs) (auto simp: channel_def shown_def pipe_session_frames_def)

lemma frames_ok_relay:
  assumes "relay_inv t" and "\<forall>d \<in> set (channel Stdout (relayed t)) \<union> set (channel Stderr (relayed t)). length d \<le> MAX_PAYLOAD_LEN"
  shows "frames_ok (pipe_session_frames (relayed t))"
proof -
  have "(k = Stdout \<or> k = Stderr) \<and> length x \<le> MAX_PAYLOAD_LEN" if x: "(k, x) \<in> set (relayed t)" for k x
  proof -
    from x assms(1) have k: "k = Stdout \<or> k = Stderr" by (force simp: relay_inv_def)
    with x have "x \<in> set (channel Stdout (relayed t)) \<union> set (channel Stderr (relayed t))"
      by (force simp: channel_def)
    with k assms(2) show ?thesis by blast
  qed
  then show ?thesis by (auto simp: frames_ok_def pipe_session_frames_def)
qed

lemma pipe_connection:
  assumes L: "bufwriter_spec L" and json: "json_roundtrip (request_to_vec L) (request_from_slice L)"
    and calm: "sched d = []" and fresh: "outp d = []"
    and req: "req = Shell command args False None None None" "request_fits L req"
    and spawn: "\<And>w. sched w = [] \<Longrightarrow>
      spawn_pipe_shell P command args (shell_path st) (home_path st) w = (Inr (words, child), w)"
    and small: "\<forall>d \<in> set (reads_of Stdout (child [])) \<union> set (reads_of Stderr (child [])). length d \<le> MAX_PAYLOAD_LEN"
    and inp: "inp d = request_bytes L req @ stream_bytes REQUEST_ID Stdin True []"
    and run: "handle_connection L P st True d = (Inr (Some ()), d')"
  shows "\<exists>fs code. exit_of (child []) = Some code \<and>
    channel Stdout fs = upto_end (reads_of Stdout (child [])) \<and>
    channel Stderr fs = upto_end (reads_of Stderr (child [])) \<and>
    session_sendable L words (status_code code) \<and> frames_ok (pipe_session_frames fs) \<and>
    outp d' = session_bytes L words (pipe_session_frames fs) (status_code code)"
proof -
  let ?d = "d\<lparr>inp := stream_bytes REQUEST_ID Stdin True []\<rparr>"
  have pipe: "handle_pipe_shell L P REQUEST_ID command args st ?d = (Inr (Some ()), d')"
    using request_dispatched [OF json calm req(2) inp, of P st] run
    by (simp add: req(1) handle_request_def handle_shell_def)
  have "sched ?d = []" using calm by simp
  from pipe_shell_run [OF L spawn [OF this] pipe] calm fresh obtain w1 fed err seen rest t final where
    w1: "inp w1 = inp ?d" "sched w1 = []" and task: "fst (pipe_stdin_task REQUEST_ID [] w1) = (fed, err)"
    and split: "child fed = seen @ rest" and t: "relay_run relay_init seen t"
    and ends: "if running t then \<exists>e. err = Some e \<and> final = ErrorResponse ExecFailed (anyhow_display (anyhow_protocol e))
      else (\<exists>code. exited t = Some code \<and> final = ShellExit (status_code code))"
    and send: "sendable L (ShellStarted words)" "running t \<or> sendable L final"
    and out: "outp d' = response_bytes L REQUEST_ID (ShellStarted words) @ relay_bytes REQUEST_ID (relayed t)
      @ response_bytes L REQUEST_ID final"
    by auto
  have "chunks_ok ([] @ [[]])" by (simp add: chunks_ok_def)
  from shell_stdin_exact [OF w1(2) this, of REQUEST_ID "[]"] w1(1) task have fed: "fed = []" "err = None"
    by (simp_all add: stdin_frames_def)
  with ends obtain code where t_end: "\<not> running t" "exited t = Some code" and final: "final = ShellExit (status_code code)"
    by (auto split: if_splits)
  have whole: "child [] = seen @ rest" using split fed by simp
  have closed: "[] \<in> set (reads_of Stdout seen)" "[] \<in> set (reads_of Stderr seen)"
    using relay_run_closed [OF t] t_end(1) by (simp_all add: relay_init_def running_def)
  have chans: "channel Stdout (relayed t) = upto_end (reads_of Stdout (child []))"
    "channel Stderr (relayed t) = upto_end (reads_of Stderr (child []))"
    using relay_run_content [OF t] closed unfolding whole by (simp_all add: relay_init_def upto_end_append)
  have "exit_of seen = Some code" using relay_run_exit [OF t] t_end(2) by (simp add: relay_init_def)
  then have code: "exit_of (child []) = Some code" unfolding whole by (rule exit_of_append)
  have "frames_ok (pipe_session_frames (relayed t))"
    using relay_run_inv [OF t relay_init_inv] chans small upto_end_subset by (intro frames_ok_relay) fastforce+
  with chans code send t_end(1) final out show ?thesis
    by (intro exI [of _ "relayed t"] exI [of _ code]) (simp add: session_sendable_def session_bytes_def pipe_session_bytes)
qed

section \<open>Both sides\<close>


text \<open>
  C20: \<open>rsdb shell -- command\<close> is transparent. When the daemon's shell over pipes ends, with the
  daemon reading what the client wrote and the client what the daemon wrote, then the child had an
  empty standard input, the client prints the child's standard output and standard error, each
  complete and in order up to its end, and its result is the child's exit status.
\<close>
theorem command_shell_transparent:
  assumes L: "bufwriter_spec L"
    and json: "json_roundtrip (request_to_vec L) (request_from_slice L)"
      "json_roundtrip (response_to_vec L) (response_from_slice L)"
    and calm: "sched c = []" "sched d = []" and fresh: "outp c = []" "outp d = []"
    and req: "req = Shell (Some command) args False None None None" "request_fits L req"
    and spawn: "\<And>w. sched w = [] \<Longrightarrow>
      spawn_pipe_shell P (Some command) args (shell_path st) (home_path st) w = (Inr (words, child), w)"
    and small: "\<forall>d \<in> set (reads_of Stdout (child [])) \<union> set (reads_of Stderr (child [])). length d \<le> MAX_PAYLOAD_LEN"
    and daemon: "inp d = request_bytes L req @ stream_bytes REQUEST_ID Stdin True []"
      "handle_connection L P st True d = (Inr (Some ()), d')"
    and client: "inp c = outp d'"
  shows "\<exists>prints code c'. exit_of (child []) = Some code \<and>
    channel Stdout prints = filter (\<lambda>d. d \<noteq> []) (upto_end (reads_of Stdout (child []))) \<and>
    channel Stderr prints = filter (\<lambda>d. d \<noteq> []) (upto_end (reads_of Stderr (child []))) \<and>
    run_shell_session L debug Connected T (replicate n StdinReady @ FrameReady # later) seen addr (Some command) args False c =
      (Inr (Some (prints, Inr (status_code code))), c') \<and>
    outp c' = inp d"
proof -
  from pipe_connection [OF L json(1) calm(2) fresh(2) req spawn small daemon] client obtain fs code where
    fs: "exit_of (child []) = Some code" "channel Stdout fs = upto_end (reads_of Stdout (child []))"
      "channel Stderr fs = upto_end (reads_of Stderr (child []))"
    and server: "session_sendable L words (status_code code)" "frames_ok (pipe_session_frames fs)"
      "inp c = session_bytes L words (pipe_session_frames fs) (status_code code)"
    by auto
  from calm_command_session [OF L json(2) calm(1) fresh(1) req server] fs daemon(1) show ?thesis
    by (intro exI [of _ "shown (pipe_session_frames fs)"] exI [of _ code]) (auto simp: pipe_session_shown)
qed

section \<open>Concrete sessions\<close>

definition sample_terminal :: terminal where
  "sample_terminal = \<lparr>tt_is_terminal = True, tt_size = Inr (80, 24), tt_raw_mode = Inr (),
     tt_reads = [Inr [1, 2], Inr [3], Inr []], tt_term = None\<rparr>"

lemma sample_types: "types sample_terminal 24 80 [[1, 2], [3]]"
  by (simp add: types_def sample_terminal_def chunks_ok_def MAX_PAYLOAD_LEN_def)

text \<open>Libraries for one request and the responses of a session that ends with \<open>status\<close>.\<close>

definition shell_libs :: "control_request \<Rightarrow> string \<Rightarrow> i32 \<Rightarrow> libs" where
  "shell_libs req words status = sample_libs\<lparr>
     request_to_vec := (\<lambda>m. if m = req then Inr [1] else Inl []),
     request_from_slice := (\<lambda>_. Inr req),
     response_to_vec := (\<lambda>m. if m = ShellStarted words then Inr [2]
       else if m = ShellExit status then Inr [3] else Inl []),
     response_from_slice := (\<lambda>bs. if bs = [2] then Inr (ShellStarted words) else Inr (ShellExit status))\<rparr>"

lemma shell_libs_facts:
  "bufwriter_spec (shell_libs req words status)"
  "json_roundtrip (request_to_vec (shell_libs req words status)) (request_from_slice (shell_libs req words status))"
  "json_roundtrip (response_to_vec (shell_libs req words status)) (response_from_slice (shell_libs req words status))"
  "request_fits (shell_libs req words status) req"
  using sample_bufwriter
  by (auto simp: shell_libs_def json_roundtrip_def request_fits_def bufwriter_spec_def MAX_PAYLOAD_LEN_def
      split: if_splits)

definition pty_request :: control_request where
  "pty_request = Shell None [] True (Some (remote_term sample_terminal)) (Some 24) (Some 80)"

definition pty_libs :: libs where
  "pty_libs = shell_libs pty_request ''/bin/sh -l -i'' (-1)"

definition pty_daemon :: world where
  "pty_daemon = world_of [] (request_bytes pty_libs pty_request
     @ stdin_frames REQUEST_ID [[1, 2], [3]] @ stream_bytes REQUEST_ID Stdin True [])"

lemma pty_daemon_run: "fst (handle_connection pty_libs sample_procs sample_state True pty_daemon) = Inr (Some ())"
  by code_simp


definition pipe_request :: control_request where
  "pipe_request = Shell (Some ''ls'') [''-a''] False None None None"

definition pipe_libs :: libs where
  "pipe_libs = shell_libs pipe_request ''/bin/sh -lc ls -a'' 3"

definition pipe_daemon :: world where
  "pipe_daemon = world_of [] (request_bytes pipe_libs pipe_request @ stream_bytes REQUEST_ID Stdin True [])"

lemma pipe_daemon_run: "fst (handle_connection pipe_libs sample_procs sample_state True pipe_daemon) = Inr (Some ())"
  by code_simp

theorem command_shell_transparent_witness:
  "\<exists>c prints c'. channel Stdout prints = [[104]] \<and> channel Stderr prints = [] \<and>
    run_shell_session pipe_libs (\<lambda>_. []) Connected sample_terminal [FrameReady] 0 ''h:1'' (Some ''ls'') [''-a''] False c =
      (Inr (Some (prints, Inr 3)), c') \<and> outp c' = inp pipe_daemon"
proof -
  obtain d' where run: "handle_connection pipe_libs sample_procs sample_state True pipe_daemon = (Inr (Some ()), d')"
    using run_pair [OF pipe_daemon_run] ..
  have words: "shell_command_line (Some ''ls'') [''-a''] ''/bin/sh'' =
      Inr (''/bin/sh -lc ls -a'', ''/bin/sh'', [''-lc'', ''ls -a''])" by code_simp
  have spawn: "spawn_pipe_shell sample_procs (Some ''ls'') [''-a''] (shell_path sample_state) (home_path sample_state) w =
      (Inr (''/bin/sh -lc ls -a'', echo_events), w)" if "sched w = []" for w
    using words by (simp add: spawn_pipe_shell_def sample_procs_def sample_state_def bindE_def ctx_def map_errE_def)
  let ?c = "sample_world\<lparr>inp := outp d'\<rparr>"
  have w: "sched ?c = []" "sched pipe_daemon = []" "outp ?c = []" "outp pipe_daemon = []" "inp ?c = outp d'"
    "inp pipe_daemon = request_bytes pipe_libs pipe_request @ stream_bytes REQUEST_ID Stdin True []"
    by (simp_all add: sample_world_def world_of_def pipe_daemon_def)
  have small: "\<forall>d \<in> set (reads_of Stdout (echo_events [])) \<union> set (reads_of Stderr (echo_events [])). length d \<le> MAX_PAYLOAD_LEN"
    by (simp add: echo_events_def MAX_PAYLOAD_LEN_def)
  note L = shell_libs_facts [of pipe_request "''/bin/sh -lc ls -a''" 3, folded pipe_libs_def]
  from command_shell_transparent [OF L(1,2,3) w(1-4) pipe_request_def L(4) spawn small w(6) run w(5),
      of "\<lambda>_. []" sample_terminal 0 "[]" 0 "''h:1''"]
  show ?thesis by (auto simp: echo_events_def status_code_def)
qed

end
