(* ===== verification/Cli_Agent_Transfer.thy ===== *)
theory Cli_Agent_Transfer
  imports Cli_Agent
begin

text \<open>
  The transfer commands of the agent interface (\<open>crates/rsdb-cli/src/main.rs\<close>): the state of a
  remote tree, the staged atomic push, the verification of pushes and pulls, and the commands
  around them. These make several connections one after the other, so their state is a \<open>session\<close>:
  the client's host, what the connections to come are like (how connecting ends and what the
  daemon sends), and what has been written on each connection so far. The clock readings that
  name staged paths are the argument \<open>nonce\<close>.
\<close>

section \<open>Several connections\<close>

record session =
  host :: world
  peers :: "(connecting \<times> bytes) list"
  sent :: "bytes list"

type_synonym 'a remote = "(session, agent_command_failure, 'a) act"

text \<open>When no connection is to come, nobody answers.\<close>

definition next_peer :: "session \<Rightarrow> connecting \<times> bytes" where
  "next_peer s = (case peers s of [] \<Rightarrow> (ConnectTimedOut, []) | p # _ \<Rightarrow> p)"

definition on_connection :: "(connecting \<Rightarrow> (world, 'e, 'a) act) \<Rightarrow> (session, 'e, 'a) act" where
  "on_connection f s =
     (case next_peer s of (outcome, reply) \<Rightarrow>
      case f outcome ((host s)\<lparr>inp := reply, outp := []\<rparr>) of (r, w) \<Rightarrow>
        (r, \<lparr>host = w\<lparr>inp := [], outp := []\<rparr>, peers = tl (peers s), sent = sent s @ [outp w]\<rparr>))"

text \<open>What a command does on its own host.\<close>

definition on_host :: "(world, 'e, 'a) act \<Rightarrow> (session, 'e, 'a) act" where
  "on_host m s = (case m (host s) of (r, w) \<Rightarrow> (r, s\<lparr>host := w\<rparr>))"

section \<open>Requests of the daemon\<close>

definition remote_fs_stat_request ::
  "libs \<Rightarrow> (control_response \<Rightarrow> string) \<Rightarrow> string \<Rightarrow> string \<Rightarrow> hash_algorithm option \<Rightarrow> agent_fs_stat remote" where
  "remote_fs_stat_request L debug target path hash = on_connection (\<lambda>outcome.
     bindE (agent_request L outcome ''fs.stat'' target (FsStat path hash)
              (json_object [(''path'', JString path)])) (\<lambda>response.
     case response of RFsStat stat \<Rightarrow> retE stat | other \<Rightarrow> failE (unexpected_response debug other)))"

definition remote_fs_list_request ::
  "libs \<Rightarrow> (control_response \<Rightarrow> string) \<Rightarrow> string \<Rightarrow> string \<Rightarrow> hash_algorithm option \<Rightarrow>
   agent_fs_list_entry list remote" where
  "remote_fs_list_request L debug target path hash = on_connection (\<lambda>outcome.
     bindE (agent_request L outcome ''fs.list'' target (FsList path True None True hash)
              (json_object [(''path'', JString path)])) (\<lambda>response.
     case response of RFsList entries \<Rightarrow> retE entries | other \<Rightarrow> failE (unexpected_response debug other)))"

definition remote_fs_move_request ::
  "libs \<Rightarrow> (control_response \<Rightarrow> string) \<Rightarrow> string \<Rightarrow> string \<Rightarrow> string \<Rightarrow> bool \<Rightarrow> unit remote" where
  "remote_fs_move_request L debug target source destination overwrite = on_connection (\<lambda>outcome.
     bindE (agent_request L outcome ''fs.move'' target (FsMove source destination overwrite)
              (json_object [(''source'', JString source), (''destination'', JString destination)])) (\<lambda>response.
     case response of FsMoveResult _ \<Rightarrow> retE () | other \<Rightarrow> failE (unexpected_response debug other)))"

definition cleanup_remote_path ::
  "libs \<Rightarrow> (control_response \<Rightarrow> string) \<Rightarrow> string \<Rightarrow> string \<Rightarrow> unit remote" where
  "cleanup_remote_path L debug target path = on_connection (\<lambda>outcome.
     bindE (agent_request L outcome ''fs.rm'' target (FsRm path True True True)
              (json_object [(''path'', JString path)])) (\<lambda>response.
     case response of FsRmResult _ \<Rightarrow> retE () | other \<Rightarrow> failE (unexpected_response debug other)))"

section \<open>The state of a remote tree\<close>

definition transfer_state_from_stat :: "agent_fs_stat \<Rightarrow> agent_command_failure + transfer_path_state" where
  "transfer_state_from_stat stat =
     (case st_kind stat of
        None \<Rightarrow> Inl (internal_agent_failure
          (anyhow_msg (''fs.stat returned no kind for existing path '' @ st_path stat)))
      | Some kind \<Rightarrow>
          Inr \<lparr>ts_kind = kind,
               ts_size = (if kind = FkFile then Some (case st_size stat of Some n \<Rightarrow> n | None \<Rightarrow> 0) else None),
               ts_sha256 = st_sha256 stat\<rparr>)"

definition transfer_state_from_entry :: "agent_fs_list_entry \<Rightarrow> transfer_path_state" where
  "transfer_state_from_entry entry =
     \<lparr>ts_kind = le_kind entry, ts_size = (if le_kind entry = FkFile then Some (le_size entry) else None),
      ts_sha256 = le_sha256 entry\<rparr>"

primrec insert_remote_entries ::
  "string \<Rightarrow> agent_fs_list_entry list \<Rightarrow> transfer_states \<Rightarrow> agent_command_failure + transfer_states" where
  "insert_remote_entries root [] state = Inr state"
| "insert_remote_entries root (entry # entries) state =
     (case relative_transfer_path root (le_path entry) of
        Inl e \<Rightarrow> Inl (internal_agent_failure e)
      | Inr relative \<Rightarrow>
          insert_remote_entries root entries (btree_insert relative (transfer_state_from_entry entry) state))"

definition collect_remote_transfer_state ::
  "libs \<Rightarrow> (control_response \<Rightarrow> string) \<Rightarrow> string \<Rightarrow> string \<Rightarrow> bool \<Rightarrow> transfer_states option remote" where
  "collect_remote_transfer_state L debug target root include_hash =
     (let hash = (if include_hash then Some Sha256 else None)
      in bindE (remote_fs_stat_request L debug target (display root) hash) (\<lambda>stat.
         if \<not> st_exists stat then retE None
         else
           bindE (liftE (transfer_state_from_stat stat)) (\<lambda>root_state.
           if st_kind stat = Some FkDirectory then
             bindE (remote_fs_list_request L debug target (display root) hash) (\<lambda>entries.
             bindE (liftE (insert_remote_entries root entries (btree_insert [] root_state []))) (\<lambda>state.
             retE (Some state)))
           else retE (Some (btree_insert [] root_state [])))))"

definition resolve_remote_batch_roots ::
  "libs \<Rightarrow> (control_response \<Rightarrow> string) \<Rightarrow> string \<Rightarrow> string \<Rightarrow> transfer_root list \<Rightarrow> string list remote" where
  "resolve_remote_batch_roots L debug target destination roots =
     thenE (liftE (case cli_ensure_unique_root_names roots of
                     Inl e \<Rightarrow> Inl (internal_agent_failure e) | Inr u \<Rightarrow> Inr u))
    (bindE (remote_fs_stat_request L debug target destination None) (\<lambda>destination_stat.
     if length roots = 1 then
       let treat_as_directory =
             st_exists destination_stat \<and> st_kind destination_stat = Some FkDirectory
             \<or> ends_with destination ''/''
       in retE [if treat_as_directory then path_join destination (tr_source_name (hd roots)) else destination]
     else if st_exists destination_stat \<and> st_kind destination_stat \<noteq> Some FkDirectory then
       failE (invalid_request_failure (''remote destination is not a directory: '' @ destination) (Some target)
         (json_object [(''destination'', JString destination)]))
     else retE (map (\<lambda>root. path_join destination (tr_source_name root)) roots)))"

primrec resolve_sha256_pull_sources ::
  "libs \<Rightarrow> (control_response \<Rightarrow> string) \<Rightarrow> string \<Rightarrow> string list \<Rightarrow> string list remote" where
  "resolve_sha256_pull_sources L debug target [] = retE []"
| "resolve_sha256_pull_sources L debug target (source # rest) =
     bindE (remote_fs_stat_request L debug target source None) (\<lambda>stat.
     if \<not> st_exists stat \<and> cli_has_glob_pattern source then
       failE (invalid_request_failure
         (''sha256 verification requires literal remote sources; wildcard source `'' @ source
          @ ''` is ambiguous'') (Some target) (json_object [(''source'', JString source)]))
     else
       bindE (resolve_sha256_pull_sources L debug target rest) (\<lambda>concrete. retE (source # concrete)))"

section \<open>Push\<close>

datatype transfer_verify_mode = VerifySize | VerifySha256

fun transfer_verify_name :: "transfer_verify_mode \<Rightarrow> string" where
  "transfer_verify_name VerifySize = ''size''"
| "transfer_verify_name VerifySha256 = ''sha256''"

definition verify_uses_hash :: "transfer_verify_mode \<Rightarrow> bool" where
  "verify_uses_hash mode \<longleftrightarrow> mode = VerifySha256"

definition transfer_verification_failure :: "string \<Rightarrow> string \<Rightarrow> json \<Rightarrow> agent_command_failure" where
  "transfer_verification_failure target message details =
     \<lparr>af_code = ''transfer.verification_failed'', af_message = message, af_target = Some target,
      af_retryable = False, af_details = details, af_exit_code = 1\<rparr>"

definition staged_remote_transfer_path :: "nat \<Rightarrow> string \<Rightarrow> nat \<Rightarrow> string" where
  "staged_remote_transfer_path nonce final_root index =
     (let parent = (case parent_path final_root of Some p \<Rightarrow> if p \<noteq> [] then p else ''.'' | None \<Rightarrow> ''.'');
          name = (case file_name final_root of
                    Some n \<Rightarrow> if is_utf8 n then n else ''rsdb-transfer'' | None \<Rightarrow> ''rsdb-transfer'')
      in path_join parent (''.'' @ name @ ''.rsdb-transfer-'' @ show_nat nonce @ ''-'' @ show_nat index))"

definition path_details :: "string \<Rightarrow> string \<Rightarrow> (string \<times> json) list" where
  "path_details source destination =
     [(''source'', JString (display source)), (''destination'', JString (display destination))]"

definition push_details ::
  "string list \<Rightarrow> string \<Rightarrow> transfer_verify_mode option \<Rightarrow> bool \<Rightarrow> bool \<Rightarrow> json" where
  "push_details source_specs destination verify atomic if_changed =
     json_object [(''sources'', JArray (map JString source_specs)), (''destination'', JString destination),
       (''verify'', json_option (\<lambda>m. JString (transfer_verify_name m)) verify),
       (''atomic'', JBool atomic), (''if_changed'', JBool if_changed)]"

definition local_state :: "libs \<Rightarrow> string \<Rightarrow> bool \<Rightarrow> string \<Rightarrow> string \<Rightarrow> transfer_states remote" where
  "local_state L target include_hash source remote_root =
     map_errE (\<lambda>err. map_operation_error ''transfer.push'' (Some target) err
                 (json_object (path_details source remote_root)))
       (on_host (collect_local_transfer_state L include_hash source))"

text \<open>The verification after a push: every remote root must hold what is at its source.\<close>

primrec verify_pushed_roots ::
  "libs \<Rightarrow> (control_response \<Rightarrow> string) \<Rightarrow> string \<Rightarrow> transfer_verify_mode \<Rightarrow> (string \<times> string) list \<Rightarrow>
   unit remote" where
  "verify_pushed_roots L debug target mode [] = retE ()"
| "verify_pushed_roots L debug target mode (pair # rest) =
     (case pair of (source, remote_root) \<Rightarrow>
        bindE (local_state L target (verify_uses_hash mode) source remote_root) (\<lambda>local.
        bindE (collect_remote_transfer_state L debug target remote_root (verify_uses_hash mode)) (\<lambda>remote.
        if \<not> (case remote of None \<Rightarrow> False | Some r \<Rightarrow> transfer_states_match local r) then
          failE (transfer_verification_failure target
            (''remote destination does not match pushed content: '' @ display remote_root)
            (json_object (path_details source remote_root
               @ [(''verification'', JString (transfer_verify_name mode))])))
        else verify_pushed_roots L debug target mode rest)))"

definition verify_push ::
  "libs \<Rightarrow> (control_response \<Rightarrow> string) \<Rightarrow> string \<Rightarrow> transfer_verify_mode option \<Rightarrow> (string \<times> string) list \<Rightarrow>
   unit remote" where
  "verify_push L debug target verify pairs =
     (case verify of None \<Rightarrow> retE () | Some mode \<Rightarrow> verify_pushed_roots L debug target mode pairs)"

text \<open>One root of a staged push: to a path beside its destination, and then renamed onto it.\<close>

definition push_staged_root ::
  "libs \<Rightarrow> (control_response \<Rightarrow> string) \<Rightarrow> string \<Rightarrow> local_batch_manifest \<Rightarrow> nat \<Rightarrow> nat \<Rightarrow> string \<Rightarrow> string \<Rightarrow>
   push_summary remote" where
  "push_staged_root L debug target manifest nonce index source remote_root =
     (let temp_root = display (staged_remote_transfer_path nonce remote_root index);
          final_root = display remote_root;
          fail = (\<lambda>err. map_operation_error ''transfer.push'' (Some target) err
                    (json_object (path_details source remote_root)))
      in bindE (map_errE fail (liftE (filter_local_batch_manifest manifest [word_of_nat index])))
           (\<lambda>single_manifest.
         bindE (tryE (on_connection (\<lambda>outcome.
                  execute_push_manifest L debug outcome target single_manifest temp_root))) (\<lambda>push_result.
         case push_result of
           Inl err \<Rightarrow>
             bindE (tryE (cleanup_remote_path L debug target temp_root)) (\<lambda>_.
             failE (fail err))
         | Inr summary \<Rightarrow>
             bindE (tryE (remote_fs_move_request L debug target temp_root final_root True)) (\<lambda>moved.
             case moved of
               Inl err \<Rightarrow>
                 bindE (tryE (cleanup_remote_path L debug target temp_root)) (\<lambda>_. failE err)
             | Inr _ \<Rightarrow> retE summary))))"

text \<open>The roots one after the other; with \<open>if_changed\<close> a root that already matches is passed over.\<close>

primrec push_staged_roots ::
  "libs \<Rightarrow> (control_response \<Rightarrow> string) \<Rightarrow> string \<Rightarrow> local_batch_manifest \<Rightarrow> (nat \<Rightarrow> nat) \<Rightarrow> bool \<Rightarrow>
   (nat \<times> string \<times> string) list \<Rightarrow> nat \<times> nat \<times> nat \<Rightarrow> (nat \<times> nat \<times> nat) remote" where
  "push_staged_roots L debug target manifest nonce if_changed [] counts = retE counts"
| "push_staged_roots L debug target manifest nonce if_changed (item # rest) counts =
     (case item of (index, source, remote_root) \<Rightarrow>
        bindE (if if_changed then
                 bindE (local_state L target True source remote_root) (\<lambda>local.
                 bindE (collect_remote_transfer_state L debug target remote_root True) (\<lambda>remote.
                 retE (case remote of None \<Rightarrow> False | Some r \<Rightarrow> transfer_states_match local r)))
               else retE False) (\<lambda>unchanged.
        if unchanged then push_staged_roots L debug target manifest nonce if_changed rest counts
        else
          bindE (push_staged_root L debug target manifest (nonce index) index source remote_root) (\<lambda>summary.
          case counts of (entries_written, bytes_written, changed_roots) \<Rightarrow>
            push_staged_roots L debug target manifest nonce if_changed rest
              (entries_written + ps_entries_written summary,
               bytes_written + ps_bytes_written summary, changed_roots + 1))))"

definition run_agent_transfer_push ::
  "libs \<Rightarrow> (control_response \<Rightarrow> string) \<Rightarrow> (nat \<Rightarrow> nat) \<Rightarrow> string \<Rightarrow> string list \<Rightarrow> string \<Rightarrow>
   transfer_verify_mode option \<Rightarrow> bool \<Rightarrow> bool \<Rightarrow> push_summary remote" where
  "run_agent_transfer_push L debug nonce target source_specs destination verify atomic if_changed =
     (let fail = (\<lambda>err. map_operation_error ''transfer.push'' (Some target) err
                    (push_details source_specs destination verify atomic if_changed));
          summary = (\<lambda>entries bytes skipped.
            \<lparr>ps_entries_written = entries, ps_bytes_written = bytes, ps_skipped = skipped,
             ps_verification = map_option transfer_verify_name verify, ps_verified = (verify \<noteq> None)\<rparr>)
      in bindE (map_errE fail (on_host (build_local_batch_manifest L source_specs))) (\<lambda>manifest.
         bindE (resolve_remote_batch_roots L debug target destination (lm_roots manifest)) (\<lambda>final_roots.
         let pairs = zip (lm_sources manifest) final_roots
         in if \<not> atomic \<and> \<not> if_changed then
              bindE (map_errE fail (on_connection (\<lambda>outcome.
                       execute_push_manifest L debug outcome target manifest destination))) (\<lambda>s.
              thenE (verify_push L debug target verify pairs)
                (retE (summary (ps_entries_written s) (ps_bytes_written s) False)))
            else
              bindE (push_staged_roots L debug target manifest nonce if_changed
                       (zip [0..<length pairs] pairs) (0, 0, 0)) (\<lambda>(entries, bytes, changed_roots).
              thenE (verify_push L debug target verify pairs)
                (retE (summary entries bytes (if_changed \<and> changed_roots = 0)))))))"

section \<open>Pull\<close>

text \<open>The sources and the destination as the failures of a verification name them.\<close>

definition pull_details :: "string list \<Rightarrow> string \<Rightarrow> (string \<times> json) list" where
  "pull_details source_specs destination =
     [(''sources'', JArray (map JString source_specs)), (''destination'', JString destination)]"

primrec verify_pulled_roots ::
  "libs \<Rightarrow> (control_response \<Rightarrow> string) \<Rightarrow> string \<Rightarrow> (string \<times> string) list \<Rightarrow> unit remote" where
  "verify_pulled_roots L debug target [] = retE ()"
| "verify_pulled_roots L debug target (pair # rest) =
     (case pair of (remote_root, local_root) \<Rightarrow>
        let fail = (\<lambda>message. transfer_verification_failure target message
              (json_object (path_details remote_root local_root
                 @ [(''verification'', JString (transfer_verify_name VerifySha256))])))
        in bindE (collect_remote_transfer_state L debug target remote_root True) (\<lambda>expected.
           case expected of
             None \<Rightarrow> failE (fail (''remote source disappeared during verification: '' @ display remote_root))
           | Some expected_state \<Rightarrow>
               bindE (map_errE (\<lambda>err. fail (anyhow_display err))
                        (on_host (collect_local_transfer_state L True local_root))) (\<lambda>actual.
               if \<not> transfer_states_match expected_state actual then
                 failE (fail (''local destination does not match remote source: '' @ display remote_root))
               else verify_pulled_roots L debug target rest)))"

definition verify_pull ::
  "libs \<Rightarrow> (control_response \<Rightarrow> string) \<Rightarrow> string \<Rightarrow> string list \<Rightarrow> string \<Rightarrow> string list option \<Rightarrow>
   pull_summary \<Rightarrow> transfer_verify_mode \<Rightarrow> unit remote" where
  "verify_pull L debug target source_specs destination remote_verify_roots summary mode =
     (let fail = (\<lambda>message. transfer_verification_failure target message
            (json_object (pull_details source_specs destination
               @ [(''verification'', JString (transfer_verify_name mode))])))
      in case mode of
           VerifySize \<Rightarrow>
             map_errE (\<lambda>err. fail (anyhow_display err))
               (on_host (verify_local_pull_against_manifest L destination destination (pl_roots summary)
                  (pl_entries summary)))
         | VerifySha256 \<Rightarrow>
             (case remote_verify_roots of
                None \<Rightarrow> failE (internal_agent_failure (anyhow_msg ''missing remote verify roots''))
              | Some remote_roots \<Rightarrow>
                  bindE (map_errE internal_agent_failure
                           (on_host (resolve_local_batch_roots destination destination (pl_roots summary))))
                    (\<lambda>local_root_paths.
                  if length remote_roots \<noteq> length local_root_paths then
                    failE (fail ''pull root count did not match requested sources'')
                  else verify_pulled_roots L debug target (zip remote_roots local_root_paths))))"

definition run_agent_transfer_pull ::
  "libs \<Rightarrow> (control_response \<Rightarrow> string) \<Rightarrow> string \<Rightarrow> string list \<Rightarrow> string \<Rightarrow>
   transfer_verify_mode option \<Rightarrow> pull_summary remote" where
  "run_agent_transfer_pull L debug target source_specs destination verify =
     bindE (if verify = Some VerifySha256
            then bindE (resolve_sha256_pull_sources L debug target source_specs) (\<lambda>roots. retE (Some roots))
            else retE None) (\<lambda>remote_verify_roots.
     bindE (map_errE (\<lambda>err. map_operation_error ''transfer.pull'' (Some target) err
                 (json_object (pull_details source_specs destination
                    @ [(''verify'', json_option (\<lambda>m. JString (transfer_verify_name m)) verify)])))
              (on_connection (\<lambda>outcome. execute_pull L debug outcome target source_specs destination))) (\<lambda>summary.
     thenE (case verify of
              None \<Rightarrow> retE ()
            | Some mode \<Rightarrow>
                verify_pull L debug target source_specs destination remote_verify_roots summary mode)
       (retE (summary\<lparr>pl_verification := map_option transfer_verify_name verify,
                     pl_verified := (verify \<noteq> None)\<rparr>))))"

section \<open>The commands\<close>

definition split_sources_and_destination :: "string list \<Rightarrow> string \<Rightarrow> anyhow + string list \<times> string" where
  "split_sources_and_destination paths command =
     (if length paths < 2 then
        Inl (anyhow_msg (''`rsdb '' @ command @ ''` requires at least one source and one destination''))
      else Inr (butlast paths, last paths))"

definition split_agent_paths ::
  "string \<Rightarrow> string \<Rightarrow> string list \<Rightarrow> agent_command_failure + string list \<times> string" where
  "split_agent_paths command target paths =
     (case split_sources_and_destination paths command of
        Inl err \<Rightarrow> Inl (invalid_request_failure (anyhow_display err) (Some target) (json_object []))
      | Inr parts \<Rightarrow> Inr parts)"

definition agent_transfer_push_command ::
  "libs \<Rightarrow> cli_libs \<Rightarrow> (control_response \<Rightarrow> string) \<Rightarrow> (nat \<Rightarrow> nat) \<Rightarrow> string option \<Rightarrow> string list \<Rightarrow>
   transfer_verify_mode option \<Rightarrow> bool \<Rightarrow> bool \<Rightarrow> (session, anyhow, agent_result) act" where
  "agent_transfer_push_command L C debug nonce target paths verify atomic if_changed =
     bindE (tryE
       (bindE (liftE (require_agent_target C target)) (\<lambda>resolved_target.
        bindE (liftE (split_agent_paths ''agent transfer push'' resolved_target paths)) (\<lambda>(sources, destination).
        bindE (run_agent_transfer_push L debug nonce resolved_target sources destination verify atomic if_changed)
          (\<lambda>summary.
        retE (emit_agent_success (TransferPushData (agent_response_target target resolved_target)
          (ps_skipped summary) (ps_verification summary) (ps_verified summary) atomic))))))) (\<lambda>r.
     retE (case r of Inl err \<Rightarrow> emit_agent_failure err | Inr res \<Rightarrow> res))"

definition agent_transfer_pull_command ::
  "libs \<Rightarrow> cli_libs \<Rightarrow> (control_response \<Rightarrow> string) \<Rightarrow> string option \<Rightarrow> string list \<Rightarrow>
   transfer_verify_mode option \<Rightarrow> (session, anyhow, agent_result) act" where
  "agent_transfer_pull_command L C debug target paths verify =
     bindE (tryE
       (bindE (liftE (require_agent_target C target)) (\<lambda>resolved_target.
        bindE (liftE (split_agent_paths ''agent transfer pull'' resolved_target paths)) (\<lambda>(sources, destination).
        bindE (run_agent_transfer_pull L debug resolved_target sources destination verify) (\<lambda>summary.
        retE (emit_agent_success (TransferPullData (agent_response_target target resolved_target)
          (pl_verification summary) (pl_verified summary))))))) ) (\<lambda>r.
     retE (case r of Inl err \<Rightarrow> emit_agent_failure err | Inr res \<Rightarrow> res))"

end
