(* ===== verification/Cli_Edit.thy ===== *)
theory Cli_Edit
  imports Cli_Agent_Transfer
begin

text \<open>
  The \<open>edit\<close> command of the client (\<open>edit_command\<close> in \<open>crates/rsdb-cli/src/main.rs\<close>): the remote
  file is fetched into a temporary directory, an editor runs on the copy, and a changed copy is
  written back. Small files travel inline and are written back on the condition that the remote
  file still has the digest it had at first; larger ones are pulled and pushed. The editor is an
  argument: for its program, arguments and path, what it does to the host and how it ends.
\<close>

definition DEFAULT_INLINE_EDIT_MAX_BYTES :: nat where
  "DEFAULT_INLINE_EDIT_MAX_BYTES = 4 * 1024 * 1024"

section \<open>The editor\<close>

record editor_command =
  ed_program :: string
  ed_args :: "string list"

type_synonym editor = "string \<Rightarrow> string list \<Rightarrow> world \<Rightarrow> (io_error + i32 option) \<times> world"

definition editor_needs_wait_flag :: "string \<Rightarrow> bool" where
  "editor_needs_wait_flag program =
     (let name = (case file_name program of
                    Some n \<Rightarrow> if is_utf8 n then n else program | None \<Rightarrow> program)
      in name = ''code'' \<or> name = ''code-insiders'' \<or> name = ''codium'')"

text \<open>The first of the values that is not blank.\<close>

fun first_set :: "string option list \<Rightarrow> string option" where
  "first_set [] = None"
| "first_set (v # vs) =
     (case v of Some value \<Rightarrow> if trim value \<noteq> [] then Some value else first_set vs | None \<Rightarrow> first_set vs)"

definition resolve_editor_command :: "environ \<Rightarrow> string option \<Rightarrow> anyhow + editor_command" where
  "resolve_editor_command E override_value =
     (let raw = (case first_set [override_value, E ''RSDB_EDITOR'', E ''VISUAL'', E ''EDITOR''] of
                   Some value \<Rightarrow> value | None \<Rightarrow> ''vi'')
      in case split_whitespace raw of
           [] \<Rightarrow> Inl (anyhow_msg ''editor command must not be empty'')
         | program # args \<Rightarrow>
             Inr \<lparr>ed_program = program,
                  ed_args = args @ (if editor_needs_wait_flag program \<and> \<not> list_ex (\<lambda>arg. arg = ''--wait'') args
                                    then [''--wait''] else [])\<rparr>)"

definition launch_editor :: "editor \<Rightarrow> editor_command \<Rightarrow> string \<Rightarrow> i32 option app" where
  "launch_editor run editor path =
     ctx (''failed to launch editor `'' @ ed_program editor @ ''`'')
       (run (ed_program editor) (ed_args editor @ [path]))"

section \<open>The local copy\<close>

definition create_edit_temp_dir :: "environ \<Rightarrow> nat \<Rightarrow> string app" where
  "create_edit_temp_dir E nonce =
     (let path = path_join (case E ''TMPDIR'' of Some dir \<Rightarrow> dir | None \<Rightarrow> ''/tmp'')
                   (''rsdb-edit-'' @ show_nat nonce)
      in thenE (ctx (''failed to create temp dir '' @ display path) (create_dir_all path)) (retE path))"

definition remove_edit_temp_dir :: "string \<Rightarrow> unit app" where
  "remove_edit_temp_dir path = ctx (''failed to remove temp dir '' @ display path) (sys_remove_dir_all path)"

definition remote_edit_file_name :: "string \<Rightarrow> string" where
  "remote_edit_file_name remote_path =
     (case file_name remote_path of
        Some name \<Rightarrow> if is_utf8 name \<and> name \<noteq> [] then name else ''rsdb-edit''
      | None \<Rightarrow> ''rsdb-edit'')"

definition write_local_edit_file :: "string \<Rightarrow> bytes \<Rightarrow> u32 \<Rightarrow> unit app" where
  "write_local_edit_file path bs mode =
     bindE (create_local_output_file path mode) (\<lambda>file.
     thenE (ctx (''failed to write '' @ display path) (file_write_all file bs))
           (ctx (''failed to flush '' @ display path) (file_flush file)))"

section \<open>The command\<close>

definition kept_copy :: "string \<Rightarrow> string" where
  "kept_copy local_path = ''; kept local copy at '' @ display local_path"

text \<open>Fetching: inline, or by a pull.\<close>

definition edit_fetch ::
  "libs \<Rightarrow> (control_response \<Rightarrow> string) \<Rightarrow> string \<Rightarrow> string \<Rightarrow> string \<Rightarrow> u32 \<Rightarrow> bool \<Rightarrow> (session, anyhow, unit) act" where
  "edit_fetch L debug addr remote_path local_path remote_mode inline_edit =
     (if inline_edit then
        bindE (on_connection (\<lambda>outcome. remote_fs_read L debug outcome addr remote_path Base64 None)) (\<lambda>result.
        bindE (liftE (case base64_decode L (rr_content result) of
                        Inl e \<Rightarrow> Inl (context_msg ''failed to decode inline edit content'' (anyhow_msg e))
                      | Inr bs \<Rightarrow> Inr bs)) (\<lambda>bs.
        if rr_truncated result then
          failE (anyhow_msg (''remote file exceeded inline edit limit: '' @ remote_path))
        else on_host (write_local_edit_file local_path bs remote_mode)))
      else
        bindE (on_connection (\<lambda>outcome. execute_pull L debug outcome addr [remote_path] (display local_path)))
          (\<lambda>_. retE ()))"

text \<open>Writing back; an error of the last request names the copy that is kept.\<close>

definition edit_save ::
  "libs \<Rightarrow> (control_response \<Rightarrow> string) \<Rightarrow> string \<Rightarrow> string \<Rightarrow> string \<Rightarrow> u32 \<Rightarrow> string \<Rightarrow> bool \<Rightarrow>
   (session, anyhow, unit) act" where
  "edit_save L debug addr remote_path local_path remote_mode original_sha256 inline_edit =
     (let keeping = (\<lambda>err. anyhow_msg (anyhow_display err @ kept_copy local_path))
      in if inline_edit then
           bindE (on_host (ctx (''failed to read edited file '' @ display local_path) (fs_read_file local_path))) (\<lambda>bs.
           bindE (map_errE keeping (on_connection (\<lambda>outcome.
                    remote_fs_write L debug outcome addr remote_path (base64_encode L bs) Base64
                      (Some remote_mode) True (Some original_sha256)))) (\<lambda>_. retE ()))
         else
           bindE (on_connection (\<lambda>outcome. remote_fs_stat L debug outcome addr remote_path (Some Sha256))) (\<lambda>latest_stat.
           case st_sha256 latest_stat of
             None \<Rightarrow>
               failE (anyhow_msg (''remote stat did not include a sha256 for '' @ remote_path @ '' during save''))
           | Some latest_sha256 \<Rightarrow>
               if latest_sha256 \<noteq> original_sha256 then
                 failE (anyhow_msg (''remote file changed while editing '' @ remote_path @ kept_copy local_path))
               else
                 bindE (map_errE keeping
                   (bindE (on_host (build_local_batch_manifest L [display local_path])) (\<lambda>manifest.
                    on_connection (\<lambda>outcome. execute_push_manifest L debug outcome addr manifest remote_path))))
                 (\<lambda>_. retE ())))"

text \<open>From the first answer on: \<open>stat\<close> is the remote file's state.\<close>

definition edit_copy ::
  "libs \<Rightarrow> cli_libs \<Rightarrow> environ \<Rightarrow> (control_response \<Rightarrow> string) \<Rightarrow> editor \<Rightarrow> nat \<Rightarrow> string \<Rightarrow> string option \<Rightarrow>
   string \<Rightarrow> agent_fs_stat \<Rightarrow> string \<Rightarrow> (session, anyhow, string) act" where
  "edit_copy L C E debug run nonce addr editor remote_path stat original_sha256 =
     (let remote_mode = (case st_mode stat of Some m \<Rightarrow> m | None \<Rightarrow> 0);
          inline_edit = ((case st_size stat of Some n \<Rightarrow> n | None \<Rightarrow> 0) \<le> DEFAULT_INLINE_EDIT_MAX_BYTES)
      in bindE (on_host (create_edit_temp_dir E nonce)) (\<lambda>temp_dir.
         let local_path = path_join temp_dir (remote_edit_file_name remote_path)
         in thenE (edit_fetch L debug addr remote_path local_path remote_mode inline_edit)
           (bindE (on_host (sha256_local_path L local_path)) (\<lambda>before.
            bindE (liftE (resolve_editor_command E editor)) (\<lambda>editor_command.
            bindE (on_host (launch_editor run editor_command local_path)) (\<lambda>status.
            if status \<noteq> Some 0 then
              failE (anyhow_msg (''editor exited with status ''
                @ show_int (case status of Some n \<Rightarrow> n | None \<Rightarrow> -1) @ kept_copy local_path))
            else
              bindE (on_host (sha256_local_path L local_path)) (\<lambda>after.
              if after = before then
                thenE (on_host (remove_edit_temp_dir temp_dir))
                  (retE (''no changes'' @ [CHR 0x09] @ display_addr C addr @ [CHR 0x09] @ remote_path))
              else
                thenE (edit_save L debug addr remote_path local_path remote_mode original_sha256 inline_edit)
               (thenE (on_host (remove_edit_temp_dir temp_dir))
                  (retE (''updated'' @ [CHR 0x09] @ display_addr C addr @ [CHR 0x09] @ remote_path))))))))))"

text \<open>The result is the line printed.\<close>

definition edit_command ::
  "libs \<Rightarrow> cli_libs \<Rightarrow> environ \<Rightarrow> (control_response \<Rightarrow> string) \<Rightarrow> editor \<Rightarrow> nat \<Rightarrow> string option \<Rightarrow> string option \<Rightarrow>
   string \<Rightarrow> (session, anyhow, string) act" where
  "edit_command L C E debug run nonce target editor remote_path =
     bindE (on_host (resolve_target C E target)) (\<lambda>addr.
     bindE (on_connection (\<lambda>outcome. remote_fs_stat L debug outcome addr remote_path (Some Sha256))) (\<lambda>stat.
     if \<not> st_exists stat then
       failE (anyhow_msg (''remote path does not exist: '' @ remote_path))
     else if st_kind stat \<noteq> Some FkFile then
       failE (anyhow_msg (''remote path is not a regular file: '' @ remote_path))
     else
       case st_sha256 stat of
         None \<Rightarrow> failE (anyhow_msg (''remote stat did not include a sha256 for '' @ remote_path))
       | Some original_sha256 \<Rightarrow>
           edit_copy L C E debug run nonce addr editor remote_path stat original_sha256))"

end
