(* ===== verification/Session_Facts.thy ===== *)
theory Session_Facts
  imports Cli_Edit Cli_Agent_Facts
begin

text \<open>
  What the commands of several connections send: each connection's bytes are the front of a
  request of a known kind, under every behaviour of the daemon and every fault. The relation
  \<open>sends_only A\<close>, that all connections made carried bytes in \<open>A\<close>, is an \<open>effect\<close>, so it holds of
  a command when it holds of its parts.
\<close>

section \<open>Sending as an effect\<close>

definition sends_only :: "(bytes \<Rightarrow> bool) \<Rightarrow> session \<Rightarrow> session \<Rightarrow> bool" where
  "sends_only A s t \<longleftrightarrow> (\<exists>bs. sent t = sent s @ bs \<and> list_all A bs)"

interpretation sending: effect "sends_only A" for A
proof
  show "sends_only A s s" for s by (simp add: sends_only_def)
  show "sends_only A s u" if st: "sends_only A s t" and tu: "sends_only A t u" for s t u
  proof -
    from st obtain bs where bs: "sent t = sent s @ bs" "list_all A bs" by (auto simp: sends_only_def)
    from tu obtain cs where cs: "sent u = sent t @ cs" "list_all A cs" by (auto simp: sends_only_def)
    from bs cs show ?thesis by (auto simp: sends_only_def intro: exI [of _ "bs @ cs"])
  qed
qed

lemma sends_on_host [keeps_intros]: "keeps (sends_only A) (on_host m)"
  by (simp add: keeps_def on_host_def sends_only_def split_def)

lemma sends_on_connection:
  assumes "\<And>outcome w. outp w = [] \<Longrightarrow> A (outp (snd (f outcome w)))"
  shows "keeps (sends_only A) (on_connection f)"
  unfolding keeps_def
proof
  fix s
  obtain outcome reply where p: "next_peer s = (outcome, reply)" by force
  obtain r w where run: "f outcome ((host s)\<lparr>inp := reply, outp := []\<rparr>) = (r, w)" by force
  have "A (outp w)" using assms [of "(host s)\<lparr>inp := reply, outp := []\<rparr>" outcome] run by simp
  with p run show "sends_only A s (snd (on_connection f s))"
    by (simp add: on_connection_def sends_only_def)
qed

lemma sends_mono: "keeps (sends_only A) m \<Longrightarrow> (\<And>b. A b \<Longrightarrow> B b) \<Longrightarrow> keeps (sends_only B) m"
  unfolding keeps_def sends_only_def by (metis (mono_tags, lifting) list_all_iff)

section \<open>One request\<close>

lemma send_request_prefix:
  "send_request L m req w = (r, v) \<Longrightarrow> \<exists>n. outp v = outp w @ take n (request_bytes L req)"
  unfolding send_request_def write_json_frame_def request_bytes_def
  by (cases "request_to_vec L req")
    (auto simp: map_errE_def bindE_def split: prod.splits sum.splits dest!: conn_w.write_frame_prefix
      intro: exI [of _ 0])

lemma send_request_all:
  "send_request L m req w = (Inr u, v) \<Longrightarrow> outp v = outp w @ request_bytes L req \<and> request_fits L req"
  unfolding send_request_def write_json_frame_def request_bytes_def request_fits_def
  by (cases "request_to_vec L req")
    (auto simp: map_errE_def bindE_def split: prod.splits sum.splits dest!: conn_w.write_frame_ok)

lemma written_read_response: "keeps same_written (read_response L)"
  unfolding read_response_def
  by (intro written_reading.keeps_bind keeps_map_err written_reading.keeps_lift written_reading.keeps_read_frame
      written_reading.conn_read keeps_case_prod)

lemma request_prefix: "\<exists>n. outp (snd (request L outcome addr req w)) = outp w @ take n (request_bytes L req)"
proof (cases outcome)
  case Connected
  obtain r v where s: "send_request L ''failed to send request'' req w = (r, v)" by force
  from send_request_prefix [OF s] obtain n where n: "outp v = outp w @ take n (request_bytes L req)" ..
  have "outp (snd (read_response L v)) = outp v"
    using written_read_response [of L] by (simp add: keeps_def same_written_def)
  with Connected s n show ?thesis
    by (cases r) (auto simp: request_def open_tcp_connection_def thenE_def bindE_def)
qed (auto simp: request_def open_tcp_connection_def thenE_def bindE_def intro: exI [of _ 0])

text \<open>The front of one of the requests in \<open>Q\<close>.\<close>

definition front_of :: "libs \<Rightarrow> (control_request \<Rightarrow> bool) \<Rightarrow> bytes \<Rightarrow> bool" where
  "front_of L Q b \<longleftrightarrow> (\<exists>req. Q req \<and> prefix b (request_bytes L req))"

lemma front_request: "Q req \<Longrightarrow> outp w = [] \<Longrightarrow> front_of L Q (outp (snd (request L outcome addr req w)))"
  using request_prefix [of L outcome addr req w] by (auto simp: front_of_def take_is_prefix)

lemma snd_bind_pure: "(\<And>a s. snd (f a s) = s) \<Longrightarrow> snd (bindE m f w) = snd (m w)"
  by (auto simp: bindE_def split: prod.split sum.split)

lemma snd_agent_request:
  "snd (agent_request L outcome command target req details w) = snd (request L outcome target req w)"
proof -
  have "snd (agent_request L outcome command target req details w)
      = snd (map_errE (map_transport_error command (Some target)) (request L outcome target req) w)"
    unfolding agent_request_def by (rule snd_bind_pure) (simp split: control_response.split)
  then show ?thesis by (simp add: map_errE_def split: prod.split sum.split)
qed

lemma front_agent_call:
  assumes "Q req" "outp w = []" "\<And>a s. snd (f a s) = s"
  shows "front_of L Q (outp (snd (bindE (agent_request L outcome command target req details) f w)))"
  using front_request [where Q = Q and req = req, OF assms(1,2)]
  by (simp add: snd_bind_pure [OF assms(3)] snd_agent_request)

lemma front_call:
  assumes "Q req" "outp w = []" "\<And>a s. snd (f a s) = s"
  shows "front_of L Q (outp (snd (bindE (request L outcome addr req) f w)))"
  using front_request [where Q = Q and req = req, OF assms(1,2)] by (simp add: snd_bind_pure [OF assms(3)])

lemma sends_stat: "(\<And>p h. Q (FsStat p h)) \<Longrightarrow> keeps (sends_only (front_of L Q)) (remote_fs_stat_request L debug target path hash)"
  unfolding remote_fs_stat_request_def
  by (rule sends_on_connection, rule front_agent_call) (simp_all split: control_response.split)

lemma sends_list: "(\<And>p h. Q (FsList p True None True h)) \<Longrightarrow> keeps (sends_only (front_of L Q)) (remote_fs_list_request L debug target path hash)"
  unfolding remote_fs_list_request_def
  by (rule sends_on_connection, rule front_agent_call) (simp_all split: control_response.split)

lemma sends_move: "Q (FsMove a b ov) \<Longrightarrow> keeps (sends_only (front_of L Q)) (remote_fs_move_request L debug target a b ov)"
  unfolding remote_fs_move_request_def
  by (rule sends_on_connection, rule front_agent_call) (simp_all split: control_response.split)

lemma sends_cleanup: "Q (FsRm p True True True) \<Longrightarrow> keeps (sends_only (front_of L Q)) (cleanup_remote_path L debug target p)"
  unfolding cleanup_remote_path_def
  by (rule sends_on_connection, rule front_agent_call) (simp_all split: control_response.split)

section \<open>A push\<close>

text \<open>
  A connection that carries a request: the front of it, or, where it is a batch push, all of it
  and then data.
\<close>

fun pushes_batch :: "control_request \<Rightarrow> bool" where
  "pushes_batch (PushBatch _ _ _) \<longleftrightarrow> True"
| "pushes_batch _ \<longleftrightarrow> False"

definition carries :: "libs \<Rightarrow> control_request \<Rightarrow> bytes \<Rightarrow> bool" where
  "carries L req b \<longleftrightarrow> prefix b (request_bytes L req) \<or>
     pushes_batch req \<and> request_fits L req \<and> prefix (request_bytes L req) b"

lemma out_cli_stream_frame: "keeps out_grows (cli_stream_frame L p)"
  unfolding cli_stream_frame_def
  by (intro keeps_map_err out_eff.keeps_write_stream_frame out_wire.keeps_buf_write)

lemma out_stream_local_chunks: "keeps out_grows (stream_local_chunks L h n)"
proof (induction L h n rule: stream_local_chunks.induct)
  case (1 L h n)
  show ?case
    by (subst stream_local_chunks.simps, rule out_eff.keeps_bind_result [OF keeps_app(2) [OF keeps_read(5)]])
      (use 1 in \<open>auto intro!: out_eff.keeps_ret out_eff.keeps_then out_cli_stream_frame\<close>)
qed

lemma out_stream_local_files: "keeps out_grows (stream_local_files L files n)"
  by (induction files arbitrary: n)
    (auto simp: stream_local_file_def intro!: keeps_app keeps_open_read(5) out_stream_local_chunks
      out_eff.keeps_bind out_eff.keeps_ret out_eff.keeps_fail)

lemma out_stream_local_batch: "keeps out_grows (stream_local_batch_files L files)"
  unfolding stream_local_batch_files_def
  by (intro out_wire.keeps_with_bufwriter out_eff.keeps_bind out_eff.keeps_then out_stream_local_files
      keeps_app out_wire.keeps_buf_flush out_eff.keeps_ret)

lemma out_read_response: "keeps out_grows (read_response L)"
  using written_read_response [of L] by (auto simp: keeps_def same_written_def out_grows_def)

lemma push_carries:
  assumes "outp w = []"
  shows "carries L (PushBatch path (lm_roots manifest) (lm_entries manifest))
    (outp (snd (execute_push_manifest L debug outcome addr manifest path w)))"
proof (cases outcome)
  case Connected
  let ?req = "PushBatch path (lm_roots manifest) (lm_entries manifest)"
  obtain r v where s: "send_request L ''failed to send push request'' ?req w = (r, v)" by force
  show ?thesis
  proof (cases r)
    case (Inl e)
    with s Connected send_request_prefix [OF s] assms show ?thesis
      by (auto simp: execute_push_manifest_def open_tcp_connection_def thenE_def bindE_def carries_def take_is_prefix)
  next
    case (Inr u)
    define rest where "rest = bindE (read_response L) (\<lambda>ready.
       if ready \<noteq> PushBatchReady then failE (unexpected debug ready)
       else bindE (stream_local_batch_files L (lm_files manifest)) (\<lambda>bytes_sent.
         if bytes_sent \<noteq> lm_total_bytes manifest then
           failE (anyhow_msg (''push size mismatch before completion: expected ''
             @ show_nat (lm_total_bytes manifest) @ '' bytes, streamed '' @ show_nat bytes_sent))
         else
           thenE (map_errE (protocol_context ''failed to finish push stream'')
                    (write_stream_frame conn_write_all REQUEST_ID File True []))
          (bindE (read_response L) (\<lambda>response.
           case response of
             PushBatchComplete entries_written bytes_written \<Rightarrow>
               if bytes_written \<noteq> bytes_sent then
                 failE (anyhow_msg (''push size mismatch: daemon wrote '' @ show_nat bytes_written
                   @ '' bytes, sent '' @ show_nat bytes_sent))
               else retE \<lparr>ps_entries_written = entries_written, ps_bytes_written = bytes_written,
                           ps_skipped = False, ps_verification = None, ps_verified = False\<rparr>
           | other \<Rightarrow> failE (unexpected debug other)))))"
    have "keeps out_grows rest"
      unfolding rest_def
      by (intro out_eff.keeps_bind out_eff.keeps_then out_read_response keeps_if out_eff.keeps_fail
          out_stream_local_batch keeps_map_err out_eff.keeps_write_stream_frame out_wire.conn_write)
        (auto split: control_response.split intro: out_eff.keeps_fail out_eff.keeps_ret simp del: failE_run retE_run)
    then have "prefix (outp v) (outp (snd (rest v)))" by (simp add: keeps_def out_grows_def)
    moreover have "execute_push_manifest L debug outcome addr manifest path w = rest v"
      using s Inr Connected
      by (simp add: execute_push_manifest_def open_tcp_connection_def thenE_Inr rest_def)
    ultimately show ?thesis
      using send_request_all [OF s [unfolded Inr]] assms by (simp add: carries_def)
  qed
qed (use assms in \<open>auto simp: execute_push_manifest_def open_tcp_connection_def thenE_def bindE_def carries_def\<close>)

section \<open>The staged push\<close>

text \<open>The roots that a push to a destination can have, and the paths staged for them.\<close>

definition pushed_to :: "string \<Rightarrow> string \<Rightarrow> bool" where
  "pushed_to destination root \<longleftrightarrow> root = destination \<or> (\<exists>name. root = path_join destination name)"

fun staged_request :: "(nat \<Rightarrow> nat) \<Rightarrow> string \<Rightarrow> control_request \<Rightarrow> bool" where
  "staged_request nonce destination (FsStat _ _) \<longleftrightarrow> True"
| "staged_request nonce destination (FsList _ _ _ _ _) \<longleftrightarrow> True"
| "staged_request nonce destination (PushBatch path _ _) \<longleftrightarrow>
     (\<exists>root i. pushed_to destination root \<and> path = display (staged_remote_transfer_path (nonce i) root i))"
| "staged_request nonce destination (FsMove source path overwrite) \<longleftrightarrow>
     (\<exists>root i. pushed_to destination root \<and> source = display (staged_remote_transfer_path (nonce i) root i) \<and>
        path = display root)"
| "staged_request nonce destination (FsRm path _ _ _) \<longleftrightarrow>
     (\<exists>root i. pushed_to destination root \<and> path = display (staged_remote_transfer_path (nonce i) root i))"
| "staged_request nonce destination _ \<longleftrightarrow> False"

definition staged_traffic :: "libs \<Rightarrow> (nat \<Rightarrow> nat) \<Rightarrow> string \<Rightarrow> bytes \<Rightarrow> bool" where
  "staged_traffic L nonce destination b \<longleftrightarrow> (\<exists>req. staged_request nonce destination req \<and> carries L req b)"

lemma front_staged: "front_of L (staged_request nonce d) b \<Longrightarrow> staged_traffic L nonce d b"
  by (auto simp: front_of_def staged_traffic_def carries_def)

lemma staged_stat: "keeps (sends_only (staged_traffic L nonce d)) (remote_fs_stat_request L debug target p h)"
  by (rule sends_mono [OF sends_stat [where Q = "staged_request nonce d"] front_staged]) simp_all

lemma staged_list: "keeps (sends_only (staged_traffic L nonce d)) (remote_fs_list_request L debug target p h)"
  by (rule sends_mono [OF sends_list [where Q = "staged_request nonce d"] front_staged]) simp_all

lemma staged_collect: "keeps (sends_only (staged_traffic L nonce d)) (collect_remote_transfer_state L debug target p h)"
  unfolding collect_remote_transfer_state_def Let_def
  by (intro sending.keeps_bind staged_stat staged_list sending.keeps_lift sending.keeps_ret keeps_if)

lemma staged_local_state: "keeps (sends_only A) (local_state L target h src root)"
  unfolding local_state_def by (intro keeps_map_err sends_on_host)

lemma staged_verify_roots:
  "keeps (sends_only (staged_traffic L nonce d)) (verify_pushed_roots L debug target mode pairs)"
  by (induction pairs)
    (auto intro!: sending.keeps_bind staged_local_state staged_collect sending.keeps_fail sending.keeps_ret
      simp del: failE_run retE_run)

lemma staged_verify: "keeps (sends_only (staged_traffic L nonce d)) (verify_push L debug target verify pairs)"
  unfolding verify_push_def by (intro keeps_case_option sending.keeps_ret staged_verify_roots)

lemma staged_push_root:
  assumes "pushed_to d root"
  shows "keeps (sends_only (staged_traffic L nonce d))
    (push_staged_root L debug target manifest (nonce i) i src root)"
proof -
  let ?temp = "display (staged_remote_transfer_path (nonce i) root i)"
  have push: "keeps (sends_only (staged_traffic L nonce d))
      (on_connection (\<lambda>outcome. execute_push_manifest L debug outcome target m ?temp))" for m
  proof (rule sends_on_connection)
    fix outcome and w :: world
    assume "outp w = []"
    moreover have "staged_request nonce d (PushBatch ?temp (lm_roots m) (lm_entries m))"
      using assms by auto
    ultimately show "staged_traffic L nonce d (outp (snd (execute_push_manifest L debug outcome target m ?temp w)))"
      unfolding staged_traffic_def using push_carries by blast
  qed
  have move: "keeps (sends_only (staged_traffic L nonce d)) (remote_fs_move_request L debug target ?temp (display root) True)"
    by (rule sends_mono [OF sends_move [where Q = "staged_request nonce d"] front_staged]) (use assms in auto)
  have rm: "keeps (sends_only (staged_traffic L nonce d)) (cleanup_remote_path L debug target ?temp)"
    by (rule sends_mono [OF sends_cleanup [where Q = "staged_request nonce d"] front_staged]) (use assms in auto)
  show ?thesis
    unfolding push_staged_root_def Let_def
    by (intro sending.keeps_bind keeps_map_err sending.keeps_lift keeps_try push move rm keeps_case_sum
        sending.keeps_fail sending.keeps_ret)
qed

lemma staged_push_roots:
  "\<forall>(i, src, root) \<in> set items. pushed_to d root \<Longrightarrow>
   keeps (sends_only (staged_traffic L nonce d))
     (push_staged_roots L debug target manifest nonce if_changed items counts)"
proof (induction items arbitrary: counts)
  case Nil
  show ?case by (simp only: push_staged_roots.simps sending.keeps_ret)
next
  case (Cons item items)
  obtain i src root where item: "item = (i, src, root)" by (cases item)
  show ?case
    unfolding item push_staged_roots.simps prod.case
    by (intro sending.keeps_bind keeps_if staged_local_state staged_collect sending.keeps_ret Cons.IH
        staged_push_root keeps_case_prod) (use Cons.prems item in auto)
qed

lemma resolve_remote_roots:
  assumes "resolve_remote_batch_roots L debug target d roots s = (Inr finals, t)" "root \<in> set finals"
  shows "pushed_to d root"
  using assms
  by (auto simp: resolve_remote_batch_roots_def thenE_def pushed_to_def Let_def bindE_eq_Inr_iff split: if_splits)

text \<open>
  C22: with \<open>--atomic\<close> or \<open>--if-changed\<close> no connection of a push touches the destination itself
  except by a move of a staged path onto it: whatever the daemon answers and whatever fails, each
  connection carries a query, a batch push to a staged path, the move of a staged path to its
  root, or the removal of a staged path.
\<close>
theorem staged_push_requests:
  assumes "run_agent_transfer_push L debug nonce target sources destination verify atomic if_changed s = (r, t)"
    and "atomic \<or> if_changed"
  shows "\<exists>bs. sent t = sent s @ bs \<and> (\<forall>b \<in> set bs. staged_traffic L nonce destination b)"
proof -
  have "keeps (sends_only (staged_traffic L nonce destination))
      (run_agent_transfer_push L debug nonce target sources destination verify atomic if_changed)"
    unfolding run_agent_transfer_push_def Let_def
  proof (intro sending.keeps_bind_result keeps_map_err sends_on_host)
    show "keeps (sends_only (staged_traffic L nonce destination))
        (resolve_remote_batch_roots L debug target destination roots)" for roots
      unfolding resolve_remote_batch_roots_def Let_def
      by (intro sending.keeps_then sending.keeps_lift sending.keeps_bind staged_stat keeps_if sending.keeps_ret
          sending.keeps_fail)
  next
    fix manifest :: local_batch_manifest and finals s1 t1
    assume finals: "resolve_remote_batch_roots L debug target destination (lm_roots manifest) s1 = (Inr finals, t1)"
    let ?pairs = "zip (lm_sources manifest) finals"
    have "pushed_to destination root" if "(i, src, root) \<in> set (zip [0..<length ?pairs] ?pairs)" for i src root
      using that resolve_remote_roots [OF finals] by (auto dest: set_zip_rightD)
    then show "keeps (sends_only (staged_traffic L nonce destination))
       (if \<not> atomic \<and> \<not> if_changed then
          bindE (map_errE (\<lambda>err. map_operation_error ''transfer.push'' (Some target) err
                   (push_details sources destination verify atomic if_changed))
                 (on_connection (\<lambda>outcome. execute_push_manifest L debug outcome target manifest destination)))
           (\<lambda>sm. thenE (verify_push L debug target verify ?pairs)
                (retE \<lparr>ps_entries_written = ps_entries_written sm, ps_bytes_written = ps_bytes_written sm,
                   ps_skipped = False, ps_verification = map_option transfer_verify_name verify,
                   ps_verified = verify \<noteq> None\<rparr>))
        else
          bindE (push_staged_roots L debug target manifest nonce if_changed
                   (zip [0..<length ?pairs] ?pairs) (0, 0, 0))
           (\<lambda>(entries, bytes, changed_roots). thenE (verify_push L debug target verify ?pairs)
                (retE \<lparr>ps_entries_written = entries, ps_bytes_written = bytes,
                   ps_skipped = if_changed \<and> changed_roots = 0,
                   ps_verification = map_option transfer_verify_name verify, ps_verified = verify \<noteq> None\<rparr>)))"
      using assms(2)
      by (auto intro!: sending.keeps_bind staged_push_roots sending.keeps_then staged_verify sending.keeps_ret
          simp del: failE_run retE_run)
  qed
  from keepsD [OF this assms(1)] show ?thesis by (auto simp: sends_only_def list_all_iff)
qed

definition staging_libs :: libs where
  "staging_libs = sample_libs\<lparr>request_to_vec := (\<lambda>_. Inr [1]),
     response_from_slice := (\<lambda>bs.
       if bs = [1] then Inr (RFsStat \<lparr>st_path = ''/tmp/b'', st_exists = False, st_kind = None, st_size = None,
           st_mode = None, st_mtime_unix_ms = None, st_sha256 = None\<rparr>)
       else if bs = [2] then Inr PushBatchReady
       else if bs = [3] then Inr (PushBatchComplete 1 2)
       else Inr (FsMoveResult \<lparr>mv_source = ''/tmp/.b'', mv_destination = ''/tmp/b'', mv_overwritten = False\<rparr>))\<rparr>"

definition staging_session :: session where
  "staging_session = \<lparr>host = sample_world,
     peers = [(Connected, frame_bytes Response 0 7 [1]),
       (Connected, frame_bytes Response 0 7 [2] @ frame_bytes Response 0 7 [3]),
       (Connected, frame_bytes Response 0 7 [4])], sent = []\<rparr>"

lemma staging_run:
  "map_prod (map_sum (\<lambda>_. ()) ps_bytes_written) (\<lambda>t. length (sent t))
     (run_agent_transfer_push staging_libs (\<lambda>_. []) (\<lambda>i. 9) ''h:1'' [''/tmp/a''] ''/tmp/b'' None True False staging_session)
     = (Inr 2, 3)"
  by code_simp

theorem staged_push_requests_witness:
  "\<exists>r t. run_agent_transfer_push staging_libs (\<lambda>_. []) (\<lambda>i. 9) ''h:1'' [''/tmp/a''] ''/tmp/b'' None True False
       staging_session = (Inr r, t) \<and> ps_bytes_written r = 2 \<and> length (sent t) = 3 \<and>
     (\<forall>b \<in> set (sent t). staged_traffic staging_libs (\<lambda>i. 9) ''/tmp/b'' b)"
proof -
  obtain r t where run: "run_agent_transfer_push staging_libs (\<lambda>_. []) (\<lambda>i. 9) ''h:1'' [''/tmp/a''] ''/tmp/b''
      None True False staging_session = (r, t)" by force
  with staging_run obtain sm where "r = Inr sm" "ps_bytes_written sm = 2" "length (sent t) = 3"
    by (cases r) auto
  with staged_push_requests [OF run] run show ?thesis by (auto simp: staging_session_def)
qed


end
