(* ===== verification/Edit_Facts.thy ===== *)
theory Edit_Facts
  imports Cli_Edit Cli_Request_Facts Session_Facts
begin

text \<open>
  The \<open>edit\<close> command against the daemon: a write-back is refused, and nothing is lost, when the
  remote file is no longer the one that was fetched; and what the command sends in all.
\<close>

section \<open>A file that changed while it was edited\<close>

text \<open>A regular file whose content has another digest.\<close>

definition changed_since :: "libs \<Rightarrow> world \<Rightarrow> string \<Rightarrow> string \<Rightarrow> bool" where
  "changed_since L d path original \<longleftrightarrow> path \<noteq> [] \<and>
     (\<exists>q nd. resolve d False path = Inr q \<and> look d q = Some nd \<and> i_type nd = FtFile \<and>
        hex_digest (sha256_digest L (i_data nd)) \<noteq> original)"

lemma changed_since_inp [simp]: "changed_since L (d\<lparr>inp := x\<rparr>) path original = changed_since L d path original"
proof -
  have "resolve (d\<lparr>inp := x\<rparr>) f p = resolve d f p" for f p
    by (simp add: resolve_def resolve_parts_def)
  then show ?thesis by (simp add: changed_since_def)
qed

lemma stale_write_refused:
  assumes calm: "sched d = []" and stale: "changed_since L d path original"
  shows "\<exists>e. handle_fs_write L rid path content enc mode False True False (Some original) d = (Inl e, d)"
proof -
  from stale obtain q nd where q: "resolve d False path = Inr q" "look d q = Some nd" "i_type nd = FtFile"
    and differs: "hex_digest (sha256_digest L (i_data nd)) \<noteq> original" and path: "path \<noteq> []"
    by (auto simp: changed_since_def)
  have existing: "stat_existing path d = (Inr (Some (metadata_of nd)), d)"
    using calm_stat [OF calm q(1,2)] by (simp add: stat_existing_def bindE_def tryE_def)
  have "resolve d True path = Inr q" using q resolve_follow [OF q(1)] by auto
  from calm_open_read [OF calm this q(2)] have digest:
    "sha256_path L path d = (Inr (hex_digest (sha256_digest L (i_data nd))), d)"
    using calm_hash_loop [OF calm, of "(nd, i_data nd)" "[]"] q(3)
    by (simp add: sha256_path_def bindE_def ctx_def map_errE_def plain_def)
  have type: "md_type (metadata_of nd) = FtFile" using q(3) by (simp add: metadata_of_def)
  have guards: "\<exists>e. fs_write_guards L path bs False (Some original) d = (Inl e, d)" for bs
    using existing digest type differs
    by (simp add: fs_write_guards_def check_if_sha256_def bindE_def)
  show ?thesis
  proof (cases "decode_fs_content L content enc")
    case (Inl e)
    with path show ?thesis by (simp add: handle_fs_write_def validate_fs_path_def bindE_def)
  next
    case (Inr bs)
    from guards obtain e where "fs_write_guards L path bs False (Some original) d = (Inl e, d)" ..
    with Inr path show ?thesis
      by (simp add: handle_fs_write_def validate_fs_path_def bindE_def thenE_def split: option.split)
  qed
qed

text \<open>What the daemon does with the request: an error response, if one can be sent at all.\<close>

lemma stale_request_refused:
  assumes calm: "sched d = []" and stale: "changed_since L d path original"
  shows "\<exists>e. handle_request L P rid (FsWrite path content enc mode False True False (Some original)) st d =
    or_send_error L rid classify_fs_error (failE e) d"
proof -
  from stale_write_refused [OF assms] obtain e where
    "handle_fs_write L rid path content enc mode False True False (Some original) d = (Inl e, d)" by blast
  then show ?thesis
    by (intro exI [of _ e]) (simp add: handle_request_def or_send_error_def bindE_def tryE_def)
qed

lemma refusal_run:
  assumes calm: "sched d = []"
  shows "\<exists>r. or_send_error L rid classify_fs_error (failE e) d =
    (r, if sendable L (ErrorResponse (classify_fs_error e) (anyhow_display e))
        then d\<lparr>outp := outp d @ response_bytes L rid (ErrorResponse (classify_fs_error e) (anyhow_display e))\<rparr>
        else snd (or_send_error L rid classify_fs_error (failE e) d)) \<and>
    (\<not> sendable L (ErrorResponse (classify_fs_error e) (anyhow_display e)) \<longrightarrow>
       outp (snd (or_send_error L rid classify_fs_error (failE e) d)) = outp d)"
proof -
  let ?a = "ErrorResponse (classify_fs_error e) (anyhow_display e)"
  have "or_send_error L rid classify_fs_error (failE e) d = thenE (send_response L rid ?a) (retE (Some ())) d"
    by (simp add: or_send_error_def send_error_def bindE_def tryE_def)
  then show ?thesis
    using calm_send_response [OF calm, of L ?a rid] unsendable_fails [of L ?a rid d] calm
    by (cases "sendable L ?a") (auto simp: thenE_def bindE_def)
qed

lemma refusal_keeps_files: "same_files d (snd (or_send_error L rid code (failE e) d))"
proof -
  have "keeps same_files (or_send_error L rid code (failE e))"
    unfolding or_send_error_def send_error_def
    by (intro files_eff.keeps_bind keeps_try files_eff.keeps_fail keeps_case_sum files_eff.keeps_ret
        files_eff.keeps_then files_send)
  then show ?thesis by (simp add: keeps_def)
qed

text \<open>The client's side: an answer that is no \<open>FsWriteResult\<close> is an error of the save.\<close>

lemma remote_write_fails:
  assumes calm: "sched c = []" and json: "json_roundtrip (response_to_vec L) (response_from_slice L)"
    and fits: "request_fits L (FsWrite path content enc mode False atomic False h)"
    and reply: "sendable L (ErrorResponse code m) \<Longrightarrow> inp c = response_bytes L rid (ErrorResponse code m)"
      "\<not> sendable L (ErrorResponse code m) \<Longrightarrow> inp c = []"
  shows "\<exists>e. remote_fs_write L debug Connected addr path content enc mode atomic h c = (Inl e,
    c\<lparr>inp := [], outp := outp c @ request_bytes L (FsWrite path content enc mode False atomic False h)\<rparr>)"
proof -
  let ?req = "FsWrite path content enc mode False atomic False h"
  let ?c = "c\<lparr>outp := outp c @ request_bytes L ?req\<rparr>"
  note run = calm_request [OF calm fits, of addr]
  show ?thesis
  proof (cases "sendable L (ErrorResponse code m)")
    case True
    with calm_read_response [of ?c L _ rid "[]", OF _ json True] calm reply(1) run show ?thesis
      by (simp add: remote_fs_write_def bindE_def)
  next
    case False
    then have "?c = ?c\<lparr>inp := []\<rparr>" using reply(2) by simp
    with read_response_closed [of ?c L] calm reply(2) run False show ?thesis
      by (auto simp: remote_fs_write_def bindE_def)
  qed
qed

text \<open>
  C23: an edit never overwrites a change made meanwhile. When a small file has been edited and the
  file on the daemon is by then a regular file with another digest than the one first reported,
  the daemon, given the bytes that the client sends to save it, leaves all its files as they
  are, and the client, given the daemon's answer, does not report success: the error names the
  local copy, which is kept.
\<close>
theorem edit_no_lost_update:
  assumes json: "json_roundtrip (request_to_vec L) (request_from_slice L)"
      "json_roundtrip (response_to_vec L) (response_from_slice L)"
    and calm: "sched (host s) = []" "sched d = []"
    and stale: "changed_since L d remote_path original"
    and copy: "resolve (host s) True local_path = Inr q" "look (host s) q = Some nd" "i_type nd = FtFile"
    and fits: "request_fits L (FsWrite remote_path (base64_encode L (i_data nd)) Base64 (Some mode) False True
      False (Some original))"
    and daemon: "inp d = request_bytes L (FsWrite remote_path (base64_encode L (i_data nd)) Base64 (Some mode)
      False True False (Some original))" "outp d = []" "handle_connection L P st True d = (res, d')"
    and peer: "next_peer s = (Connected, outp d')"
    and save: "edit_save L debug addr remote_path local_path mode original True s = (r, t)"
  shows "same_files d d' \<and> sent t = sent s @ [inp d] \<and> nodes (host t) = nodes (host s) \<and>
    (\<exists>e. r = Inl (anyhow_msg (anyhow_display e @ kept_copy local_path)))"
proof -
  let ?req = "FsWrite remote_path (base64_encode L (i_data nd)) Base64 (Some mode) False True False (Some original)"
  obtain p where p: "request_to_vec L ?req = Inr p" "length p \<le> MAX_PAYLOAD_LEN"
    "request_bytes L ?req = frame_bytes Request 0 REQUEST_ID p"
    using fits by (rule request_fitsE)
  let ?d = "d\<lparr>inp := []\<rparr>"
  have stale': "changed_since L ?d remote_path original"
    using stale by simp
  have "handle_connection L P st True d = handle_request L P REQUEST_ID ?req st ?d"
    using connection_request [OF calm(2) json(1) p(1,2), of REQUEST_ID "[]"] daemon(1) p(3) by simp
  moreover obtain e where
    e: "handle_request L P REQUEST_ID ?req st ?d = or_send_error L REQUEST_ID classify_fs_error (failE e) ?d"
    using stale_request_refused [OF _ stale', of P REQUEST_ID _ Base64 "Some mode" st] calm(2) by fastforce
  ultimately have d': "d' = snd (or_send_error L REQUEST_ID classify_fs_error (failE e) ?d)"
    using daemon(3) by (metis snd_conv)
  let ?a = "ErrorResponse (classify_fs_error e) (anyhow_display e)"
  have answer: "sendable L ?a \<Longrightarrow> outp d' = response_bytes L REQUEST_ID ?a" "\<not> sendable L ?a \<Longrightarrow> outp d' = []"
    using refusal_run [of ?d L REQUEST_ID e] calm(2) daemon(2) d' by auto
  have files: "same_files d d'"
    using refusal_keeps_files [of ?d L REQUEST_ID classify_fs_error e] d' by (simp add: same_files_def)
  let ?c = "(host s)\<lparr>inp := outp d', outp := []\<rparr>"
  obtain err where w: "remote_fs_write L debug Connected addr remote_path (base64_encode L (i_data nd)) Base64
      (Some mode) True (Some original) ?c = (Inl err, ?c\<lparr>inp := [], outp := request_bytes L ?req\<rparr>)"
    using remote_write_fails [of ?c L remote_path "base64_encode L (i_data nd)" Base64 "Some mode" True
        "Some original" "classify_fs_error e" "anyhow_display e" REQUEST_ID debug addr, OF _ json(2) fits]
      calm(1) answer by auto
  have local: "fs_read_file local_path (host s) = (Inr (i_data nd), host s)"
    using calm_open_read [OF calm(1) copy(1,2)] calm_hash_loop [OF calm(1), of "(nd, i_data nd)" "[]"] copy(3)
    by (simp add: fs_read_file_def bindE_def)
  have "edit_save L debug addr remote_path local_path mode original True s =
    (Inl (anyhow_msg (anyhow_display err @ kept_copy local_path)),
     \<lparr>host = (host s)\<lparr>inp := [], outp := []\<rparr>, peers = tl (peers s), sent = sent s @ [request_bytes L ?req]\<rparr>)"
    using w local peer
    by (simp add: edit_save_def on_host_def on_connection_def bindE_def map_errE_def ctx_def)
  with save files daemon(1) show ?thesis by auto
qed

definition edit_request :: control_request where
  "edit_request = FsWrite ''/tmp/a'' ''h'' Base64 (Some 0) False True False (Some ''0'')"

definition edit_libs :: libs where
  "edit_libs = sample_libs\<lparr>
     request_to_vec := (\<lambda>m. if m = edit_request then Inr [1] else Inl []),
     request_from_slice := (\<lambda>_. Inr edit_request),
     response_to_vec := (\<lambda>m. if m = PushReady then Inr [2] else Inl []),
     response_from_slice := (\<lambda>_. Inr PushReady)\<rparr>"

lemma edit_libs_facts:
  "json_roundtrip (request_to_vec edit_libs) (request_from_slice edit_libs)"
  "json_roundtrip (response_to_vec edit_libs) (response_from_slice edit_libs)"
  "request_fits edit_libs edit_request"
  by (auto simp: edit_libs_def json_roundtrip_def request_fits_def MAX_PAYLOAD_LEN_def split: if_splits)

definition edit_daemon :: world where
  "edit_daemon = sample_world\<lparr>inp := request_bytes edit_libs edit_request\<rparr>"

definition edit_host :: world where
  "edit_host = world_of [([''tmp'', ''c''], file_node [104])] []"

lemma edit_host_copy:
  "resolve edit_host True ''/tmp/c'' = Inr [''tmp'', ''c'']" "look edit_host [''tmp'', ''c''] = Some (file_node [104])"
  by code_simp+

lemma edit_daemon_stale: "changed_since edit_libs edit_daemon ''/tmp/a'' ''0''"
proof -
  have "changed_since edit_libs sample_world ''/tmp/a'' ''0''"
    unfolding changed_since_def
    by (rule conjI, simp, rule exI [of _ "[''tmp'', ''a'']"], rule exI [of _ "file_node [104, 105]"])
      (use sample_a(1,3) in \<open>simp add: file_node_def, code_simp\<close>)
  then show ?thesis by (simp add: edit_daemon_def)
qed

theorem edit_no_lost_update_witness:
  "\<exists>d' s t e. d' = snd (handle_connection edit_libs sample_procs sample_state True edit_daemon) \<and>
     s = \<lparr>host = edit_host, peers = [(Connected, outp d')], sent = []\<rparr> \<and>
     edit_save edit_libs (\<lambda>_. []) ''h:1'' ''/tmp/a'' ''/tmp/c'' 0 ''0'' True s =
       (Inl (anyhow_msg (anyhow_display e @ kept_copy ''/tmp/c'')), t) \<and>
     same_files edit_daemon d' \<and> sent t = [inp edit_daemon]"
proof -
  obtain res d' where run: "handle_connection edit_libs sample_procs sample_state True edit_daemon = (res, d')"
    by force
  define s where "s = \<lparr>host = edit_host, peers = [(Connected, outp d')], sent = []\<rparr>"
  obtain r t where save: "edit_save edit_libs (\<lambda>_. []) ''h:1'' ''/tmp/a'' ''/tmp/c'' 0 ''0'' True s = (r, t)"
    by force
  have enc: "base64_encode edit_libs (i_data (file_node [104])) = ''h''" by code_simp
  note req = edit_request_def [folded enc]
  have hyps: "sched (host s) = []" "sched edit_daemon = []" "next_peer s = (Connected, outp d')"
    "inp edit_daemon = request_bytes edit_libs edit_request" "outp edit_daemon = []" "i_type (file_node [104]) = FtFile"
    by (simp_all add: s_def edit_daemon_def edit_host_def sample_world_def world_of_def next_peer_def file_node_def)
  have host: "host s = edit_host" by (simp add: s_def)
  from edit_no_lost_update [OF edit_libs_facts(1,2) hyps(1,2) edit_daemon_stale edit_host_copy [folded host] hyps(6)
      edit_libs_facts(3) [unfolded req] hyps(4) [unfolded req] hyps(5) run hyps(3) save]
  show ?thesis using run save by (intro exI [of _ d'] exI [of _ s] exI [of _ t]) (auto simp: s_def)
qed

end
