(* ===== verification/Cli_Json.thy ===== *)
theory Cli_Json
  imports Cli_Agent
begin

text \<open>
  The JSON that the agent commands print (the \<open>Serialize\<close> structures and \<open>emit_agent_*\<close> of
  \<open>crates/rsdb-cli/src/main.rs\<close>): a line's structure as a JSON value, with the fields in the order
  the structures declare them and with the fields left out that their attributes skip. Nothing of
  a line is lost in its JSON, except the exit code, which is not printed.
\<close>

section \<open>Fields\<close>

text \<open>A field that is skipped when there is nothing in it, and one that is skipped when it is false.\<close>

definition is_false :: "bool \<Rightarrow> bool" where
  "is_false value \<longleftrightarrow> \<not> value"

definition is_empty_json_object :: "json \<Rightarrow> bool" where
  "is_empty_json_object value \<longleftrightarrow> value = JObject []"

definition json_unless_none :: "string \<Rightarrow> ('a \<Rightarrow> json) \<Rightarrow> 'a option \<Rightarrow> (string \<times> json) list" where
  "json_unless_none name f x = (case x of None \<Rightarrow> [] | Some a \<Rightarrow> [(name, f a)])"

definition json_unless_false :: "string \<Rightarrow> bool \<Rightarrow> (string \<times> json) list" where
  "json_unless_false name value = (if is_false value then [] else [(name, JBool value)])"

definition json_nat :: "nat \<Rightarrow> json" where
  "json_nat n = JInt (int n)"

fun json_entry_kind :: "fs_entry_kind \<Rightarrow> json" where
  "json_entry_kind FkFile = JString ''file''"
| "json_entry_kind FkDirectory = JString ''directory''"
| "json_entry_kind FkSymlink = JString ''symlink''"
| "json_entry_kind FkOther = JString ''other''"

section \<open>Payloads\<close>

definition agent_discover_target_json :: "agent_discover_target \<Rightarrow> json" where
  "agent_discover_target_json t = JObject
     [(''target'', JString (ad_target t)), (''server_id'', JString (ad_server_id t)),
      (''device_name'', json_option JString (ad_device_name t)),
      (''platform'', json_option JString (ad_platform t)),
      (''protocol_version'', json_nat (unat (ad_protocol_version t))),
      (''compatible'', JBool (ad_compatible t)),
      (''supported_operations'', JArray (map JString (ad_supported_operations t)))]"

definition agent_fs_list_entry_json :: "string \<times> fs_entry_kind \<times> nat \<times> string option \<Rightarrow> json" where
  "agent_fs_list_entry_json entry =
     (case entry of (path, kind, n, sha256) \<Rightarrow> JObject
        ([(''path'', JString path), (''kind'', json_entry_kind kind), (''size'', json_nat n)]
         @ json_unless_none ''sha256'' JString sha256))"

definition agent_exec_data_json :: "agent_exec_data \<Rightarrow> json" where
  "agent_exec_data_json data = JObject
     (json_unless_none ''target'' JString (ax_target data) @ [(''status'', JInt (ax_status data))]
      @ json_unless_false ''timed_out'' (ax_timed_out data)
      @ json_unless_none ''stdout'' JString (ax_stdout data)
      @ json_unless_none ''stderr'' JString (ax_stderr data))"

fun agent_data_json :: "agent_data \<Rightarrow> json" where
  "agent_data_json (DiscoverData found) = JObject [(''targets'', JArray (map agent_discover_target_json found))]"
| "agent_data_json (ExecData data) = agent_exec_data_json data"
| "agent_data_json (ExecChunkData target chunk) =
     JObject (json_unless_none ''target'' JString target @ [(''chunk'', JString chunk)])"
| "agent_data_json (ExecCompletionData target status timed_out) =
     JObject (json_unless_none ''target'' JString target @ [(''status'', JInt status)]
       @ json_unless_false ''timed_out'' timed_out)"
| "agent_data_json (TransferPushData target skipped verification verified atomic) =
     JObject (json_unless_none ''target'' JString target @ [(''skipped'', JBool skipped)]
       @ json_unless_none ''verification'' JString verification @ json_unless_false ''verified'' verified
       @ json_unless_false ''atomic'' atomic)"
| "agent_data_json (TransferPullData target verification verified) =
     JObject (json_unless_none ''target'' JString target @ json_unless_none ''verification'' JString verification
       @ json_unless_false ''verified'' verified)"
| "agent_data_json (FsStatData exists kind n sha256) =
     JObject ([(''exists'', JBool exists)] @ json_unless_none ''kind'' json_entry_kind kind
       @ json_unless_none ''size'' json_nat n @ json_unless_none ''sha256'' JString sha256)"
| "agent_data_json (FsReadData content n truncated) =
     JObject ([(''content'', JString content), (''bytes'', json_nat n)] @ json_unless_false ''truncated'' truncated)"
| "agent_data_json (FsWriteData n sha256 changed) =
     JObject ([(''bytes_written'', json_nat n)] @ json_unless_none ''sha256'' JString sha256
       @ json_unless_false ''changed'' changed)"
| "agent_data_json (FsListData entries) = JObject [(''entries'', JArray (map agent_fs_list_entry_json entries))]"
| "agent_data_json (FsMkdirData created) = JObject (json_unless_false ''created'' created)"
| "agent_data_json (FsRmData removed) = JObject (json_unless_false ''removed'' removed)"
| "agent_data_json (FsMoveData overwritten) = JObject (json_unless_false ''overwritten'' overwritten)"

section \<open>Lines\<close>

definition agent_error_body_json :: "agent_command_failure \<Rightarrow> json" where
  "agent_error_body_json err = JObject
     ([(''code'', JString (af_code err)), (''message'', JString (af_message err))]
      @ json_unless_none ''target'' JString (af_target err)
      @ json_unless_false ''retryable'' (af_retryable err)
      @ (if is_empty_json_object (af_details err) then [] else [(''details'', af_details err)]))"

fun agent_line_json :: "agent_line \<Rightarrow> json" where
  "agent_line_json (Success data) = JObject [(''ok'', JBool True), (''data'', agent_data_json data)]"
| "agent_line_json (Failure err) = JObject [(''ok'', JBool False), (''error'', agent_error_body_json err)]"
| "agent_line_json (AgentEvent event data err) =
     JObject ((''event'', JString event) # json_unless_none ''data'' agent_data_json data
       @ json_unless_none ''error'' agent_error_body_json err)"

section \<open>Nothing is lost\<close>

lemmas json_fields = json_unless_none_def json_unless_false_def is_false_def is_empty_json_object_def
  json_nat_def json_option_def

lemma json_entry_kind_inj: "json_entry_kind a = json_entry_kind b \<Longrightarrow> a = b"
  by (cases a; cases b) auto

lemma discover_target_inj: "agent_discover_target_json a = agent_discover_target_json b \<Longrightarrow> a = b"
  by (rule agent_discover_target.equality)
    (auto simp: agent_discover_target_json_def json_fields word_uint_eq_iff inj_on_def split: option.splits
      dest!: map_injective)

lemma list_entry_inj: "agent_fs_list_entry_json a = agent_fs_list_entry_json b \<Longrightarrow> a = b"
  by (cases a; cases b)
    (auto simp: agent_fs_list_entry_json_def json_fields dest: json_entry_kind_inj split: option.splits)

lemma exec_data_inj: "agent_exec_data_json a = agent_exec_data_json b \<Longrightarrow> a = b"
  by (rule agent_exec_data.equality)
    (auto simp: agent_exec_data_json_def json_fields split: option.splits if_splits)

lemma map_inj: "map f xs = map f ys \<Longrightarrow> (\<And>x y. f x = f y \<Longrightarrow> x = y) \<Longrightarrow> xs = ys"
  by (metis list.inj_map_strong)

text \<open>The payload of the command that printed it can be read back.\<close>

fun payload_kind :: "agent_data \<Rightarrow> nat" where
  "payload_kind (DiscoverData _) = 0"
| "payload_kind (ExecData _) = 1"
| "payload_kind (ExecChunkData _ _) = 2"
| "payload_kind (ExecCompletionData _ _ _) = 3"
| "payload_kind (TransferPushData _ _ _ _ _) = 4"
| "payload_kind (TransferPullData _ _ _) = 5"
| "payload_kind (FsStatData _ _ _ _) = 6"
| "payload_kind (FsReadData _ _ _) = 7"
| "payload_kind (FsWriteData _ _ _) = 8"
| "payload_kind (FsListData _) = 9"
| "payload_kind (FsMkdirData _) = 10"
| "payload_kind (FsRmData _) = 11"
| "payload_kind (FsMoveData _) = 12"

lemma agent_data_json_inj: "payload_kind a = payload_kind b \<Longrightarrow> agent_data_json a = agent_data_json b \<Longrightarrow> a = b"
  by (cases a; cases b; simp)
    (auto simp: json_fields dest: exec_data_inj json_entry_kind_inj
      dest!: map_inj [OF _ discover_target_inj] map_inj [OF _ list_entry_inj] split: option.splits if_splits)

lemma error_body_inj:
  "agent_error_body_json a = agent_error_body_json b \<Longrightarrow> a\<lparr>af_exit_code := 0\<rparr> = b\<lparr>af_exit_code := 0\<rparr>"
  by (rule agent_command_failure.equality)
    (auto simp: agent_error_body_json_def json_fields split: option.splits if_splits)

text \<open>A line without the exit code of its failure, and the kind of its payload.\<close>

fun printed_part :: "agent_line \<Rightarrow> agent_line" where
  "printed_part (Success data) = Success data"
| "printed_part (Failure err) = Failure (err\<lparr>af_exit_code := 0\<rparr>)"
| "printed_part (AgentEvent event data err) = AgentEvent event data (map_option (\<lambda>e. e\<lparr>af_exit_code := 0\<rparr>) err)"

fun line_kind :: "agent_line \<Rightarrow> nat option" where
  "line_kind (Success data) = Some (payload_kind data)"
| "line_kind (Failure err) = None"
| "line_kind (AgentEvent event data err) = map_option payload_kind data"

lemma agent_line_json_inj:
  "line_kind a = line_kind b \<Longrightarrow> agent_line_json a = agent_line_json b \<Longrightarrow> printed_part a = printed_part b"
  by (cases a; cases b)
    (auto simp: json_unless_none_def dest: agent_data_json_inj error_body_inj split: option.splits)

end
