(* ===== verification/Cli_Main.thy ===== *)
theory Cli_Main
  imports Cli_Edit Cli_Shell Cli_Json Cli_Progress
begin

text \<open>
  The command line of the client (\<open>crates/rsdb-cli/src/main.rs\<close>): the commands as clap parses
  them, the dispatch of the agent commands and of \<open>main\<close>, the commands for transfers and devices as
  they print, and the exit status of the process. A run of the client is an action on a \<open>session\<close>;
  a command that makes one connection is \<open>on_connection\<close>, which leaves an empty entry in \<open>sent\<close>
  where the command ends before connecting. What the client reads of its surroundings is the record
  \<open>surroundings\<close>.
\<close>

section \<open>Arguments\<close>

datatype agent_fs_commands =
    AfStat string "hash_algorithm option"
  | AfList string bool "u32 option" bool "hash_algorithm option"
      \<comment> \<open>path, recursive, max depth, include hidden, hash\<close>
  | AfRead string content_encoding "nat option"
  | AfWrite string "string option" bool content_encoding "string option" bool bool bool "string option"
      \<comment> \<open>path, input file, stdin, encoding, mode, create parent, atomic, if missing, if sha256\<close>
  | AfMkdir string bool "string option"
  | AfRm string bool bool bool
      \<comment> \<open>path, recursive, force, if exists\<close>
  | AfMove string string bool

datatype agent_transfer_commands =
    AtPush "transfer_verify_mode option" bool bool "string list"
      \<comment> \<open>verify, atomic, if changed, paths\<close>
  | AtPull "transfer_verify_mode option" "string list"

datatype agent_commands =
    AgSchema
  | AgDiscover string nat
      \<comment> \<open>probe address, timeout in milliseconds\<close>
  | AgExec bool bool "string option" "nat option" "string list"
      \<comment> \<open>stream, check, cwd, timeout in seconds, command\<close>
  | AgFs agent_fs_commands
  | AgTransfer agent_transfer_commands

datatype commands =
    CmdConnect string "string option"
      \<comment> \<open>address, name\<close>
  | CmdDisconnect "string option"
  | CmdDevices
  | CmdDiscover string nat
  | CmdPing "string option"
  | CmdCapability "string option"
  | CmdShell "string option" "string list"
  | CmdPush "string option" "string list"
  | CmdPull "string option" "string list"
  | CmdEdit "string option" "string option" string
      \<comment> \<open>target, editor, path\<close>
  | CmdCompleteEditPath "string option" string
  | CmdAgent "string option" agent_commands

section \<open>The surroundings\<close>

text \<open>
  Libraries and environment; the clock, per use; the UDP network, by the time waited; the order in
  which a discovery's tasks are seen; the answers of a saved device to \<open>probe_ping\<close>; the nonces of
  staged and temporary paths; the standard input; how long an exec or a transfer takes; the terminal and the
  events of a shell session; the editor.
\<close>

record surroundings =
  su_libs :: libs
  su_cli :: cli_libs
  su_environ :: environ
  su_debug :: "control_response \<Rightarrow> string"
  su_net :: "nat \<Rightarrow> udp_net"
  su_clock :: int
  su_clocks :: "socket_addr \<Rightarrow> int"
  su_schedule :: "(discovered_target list \<times> (anyhow + unit)) list \<Rightarrow> merge_event list"
  su_probe_ping :: "string \<Rightarrow> anyhow + control_response"
  su_nonce :: "nat \<Rightarrow> nat"
  su_stdin :: "io_error + bytes"
  su_duration :: duration
  su_terminal :: terminal
  su_events :: "shell_event list"
  su_seen :: nat
  su_editor :: editor

text \<open>\<open>discover_target_at(addr, timeout).await.ok().flatten()\<close>.\<close>

definition discovered_at :: "surroundings \<Rightarrow> nat \<Rightarrow> string \<Rightarrow> discovered_target option" where
  "discovered_at S timeout_ms addr =
     (case discover_target_at (su_libs S) (su_net S timeout_ms) (su_clock S) addr of
        Inl _ \<Rightarrow> None
      | Inr found \<Rightarrow> found)"

section \<open>Agent commands\<close>

definition agent_schema_compact :: string where
  "agent_schema_compact = concat (map (\<lambda>line. line @ [CHR 0x0A])
     [''rsdb agent'',
      ''rules:'',
      ''- discover when no target known'',
      ''- replace '.' with space: fs.read -> rsdb agent fs read'',
      ''- pass --target <addr> for exec/fs.*/transfer.*'',
      ''- exec: place -- before remote argv'',
      ''- transfer: last positional = destination'',
      ''envelope: ok,data?,error? | error: code,message,target?,retryable?,details?'',
      '''',
      ''discover [--probe-addr <str>] [--timeout-ms <u64>]  # find reachable targets and report per-target supported operations'',
      ''  => targets[{target,server_id,device_name?,platform?,protocol_version,compatible,supported_operations[]}]'',
      '''',
      ''exec --target <addr> [--stream] [--check] [--cwd <str>] [--timeout-secs <u64>] -- <command...>  # run one direct remote process'',
      ''  => target?,status,timed_out?,stdout?,stderr?'',
      ''  ~> stdout{target?,chunk}; stderr{target?,chunk}; completed{target?,status,timed_out?}; failed{error}'',
      '''',
      ''fs.stat --target <addr> <path> [--hash <sha256>]  # read structured metadata for one remote path'',
      ''  => exists,kind?,size?,sha256?'',
      '''',
      ''fs.list --target <addr> <path> [--recursive] [--max-depth <u32>] [--include-hidden] [--hash <sha256>]  # list a remote path or directory tree'',
      ''  => entries[{path,kind,size,sha256?}]'',
      '''',
      ''fs.read --target <addr> <path> [--encoding <utf8|base64=utf8>] [--max-bytes <u64>]  # read one small remote file inline'',
      ''  => content,bytes,truncated?'',
      '''',
      ''fs.write --target <addr> <path> [--input-file <str>] [--stdin] [--encoding <utf8|base64=utf8>] [--mode <octal>] [--create-parent] [--atomic] [--if-missing] [--if-sha256 <str>]  # write one small remote file'',
      ''  => bytes_written,sha256?,changed?'',
      '''',
      ''fs.mkdir --target <addr> <path> [--parents] [--mode <octal>]  # create a remote directory'',
      ''  => created?'',
      '''',
      ''fs.rm --target <addr> <path> [--recursive] [--force] [--if-exists]  # remove a remote file or directory'',
      ''  => removed?'',
      '''',
      ''fs.move --target <addr> <source> <destination> [--overwrite]  # rename or move one remote path'',
      ''  => overwritten?'',
      '''',
      ''transfer.push --target <addr> <local-sources...> <remote-destination> [--verify <size|sha256>] [--atomic] [--if-changed]  # push bulk local files or directories'',
      ''  => target?,skipped,verification?,verified?,atomic?'',
      '''',
      ''transfer.pull --target <addr> <remote-sources...> <local-destination> [--verify <size|sha256>]  # pull bulk remote files or directories'',
      ''  => target?,verification?,verified?''])"

text \<open>The schema is printed as text; every other agent command prints JSON lines.\<close>

datatype agent_output = SchemaText string | AgentLines "agent_line list"

definition agent_output_json :: "agent_output \<Rightarrow> json list" where
  "agent_output_json out = (case out of SchemaText _ \<Rightarrow> [] | AgentLines lines \<Rightarrow> map agent_line_json lines)"

definition agent_schema_command :: "string option \<Rightarrow> agent_output \<times> i32" where
  "agent_schema_command target =
     (if target \<noteq> None then
        map_prod AgentLines id
          (emit_agent_failure (invalid_request_failure ''schema does not accept --target'' None
            (json_object [(''field'', JString ''target'')])))
      else (SchemaText agent_schema_compact, 0))"

definition agent_fs_command ::
  "surroundings \<Rightarrow> string option \<Rightarrow> agent_fs_commands \<Rightarrow> connecting \<Rightarrow> agent_result app" where
  "agent_fs_command S target command outcome =
     (let L = su_libs S; C = su_cli S; debug = su_debug S
      in case command of
           AfStat path hash \<Rightarrow> agent_fs_stat_command L C debug outcome target path hash
         | AfList path recursive max_depth include_hidden hash \<Rightarrow>
             agent_fs_list_command L C debug outcome target path recursive max_depth include_hidden hash
         | AfRead path encoding max_bytes \<Rightarrow>
             agent_fs_read_command L C debug outcome target path encoding max_bytes
         | AfWrite path input_file stdin encoding mode create_parent atomic if_missing if_sha256 \<Rightarrow>
             agent_fs_write_command L C debug outcome (su_stdin S) target path input_file stdin encoding mode
               create_parent atomic if_missing if_sha256
         | AfMkdir path parents mode \<Rightarrow> agent_fs_mkdir_command L C debug outcome target path parents mode
         | AfRm path recursive force if_exists \<Rightarrow>
             agent_fs_rm_command L C debug outcome target path recursive force if_exists
         | AfMove source destination overwrite \<Rightarrow>
             agent_fs_move_command L C debug outcome target source destination overwrite)"

definition agent_transfer_command ::
  "surroundings \<Rightarrow> string option \<Rightarrow> agent_transfer_commands \<Rightarrow> (session, anyhow, agent_result) act" where
  "agent_transfer_command S target command =
     (case command of
        AtPush verify atomic if_changed paths \<Rightarrow>
          agent_transfer_push_command (su_libs S) (su_cli S) (su_debug S) (su_nonce S) target paths verify
            atomic if_changed
      | AtPull verify paths \<Rightarrow>
          agent_transfer_pull_command (su_libs S) (su_cli S) (su_debug S) target paths verify)"

definition agent_command ::
  "surroundings \<Rightarrow> string option \<Rightarrow> agent_commands \<Rightarrow> (session, anyhow, agent_output \<times> i32) act" where
  "agent_command S target command =
     (let agent_lines = (\<lambda>result. retE (map_prod AgentLines id result))
      in case command of
           AgSchema \<Rightarrow> retE (agent_schema_command target)
         | AgDiscover probe_addr timeout_ms \<Rightarrow>
             agent_lines (agent_discover_command (su_libs S) (su_cli S) (su_net S timeout_ms) (su_clocks S)
               (su_schedule S) target probe_addr)
         | AgExec stream check_status dir timeout_secs argv \<Rightarrow>
             bindE (on_connection (\<lambda>outcome.
                 agent_exec_command (su_libs S) (su_cli S) (su_debug S) outcome (elapsed_ms (su_duration S)) target stream
                   check_status dir timeout_secs argv)) agent_lines
         | AgFs fs \<Rightarrow> bindE (on_connection (agent_fs_command S target fs)) agent_lines
         | AgTransfer transfer \<Rightarrow> bindE (agent_transfer_command S target transfer) agent_lines)"

section \<open>What the other commands print\<close>

definition describe_sources :: "string list \<Rightarrow> string" where
  "describe_sources sources =
     (case sources of [source] \<Rightarrow> source | _ \<Rightarrow> show_nat (length sources) @ '' sources'')"

text \<open>
  The devices: the current target and what was found of it, then the others. The width of the
  first column is counted in bytes, and the padding in characters.
\<close>

definition device_lines :: "device_status_row option \<times> (string \<times> string) list \<Rightarrow> string list" where
  "device_lines devices =
     (case devices of (current, others) \<Rightarrow>
        if current = None \<and> others = [] then [''no saved devices'']
        else
          let addrs = (case current of Some row \<Rightarrow> [ds_addr row] | None \<Rightarrow> []) @ map fst others;
              addr_width = Max (set (0 # map length addrs))
          in (case current of
                None \<Rightarrow> []
              | Some row \<Rightarrow>
                  [''* '' @ pad_right addr_width (ds_addr row) @ ''  '' @ ds_display_name row
                   @ (if ds_status row \<noteq> [] then ''  '' @ ds_status row else [])
                   @ (if ds_warning row \<noteq> [] then ''  ('' @ ds_warning row @ '')'' else [])])
             @ map (\<lambda>(addr, name). ''  '' @ pad_right addr_width addr @ ''  '' @ name) others)"

text \<open>
  What a command has printed when it ends well.
\<close>

datatype printed_output =
    Lines "string list"
  | CapabilityJson string string capability_set
  | ShellPrints shell_prints
  | AgentPrinted agent_output

text \<open>The line of a finished transfer; the elapsed time is taken before the result is looked at.\<close>

definition pushed_line :: "string list \<Rightarrow> string \<Rightarrow> duration \<Rightarrow> push_summary \<Rightarrow> string" where
  "pushed_line source_specs remote_path elapsed summary =
     ''pushed '' @ describe_sources source_specs @ [CHR 0x09] @ remote_path @ [CHR 0x09]
     @ show_nat (ps_entries_written summary) @ '' entries'' @ [CHR 0x09]
     @ show_nat (ps_bytes_written summary) @ '' bytes'' @ [CHR 0x09]
     @ ''in '' @ format_transfer_duration elapsed @ [CHR 0x09]
     @ ''('' @ format_transfer_rate (ps_bytes_written summary) elapsed @ ''/s)''"

definition pulled_line :: "string list \<Rightarrow> string \<Rightarrow> duration \<Rightarrow> pull_summary \<Rightarrow> string" where
  "pulled_line remote_sources local_destination elapsed summary =
     ''pulled '' @ describe_sources remote_sources @ [CHR 0x09] @ display local_destination @ [CHR 0x09]
     @ show_nat (pl_entries_received summary) @ '' entries'' @ [CHR 0x09]
     @ show_nat (pl_bytes_received summary) @ '' / '' @ show_nat (pl_total_bytes summary) @ '' bytes'' @ [CHR 0x09]
     @ ''in '' @ format_transfer_duration elapsed @ [CHR 0x09]
     @ ''('' @ format_transfer_rate (pl_bytes_received summary) elapsed @ ''/s)''"

definition push_command ::
  "surroundings \<Rightarrow> string option \<Rightarrow> string list \<Rightarrow> string \<Rightarrow> (session, anyhow, printed_output) act" where
  "push_command S target source_specs remote_path =
     bindE (on_host (resolve_target (su_cli S) (su_environ S) target)) (\<lambda>addr.
     bindE (on_connection (\<lambda>outcome.
              execute_push (su_libs S) (su_debug S) outcome addr source_specs remote_path)) (\<lambda>summary.
     retE (Lines [pushed_line source_specs remote_path (su_duration S) summary])))"

definition pull_command ::
  "surroundings \<Rightarrow> string option \<Rightarrow> string list \<Rightarrow> string \<Rightarrow> (session, anyhow, printed_output) act" where
  "pull_command S target remote_sources local_destination =
     bindE (on_host (resolve_target (su_cli S) (su_environ S) target)) (\<lambda>addr.
     bindE (on_connection (\<lambda>outcome.
              execute_pull (su_libs S) (su_debug S) outcome addr remote_sources local_destination)) (\<lambda>summary.
     retE (Lines [pulled_line remote_sources local_destination (su_duration S) summary])))"

section \<open>The process\<close>

text \<open>The printed output and the exit code; \<open>None\<close> is a shell session that does not end.\<close>

definition dispatch ::
  "surroundings \<Rightarrow> commands \<Rightarrow> (session, anyhow, (printed_output \<times> i32) option) act" where
  "dispatch S command =
     (let L = su_libs S; C = su_cli S; E = su_environ S; debug = su_debug S;
          finished = (\<lambda>output. retE (Some (output, 0)));
          with_warning = (\<lambda>line warning. Lines (line # (case warning of Some m \<Rightarrow> [m] | None \<Rightarrow> [])))
      in case command of
           CmdConnect addr name \<Rightarrow>
             bindE (tryE (on_connection (\<lambda>outcome. request L outcome (normalize_connect_addr C addr) Ping))) (\<lambda>pong.
             bindE (on_host (connect_command C E (discovered_at S 500) (\<lambda>_. pong) debug addr name))
               (\<lambda>(warning, line). finished (with_warning line warning)))
         | CmdDisconnect target \<Rightarrow>
             bindE (on_host (disconnect_command C E target)) (\<lambda>line. finished (Lines [line]))
         | CmdDevices \<Rightarrow>
             bindE (on_host (devices_command C E (discovered_at S 300) (su_probe_ping S) debug))
               (\<lambda>devices. finished (Lines (device_lines devices)))
         | CmdDiscover probe_addr timeout_ms \<Rightarrow>
             (case discover_command L C (su_net S timeout_ms) (su_clocks S) (su_schedule S) probe_addr of
                (rows, Inl err) \<Rightarrow> failE err
              | (rows, Inr _) \<Rightarrow> finished (Lines rows))
         | CmdPing target \<Rightarrow>
             bindE (on_connection (\<lambda>outcome. ping_command L C E debug outcome target))
               (\<lambda>(line, warning). finished (with_warning line warning))
         | CmdCapability target \<Rightarrow>
             bindE (on_connection (\<lambda>outcome. capability_command L C E debug outcome target))
               (\<lambda>(addr, server, capability). finished (CapabilityJson addr server capability))
         | CmdShell target argv \<Rightarrow>
             bindE (on_connection (\<lambda>outcome.
                 shell_command L C E debug outcome (su_terminal S) (su_events S) (su_seen S) target argv))
               (\<lambda>result. case result of
                  None \<Rightarrow> retE None
                | Some (prints, Inl err) \<Rightarrow> failE err
                | Some (prints, Inr status) \<Rightarrow> retE (Some (ShellPrints prints, status)))
         | CmdPush target paths \<Rightarrow>
             bindE (liftE (split_sources_and_destination paths ''push'')) (\<lambda>(sources, destination).
             bindE (push_command S target sources destination) finished)
         | CmdPull target paths \<Rightarrow>
             bindE (liftE (split_sources_and_destination paths ''pull'')) (\<lambda>(sources, destination).
             bindE (pull_command S target sources destination) finished)
         | CmdEdit target editor path \<Rightarrow>
             bindE (edit_command L C E debug (su_editor S) (su_nonce S 0) target editor path)
               (\<lambda>line. finished (Lines [line]))
         | CmdCompleteEditPath target partial \<Rightarrow>
             bindE (on_connection (\<lambda>outcome. complete_edit_path_command L C E debug outcome target partial))
               (\<lambda>candidates. finished (Lines candidates))
         | CmdAgent target command \<Rightarrow>
             bindE (agent_command S target command) (\<lambda>(output, code). retE (Some (AgentPrinted output, code))))"

text \<open>
  The exit status that \<open>main\<close> gives the process: 1 with an error, 0 with the code 0, and otherwise
  the code made one that the system can report.
\<close>

definition exit_status :: "anyhow + ('a \<times> i32) option \<Rightarrow> i32 option" where
  "exit_status result =
     (case result of
        Inl _ \<Rightarrow> Some 1
      | Inr None \<Rightarrow> None
      | Inr (Some (_, code)) \<Rightarrow> Some (if code \<noteq> 0 then normalize_exit_status code else 0))"

definition client_main ::
  "surroundings \<Rightarrow> commands \<Rightarrow> session \<Rightarrow> (i32 option \<times> (anyhow + (printed_output \<times> i32) option)) \<times> session" where
  "client_main S command s =
     (case dispatch S command s of (result, t) \<Rightarrow> ((exit_status result, result), t))"

text \<open>
  \<open>main\<close> from the words of the command line. \<open>parse\<close> is \<open>Cli::parse\<close>: clap gives the command, or
  prints a text (the help, the version, a usage error) and ends the process with its code.
\<close>

definition rsdb_main ::
  "(string list \<Rightarrow> i32 + commands) \<Rightarrow> surroundings \<Rightarrow> string list \<Rightarrow> session \<Rightarrow>
   (i32 option \<times> (anyhow + (printed_output \<times> i32) option) option) \<times> session" where
  "rsdb_main parse S argv s =
     (case parse argv of
        Inl code \<Rightarrow> ((Some code, None), s)
      | Inr command \<Rightarrow> (case client_main S command s of ((status, result), t) \<Rightarrow> ((status, Some result), t)))"

end
