(* ===== verification/Cli_Main_Facts.thy ===== *)
theory Cli_Main_Facts
  imports Cli_Main Cli_Agent_Facts
begin

text \<open>
  What every run of the client keeps to: the shape of the agent commands' output and of their
  failures, and the exit status of the process.
\<close>

section \<open>The errors an action can end with\<close>

definition fails_as :: "('e \<Rightarrow> bool) \<Rightarrow> ('s, 'e, 'a) act \<Rightarrow> bool" where
  "fails_as P m \<longleftrightarrow> (\<forall>s e t. m s = (Inl e, t) \<longrightarrow> P e)"

named_theorems fails_intros \<open>errors of composed actions\<close>

lemma fails_retE [fails_intros]: "fails_as P (retE a)"
  by (simp add: fails_as_def)

lemma fails_failE [fails_intros]: "P e \<Longrightarrow> fails_as P (failE e)"
  by (simp add: fails_as_def)

lemma fails_liftE [fails_intros]: "(\<And>e. r = Inl e \<Longrightarrow> P e) \<Longrightarrow> fails_as P (liftE r)"
  by (auto simp: fails_as_def liftE_def)

lemma fails_bindE [fails_intros]:
  assumes "fails_as P m" "\<And>a. fails_as P (f a)"
  shows "fails_as P (bindE m f)"
  using assms by (fastforce simp: fails_as_def bindE_def split: prod.splits sum.splits)

lemma fails_thenE [fails_intros]: "fails_as P m \<Longrightarrow> fails_as P n \<Longrightarrow> fails_as P (thenE m n)"
  unfolding thenE_def by (intro fails_bindE)

lemma fails_map_errE [fails_intros]: "(\<And>e. P (f e)) \<Longrightarrow> fails_as P (map_errE f m)"
  by (auto simp: fails_as_def map_errE_def split: prod.splits sum.splits)

lemma fails_tryE [fails_intros]: "fails_as P (tryE m)"
  by (auto simp: fails_as_def tryE_def split: prod.splits)

lemma fails_if [fails_intros]: "(b \<Longrightarrow> fails_as P m) \<Longrightarrow> (\<not> b \<Longrightarrow> fails_as P n) \<Longrightarrow> fails_as P (if b then m else n)"
  by simp

lemma fails_case_option [fails_intros]:
  "(x = None \<Longrightarrow> fails_as P m) \<Longrightarrow> (\<And>a. x = Some a \<Longrightarrow> fails_as P (n a)) \<Longrightarrow>
     fails_as P (case x of None \<Rightarrow> m | Some a \<Rightarrow> n a)"
  by (simp split: option.split)

lemma fails_case_sum [fails_intros]:
  "(\<And>e. x = Inl e \<Longrightarrow> fails_as P (m e)) \<Longrightarrow> (\<And>a. x = Inr a \<Longrightarrow> fails_as P (n a)) \<Longrightarrow>
     fails_as P (case x of Inl e \<Rightarrow> m e | Inr a \<Rightarrow> n a)"
  by (simp split: sum.split)

lemma fails_case_prod [fails_intros]:
  "(\<And>a b. p = (a, b) \<Longrightarrow> fails_as P (m a b)) \<Longrightarrow> fails_as P (case p of (a, b) \<Rightarrow> m a b)"
  by (simp split: prod.split)

lemma fails_case_list [fails_intros]:
  "(xs = [] \<Longrightarrow> fails_as P m) \<Longrightarrow> (\<And>y ys. xs = y # ys \<Longrightarrow> fails_as P (n y ys)) \<Longrightarrow>
     fails_as P (case xs of [] \<Rightarrow> m | y # ys \<Rightarrow> n y ys)"
  by (simp split: list.split)

lemma fails_on_host [fails_intros]: "fails_as P m \<Longrightarrow> fails_as P (on_host m)"
  by (auto simp: fails_as_def on_host_def split: prod.splits)

lemma fails_on_connection [fails_intros]:
  "(\<And>outcome. fails_as P (f outcome)) \<Longrightarrow> fails_as P (on_connection f)"
  by (fastforce simp: fails_as_def on_connection_def split: prod.splits)

section \<open>The failures of the agent commands\<close>

definition retryable_codes :: "string list" where
  "retryable_codes = [''connection.timeout'', ''connection.refused'', ''exec.timeout'', ''transfer.interrupted'']"

definition failure_codes :: "string list" where
  "failure_codes = retryable_codes @
     [''invalid.request'', ''internal.error'', ''target.required'', ''capability.missing'',
      ''exec.start_failed'', ''exec.nonzero'', ''fs.not_found'', ''fs.permission_denied'',
      ''fs.precondition_failed'', ''fs.no_space'', ''transfer.verification_failed'', ''transfer.failed'',
      ''daemon.error'', ''connection.protocol_mismatch'']"

text \<open>
  A documented code; only the four that a later attempt may mend say so; and an exit code that is
  1, or the status of the remote command.
\<close>

definition typed_failure :: "agent_command_failure \<Rightarrow> bool" where
  "typed_failure err \<longleftrightarrow>
     af_code err \<in> set failure_codes \<and>
     (af_retryable err \<longleftrightarrow> af_code err \<in> set retryable_codes) \<and>
     (if af_code err = ''exec.nonzero'' then af_exit_code err \<noteq> 0 else af_exit_code err = 1)"

lemmas failure_codes_defs = typed_failure_def failure_codes_def retryable_codes_def

lemma typed_invalid [fails_intros]: "typed_failure (invalid_request_failure m t d)"
  by (simp add: failure_codes_defs invalid_request_failure_def)

lemma typed_internal [fails_intros]: "typed_failure (internal_agent_failure err)"
  by (simp add: failure_codes_defs internal_agent_failure_def)

lemma typed_unexpected [fails_intros]: "typed_failure (unexpected_response debug r)"
  by (simp add: unexpected_response_def typed_internal)

lemma typed_remote [fails_intros]: "typed_failure (map_remote_error cmd t c m d)"
  by (cases c) (auto simp: failure_codes_defs map_remote_error_def remote_code_def)

lemma typed_remote_exec [fails_intros]: "typed_failure (map_remote_exec_error t c m d)"
  by (simp add: map_remote_exec_error_def typed_remote)

lemma typed_transport [fails_intros]: "typed_failure (map_transport_error cmd t err)"
  using typed_remote
  by (auto simp: map_transport_error_def split: option.split)
    (auto simp: failure_codes_defs transport_code_def)

lemma typed_details: "typed_failure err \<Longrightarrow> typed_failure (err\<lparr>af_details := d\<rparr>)"
  by (simp add: typed_failure_def)

lemma typed_operation [fails_intros]: "typed_failure (map_operation_error cmd t err d)"
  using typed_remote typed_details [OF typed_transport]
  by (auto simp: map_operation_error_def split: option.split) (auto simp: failure_codes_defs)

lemma typed_verification [fails_intros]: "typed_failure (transfer_verification_failure t m d)"
  by (simp add: failure_codes_defs transfer_verification_failure_def)

lemma typed_nonzero: "status \<noteq> 0 \<Longrightarrow> typed_failure (nonzero_failure t status d)"
  by (simp add: failure_codes_defs nonzero_failure_def)

lemma typed_target: "require_agent_target C target = Inl err \<Longrightarrow> typed_failure err"
  by (auto simp: require_agent_target_def typed_internal split: option.splits sum.splits)
    (auto simp: failure_codes_defs)

lemma typed_mode: "parse_mode_option mode = Inl err \<Longrightarrow> typed_failure err"
  by (auto simp: parse_mode_option_def parse_mode_def Let_def typed_invalid split: option.splits sum.splits)

lemma typed_content: "encode_local_content L bs enc = Inl err \<Longrightarrow> typed_failure err"
  by (auto simp: encode_local_content_def typed_invalid split: content_encoding.splits if_splits)

lemma typed_paths: "split_agent_paths cmd t paths = Inl err \<Longrightarrow> typed_failure err"
  by (auto simp: split_agent_paths_def typed_invalid split: sum.splits)

lemmas typed_lifts = typed_target typed_mode typed_content typed_paths

section \<open>The commands fail only so\<close>

lemma fails_agent_request [fails_intros]: "fails_as typed_failure (agent_request L outcome cmd t req d)"
  unfolding agent_request_def
  by (rule fails_bindE, rule fails_map_errE, rule typed_transport)
    (simp add: fails_intros split: control_response.split)

lemma fails_agent_fs_call [fails_intros]: "fails_as typed_failure (agent_fs_call L debug outcome cmd t req d select)"
  unfolding agent_fs_call_def by (intro fails_intros)

lemma fails_write_input [fails_intros]: "fails_as typed_failure (read_fs_write_input si f stdin)"
  by (auto simp: read_fs_write_input_def intro!: fails_intros split: option.split bool.split sum.split)
    (auto simp: failure_codes_defs)

text \<open>The result of a command: an envelope with data, an envelope with a failure, or a closed stream.\<close>

definition typed_result :: "agent_result \<Rightarrow> bool" where
  "typed_result result \<longleftrightarrow> (case result of (lines, code) \<Rightarrow>
     (\<exists>data. lines = [Success data] \<and> code = 0) \<or>
     (\<exists>err. lines = [Failure err] \<and> code = af_exit_code err \<and> typed_failure err) \<or>
     closes lines code \<and> (case last lines of AgentEvent _ _ (Some err) \<Rightarrow> typed_failure err | _ \<Rightarrow> True))"

definition gives :: "('a \<Rightarrow> bool) \<Rightarrow> ('s, 'e, 'a) act \<Rightarrow> bool" where
  "gives P m \<longleftrightarrow> (\<forall>s a t. m s = (Inr a, t) \<longrightarrow> P a)"

lemma gives_bindE: "(\<And>a. gives P (f a)) \<Longrightarrow> gives P (bindE m f)"
  by (fastforce simp: gives_def bindE_def split: prod.splits sum.splits)

lemma gives_thenE: "gives P n \<Longrightarrow> gives P (thenE m n)"
  unfolding thenE_def by (intro gives_bindE)

lemma gives_retE: "P a \<Longrightarrow> gives P (retE a)"
  by (simp add: gives_def)

lemma gives_failE: "gives P (failE e)"
  by (simp add: gives_def)

lemma gives_case_prod: "(\<And>a b. gives P (m a b)) \<Longrightarrow> gives P (case p of (a, b) \<Rightarrow> m a b)"
  by (simp split: prod.split)

lemma gives_on_connection: "(\<And>outcome. gives P (f outcome)) \<Longrightarrow> gives P (on_connection f)"
  by (fastforce simp: gives_def on_connection_def split: prod.splits)

lemmas gives_intros = gives_bindE gives_thenE gives_retE gives_failE

lemma typed_success: "typed_result (emit_agent_success data)"
  by (simp add: typed_result_def emit_agent_success_def)

lemma typed_failed: "typed_failure err \<Longrightarrow> typed_result (emit_agent_failure err)"
  by (simp add: typed_result_def emit_agent_failure_def)

lemma typed_outcome:
  assumes "fails_as typed_failure m" "gives typed_result m"
  shows "gives typed_result (bindE (tryE m) (\<lambda>r.
    retE (case r of Inl err \<Rightarrow> emit_agent_failure err | Inr res \<Rightarrow> res)))"
  unfolding gives_def
proof (intro allI impI)
  fix s a t
  assume run: "bindE (tryE m) (\<lambda>r. retE (case r of Inl err \<Rightarrow> emit_agent_failure err | Inr res \<Rightarrow> res)) s = (Inr a, t)"
  obtain r u where m: "m s = (r, u)" by force
  show "typed_result a"
  proof (cases r)
    case (Inl err)
    with assms(1) m have "typed_failure err" unfolding fails_as_def by blast
    moreover from run m Inl have "a = emit_agent_failure err" by (simp add: bindE_def tryE_def)
    ultimately show ?thesis by (simp add: typed_failed)
  next
    case (Inr res)
    with assms(2) m have "typed_result res" unfolding gives_def by blast
    with run m Inr show ?thesis by (simp add: bindE_def tryE_def)
  qed
qed

lemma typed_finish:
  "fails_as typed_failure m \<Longrightarrow> gives typed_result m \<Longrightarrow> gives typed_result (agent_finish m)"
  unfolding agent_finish_def by (rule typed_outcome)

lemma gives_agent_fs_call: "gives typed_result (agent_fs_call L debug outcome cmd t req d select)"
  unfolding agent_fs_call_def
  by (rule gives_bindE) (auto intro: gives_retE gives_failE typed_success simp del: retE_run failE_run split: option.split)

lemma typed_fs_command: "gives typed_result (agent_fs_command S target command outcome)"
proof (cases command)
  case (AfStat path hash)
  show ?thesis
    unfolding AfStat agent_fs_command_def Let_def agent_fs_commands.case agent_fs_stat_command_def
    by (intro typed_finish gives_bindE gives_agent_fs_call fails_intros) (rule typed_lifts)
next
  case (AfList path recursive max_depth include_hidden hash)
  show ?thesis
    unfolding AfList agent_fs_command_def Let_def agent_fs_commands.case agent_fs_list_command_def
    by (intro typed_finish gives_bindE gives_agent_fs_call fails_intros) (rule typed_lifts)
next
  case (AfRead path encoding max_bytes)
  show ?thesis
    unfolding AfRead agent_fs_command_def Let_def agent_fs_commands.case agent_fs_read_command_def
    by (intro typed_finish gives_bindE gives_agent_fs_call fails_intros) (rule typed_lifts)
next
  case (AfWrite path input_file stdin encoding mode create_parent atomic if_missing if_sha256)
  show ?thesis
    unfolding AfWrite agent_fs_command_def Let_def agent_fs_commands.case agent_fs_write_command_def
    by (intro typed_finish gives_bindE gives_agent_fs_call fails_intros) (erule typed_lifts)+
next
  case (AfMkdir path parents mode)
  show ?thesis
    unfolding AfMkdir agent_fs_command_def Let_def agent_fs_commands.case agent_fs_mkdir_command_def
    by (intro typed_finish gives_bindE gives_agent_fs_call fails_intros) (erule typed_lifts)+
next
  case (AfRm path recursive force if_exists)
  show ?thesis
    unfolding AfRm agent_fs_command_def Let_def agent_fs_commands.case agent_fs_rm_command_def
    by (intro typed_finish gives_bindE gives_agent_fs_call fails_intros) (rule typed_lifts)
next
  case (AfMove source destination overwrite)
  show ?thesis
    unfolding AfMove agent_fs_command_def Let_def agent_fs_commands.case agent_fs_move_command_def
    by (intro typed_finish gives_bindE gives_agent_fs_call fails_intros) (rule typed_lifts)
qed

section \<open>Exec\<close>

lemma typed_exec_failed: "typed_failure err \<Longrightarrow> exec_failed err = (lines, Some code) \<Longrightarrow>
    case last lines of AgentEvent _ _ (Some e) \<Rightarrow> typed_failure e | _ \<Rightarrow> True"
  by (auto simp: exec_failed_def)

abbreviation typed_last :: "agent_line list \<Rightarrow> bool" where
  "typed_last lines \<equiv> (case last lines of AgentEvent _ _ (Some e) \<Rightarrow> typed_failure e | _ \<Rightarrow> True)"

lemma typed_exec_response: "exec_response_lines debug t rt d chk r = (lines, Some code) \<Longrightarrow> typed_last lines"
  by (cases r)
    (auto simp: exec_response_lines_def Let_def exec_nonzero_failure_from_completion_def
      dest!: typed_exec_failed [OF typed_remote_exec] typed_exec_failed [OF typed_unexpected]
      intro: typed_nonzero split: if_splits)

lemma typed_exec_frame: "exec_frame_lines L debug t rt d chk h p = (lines, Some code) \<Longrightarrow> typed_last lines"
  by (auto simp: exec_frame_lines_def typed_exec_response dest!: typed_exec_failed [OF typed_internal]
      split: if_splits sum.splits stream_channel.splits)

lemma typed_exec_loop: "exec_stream_loop L debug t rt d chk w = ((lines, code), w') \<Longrightarrow> typed_last lines"
proof (induction L debug t rt d chk w arbitrary: lines code w' rule: exec_stream_loop.induct)
  case (1 L debug target rt details chk w)
  show ?case
  proof (cases "read_frame_into conn_read_exact w")
    case (Pair r w1)
    show ?thesis
    proof (cases r)
      case (Inl err)
      with Pair "1.prems" show ?thesis
        by (subst (asm) exec_stream_loop.simps) (auto simp: typed_transport)
    next
      case (Inr hp)
      obtain header payload where hp: "hp = (header, payload)" by force
      note rd = Pair [unfolded Inr hp]
      obtain ls res where fr: "exec_frame_lines L debug target rt details chk header payload = (ls, res)" by force
      show ?thesis
      proof (cases res)
        case (Some c)
        with rd fr "1.prems" have "lines = ls" by (subst (asm) exec_stream_loop.simps) simp
        with typed_exec_frame fr Some show ?thesis by simp
      next
        case None
        obtain rest c w2 where go: "exec_stream_loop L debug target rt details chk w1 = ((rest, c), w2)"
          by (metis prod_cases3 surj_pair)
        with rd fr None "1.prems" have "lines = ls @ rest" by (subst (asm) exec_stream_loop.simps) simp
        moreover from exec_loop_closes [OF go] have "rest \<noteq> []" by (simp add: closes_def)
        moreover from "1.IH" [OF rd [symmetric] refl refl fr [unfolded None, symmetric] refl go] have "typed_last rest" .
        ultimately show ?thesis by simp
      qed
    qed
  qed
qed

lemma typed_exec_stream: "gives typed_result (run_agent_exec_stream L debug outcome ms t rt p args dir secs chk)"
  unfolding run_agent_exec_stream_def
  by (rule gives_thenE, rule gives_thenE)
    (auto simp: gives_def typed_result_def exec_loop_closes typed_exec_loop split: prod.splits)

lemma fails_exec_stream: "fails_as typed_failure (run_agent_exec_stream L debug outcome ms t rt p args dir secs chk)"
  unfolding run_agent_exec_stream_def
  by (intro fails_thenE fails_map_errE typed_transport typed_internal) (auto simp: fails_as_def split: prod.splits)

lemma typed_exec: "gives typed_result (run_agent_exec L debug outcome ms t rt p args dir secs chk)"
  unfolding run_agent_exec_def
  by (rule gives_bindE) (auto simp: Let_def simp del: retE_run failE_run
      intro: gives_retE gives_failE typed_success split: control_response.split)

lemma fails_exec: "fails_as typed_failure (run_agent_exec L debug outcome ms t rt p args dir secs chk)"
  unfolding run_agent_exec_def
  by (rule fails_bindE, rule fails_map_errE, rule typed_transport)
    (auto simp: Let_def exec_nonzero_failure_def simp del: retE_run failE_run
      intro: fails_intros typed_nonzero split: control_response.split)

lemma typed_exec_command:
  "gives typed_result (agent_exec_command L C debug outcome ms target stream chk dir secs argv)"
  unfolding agent_exec_command_def
proof (rule typed_finish)
  show "fails_as typed_failure (bindE (liftE (require_agent_target C target)) (\<lambda>resolved_target.
        case argv of
          [] \<Rightarrow> failE (invalid_request_failure ''exec requires a command after `--`'' (Some resolved_target)
                (json_object [(''field'', JString ''command'')]))
        | program # args \<Rightarrow> (if stream then run_agent_exec_stream else run_agent_exec) L debug outcome ms
              resolved_target (agent_response_target target resolved_target) program args dir secs chk))"
    by (intro fails_bindE fails_case_list fails_liftE fails_failE typed_invalid)
      (auto intro: typed_target fails_exec_stream fails_exec)
  show "gives typed_result (bindE (liftE (require_agent_target C target)) (\<lambda>resolved_target.
        case argv of
          [] \<Rightarrow> failE (invalid_request_failure ''exec requires a command after `--`'' (Some resolved_target)
                (json_object [(''field'', JString ''command'')]))
        | program # args \<Rightarrow> (if stream then run_agent_exec_stream else run_agent_exec) L debug outcome ms
              resolved_target (agent_response_target target resolved_target) program args dir secs chk))"
    by (rule gives_bindE) (auto simp del: failE_run intro: gives_failE typed_exec_stream typed_exec split: list.split)
qed

section \<open>Transfers\<close>

lemma fails_stat_request [fails_intros]: "fails_as typed_failure (remote_fs_stat_request L debug t p h)"
  unfolding remote_fs_stat_request_def
  by (rule fails_on_connection, rule fails_bindE)
    (auto simp del: retE_run failE_run intro: fails_intros split: control_response.split)

lemma fails_list_request [fails_intros]: "fails_as typed_failure (remote_fs_list_request L debug t p h)"
  unfolding remote_fs_list_request_def
  by (rule fails_on_connection, rule fails_bindE)
    (auto simp del: retE_run failE_run intro: fails_intros split: control_response.split)

lemma fails_move_request [fails_intros]: "fails_as typed_failure (remote_fs_move_request L debug t a b ov)"
  unfolding remote_fs_move_request_def
  by (rule fails_on_connection, rule fails_bindE)
    (auto simp del: retE_run failE_run intro: fails_intros split: control_response.split)

lemma typed_state: "transfer_state_from_stat st = Inl err \<Longrightarrow> typed_failure err"
  by (auto simp: transfer_state_from_stat_def typed_internal split: option.splits)

lemma typed_entries: "insert_remote_entries rt es m = Inl err \<Longrightarrow> typed_failure err"
  by (induction es arbitrary: m) (auto simp: typed_internal split: sum.splits)

lemma fails_collect [fails_intros]: "fails_as typed_failure (collect_remote_transfer_state L debug t rt h)"
  unfolding collect_remote_transfer_state_def Let_def
  by (intro fails_intros) (erule typed_state typed_entries)+

lemma fails_roots [fails_intros]: "fails_as typed_failure (resolve_remote_batch_roots L debug t d roots)"
  unfolding resolve_remote_batch_roots_def Let_def
  by (intro fails_intros) (auto simp: typed_internal split: sum.splits)

lemma fails_pull_sources [fails_intros]: "fails_as typed_failure (resolve_sha256_pull_sources L debug t sources)"
  by (induction sources) (auto simp del: retE_run failE_run intro!: fails_intros)

lemma fails_local_state [fails_intros]: "fails_as typed_failure (local_state L t h src rt)"
  unfolding local_state_def by (intro fails_intros)

lemma fails_verify_roots [fails_intros]: "fails_as typed_failure (verify_pushed_roots L debug t mode pairs)"
  by (induction pairs) (auto simp del: retE_run failE_run intro!: fails_intros)

lemma fails_verify_push [fails_intros]: "fails_as typed_failure (verify_push L debug t verify pairs)"
  unfolding verify_push_def by (intro fails_intros)

text \<open>A failed move of a staged path is reported as it is, so it is the failure of a request.\<close>

lemma bind_try_fails:
  assumes "fails_as P m" "\<And>a. fails_as P (f (Inr a))" "\<And>e. P e \<Longrightarrow> fails_as P (f (Inl e))"
  shows "fails_as P (bindE (tryE m) f)"
  unfolding fails_as_def
proof (intro allI impI)
  fix s e t
  assume run: "bindE (tryE m) f s = (Inl e, t)"
  obtain r u where m: "m s = (r, u)" by force
  show "P e"
  proof (cases r)
    case (Inl x)
    with assms(1) m have "P x" unfolding fails_as_def by blast
    with assms(3) run m Inl show ?thesis by (auto simp: bindE_def tryE_def fails_as_def)
  next
    case (Inr a)
    with assms(2) run m show ?thesis by (auto simp: bindE_def tryE_def fails_as_def)
  qed
qed

lemma fails_push_root [fails_intros]:
  "fails_as typed_failure (push_staged_root L debug t manifest nonce i src rt)"
proof -
  have move: "fails_as typed_failure
     (bindE (tryE (remote_fs_move_request L debug t a b ov)) (\<lambda>moved.
        case moved of Inl err \<Rightarrow> bindE (tryE (cleanup_remote_path L debug t a)) (\<lambda>_. failE err)
        | Inr _ \<Rightarrow> retE sm))" for a b ov and sm :: push_summary
    by (rule bind_try_fails) (auto simp del: retE_run failE_run intro: fails_intros)
  show ?thesis
    unfolding push_staged_root_def Let_def
    by (intro fails_bindE fails_map_errE fails_tryE fails_case_sum fails_failE move typed_operation)
qed

lemma fails_push_roots [fails_intros]:
  "fails_as typed_failure (push_staged_roots L debug t manifest nonce if_changed items counts)"
  by (induction items arbitrary: counts) (auto simp del: retE_run failE_run intro!: fails_intros)

lemma fails_transfer_push: "fails_as typed_failure (run_agent_transfer_push L debug nonce t srcs d verify atomic chg)"
  unfolding run_agent_transfer_push_def Let_def by (intro fails_intros)

lemma fails_pulled_roots [fails_intros]: "fails_as typed_failure (verify_pulled_roots L debug t pairs)"
  by (induction pairs) (auto simp: Let_def simp del: retE_run failE_run intro!: fails_intros)

lemma fails_verify_pull [fails_intros]: "fails_as typed_failure (verify_pull L debug t srcs d roots sm mode)"
  unfolding verify_pull_def Let_def
  by (cases mode) (auto simp del: retE_run failE_run intro!: fails_intros)

lemma fails_transfer_pull: "fails_as typed_failure (run_agent_transfer_pull L debug t srcs d verify)"
  unfolding run_agent_transfer_pull_def by (intro fails_intros)

lemma typed_transfer_command: "gives typed_result (agent_transfer_command S target command)"
proof (cases command)
  case (AtPush verify atomic if_changed paths)
  show ?thesis
    unfolding AtPush agent_transfer_command_def agent_transfer_commands.case agent_transfer_push_command_def
    by (intro typed_outcome fails_bindE fails_liftE fails_case_prod fails_transfer_push fails_retE
        gives_bindE gives_case_prod gives_retE typed_success) (erule typed_lifts)+
next
  case (AtPull verify paths)
  show ?thesis
    unfolding AtPull agent_transfer_command_def agent_transfer_commands.case agent_transfer_pull_command_def
    by (intro typed_outcome fails_bindE fails_liftE fails_case_prod fails_transfer_pull fails_retE
        gives_bindE gives_case_prod gives_retE typed_success) (erule typed_lifts)+
qed

section \<open>The output of an agent command\<close>

lemma never_fails: "fails_as (\<lambda>_. False) m \<Longrightarrow> \<exists>a t. m s = (Inr a, t)"
  unfolding fails_as_def by (metis old.sum.exhaust surj_pair)

lemma agent_finish_succeeds: "fails_as P (agent_finish m)"
  unfolding agent_finish_def by (intro fails_bindE fails_tryE fails_retE)

lemma fs_command_succeeds: "fails_as P (agent_fs_command S target command outcome)"
  unfolding agent_fs_command_def Let_def
  by (cases command)
    (simp_all add: agent_finish_succeeds agent_fs_stat_command_def agent_fs_list_command_def agent_fs_read_command_def
      agent_fs_write_command_def agent_fs_mkdir_command_def agent_fs_rm_command_def agent_fs_move_command_def)

lemma transfer_command_succeeds: "fails_as P (agent_transfer_command S target command)"
  unfolding agent_transfer_command_def agent_transfer_push_command_def agent_transfer_pull_command_def
  by (cases command) (auto intro: fails_bindE fails_tryE fails_retE simp del: retE_run)

lemma agent_command_succeeds: "fails_as P (agent_command S target command)"
  unfolding agent_command_def Let_def
  by (cases command)
    (auto simp del: retE_run intro!: fails_bindE fails_retE fails_on_connection transfer_command_succeeds
      fs_command_succeeds agent_finish_succeeds simp: agent_exec_command_def)

text \<open>A well-typed output: the schema with code 0, or well-typed lines.\<close>

fun typed_output :: "agent_output \<times> i32 \<Rightarrow> bool" where
  "typed_output (SchemaText schema, code) \<longleftrightarrow> schema = agent_schema_compact \<and> code = 0"
| "typed_output (AgentLines lines, code) \<longleftrightarrow> typed_result (lines, code)"

lemma typed_lines: "typed_result result \<Longrightarrow> typed_output (map_prod AgentLines id result)"
  by (cases result) simp

lemma gives_lines:
  assumes "gives typed_result m"
  shows "gives typed_output (bindE m (\<lambda>result. retE (map_prod AgentLines id result)))"
  using assms
  by (fastforce simp: gives_def bindE_def split: prod.splits sum.splits)

lemma agent_command_typed: "gives typed_output (agent_command S target command)"
proof (cases command)
  case AgSchema
  show ?thesis
    by (auto simp: AgSchema agent_command_def agent_schema_command_def gives_def
      intro!: typed_lines typed_failed typed_invalid)
next
  case (AgDiscover probe_addr timeout_ms)
  have "typed_result (agent_discover_command L C N now schedule target probe_addr)" for L C N now schedule
    by (auto simp: agent_discover_command_def typed_success intro!: typed_failed typed_invalid typed_transport
        split: sum.split)
  then show ?thesis
    by (simp add: AgDiscover agent_command_def gives_def typed_lines)
next
  case (AgExec stream check_status dir timeout_secs argv)
  show ?thesis
    unfolding AgExec agent_command_def Let_def agent_commands.case
    by (intro gives_lines gives_on_connection typed_exec_command)
next
  case (AgFs fs)
  show ?thesis
    unfolding AgFs agent_command_def Let_def agent_commands.case
    by (intro gives_lines gives_on_connection typed_fs_command)
next
  case (AgTransfer transfer)
  show ?thesis
    unfolding AgTransfer agent_command_def Let_def agent_commands.case
    by (intro gives_lines typed_transfer_command)
qed

text \<open>
  The documented shape of a printed line: \<open>ok\<close> with \<open>data\<close> or \<open>error\<close>, or \<open>event\<close> with one of
  them, and an error with its fields in order, the last three optional.
\<close>

fun error_shape :: "json \<Rightarrow> bool" where
  "error_shape (JObject ((k, JString code) # kvs)) \<longleftrightarrow>
     k = ''code'' \<and> code \<in> set failure_codes \<and>
     map fst kvs \<in> set (map ((#) ''message'') (subseqs [''target'', ''retryable'', ''details'']))"
| "error_shape _ \<longleftrightarrow> False"

fun object_shape :: "json \<Rightarrow> bool" where
  "object_shape (JObject _) \<longleftrightarrow> True"
| "object_shape _ \<longleftrightarrow> False"

fun line_shape :: "json \<Rightarrow> bool" where
  "line_shape (JObject [(k, JBool ok), (l, value)]) \<longleftrightarrow>
     k = ''ok'' \<and> (if ok then l = ''data'' \<and> object_shape value else l = ''error'' \<and> error_shape value)"
| "line_shape (JObject [(k, JString event), (l, value)]) \<longleftrightarrow>
     k = ''event'' \<and> (l = ''data'' \<and> object_shape value \<or> l = ''error'' \<and> error_shape value)"
| "line_shape _ \<longleftrightarrow> False"

lemma data_shape: "object_shape (agent_data_json data)"
  by (cases data) (simp_all add: agent_exec_data_json_def)

lemma failure_shape: "typed_failure err \<Longrightarrow> error_shape (agent_error_body_json err)"
  by (auto simp: agent_error_body_json_def typed_failure_def json_fields split: option.split)

lemma chunk_shape: "chunk_event line \<Longrightarrow> line_shape (agent_line_json line)"
  by (cases line rule: chunk_event.cases) (auto simp: json_fields)

lemma closing_shape:
  "closing_event line code \<Longrightarrow> (case line of AgentEvent _ _ (Some e) \<Rightarrow> typed_failure e | _ \<Rightarrow> True) \<Longrightarrow>
     line_shape (agent_line_json line)"
  by (cases "(line, code)" rule: closing_event.cases) (auto simp: json_unless_none_def failure_shape)

lemma typed_result_shape:
  assumes "typed_result (lines, code)" "line \<in> set lines"
  shows "line_shape (agent_line_json line)"
proof -
  consider data where "lines = [Success data]" | err where "lines = [Failure err]" "typed_failure err"
    | "closes lines code" "typed_last lines"
    using assms(1) by (auto simp: typed_result_def)
  then show ?thesis
  proof cases
    case 3
    then have "line = last lines \<or> line \<in> set (butlast lines)"
      using assms(2) by (metis append_butlast_last_id closes_def in_set_conv_decomp set_ConsD set_append UnE list.set(1) empty_iff list.set_intros(1))
    with 3 show ?thesis by (auto simp: closes_def chunk_shape closing_shape)
  qed (use assms(2) in \<open>auto simp: data_shape failure_shape\<close>)
qed


section \<open>The exit status\<close>

definition ends :: "'a option \<Rightarrow> bool" where
  "ends r \<longleftrightarrow> r \<noteq> None"

lemma command_ends: "(\<nexists>target argv. command = CmdShell target argv) \<Longrightarrow> gives ends (dispatch S command)"
  unfolding dispatch_def Let_def
  by (cases command)
    (auto simp del: retE_run failE_run simp: ends_def
      intro!: gives_bindE gives_case_prod gives_retE gives_failE split: prod.split sum.split)

lemma command_status:
  "case client_main S command s of ((status, result), t) \<Rightarrow>
     (case status of
        None \<Rightarrow> \<exists>target argv. command = CmdShell target argv
      | Some n \<Rightarrow> 0 \<le> n \<and> n \<le> 255 \<and> (n = 0 \<longleftrightarrow> (\<exists>output. result = Inr (Some (output, 0)))))"
proof -
  obtain result t where run: "dispatch S command s = (result, t)" by force
  have "\<exists>target argv. command = CmdShell target argv" if "result = Inr None"
  proof (rule ccontr)
    assume "\<not> ?thesis"
    from command_ends [OF this, of S] run that have "ends (None :: (printed_output \<times> i32) option)"
      unfolding gives_def by blast
    then show False by (simp add: ends_def)
  qed
  with run show ?thesis
    by (auto simp: client_main_def exit_status_def normalize_exit_status_def split: sum.split option.split)
qed

text \<open>
  C25: the exit status of the client is one that the system can report, between 0 and 255, and it
  is 0 only when the command has ended well with the code 0, or the command line only asked for
  a text; so no status of a remote process, however far out of range, is reported as success.
  Only a shell session can fail to end. Of clap this uses its documented exit codes, 0 for the help
  and the version and 2 for a wrong command line.
\<close>
theorem exit_status_bounds:
  assumes clap: "\<And>code. parse words = Inl code \<Longrightarrow> code = 0 \<or> code = 2"
  shows "case rsdb_main parse S words s of ((status, result), t) \<Rightarrow>
     (case status of
        None \<Rightarrow> \<exists>target argv. parse words = Inr (CmdShell target argv)
      | Some n \<Rightarrow> 0 \<le> n \<and> n \<le> 255 \<and>
          (n = 0 \<longleftrightarrow> parse words = Inl 0 \<or> (\<exists>output. result = Some (Inr (Some (output, 0))))))"
proof (cases "parse words")
  case (Inl code)
  with clap show ?thesis by (auto simp: rsdb_main_def)
next
  case (Inr command)
  with command_status [of command S s] show ?thesis
    by (auto simp: rsdb_main_def split: prod.splits option.splits)
qed

theorem exit_status_bounds_witness:
  "\<forall>S s. case rsdb_main (\<lambda>words. if words = [''ping''] then Inr (CmdPing None) else Inl 2) S [''ping''] s of
     ((status, result), t) \<Rightarrow> \<exists>n. status = Some n \<and> n \<le> 255 \<and> (n = 0 \<longrightarrow> (\<exists>output. result = Some (Inr (Some (output, 0)))))"
proof (intro allI)
  fix S :: surroundings and s :: session
  show "case rsdb_main (\<lambda>words. if words = [''ping''] then Inr (CmdPing None) else Inl 2) S [''ping''] s of
     ((status, result), t) \<Rightarrow> \<exists>n. status = Some n \<and> n \<le> 255 \<and> (n = 0 \<longrightarrow> (\<exists>output. result = Some (Inr (Some (output, 0)))))"
    using exit_status_bounds [of "\<lambda>words. if words = [''ping''] then Inr (CmdPing None) else Inl 2" "[''ping'']" S s]
    by (auto split: prod.splits option.splits)
qed

end
