(* ===== verification/Daemon_Log.thy ===== *)
theory Daemon_Log
  imports Daemon_Facts
begin

text \<open>
  The daemon's start up to its accept loop, with the set-up of logging and the writer that sends
  log lines to a file (\<open>SharedLogWriter\<close>, \<open>init_tracing\<close> and \<open>main\<close> of
  \<open>device/rsdbd/src/main.rs\<close>). The logging library is a parameter: the filter it parses, and the
  writes it makes. How binding the two sockets ends is an argument too. A log writer is a file
  behind a mutex that all clones share; a mutex is poisoned when a thread died holding it.
\<close>

section \<open>The log file\<close>

text \<open>\<open>OpenOptions::new().create(true).append(true).open(path)\<close>.\<close>

definition sys_open_append :: "string \<Rightarrow> u32 \<Rightarrow> loc io" where
  "sys_open_append path mode = syscall (\<lambda>w.
     case resolve w True path of
       Inl e \<Rightarrow> (Inl e, w)
     | Inr q \<Rightarrow>
         (case look w q of
            None \<Rightarrow>
              (case link_new q (new_inode FtFile mode w) w of
                 (Inl e, w') \<Rightarrow> (Inl e, w')
               | (Inr _, w') \<Rightarrow> (Inr q, w'))
          | Some nd \<Rightarrow> if i_type nd = FtDir then (Inl eisdir, w) else (Inr q, w)))"

text \<open>One \<open>write\<close> on a file opened for appending: all of the bytes, some of them, or an error.\<close>

definition file_write :: "loc \<Rightarrow> bytes \<Rightarrow> nat io" where
  "file_write q bs = with_decision (\<lambda>d w.
     case d of
       Proceed \<Rightarrow> (Inr (length bs), file_append q bs w)
     | Short n \<Rightarrow> (Inr (min n (length bs)), file_append q (take n bs) w)
     | Fail e n \<Rightarrow> (Inl e, w))"

datatype lock_result = LockGuard loc | LockPoisoned loc

fun lock_log :: "lock_result \<Rightarrow> loc" where
  "lock_log (LockGuard file) = file"
| "lock_log (LockPoisoned file) = file"

definition log_write :: "lock_result \<Rightarrow> bytes \<Rightarrow> nat io" where
  "log_write lock buf = file_write (lock_log lock) buf"

definition log_flush :: "lock_result \<Rightarrow> unit io" where
  "log_flush lock = file_flush (lock_log lock)"

section \<open>Starting\<close>

datatype log_writer = LogFile loc | LogStderr

text \<open>
  \<open>parse_filter\<close> is the logging library's reading of a filter. The result is the filter and where
  the log goes.
\<close>

definition default_filter :: "(string \<Rightarrow> 'f option) \<Rightarrow> 'f \<Rightarrow> host \<Rightarrow> 'f" where
  "default_filter parse_filter off H =
     (case env_var H ''RUST_LOG'' of
        None \<Rightarrow> off
      | Some value \<Rightarrow> (case parse_filter value of Some f \<Rightarrow> f | None \<Rightarrow> off))"

definition init_tracing :: "(string \<Rightarrow> 'f option) \<Rightarrow> 'f \<Rightarrow> host \<Rightarrow> ('f \<times> log_writer) app" where
  "init_tracing parse_filter off H =
     (let filter = default_filter parse_filter off H
      in case env_nonblank H ''RSDB_LOG_FILE'' of
           Some log_file \<Rightarrow>
             bindE (ctx (''failed to open log file: '' @ log_file) (sys_open_append log_file 0x1B6)) (\<lambda>file.
             retE (filter, LogFile file))
         | None \<Rightarrow> retE (filter, LogStderr))"

text \<open>
  \<open>main\<close> up to the accept loop: the TCP listener, what the host is, and the socket for discovery.
\<close>

definition daemon_start ::
  "(string \<Rightarrow> 'f option) \<Rightarrow> 'f \<Rightarrow> host \<Rightarrow> daemon_args \<Rightarrow> io_error + io_error + string \<times> u16 \<Rightarrow> io_error + unit \<Rightarrow>
   ('f \<times> log_writer \<times> server_state) app" where
  "daemon_start parse_filter off H args tcp udp =
     bindE (init_tracing parse_filter off H) (\<lambda>(filter, writer).
     case tcp of
       Inl e \<Rightarrow> failE (io_context (''failed to bind listener on '' @ arg_listen args) e)
     | Inr (Inl e) \<Rightarrow> failE (io_context ''failed to read bound tcp listener address'' e)
     | Inr (Inr (listen_addr, port)) \<Rightarrow>
         bindE (plain (server_setup H args port)) (\<lambda>state.
         case udp of
           Inl e \<Rightarrow> failE (io_context (''failed to bind discovery socket on '' @ listen_addr) e)
         | Inr _ \<Rightarrow> retE (filter, writer, state)))"

section \<open>The log only grows\<close>

text \<open>The writes of the logging library, one after the other, whatever it does about errors.\<close>

primrec log_writes :: "(lock_result \<times> bytes) list \<Rightarrow> world \<Rightarrow> (io_error + nat) list \<times> world" where
  "log_writes [] w = ([], w)"
| "log_writes (x # xs) w =
     (case log_write (fst x) (snd x) w of (r, w1) \<Rightarrow>
        case log_writes xs w1 of (rs, w2) \<Rightarrow> (r # rs, w2))"

definition accepted :: "io_error + nat \<Rightarrow> bytes \<Rightarrow> bytes" where
  "accepted r bs = (case r of Inl _ \<Rightarrow> [] | Inr n \<Rightarrow> take n bs)"

lemma log_write_run:
  assumes "log_write lock bs w = (r, v)" "lock_log lock = q" "look w q = Some nd" "i_type nd = FtFile"
  shows "\<exists>nd'. look v q = Some nd' \<and> i_type nd' = FtFile \<and> i_data nd' = i_data nd @ accepted r bs \<and>
    i_mode nd' = i_mode nd \<and> (\<forall>k. k \<noteq> q \<longrightarrow> look v k = look w k)"
  using assms
  by (auto simp: log_write_def file_write_def with_decision_def file_append_def look_set_node accepted_def min_def
      split: list.splits decision.splits)

lemma log_writes_run:
  assumes "log_writes xs w = (rs, v)" "\<forall>x \<in> set xs. lock_log (fst x) = q" "look w q = Some nd" "i_type nd = FtFile"
  shows "\<exists>nd'. look v q = Some nd' \<and> i_type nd' = FtFile \<and>
    i_data nd' = i_data nd @ concat (map2 accepted rs (map snd xs)) \<and> i_mode nd' = i_mode nd \<and>
    (\<forall>k. k \<noteq> q \<longrightarrow> look v k = look w k)"
  using assms
proof (induction xs arbitrary: w nd rs)
  case (Cons x xs)
  obtain r w1 rest where x: "log_write (fst x) (snd x) w = (r, w1)" and xs: "log_writes xs w1 = (rest, v)"
    and rs: "rs = r # rest"
    using Cons.prems(1) by (auto split: prod.splits)
  obtain nd1 where nd1: "look w1 q = Some nd1" "i_type nd1 = FtFile" "i_data nd1 = i_data nd @ accepted r (snd x)"
    "i_mode nd1 = i_mode nd" "\<forall>k. k \<noteq> q \<longrightarrow> look w1 k = look w k"
    using log_write_run [OF x _ Cons.prems(3,4)] Cons.prems(2) by auto
  from Cons.IH [OF xs _ nd1(1,2)] Cons.prems(2) nd1 rs show ?case by auto
qed auto

lemma open_append_ok:
  assumes "sys_open_append path mode w = (Inr q, w1)"
  shows "resolve w True path = Inr q"
    "(look w q = None \<and> look w1 q = Some (new_inode FtFile mode w) \<and> (\<forall>k. k \<noteq> q \<longrightarrow> look w1 k = look w k)) \<or>
     (\<exists>nd. look w q = Some nd \<and> i_type nd \<noteq> FtDir \<and> look w1 = look w)"
  using assms
  by (auto simp: sys_open_append_def syscall_def with_decision_def link_new_def look_set_node new_inode_def fun_eq_iff
      split: list.splits decision.splits sum.splits option.splits if_splits prod.splits)

text \<open>
  The daemon's log is append-only. Whatever the daemon's log file held before the daemon
  started is still there, in front; after it come exactly the parts of the log writes that the system
  accepted, in order, also when a thread died while it was logging; and starting the log and
  writing to it change no other file.
\<close>
theorem log_only_appends:
  assumes start: "init_tracing parse_filter off H w = (Inr (flt, LogFile q), w1)"
    and regular: "\<And>nd. look w q = Some nd \<Longrightarrow> i_type nd = FtFile"
    and writes: "log_writes xs w1 = (rs, v)" "\<forall>x \<in> set xs. lock_log (fst x) = q"
  shows "\<exists>nd. look v q = Some nd \<and>
    i_data nd = (case look w q of Some old \<Rightarrow> i_data old | None \<Rightarrow> []) @ concat (map2 accepted rs (map snd xs)) \<and>
    (\<forall>k. k \<noteq> q \<longrightarrow> look v k = look w k)"
proof -
  from start obtain path where op: "sys_open_append path 0x1B6 w = (Inr q, w1)"
    by (auto simp: init_tracing_def Let_def bindE_eq_Inr_iff ctx_def split: option.splits)
  obtain nd where nd: "look w1 q = Some nd" "i_type nd = FtFile" "\<forall>k. k \<noteq> q \<longrightarrow> look w1 k = look w k"
    "i_data nd = (case look w q of Some old \<Rightarrow> i_data old | None \<Rightarrow> [])"
    using open_append_ok(2) [OF op] regular by (auto simp: new_inode_def)
  from log_writes_run [OF writes nd(1,2)] nd(3,4) show ?thesis by auto
qed

definition log_host :: host where
  "log_host = \<lparr>env_var = (\<lambda>name. if name = ''RSDB_LOG_FILE'' then Some ''/tmp/a'' else None), const_os = ''linux'',
     const_arch = ''x86_64'', sync_output = (\<lambda>_ _. Inl enoent)\<rparr>"

theorem log_only_appends_witness:
  "\<exists>nd. look (snd (log_writes [(LockGuard [''tmp'', ''a''], [1, 2]), (LockPoisoned [''tmp'', ''a''], [3])] sample_world))
       [''tmp'', ''a''] = Some nd \<and> i_data nd = [104, 105, 1, 2, 3]"
proof -
  let ?xs = "[(LockGuard [''tmp'', ''a''], [1, 2 :: u8]), (LockPoisoned [''tmp'', ''a''], [3])]"
  have start: "init_tracing (\<lambda>_. None) () log_host sample_world = (Inr ((), LogFile [''tmp'', ''a'']), sample_world)"
    by code_simp
  have run: "log_writes ?xs sample_world = ([Inr 2, Inr 1], snd (log_writes ?xs sample_world))"
    by (simp add: log_write_def file_write_def with_decision_def sample_world_def world_of_def look_def
        file_append_def file_node_def set_node_def split: option.split)
  from log_only_appends [OF start _ run] sample_a(3) show ?thesis
    by (auto simp: accepted_def file_node_def simp del: log_writes.simps)
qed

end
