(* ===== verification/Frame_Probe.thy ===== *)
theory Frame_Probe
  imports World
begin

text \<open>
  The allocation probe of the protocol crate (\<open>crates/rsdb-proto/examples/frame_read_probe.rs\<close>): a
  reader over a byte slice, one stream frame of the largest chunk, and the two loops that decode
  it again and again, with a fresh payload and with a reused one. The slice reader is a third
  provider of the interface \<open>byte_reader\<close>, beside the connection and the tests' readers; so the
  facts about reading frames hold for it. A panic of \<open>expect\<close> is an error with its message. The
  times are left out; the allocator's calls are an argument.
\<close>

section \<open>Counting allocations\<close>

datatype alloc_call = Alloc | AllocZeroed | Dealloc | Realloc

definition count_alloc :: "alloc_call \<Rightarrow> u64 \<Rightarrow> u64" where
  "count_alloc call allocations = (case call of Dealloc \<Rightarrow> allocations | _ \<Rightarrow> allocations + 1)"

definition count_run :: "alloc_call list \<Rightarrow> u64" where
  "count_run calls = fold count_alloc calls 0"

section \<open>The slice reader\<close>

record slice_reader =
  sr_bytes :: bytes
  sr_offset :: nat

definition slice_reader_new :: "bytes \<Rightarrow> slice_reader" where
  "slice_reader_new bs = \<lparr>sr_bytes = bs, sr_offset = 0\<rparr>"

text \<open>One \<open>poll_read\<close> into a buffer with \<open>room\<close> bytes left; it is always ready.\<close>

definition slice_poll_read :: "nat \<Rightarrow> slice_reader \<Rightarrow> bytes \<times> slice_reader" where
  "slice_poll_read room r =
     (let remaining = drop (sr_offset r) (sr_bytes r)
      in if remaining = [] then ([], r)
         else let to_copy = min (length remaining) room
              in (take to_copy remaining, r\<lparr>sr_offset := sr_offset r + to_copy\<rparr>))"

text \<open>
  tokio's \<open>read_exact\<close>: it polls until the buffer is full, and fails where a poll brings nothing.
\<close>

function slice_read_exact :: "nat \<Rightarrow> slice_reader \<Rightarrow> (io_error + bytes) \<times> slice_reader" where
  "slice_read_exact n r =
     (if n = 0 then (Inr [], r)
      else
        case slice_poll_read n r of
          (chunk, r1) \<Rightarrow>
            if chunk = [] then (Inl (custom_error UnexpectedEof ''early eof''), r1)
            else
              (case slice_read_exact (n - length chunk) r1 of
                 (Inl e, r2) \<Rightarrow> (Inl e, r2)
               | (Inr rest, r2) \<Rightarrow> (Inr (chunk @ rest), r2)))"
  by pat_completeness auto
termination
  by (relation "measure fst") auto

declare slice_read_exact.simps [simp del]

definition slice_rest :: "slice_reader \<Rightarrow> bytes" where
  "slice_rest r = drop (sr_offset r) (sr_bytes r)"

lemma slice_poll_run:
  assumes "slice_poll_read n r = (chunk, r1)"
  shows "slice_rest r = chunk @ slice_rest r1 \<and> length chunk \<le> n \<and> (chunk = [] \<longrightarrow> n = 0 \<or> slice_rest r = [])"
proof (cases "drop (sr_offset r) (sr_bytes r) = []")
  case True
  with assms show ?thesis by (simp add: slice_poll_read_def slice_rest_def)
next
  case False
  let ?rest = "drop (sr_offset r) (sr_bytes r)" and ?k = "min (length (drop (sr_offset r) (sr_bytes r))) n"
  from False assms have "chunk = take ?k ?rest" "r1 = r\<lparr>sr_offset := sr_offset r + ?k\<rparr>"
    by (simp_all add: slice_poll_read_def Let_def)
  moreover have "drop (sr_offset r + ?k) (sr_bytes r) = drop ?k ?rest" by (simp add: add.commute)
  moreover have "?k = 0 \<Longrightarrow> n = 0" using False by simp
  ultimately show ?thesis using False by (auto simp: slice_rest_def simp del: drop_drop length_drop)
qed

lemma slice_read_run:
  "n \<le> length (slice_rest r) \<Longrightarrow>
     \<exists>t. slice_read_exact n r = (Inr (take n (slice_rest r)), t) \<and> slice_rest t = drop n (slice_rest r)"
proof (induction n r rule: slice_read_exact.induct)
  case (1 n r)
  show ?case
  proof (cases "n = 0")
    case True
    then show ?thesis by (simp add: slice_read_exact.simps [of 0])
  next
    case False
    obtain chunk r1 where poll: "slice_poll_read n r = (chunk, r1)" by force
    note p = slice_poll_run [OF poll]
    then have chunk: "chunk \<noteq> []" using False "1.prems" by auto
    have "n - length chunk \<le> length (slice_rest r1)" using p "1.prems" by simp
    from "1.IH" [OF False poll [symmetric] chunk this] obtain t where
      "slice_read_exact (n - length chunk) r1 = (Inr (take (n - length chunk) (slice_rest r1)), t)"
      "slice_rest t = drop (n - length chunk) (slice_rest r1)" by auto
    with False poll chunk p show ?thesis by (simp add: slice_read_exact.simps [of n])
  qed
qed

lemma slice_read_ok:
  "slice_read_exact n r = (Inr bs, t) \<Longrightarrow> length bs = n \<and> slice_rest r = bs @ slice_rest t"
proof (induction n r arbitrary: bs rule: slice_read_exact.induct)
  case (1 n r)
  show ?case
  proof (cases "n = 0")
    case True
    with "1.prems" show ?thesis by (simp add: slice_read_exact.simps [of 0])
  next
    case False
    obtain chunk r1 where poll: "slice_poll_read n r = (chunk, r1)" by force
    from "1.prems" False poll have chunk: "chunk \<noteq> []" by (auto simp: slice_read_exact.simps [of n] split: if_splits)
    obtain rest where rest: "slice_read_exact (n - length chunk) r1 = (Inr rest, t)" "bs = chunk @ rest"
      using "1.prems" False poll chunk by (auto simp: slice_read_exact.simps [of n] split: prod.splits sum.splits)
    from "1.IH" [OF False poll [symmetric] chunk rest(1)] rest(2) slice_poll_run [OF poll] show ?thesis by auto
  qed
qed

interpretation slice_r: byte_reader slice_read_exact slice_rest "\<lambda>_. True"
  by unfold_locales (use slice_read_ok slice_read_run in auto)

section \<open>The probe\<close>

definition probe_frame_bytes :: bytes where
  "probe_frame_bytes =
     (let payload = replicate DEFAULT_STREAM_CHUNK_SIZE 120;
          header = \<lparr>h_version = PROTOCOL_VERSION, h_kind = Stream, h_flags = stream_channel_code Stdout,
                    h_request_id = 7, h_payload_len = word_of_nat (length payload)\<rparr>
      in header_encode header @ payload)"

record 'a bench_result =
  br_seen :: 'a
  br_allocations :: u64

text \<open>The lengths that the loops pass to \<open>black_box\<close>, in order.\<close>

primrec read_frames :: "nat \<Rightarrow> bytes \<Rightarrow> string + nat list" where
  "read_frames 0 frame_bs = Inr []"
| "read_frames (Suc n) frame_bs =
     (case fst (read_frame slice_read_exact (slice_reader_new frame_bs)) of
        Inl e \<Rightarrow> Inl ''frame should decode''
      | Inr fr \<Rightarrow> map_sum id (\<lambda>seen. length (f_payload fr) # seen) (read_frames n frame_bs))"

definition run_read_frame :: "alloc_call list \<Rightarrow> bytes \<Rightarrow> nat \<Rightarrow> string + nat list bench_result" where
  "run_read_frame calls frame_bs iterations =
     map_sum id (\<lambda>seen. \<lparr>br_seen = seen, br_allocations = count_run calls\<rparr>) (read_frames iterations frame_bs)"

primrec read_frames_into :: "nat \<Rightarrow> bytes \<Rightarrow> string + (u32 \<times> nat) list" where
  "read_frames_into 0 frame_bs = Inr []"
| "read_frames_into (Suc n) frame_bs =
     (case fst (read_frame_into slice_read_exact (slice_reader_new frame_bs)) of
        Inl e \<Rightarrow> Inl ''frame should decode''
      | Inr (header, payload) \<Rightarrow>
          (case decode_stream_frame_header header of
             Inl e \<Rightarrow> Inl ''stream header should decode''
           | Inr stream \<Rightarrow>
               map_sum id (\<lambda>seen. (s_request_id stream, length payload) # seen) (read_frames_into n frame_bs)))"

definition run_read_frame_into :: "alloc_call list \<Rightarrow> bytes \<Rightarrow> nat \<Rightarrow> string + (u32 \<times> nat) list bench_result" where
  "run_read_frame_into calls frame_bs iterations =
     map_sum id (\<lambda>seen. \<lparr>br_seen = seen, br_allocations = count_run calls\<rparr>) (read_frames_into iterations frame_bs)"

definition ITERATIONS :: nat where
  "ITERATIONS = 20000"

text \<open>Two warming runs, then the two runs whose counts are printed.\<close>

definition probe_main ::
  "(nat \<Rightarrow> alloc_call list) \<Rightarrow> string + nat list bench_result \<times> (u32 \<times> nat) list bench_result" where
  "probe_main calls =
     (case run_read_frame (calls 0) probe_frame_bytes 1000 of
        Inl e \<Rightarrow> Inl e
      | Inr _ \<Rightarrow>
          case run_read_frame_into (calls 1) probe_frame_bytes 1000 of
            Inl e \<Rightarrow> Inl e
          | Inr _ \<Rightarrow>
              case run_read_frame (calls 2) probe_frame_bytes ITERATIONS of
                Inl e \<Rightarrow> Inl e
              | Inr baseline \<Rightarrow>
                  case run_read_frame_into (calls 3) probe_frame_bytes ITERATIONS of
                    Inl e \<Rightarrow> Inl e
                  | Inr optimized \<Rightarrow> Inr (baseline, optimized))"

section \<open>What the probe measures\<close>

lemma probe_frame:
  "probe_frame_bytes = stream_bytes 7 Stdout False (replicate DEFAULT_STREAM_CHUNK_SIZE 120)"
  by (simp add: probe_frame_bytes_def stream_bytes_def frame_bytes_def stream_flags_def)

lemma probe_reads:
  assumes "length p \<le> MAX_PAYLOAD_LEN"
  shows "\<exists>t. read_frame_into slice_read_exact (slice_reader_new (stream_bytes rid c eof p)) =
    (Inr (\<lparr>h_version = PROTOCOL_VERSION, h_kind = Stream, h_flags = stream_flags c eof, h_request_id = rid,
       h_payload_len = word_of_nat (length p)\<rparr>, p), t)"
  using slice_r.read_frame_into_live [of "slice_reader_new (stream_bytes rid c eof p)" Stream "stream_flags c eof" rid p "[]"] assms
  by (auto simp: slice_rest_def slice_reader_new_def stream_bytes_def)

lemma probe_loops:
  assumes "length p \<le> MAX_PAYLOAD_LEN"
  shows "read_frames n (stream_bytes rid c eof p) = Inr (replicate n (length p))"
    and "read_frames_into n (stream_bytes rid c eof p) = Inr (replicate n (rid, length p))"
proof -
  from probe_reads [OF assms] obtain t where
    "read_frame_into slice_read_exact (slice_reader_new (stream_bytes rid c eof p)) =
      (Inr (\<lparr>h_version = PROTOCOL_VERSION, h_kind = Stream, h_flags = stream_flags c eof, h_request_id = rid,
         h_payload_len = word_of_nat (length p)\<rparr>, p), t)" ..
  then show "read_frames n (stream_bytes rid c eof p) = Inr (replicate n (length p))"
    "read_frames_into n (stream_bytes rid c eof p) = Inr (replicate n (rid, length p))"
    by (induction n) (simp_all add: read_frame_def bindE_def decode_stream_frame_header_flags)
qed

text \<open>
  The probe compares like with like. It never panics, and in its measured runs both ways of
  reading decode the whole payload of every one of the 20000 frames, the second also the
  request id; each count is that of the allocator's calls during its own run.
\<close>
theorem probe_compares_like_with_like:
  "probe_main calls = Inr
     (\<lparr>br_seen = replicate 20000 DEFAULT_STREAM_CHUNK_SIZE, br_allocations = count_run (calls 2)\<rparr>,
      \<lparr>br_seen = replicate 20000 (7, DEFAULT_STREAM_CHUNK_SIZE), br_allocations = count_run (calls 3)\<rparr>)"
proof -
  have "length (replicate DEFAULT_STREAM_CHUNK_SIZE (120 :: u8)) \<le> MAX_PAYLOAD_LEN"
    by (simp add: DEFAULT_STREAM_CHUNK_SIZE_def MAX_PAYLOAD_LEN_def)
  note loops = probe_loops [OF this, of _ 7 Stdout False, folded probe_frame]
  show ?thesis
    unfolding probe_main_def run_read_frame_def run_read_frame_into_def loops ITERATIONS_def by simp
qed

end
