(* ===== verification/Spec2Isabelle.thy ===== *)
theory Spec2Isabelle
  imports Protocol Daemon_Fs_List Daemon_Facts Daemon_Batch_Facts Cli_Registry_Facts Cli_Discovery_Facts
    Transfer_Peers Cli_Progress_Facts Cli_Progress_Transfer Shell_Sessions Edit_Facts Cli_Main_Facts
    Daemon_Log Frame_Probe
begin

text \<open>
  A verification development of rsdb, a remote shell and file-transfer tool: a daemon \<open>rsdbd\<close>
  (\<open>device/rsdbd/src/main.rs\<close>), a command-line client \<open>rsdb\<close> (\<open>crates/rsdb-cli/src/main.rs\<close>) and
  the protocol they share (\<open>crates/rsdb-proto/src/lib.rs\<close>).

  \<^bold>\<open>The program.\<close> A client opens a TCP connection for each command, writes one request frame and
  reads response frames and stream frames. The daemon accepts connections, reads the first
  frame of each, dispatches on the request (ping, capabilities, exec, seven structured file
  operations, push and pull of single files and of batches, shells over pipes and PTYs) and
  writes its answers. Beside that, the daemon answers UDP probes, which the client uses to find
  daemons. The client keeps the targets it knows in a JSON file.

  \<^bold>\<open>How the code is modelled.\<close> An async function is an action: a function from a state to a
  result (an error or a value) and a new state (\<open>Prelude\<close>: \<open>act\<close>, \<open>bindE\<close>, \<open>failE\<close>). The state of
  either host is one \<open>world\<close> (\<open>World\<close>): an inode tree with symbolic links, permissions and times,
  the current directory, the clock, the connection's input and output, the buffer of a
  \<open>BufWriter\<close>, and a \<^emph>\<open>schedule\<close>, a list of decisions that make the system calls to come fail, cut
  short or proceed. A theorem that has no hypothesis on the schedule holds under every
  sequence of faults; \<open>sched w = []\<close> says that nothing goes wrong. Errors are \<open>anyhow\<close> chains of
  causes, as lists (\<open>Messages\<close>). Machine integers of the wire format are words; sizes and times
  are natural numbers. Libraries (\<open>serde_json\<close>, \<open>base64\<close>, \<open>sha2\<close>, \<open>glob\<close>, tokio's \<open>BufWriter\<close>,
  process creation, address parsing) are fields of the records \<open>libs\<close>, \<open>processes\<close> and \<open>cli_libs\<close>;
  what the code relies on of them is a named hypothesis (\<open>json_roundtrip\<close>, \<open>bufwriter_spec\<close>,
  \<open>output_spec\<close>, \<open>registry_json\<close>). What runs concurrently (a child process and its pipes, the
  tasks of a discovery, the pumps of a PTY) appears as the list of the events that a loop sees,
  in any order the theorem allows.

  \<^bold>\<open>Theories.\<close>
  \<^item> \<open>Prelude\<close>, \<open>Rust_Str\<close>: actions and their rules, little-endian bytes; strings as UTF-8 bytes,
    trimming, splitting, number printing and parsing. The locales \<open>effect\<close> and its extensions say
    what a relation between worlds must satisfy for every composed action to keep it; they are
    interpreted for each frame condition the proofs use (files unchanged, output grows, stays
    calm, tree well-formed).
  \<^item> \<open>Wire\<close>, \<open>Messages\<close>, \<open>Protocol\<close>: frames, stream frames, discovery datagrams and messages.
    The locales \<open>byte_reader\<close> and \<open>byte_writer\<close> are the interface of a connection, interpreted on
    the plain connection and on the buffered one. Headers decode exactly when they were encoded,
    frames survive the connection, and truncated input is an end-of-file error.
  \<^item> \<open>Paths\<close>, \<open>World\<close>, \<open>World_Facts\<close>, \<open>Resolve\<close>, \<open>Outcomes\<close>, \<open>Actions\<close>: \<open>std::path\<close>, the file system
    and its system calls, what each call may do, and that path resolution is stable under changes
    elsewhere.
  \<^item> \<open>Daemon_Fs\<close> with \<open>Daemon_Fs_Facts\<close>, \<open>Daemon_Fs_Ops\<close>, \<open>Daemon_Fs_List\<close>: \<open>fs.stat\<close>, \<open>list\<close>, \<open>read\<close>,
    \<open>write\<close>, \<open>mkdir\<close>, \<open>rm\<close>, \<open>move\<close> (lines 740--1480 of the daemon). An atomic write is all or nothing
    under every fault; reads, writes, removals, moves and listings do exactly what they report.
  \<^item> \<open>Daemon_Transfer\<close> with \<open>Daemon_Transfer_Facts\<close>, \<open>Daemon_Batch_Facts\<close>: push, pull and their batch
    forms. Received and sent bytes and counts are exact; entries stay below their root.
  \<^item> \<open>Daemon_Exec\<close> with \<open>Daemon_Exec_Facts\<close>: buffered and streamed exec and both kinds of shell, as
    refinements of an abstract relay machine; quoting of command lines.
  \<^item> \<open>Daemon\<close> with \<open>Daemon_Facts\<close>: host description, discovery, dispatch, connections, and the
    accept loop as an inductive relation \<open>serves\<close>; the file system stays a tree through any
    sequence of connections, and file-system requests have exactly one answer.
  \<^item> \<open>Ordered_Map\<close>: \<open>BTreeMap\<close> as a locale and its model.
  \<^item> \<open>Cli_Registry\<close>, \<open>Cli_Discovery\<close>, \<open>Cli_Request\<close>, \<open>Cli_Transfer\<close>, each with its \<open>_Facts\<close>: the
    client's addresses and saved targets, its discovery, its requests and path completion, and
    its manifests, pushes, pulls and comparison of trees.
  \<^item> \<open>Cli_Agent\<close>, \<open>Cli_Json\<close> with \<open>Cli_Agent_Facts\<close>: the commands that answer in JSON lines: failures
    and their codes, discovery, exec and the file commands, and the JSON values printed. A
    streamed exec always closes its stream.
  \<^item> \<open>Cli_Shell\<close> with \<open>Cli_Shell_Facts\<close> and \<open>Shell_Sessions\<close>: the client's shell session, a reading
    task and a select loop, alone and against the daemon's two shells: what is typed reaches the
    remote side and what that prints reaches the terminal, unchanged.
  \<^item> \<open>Cli_Agent_Transfer\<close>, \<open>Cli_Edit\<close> with \<open>Session_Facts\<close>, \<open>Edit_Facts\<close>: commands of several
    connections, as actions on a \<open>session\<close> (the client's host, the connections to come, what was
    sent): the staged push, verification, and editing a remote file. The locale \<open>effect\<close> is
    interpreted on the bytes a session sends.
  \<^item> \<open>Rust_F64\<close>, \<open>Cli_Progress\<close> with \<open>Cli_Progress_Facts\<close>, \<open>Cli_Progress_Transfer\<close>: double-precision
    numbers as rationals rounded to 53 bits; the text of byte counts, durations and rates, the
    progress line and when it is drawn and erased; push and pull with the display, which changes
    nothing of the transfer (a simulation, \<open>shows_as\<close>) and counts it exactly (\<open>yields\<close>).
  \<^item> \<open>Transfer_Peers\<close>: the client's and the daemon's transfer loops compared: the same actions, the
    wording of errors apart (\<open>quiet\<close>); what they do when nothing goes wrong.
  \<^item> \<open>Cli_Main\<close> with \<open>Cli_Main_Facts\<close>: the parsed command line, the dispatch of \<open>main\<close> and of the
    agent commands, the printed lines, and the exit status (\<open>rsdb_main\<close>); every agent command's
    output is well typed.
  \<^item> \<open>Daemon_Log\<close>: where the daemon's log goes and its start; \<open>Frame_Probe\<close>: the two decoding
    loops that \<open>examples/frame_read_probe.rs\<close> compares, on a third interpretation of \<open>byte_reader\<close>.
  \<^item> This theory: theorems about the client and the daemon together, each reading what the other
    wrote.

  \<^bold>\<open>Loops and fuel.\<close> Loops that read frames end because each frame takes a header off the
  input, loops that read a file because each read takes bytes off it. Recursion over a directory
  tree takes fuel, \<open>fs_height\<close>, one more than the longest path of the file system; a
  complete listing proves that it is enough. Symbolic links are followed at most 40 times, as the
  system does.

  \<^bold>\<open>Parameters and what is not modelled.\<close> The tracing library and what it formats, and clap's parsing
  of the words of a command line into the commands, are parameters (of \<open>Daemon_Log\<close> and of
  \<open>rsdb_main\<close>); clocks are what each reading of them returns. Not modelled: the text that
  \<open>serde_json\<close> renders of a JSON value; what child processes do to files; timeouts that expire inside
  a write; the repetition and the timing of the frame reading probe's measurements; the unit tests.
\<close>

section \<open>The client and the daemon together\<close>



text \<open>
  C33: a push of one regular file reaches the daemon. With nothing going wrong on either host, the
  client and the daemon, each reading what the other writes, both finish: the client reports one
  entry and the size of its file, and the file the destination names on the daemon's host holds
  exactly the bytes of the client's file, while every other file there is as before.
\<close>
theorem push_end_to_end:
  assumes L: "bufwriter_spec L"
    and json: "json_roundtrip (request_to_vec L) (request_from_slice L)"
      "json_roundtrip (response_to_vec L) (response_from_slice L)"
    and calm: "sched c = []" "sched d = []" and fresh: "outp c = []" "outp d = []"
    and src: "regular_source c p name nd"
    and fits: "request_fits L (PushBatch dest [source_root name nd] [source_entry nd])"
    and small: "sendable L PushBatchReady" "sendable L (PushBatchComplete 1 (length (i_data nd)))"
    and roots: "\<And>i. resolve_batch_destination_roots dest [source_root name nd] (d\<lparr>inp := i\<rparr>) = (Inr [dp], d\<lparr>inp := i\<rparr>)"
    and wr: "writable_at d dp q"
    and parent: "\<And>x. parent_path dp = Some x \<Longrightarrow> x \<noteq> [] \<Longrightarrow> existing_dir d x"
  shows "\<exists>c' d' nd'.
    execute_push L debug Connected addr [p] dest (c\<lparr>inp := outp d'\<rparr>) =
      (Inr \<lparr>ps_entries_written = 1, ps_bytes_written = length (i_data nd), ps_skipped = False,
         ps_verification = None, ps_verified = False\<rparr>, c') \<and>
    handle_connection L P st True (d\<lparr>inp := outp c'\<rparr>) = (Inr (Some ()), d') \<and>
    look d' q = Some nd' \<and> i_type nd' = FtFile \<and> i_data nd' = i_data nd \<and>
    (\<forall>k. k \<noteq> q \<longrightarrow> look d' k = look d k)"
proof -
  let ?root = "source_root name nd" and ?entry = "source_entry nd"
  let ?req = "PushBatch dest [?root] [?entry]"
  let ?out = "response_bytes L REQUEST_ID PushBatchReady
    @ response_bytes L REQUEST_ID (PushBatchComplete 1 (length (i_data nd)))"
  let ?c = "c\<lparr>inp := ?out\<rparr>"
  have src': "regular_source ?c p name nd" using src by (simp add: regular_source_def)
  from calm_execute_push [OF L json(2) _ src' fits small, of REQUEST_ID "[]" debug addr] calm(1) fresh(1) obtain cs c' where
    cs: "small_chunks cs" "concat cs = i_data nd" and client:
    "execute_push L debug Connected addr [p] dest ?c = (Inr \<lparr>ps_entries_written = 1,
       ps_bytes_written = length (i_data nd), ps_skipped = False, ps_verification = None,
       ps_verified = False\<rparr>, c')"
    and out: "outp c' = request_bytes L ?req @ chunk_frames REQUEST_ID cs @ stream_bytes REQUEST_ID File True []"
    by auto
  let ?d = "d\<lparr>inp := outp c'\<rparr>"
  let ?d1 = "d\<lparr>inp := chunk_frames REQUEST_ID cs @ stream_bytes REQUEST_ID File True []\<rparr>"
  obtain pl where pl: "request_to_vec L ?req = Inr pl" "length pl \<le> MAX_PAYLOAD_LEN"
    "request_bytes L ?req = frame_bytes Request 0 REQUEST_ID pl"
    using fits by (rule request_fitsE)
  have served: "handle_connection L P st True ?d = handle_request L P REQUEST_ID ?req st ?d1"
    using connection_request [OF _ json(1) pl(1,2), of ?d REQUEST_ID "inp ?d1"] calm(2) out pl(3) by simp
  have wr1: "writable_at ?d1 dp q" using wr by (simp add: writable_at_def dir_at_def)
  have par1: "existing_dir ?d1 x" if "parent_path dp = Some x" "x \<noteq> []" for x
    using parent [OF that] by simp
  obtain d' nd' where push: "handle_push_batch L REQUEST_ID dest [?root] [?entry] ?d1 = (Inr (), d')"
    and nd': "look d' q = Some nd'" "i_type nd' = FtFile" "i_data nd' = i_data nd"
      "\<forall>k. k \<noteq> q \<longrightarrow> look d' k = look d k" and reply: "outp d' = ?out"
    using calm_push_batch_file [OF _ roots wr1 par1 _ _ _ _ cs(1), where entry = ?entry and rid = REQUEST_ID and
        L = L and rest = "[]"] calm(2) cs small fresh(2)
    by (auto simp: source_entry_def)
  have "handle_connection L P st True ?d = (Inr (Some ()), d')"
    using served push by (simp add: handle_request_def or_send_error_def bindE_def tryE_def)
  with client nd' reply show ?thesis
    by (intro exI [of _ c'] exI [of _ d'] exI [of _ nd']) simp
qed

text \<open>
  C34: a pull of one regular file reaches the client. With nothing going wrong on either host, the
  client and the daemon, each reading what the other writes, both finish: the client reports one
  entry and the size of the daemon's file, its destination holds exactly the bytes and the
  permissions of that file, every other file of the client is as before, and the daemon's files
  are all as before.
\<close>
theorem pull_end_to_end:
  assumes L: "bufwriter_spec L"
    and json: "json_roundtrip (request_to_vec L) (request_from_slice L)"
      "json_roundtrip (response_to_vec L) (response_from_slice L)"
    and calm: "sched c = []" "sched d = []" and fresh: "outp c = []" "outp d = []"
    and src: "regular_source d p name nd" and fits: "request_fits L (PullBatch [p])"
    and small: "sendable L (PullBatchMetadata [source_root name nd] [source_entry nd] (length (i_data nd)))"
      "sendable L (PullBatchComplete 1 (length (i_data nd)))"
    and tgt: "pull_target c dest (display name) dp" and wr: "writable_at c dp q"
    and parent: "\<And>x. parent_path dp = Some x \<Longrightarrow> x \<noteq> [] \<Longrightarrow> existing_dir c x"
  shows "\<exists>c' d' nd'.
    execute_pull L debug Connected addr [p] dest (c\<lparr>inp := outp d'\<rparr>) =
      (Inr \<lparr>pl_entries_received = 1, pl_bytes_received = length (i_data nd), pl_total_bytes = length (i_data nd),
         pl_verification = None, pl_verified = False, pl_roots = [source_root name nd],
         pl_entries = [source_entry nd]\<rparr>, c') \<and>
    handle_connection L P st True (d\<lparr>inp := outp c'\<rparr>) = (Inr (Some ()), d') \<and>
    look c' q = Some nd' \<and> i_type nd' = FtFile \<and> i_data nd' = i_data nd \<and>
    (i_mode nd AND 0xFFF \<noteq> 0 \<longrightarrow> i_mode nd' = i_mode nd AND 0xFFF) \<and>
    (\<forall>k. k \<noteq> q \<longrightarrow> look c' k = look c k) \<and> look d' = look d"
proof -
  let ?req = "PullBatch [p]"
  obtain pl where pl: "request_to_vec L ?req = Inr pl" "length pl \<le> MAX_PAYLOAD_LEN"
    "request_bytes L ?req = frame_bytes Request 0 REQUEST_ID pl"
    using fits by (rule request_fitsE)
  let ?d = "d\<lparr>inp := request_bytes L ?req\<rparr>" and ?d1 = "d\<lparr>inp := []\<rparr>"
  have served: "handle_connection L P st True ?d = handle_request L P REQUEST_ID ?req st ?d1"
    using connection_request [OF _ json(1) pl(1,2), of ?d REQUEST_ID "[]"] calm(2) pl(3) by simp
  have src1: "regular_source ?d1 p name nd" using src by (simp add: regular_source_def)
  obtain cs where cs: "small_chunks cs" "concat cs = i_data nd"
    and pull: "handle_pull_batch L REQUEST_ID [p] ?d1 = (Inr (), d\<lparr>inp := [], wbuf := [], outp :=
      response_bytes L REQUEST_ID (PullBatchMetadata [source_root name nd] [source_entry nd] (length (i_data nd)))
      @ chunk_frames REQUEST_ID cs @ stream_bytes REQUEST_ID File True []
      @ response_bytes L REQUEST_ID (PullBatchComplete 1 (length (i_data nd)))\<rparr>)" (is "_ = (_, ?d')")
    using calm_handle_pull_batch [OF L _ src1 small] calm(2) fresh(2) by auto
  have daemon: "handle_connection L P st True ?d = (Inr (Some ()), ?d')"
    using served pull by (simp add: handle_request_def or_send_error_def bindE_def tryE_def)
  let ?c = "c\<lparr>inp := outp ?d'\<rparr>"
  have c: "sched ?c = []" "pull_target ?c dest (tr_source_name (source_root name nd)) dp" "writable_at ?c dp q"
    using calm tgt wr by (simp_all add: pull_target_def writable_at_def dir_at_def source_root_def)
  have par: "existing_dir ?c x" if "parent_path dp = Some x" "x \<noteq> []" for x
    using parent [OF that] by simp
  obtain nd' where client: "execute_pull L debug Connected addr [p] dest ?c =
      (Inr \<lparr>pl_entries_received = 1, pl_bytes_received = length (i_data nd), pl_total_bytes = length (i_data nd),
         pl_verification = None, pl_verified = False, pl_roots = [source_root name nd],
         pl_entries = [source_entry nd]\<rparr>, (set_node q nd' ?c)\<lparr>inp := [], outp := request_bytes L ?req\<rparr>)"
    and nd': "i_type nd' = FtFile" "i_data nd' = i_data nd"
      "i_mode nd AND 0xFFF \<noteq> 0 \<longrightarrow> i_mode nd' = i_mode nd AND 0xFFF"
    using calm_execute_pull [OF json(2) c(1) fits small c(2,3) par cs, of REQUEST_ID debug addr] fresh(1) by auto
  let ?c' = "(set_node q nd' ?c)\<lparr>inp := [], outp := request_bytes L ?req\<rparr>"
  have "look ?c' q = Some nd'" "\<forall>k. k \<noteq> q \<longrightarrow> look ?c' k = look c k" "look ?d' = look d" "outp ?c' = request_bytes L ?req"
    by (simp_all add: look_set_node fun_eq_iff)
  with client daemon nd' show ?thesis
    by - (rule exI [of _ ?c'], rule exI [of _ ?d'], rule exI [of _ nd'], simp only: simp_thms)
qed

section \<open>A transfer and its display\<close>

text \<open>
  C39: The display counts the transfer. When a push ends well that was started with nothing counted,
  the total shown is the number of bytes the daemon has written and the count shown has reached it;
  when a pull ends well, the total shown is what the daemon announced and the count shown is what
  was received (the counts as far as 64 bits hold them).
\<close>

theorem progress_counts:
  assumes "pd_progress (snd s) = Some p" "tp_bytes_done p = 0"
  shows "(execute_push_with_progress L debug outcome addr source_specs remote_path s = (Inr pushed, t) \<longrightarrow>
      (\<exists>p'. pd_progress (snd t) = Some p' \<and> tp_total_bytes p' = ps_bytes_written pushed \<and>
         tp_bytes_done p' = min (2 ^ 64 - 1) (ps_bytes_written pushed))) \<and>
    (execute_pull_with_progress L debug outcome addr remote_sources local_destination s = (Inr pulled, u) \<longrightarrow>
      (\<exists>p'. pd_progress (snd u) = Some p' \<and> tp_total_bytes p' = pl_total_bytes pulled \<and>
         tp_bytes_done p' = min (2 ^ 64 - 1) (pl_bytes_received pulled)))"
proof -
  have "starting s" using assms by (auto simp: starting_def)
  then show ?thesis
    using yieldsD [OF yields_push] yieldsD [OF yields_pull] unfolding counts_def by blast
qed

section \<open>Concrete runs\<close>

definition call_libs :: libs where
  "call_libs = sample_libs\<lparr>
     request_to_vec := (\<lambda>m. if m = FsStat ''/tmp/a'' None then Inr [1] else Inl []),
     request_from_slice := (\<lambda>_. Inr (FsStat ''/tmp/a'' None)),
     response_to_vec := (\<lambda>m. if m = PushReady then Inr [2] else Inl []),
     response_from_slice := (\<lambda>_. Inr PushReady)\<rparr>"

lemma call_libs_facts:
  "json_roundtrip (request_to_vec call_libs) (request_from_slice call_libs)"
  "json_roundtrip (response_to_vec call_libs) (response_from_slice call_libs)"
  "request_fits call_libs (FsStat ''/tmp/a'' None)"
  by (auto simp: call_libs_def json_roundtrip_def request_fits_def MAX_PAYLOAD_LEN_def split: if_splits)

definition call_daemon :: world where
  "call_daemon = sample_world\<lparr>inp := request_bytes call_libs (FsStat ''/tmp/a'' None)\<rparr>"


definition push_root :: transfer_root where
  "push_root = source_root ''a'' (file_node [104, 105])"

definition push_req :: control_request where
  "push_req = PushBatch ''/tmp/b'' [push_root] [source_entry (file_node [104, 105])]"

definition push_libs :: libs where
  "push_libs = sample_libs\<lparr>
     request_to_vec := (\<lambda>m. if m = push_req then Inr [1] else Inl []),
     request_from_slice := (\<lambda>_. Inr push_req),
     response_to_vec := (\<lambda>m. if m = PushBatchReady then Inr [2]
       else if m = PushBatchComplete 1 2 then Inr [3] else Inl []),
     response_from_slice := (\<lambda>bs. if bs = [2] then Inr PushBatchReady else Inr (PushBatchComplete 1 2))\<rparr>"

definition empty_host :: world where
  "empty_host = world_of [] []"

lemma push_libs_facts:
  "bufwriter_spec push_libs"
  "json_roundtrip (request_to_vec push_libs) (request_from_slice push_libs)"
  "json_roundtrip (response_to_vec push_libs) (response_from_slice push_libs)"
  "request_fits push_libs push_req" "sendable push_libs PushBatchReady"
  "sendable push_libs (PushBatchComplete 1 2)"
  using sample_bufwriter
  by (auto simp: push_libs_def json_roundtrip_def request_fits_def sendable_def bufwriter_spec_def
      MAX_PAYLOAD_LEN_def split: if_splits)

lemma empty_host_facts:
  "resolve empty_host True ''/tmp/b'' = Inr [''tmp'', ''b'']" "look empty_host [''tmp'', ''b''] = None"
  "dir_at empty_host [''tmp'']" "parent_path ''/tmp/b'' = Some ''/tmp''"
  "resolve empty_host True ''/tmp'' = Inr [''tmp'']" "resolve_new empty_host ''/tmp'' = Inr [''tmp'']"
  "ends_with ''/tmp/b'' ''/'' = False" "sched empty_host = []"
  by code_simp+

lemma sample_source: "regular_source sample_world ''/tmp/a'' ''a'' (file_node [104, 105])"
proof -
  have "\<not> cli_has_glob_pattern ''/tmp/a''" "file_name ''/tmp/a'' = Some ''a''"
    "resolve sample_world True ''/tmp/a'' = Inr [''tmp'', ''a'']" by code_simp+
  with sample_a show ?thesis by (simp add: regular_source_def file_node_def)
qed

theorem push_end_to_end_witness:
  "\<exists>c' d' nd'.
     execute_push push_libs (\<lambda>_. []) Connected ''h:1'' [''/tmp/a''] ''/tmp/b'' (sample_world\<lparr>inp := outp d'\<rparr>) =
       (Inr \<lparr>ps_entries_written = 1, ps_bytes_written = 2, ps_skipped = False,
          ps_verification = None, ps_verified = False\<rparr>, c') \<and>
     handle_connection push_libs sample_procs sample_state True (empty_host\<lparr>inp := outp c'\<rparr>) = (Inr (Some ()), d') \<and>
     look d' [''tmp'', ''b''] = Some nd' \<and> i_data nd' = [104, 105]"
proof -
  let ?nd = "file_node [104, 105]"
  have roots: "resolve_batch_destination_roots ''/tmp/b'' [source_root ''a'' ?nd] (empty_host\<lparr>inp := i\<rparr>) =
      (Inr [''/tmp/b''], empty_host\<lparr>inp := i\<rparr>)" for i
    using empty_host_facts
    by (simp add: resolve_batch_destination_roots_def ensure_unique_root_names_def thenE_def bindE_def tryE_def
        sys_stat_def errno_kinds)
  have wr: "writable_at empty_host ''/tmp/b'' [''tmp'', ''b'']"
    using empty_host_facts by (simp add: writable_at_def)
  have par: "existing_dir empty_host x" if "parent_path ''/tmp/b'' = Some x" for x
    using that empty_host_facts by (auto simp: existing_dir_def dir_at_iff)
  have w: "outp sample_world = []" "outp empty_host = []" "sched sample_world = []"
    by (simp_all add: sample_world_def empty_host_def world_of_def)
  have fits: "request_fits push_libs (PushBatch ''/tmp/b'' [source_root ''a'' ?nd] [source_entry ?nd])"
    using push_libs_facts(4) by (simp add: push_req_def push_root_def)
  have fin: "sendable push_libs (PushBatchComplete 1 (length (i_data ?nd)))"
    using push_libs_facts(6) by (simp add: file_node_def numeral_2_eq_2)
  obtain c' d' nd' where
    "execute_push push_libs (\<lambda>_. []) Connected ''h:1'' [''/tmp/a''] ''/tmp/b'' (sample_world\<lparr>inp := outp d'\<rparr>) =
       (Inr \<lparr>ps_entries_written = 1, ps_bytes_written = length (i_data ?nd), ps_skipped = False,
          ps_verification = None, ps_verified = False\<rparr>, c')"
    "handle_connection push_libs sample_procs sample_state True (empty_host\<lparr>inp := outp c'\<rparr>) = (Inr (Some ()), d')"
    "look d' [''tmp'', ''b''] = Some nd'" "i_data nd' = i_data ?nd"
    using push_end_to_end [OF push_libs_facts(1,2,3) w(3) empty_host_facts(8) w(1,2) sample_source fits push_libs_facts(5) fin
        roots wr par, where P = sample_procs and st = sample_state and debug = "\<lambda>_. []" and addr = "''h:1''"]
    by blast
  then show ?thesis
    by (intro exI [of _ c'] exI [of _ d'] exI [of _ nd']) (simp add: file_node_def numeral_2_eq_2)
qed

definition pull_meta :: control_response where
  "pull_meta = PullBatchMetadata [push_root] [source_entry (file_node [104, 105])] 2"

definition pull_libs :: libs where
  "pull_libs = sample_libs\<lparr>
     request_to_vec := (\<lambda>m. if m = PullBatch [''/tmp/a''] then Inr [1] else Inl []),
     request_from_slice := (\<lambda>_. Inr (PullBatch [''/tmp/a''])),
     response_to_vec := (\<lambda>m. if m = pull_meta then Inr [2]
       else if m = PullBatchComplete 1 2 then Inr [3] else Inl []),
     response_from_slice := (\<lambda>bs. if bs = [2] then Inr pull_meta else Inr (PullBatchComplete 1 2))\<rparr>"

lemma pull_libs_facts:
  "bufwriter_spec pull_libs"
  "json_roundtrip (request_to_vec pull_libs) (request_from_slice pull_libs)"
  "json_roundtrip (response_to_vec pull_libs) (response_from_slice pull_libs)"
  "request_fits pull_libs (PullBatch [''/tmp/a''])" "sendable pull_libs pull_meta"
  "sendable pull_libs (PullBatchComplete 1 2)"
  using sample_bufwriter
  by (auto simp: pull_libs_def pull_meta_def json_roundtrip_def request_fits_def sendable_def bufwriter_spec_def
      MAX_PAYLOAD_LEN_def split: if_splits)

theorem pull_end_to_end_witness:
  "\<exists>c' d' nd'.
     fst (execute_pull pull_libs (\<lambda>_. []) Connected ''h:1'' [''/tmp/a''] ''/tmp/b'' (empty_host\<lparr>inp := outp d'\<rparr>)) =
       Inr \<lparr>pl_entries_received = 1, pl_bytes_received = 2, pl_total_bytes = 2, pl_verification = None,
         pl_verified = False, pl_roots = [push_root], pl_entries = [source_entry (file_node [104, 105])]\<rparr> \<and>
     handle_connection pull_libs sample_procs sample_state True (sample_world\<lparr>inp := outp c'\<rparr>) = (Inr (Some ()), d') \<and>
     look c' [''tmp'', ''b''] = Some nd' \<and> i_data nd' = [104, 105]"
proof -
  let ?nd = "file_node [104, 105]"
  have size: "length (i_data ?nd) = 2" "i_data ?nd = [104, 105]" by (simp_all add: file_node_def)
  have meta: "sendable pull_libs (PullBatchMetadata [source_root ''a'' ?nd] [source_entry ?nd] (length (i_data ?nd)))"
    "sendable pull_libs (PullBatchComplete 1 (length (i_data ?nd)))"
    using pull_libs_facts(5,6) unfolding size(1) by (simp_all add: pull_meta_def push_root_def)
  have tgt: "pull_target empty_host ''/tmp/b'' (display ''a'') ''/tmp/b''"
    using empty_host_facts by (simp add: pull_target_def dir_at_iff)
  have wr: "writable_at empty_host ''/tmp/b'' [''tmp'', ''b'']"
    using empty_host_facts by (simp add: writable_at_def)
  have par: "existing_dir empty_host x" if "parent_path ''/tmp/b'' = Some x" for x
    using that empty_host_facts by (auto simp: existing_dir_def dir_at_iff)
  have w: "outp empty_host = []" "outp sample_world = []" "sched sample_world = []"
    by (simp_all add: sample_world_def empty_host_def world_of_def)
  obtain c' d' nd' where
    "execute_pull pull_libs (\<lambda>_. []) Connected ''h:1'' [''/tmp/a''] ''/tmp/b'' (empty_host\<lparr>inp := outp d'\<rparr>) =
       (Inr \<lparr>pl_entries_received = 1, pl_bytes_received = length (i_data ?nd), pl_total_bytes = length (i_data ?nd),
         pl_verification = None, pl_verified = False, pl_roots = [source_root ''a'' ?nd], pl_entries = [source_entry ?nd]\<rparr>, c')"
    "handle_connection pull_libs sample_procs sample_state True (sample_world\<lparr>inp := outp c'\<rparr>) = (Inr (Some ()), d')"
    "look c' [''tmp'', ''b''] = Some nd'" "i_data nd' = i_data ?nd"
    using pull_end_to_end [OF pull_libs_facts(1,2,3) empty_host_facts(8) w(3,1,2) sample_source pull_libs_facts(4)
      meta tgt wr par, where P = sample_procs and st = sample_state and debug = "\<lambda>_. []" and addr = "''h:1''"]
    by blast
  then show ?thesis
    unfolding size push_root_def
    by - (rule exI [of _ c'], rule exI [of _ d'], rule exI [of _ nd'], simp)
qed

definition two_bytes_pulled :: pull_summary where
  "two_bytes_pulled = \<lparr>pl_entries_received = 1, pl_bytes_received = 2, pl_total_bytes = 2, pl_verification = None,
     pl_verified = False, pl_roots = [push_root], pl_entries = [source_entry (file_node [104, 105])]\<rparr>"

lemma two_bytes_run:
  "\<exists>w w'. execute_pull pull_libs (\<lambda>_. []) Connected ''h:1'' [''/tmp/a''] ''/tmp/b'' w = (Inr two_bytes_pulled, w')"
proof -
  let ?nd = "file_node [104, 105]"
  let ?w = "empty_host\<lparr>inp := response_bytes pull_libs REQUEST_ID
      (PullBatchMetadata [source_root ''a'' ?nd] [source_entry ?nd] (length (i_data ?nd)))
    @ chunk_frames REQUEST_ID [[104, 105]] @ stream_bytes REQUEST_ID File True []
    @ response_bytes pull_libs REQUEST_ID (PullBatchComplete 1 (length (i_data ?nd)))\<rparr>"
  have size: "length (i_data ?nd) = 2" "concat [[104, 105]] = i_data ?nd" by (simp_all add: file_node_def)
  have small: "small_chunks [[104, 105]]" by (simp add: small_chunks_def DEFAULT_STREAM_CHUNK_SIZE_def)
  have meta: "sendable pull_libs (PullBatchMetadata [source_root ''a'' ?nd] [source_entry ?nd] (length (i_data ?nd)))"
    "sendable pull_libs (PullBatchComplete 1 (length (i_data ?nd)))"
    using pull_libs_facts(5,6) unfolding size(1) by (simp_all add: pull_meta_def push_root_def)
  have tgt: "sched ?w = []" "pull_target ?w ''/tmp/b'' (tr_source_name (source_root ''a'' ?nd)) ''/tmp/b''"
    "writable_at ?w ''/tmp/b'' [''tmp'', ''b'']"
    using empty_host_facts by (simp_all add: pull_target_def dir_at_iff writable_at_def source_root_def)
  have "existing_dir empty_host x" if "parent_path ''/tmp/b'' = Some x" for x
    using that empty_host_facts by (auto simp: existing_dir_def dir_at_iff)
  then have par: "existing_dir ?w x" if "parent_path ''/tmp/b'' = Some x" for x
    using that by simp
  obtain w' where "execute_pull pull_libs (\<lambda>_. []) Connected ''h:1'' [''/tmp/a''] ''/tmp/b'' ?w =
      (Inr \<lparr>pl_entries_received = 1, pl_bytes_received = length (i_data ?nd), pl_total_bytes = length (i_data ?nd),
         pl_verification = None, pl_verified = False, pl_roots = [source_root ''a'' ?nd],
         pl_entries = [source_entry ?nd]\<rparr>, w')"
    using calm_execute_pull [OF pull_libs_facts(3) tgt(1) pull_libs_facts(4) meta tgt(2,3) par small size(2),
        of REQUEST_ID "\<lambda>_. []" "''h:1''"] by auto
  then show ?thesis unfolding size(1) two_bytes_pulled_def push_root_def by blast
qed

text \<open>A display on a terminal whose clock stands still.\<close>

definition still_display :: progress_display where
  "still_display = \<lparr>pd_progress = Some (new_progress TpPull 0 True), pd_script = (\<lambda>_. (0, 0, Written)),
     pd_calls = 0, pd_out = []\<rparr>"

theorem progress_counts_witness:
  "\<exists>w t p'. execute_pull_with_progress pull_libs (\<lambda>_. []) Connected ''h:1'' [''/tmp/a''] ''/tmp/b'' (w, still_display) =
     (Inr two_bytes_pulled, t) \<and> pd_progress (snd t) = Some p' \<and> tp_total_bytes p' = 2 \<and> tp_bytes_done p' = 2"
proof -
  obtain w w' where run: "execute_pull pull_libs (\<lambda>_. []) Connected ''h:1'' [''/tmp/a''] ''/tmp/b'' w = (Inr two_bytes_pulled, w')"
    using two_bytes_run by blast
  obtain r t where shown: "execute_pull_with_progress pull_libs (\<lambda>_. []) Connected ''h:1'' [''/tmp/a''] ''/tmp/b''
      (w, still_display) = (r, t)" by (rule prod.exhaust)
  have r: "r = Inr two_bytes_pulled" using shows_asD [OF shows_as_pull shown] run by simp
  have start: "pd_progress (snd (w, still_display)) = Some (new_progress TpPull 0 True)"
    "tp_bytes_done (new_progress TpPull 0 True) = 0"
    by (simp_all add: still_display_def new_progress_def)
  obtain p' where "pd_progress (snd t) = Some p'" "tp_total_bytes p' = 2" "tp_bytes_done p' = 2"
    using progress_counts [OF start, THEN conjunct2, THEN mp, OF shown [unfolded r]]
    by (auto simp: two_bytes_pulled_def)
  then show ?thesis using shown r by blast
qed

definition ls_answer :: control_response where
  "ls_answer = ExecResult 3 [] [] False"

definition ls_libs :: libs where
  "ls_libs = sample_libs\<lparr>response_to_vec := (\<lambda>m. if m = ls_answer then Inr [2] else Inl []),
     response_from_slice := (\<lambda>_. Inr ls_answer)\<rparr>"

lemma ls_libs_facts: "bufwriter_spec ls_libs" "json_roundtrip (response_to_vec ls_libs) (response_from_slice ls_libs)"
  using sample_bufwriter by (auto simp: ls_libs_def json_roundtrip_def bufwriter_spec_def split: if_splits)

lemma ls_run:
  "fst (stream_command_output ls_libs sample_procs REQUEST_ID ''ls'' [] None None sample_state sample_world) = Inr ()"
  by code_simp


end
